(* ===== verification/Prelude.thy ===== *)
theory Prelude
  imports Main "HOL-Library.Multiset" "HOL-Library.Word" "HOL-Library.Monad_Syntax"
begin

text \<open>
  Shared vocabulary of the development.

  \<^item> C arrays: a C array of pointers is a list of optional cells. A cell that was never
    written holds \<open>None\<close>. Reading a cell out of range, or one that was never written, has
    no defined meaning in C; the model returns \<open>None\<close>. The option monad carries that
    outcome through every caller, so \<open>f x = Some y\<close> says that the C code runs without
    undefined behaviour and returns \<open>y\<close>.
  \<^item> C integers: the conversion of an \<open>int\<close> to a \<open>short\<close> keeps the low 16 bits in two's
    complement.
  \<^item> The collections \<open>array_simps\<close> and \<open>c_int_simps\<close> and the lemmas on lists and the
    option monad that the component theories use.
\<close>

unbundle bit_operations_syntax

type_synonym u8 = "8 word"
type_synonym u16 = "16 word"
type_synonym u32 = "32 word"
type_synonym u64 = "64 word"

named_theorems array_simps \<open>reads and writes of C arrays\<close>
named_theorems c_int_simps \<open>conversions between C integer types\<close>

section \<open>Arrays\<close>

definition array_read :: "'a option list \<Rightarrow> nat \<Rightarrow> 'a option" where
  "array_read xs i = (if i < length xs then xs ! i else None)"

definition array_write :: "'a option list \<Rightarrow> nat \<Rightarrow> 'a \<Rightarrow> 'a option list option" where
  "array_write xs i v = (if i < length xs then Some (xs[i := Some v]) else None)"

text \<open>The first \<open>n\<close> cells of the array hold exactly the values \<open>xs\<close>.\<close>

definition holds_prefix :: "'a option list \<Rightarrow> 'a list \<Rightarrow> bool" where
  "holds_prefix d xs \<longleftrightarrow> length xs \<le> length d \<and> take (length xs) d = map Some xs"

lemma holds_prefix_length: "holds_prefix d xs \<Longrightarrow> length xs \<le> length d"
  by (simp add: holds_prefix_def)

lemma holds_prefix_nth: "holds_prefix d xs \<Longrightarrow> i < length xs \<Longrightarrow> d ! i = Some (xs ! i)"
  unfolding holds_prefix_def by (metis length_map nth_map nth_take)

lemma array_read_prefix [array_simps]:
  "holds_prefix d xs \<Longrightarrow> i < length xs \<Longrightarrow> array_read d i = Some (xs ! i)"
  using holds_prefix_length [of d xs] holds_prefix_nth [of d xs i] by (simp add: array_read_def)

lemma holds_prefix_Nil [simp]: "holds_prefix d []"
  by (simp add: holds_prefix_def)

lemma holds_prefix_update:
  "holds_prefix d xs \<Longrightarrow> i < length xs \<Longrightarrow> holds_prefix (d[i := Some v]) (xs[i := v])"
  by (simp add: holds_prefix_def take_update_swap map_update)

lemma array_write_prefix [array_simps]:
  "holds_prefix d xs \<Longrightarrow> i < length xs \<Longrightarrow> array_write d i v = Some (d[i := Some v])"
  using holds_prefix_length [of d xs] by (simp add: array_write_def)

lemma holds_prefix_snoc:
  assumes "holds_prefix d xs" and "length xs < length d"
  shows "holds_prefix (d[length xs := Some v]) (xs @ [v])"
  using assms by (simp add: holds_prefix_def take_Suc_conv_app_nth)

lemma holds_prefix_take:
  assumes "holds_prefix d xs"
  shows "holds_prefix d (take n xs)"
proof (cases "n \<le> length xs")
  case True
  have "take n d = take n (take (length xs) d)"
    using True by (simp add: min_absorb1)
  also have "\<dots> = map Some (take n xs)"
    using assms by (simp add: holds_prefix_def take_map)
  finally show ?thesis
    using assms True by (simp add: holds_prefix_def min_absorb2)
next
  case False
  with assms show ?thesis by simp
qed

lemma holds_prefix_butlast: "holds_prefix d xs \<Longrightarrow> holds_prefix d (butlast xs)"
  by (simp add: butlast_conv_take holds_prefix_take)

lemma holds_prefix_append: "holds_prefix d xs \<Longrightarrow> holds_prefix (d @ e) xs"
  by (simp add: holds_prefix_def)

section \<open>Exchanging two elements of a list\<close>

definition list_swap :: "'a list \<Rightarrow> nat \<Rightarrow> nat \<Rightarrow> 'a list" where
  "list_swap xs i j = xs[i := xs ! j, j := xs ! i]"

lemma length_list_swap [simp]: "length (list_swap xs i j) = length xs"
  by (simp add: list_swap_def)

lemma mset_list_swap [simp]:
  "i < length xs \<Longrightarrow> j < length xs \<Longrightarrow> mset (list_swap xs i j) = mset xs"
  by (simp add: list_swap_def mset_swap)

lemma nth_list_swap:
  "i < length xs \<Longrightarrow> j < length xs \<Longrightarrow> k < length xs \<Longrightarrow>
   list_swap xs i j ! k = (if k = j then xs ! i else if k = i then xs ! j else xs ! k)"
  by (simp add: list_swap_def nth_list_update)

text \<open>Overwriting the first element with the last and shortening the list removes the first.\<close>

lemma butlast_update_first: "butlast (xs[0 := v]) = (butlast xs)[0 := v]"
  by (cases xs) auto

lemma mset_replace_first:
  assumes "xs \<noteq> []"
  shows "mset (butlast (xs[0 := last xs])) = mset xs - {#hd xs#}"
proof -
  obtain x zs where xs: "xs = x # zs" using assms by (cases xs) auto
  show ?thesis
  proof (cases zs rule: rev_cases)
    case Nil
    then show ?thesis by (simp add: xs)
  next
    case (snoc ws y)
    then show ?thesis by (simp add: xs butlast_append)
  qed
qed

section \<open>The option monad\<close>

lemma bind_eq_Some_iff:
  "(Option.bind m f = Some y) \<longleftrightarrow> (\<exists>x. m = Some x \<and> f x = Some y)"
  by (cases m) auto

section \<open>C integer conversions\<close>

text \<open>\<open>(short) x\<close> for an \<open>int\<close> value \<open>x\<close>, and the range of \<open>short\<close>.\<close>

definition to_short :: "int \<Rightarrow> int" where
  "to_short x = signed_take_bit 15 x"

definition is_short :: "int \<Rightarrow> bool" where
  "is_short x \<longleftrightarrow> -32768 \<le> x \<and> x \<le> 32767"

lemma to_short_id [c_int_simps]: "is_short x \<Longrightarrow> to_short x = x"
  unfolding to_short_def is_short_def
  by (rule signed_take_bit_int_eq_self) auto

lemma to_short_diff:
  "0 < x \<Longrightarrow> 0 < y \<Longrightarrow> is_short x \<Longrightarrow> is_short y \<Longrightarrow> to_short (x - y) = x - y"
  by (rule to_short_id) (simp add: is_short_def)

lemma is_short_to_short [c_int_simps]: "is_short (to_short x)"
  using signed_take_bit_int_greater_eq_minus_exp [of 15 x] signed_take_bit_int_less_exp [of 15 x]
  by (simp add: to_short_def is_short_def)

lemma in_set_update_cases:
  "x \<in> set (xs[k := y]) \<Longrightarrow> \<exists>j < length xs. x = (if j = k then y else xs ! j)"
  by (auto simp: in_set_conv_nth nth_list_update)

end
