(* ===== verification/Binary_Heap.thy ===== *)
theory Binary_Heap
  imports Prelude
begin

text \<open>
  Array heaps as pure list functions: the mathematics of \<open>sift_up\<close> and \<open>sift_down\<close> in
  \<open>src/sw_sim/heap.h\<close>, without the C array, the pointers and the expiry test. The
  comparator is the predicate \<open>better a b\<close> ("the comparator picks its first argument").

  The locale \<open>priority_order\<close> is the contract between a comparator and a total preorder
  \<open>le\<close> it implements: picking \<open>a\<close> over \<open>b\<close> implies \<open>le a b\<close>, refusing it implies
  \<open>le b a\<close>. The comparator may be finer than \<open>le\<close>. Everything a heap promises is
  proved once inside the locale and reached through interpretations on the comparators of
  the simulator.
\<close>

section \<open>The two sifting loops\<close>

text \<open>The index of a node's parent, the expression \<open>(i - 1) / 2\<close> of \<open>sift_up\<close>.\<close>

definition parent :: "nat \<Rightarrow> nat" where
  "parent i = (i - 1) div 2"

lemma parent_children [simp]: "parent (Suc (2 * k)) = k" "parent (Suc (Suc (2 * k))) = k"
  by (simp_all add: parent_def)

lemma parent_cases: "0 < j \<Longrightarrow> parent j = k \<Longrightarrow> j = 2 * k + 1 \<or> j = 2 * k + 2"
  unfolding parent_def by presburger

lemma parent_less: "0 < j \<Longrightarrow> parent j < j"
  by (simp add: parent_def)

lemma parent_less_length: "j < n \<Longrightarrow> parent j < n"
  by (simp add: parent_def)

function up :: "('a \<Rightarrow> 'a \<Rightarrow> bool) \<Rightarrow> 'a list \<Rightarrow> nat \<Rightarrow> 'a list" where
  "up better xs i =
     (if 0 < i \<and> better (xs ! i) (xs ! (parent i))
      then up better (list_swap xs i (parent i)) (parent i)
      else xs)"
  by pat_completeness auto
termination
  by (relation "measure (\<lambda>(b, xs, i). i)") (auto simp: parent_less)

declare up.simps [simp del]

text \<open>The child or the node itself that ends up on top: left first, then right.\<close>

definition best_child :: "('a \<Rightarrow> 'a \<Rightarrow> bool) \<Rightarrow> 'a list \<Rightarrow> nat \<Rightarrow> nat" where
  "best_child better xs i =
     (let b = (if 2 * i + 1 < length xs \<and> better (xs ! (2 * i + 1)) (xs ! i)
               then 2 * i + 1 else i)
      in if 2 * i + 2 < length xs \<and> better (xs ! (2 * i + 2)) (xs ! b) then 2 * i + 2 else b)"

lemma best_child_cases:
  "best_child better xs i = i \<or> best_child better xs i = 2 * i + 1 \<or>
   best_child better xs i = 2 * i + 2"
  by (simp add: best_child_def Let_def)

lemma best_child_less:
  "i < length xs \<Longrightarrow> best_child better xs i < length xs"
  by (auto simp: best_child_def Let_def)

lemma best_child_ge: "i \<le> best_child better xs i"
  by (auto simp: best_child_def Let_def)

function down :: "('a \<Rightarrow> 'a \<Rightarrow> bool) \<Rightarrow> 'a list \<Rightarrow> nat \<Rightarrow> 'a list" where
  "down better xs i =
     (if i < length xs \<and> best_child better xs i \<noteq> i
      then down better (list_swap xs i (best_child better xs i)) (best_child better xs i)
      else xs)"
  by pat_completeness auto
termination
proof (relation "measure (\<lambda>(b, xs, i). length xs - i)")
  fix better :: "'a \<Rightarrow> 'a \<Rightarrow> bool" and xs :: "'a list" and i
  assume "i < length xs \<and> best_child better xs i \<noteq> i"
  then show "((better, list_swap xs i (best_child better xs i), best_child better xs i), better, xs, i)
      \<in> measure (\<lambda>(b, xs, i). length xs - i)"
    using best_child_ge [of i better xs] best_child_less [of i xs better] by auto
qed simp

declare down.simps [simp del]

lemma mset_up [simp]: "i < length xs \<Longrightarrow> mset (up better xs i) = mset xs"
proof (induction better xs i rule: up.induct)
  case (1 better xs i)
  then show ?case
    by (subst up.simps) (auto simp: parent_less_length)
qed

lemma length_up [simp]: "length (up better xs i) = length xs"
proof (induction better xs i rule: up.induct)
  case (1 better xs i)
  then show ?case
    by (subst up.simps) auto
qed

lemma length_down [simp]: "length (down better xs i) = length xs"
proof (induction better xs i rule: down.induct)
  case (1 better xs i)
  then show ?case
    by (subst down.simps) auto
qed

lemma mset_down [simp]: "mset (down better xs i) = mset xs"
proof (induction better xs i rule: down.induct)
  case (1 better xs i)
  then show ?case
    by (subst down.simps) (auto simp: best_child_less)
qed

section \<open>The heap property\<close>

text \<open>
  Every node but the root is no better than its parent. \<open>heap_but_up k\<close> allows the node at
  \<open>k\<close> to be better than its parent (the state of a running \<open>sift_up\<close>), \<open>heap_but_down k\<close>
  allows the node at \<open>k\<close> to be worse than its children (the state of a running
  \<open>sift_down\<close>); in both, grandparents and grandchildren around \<open>k\<close> stay ordered.
\<close>

definition heap_prop :: "('a \<Rightarrow> 'a \<Rightarrow> bool) \<Rightarrow> 'a list \<Rightarrow> bool" where
  "heap_prop le xs \<longleftrightarrow> (\<forall>j. 0 < j \<longrightarrow> j < length xs \<longrightarrow> le (xs ! (parent j)) (xs ! j))"

definition heap_but_up :: "('a \<Rightarrow> 'a \<Rightarrow> bool) \<Rightarrow> 'a list \<Rightarrow> nat \<Rightarrow> bool" where
  "heap_but_up le xs k \<longleftrightarrow>
     (\<forall>j. 0 < j \<longrightarrow> j < length xs \<longrightarrow> j \<noteq> k \<longrightarrow> le (xs ! (parent j)) (xs ! j)) \<and>
     (\<forall>j. 0 < j \<longrightarrow> j < length xs \<longrightarrow> parent j = k \<longrightarrow> 0 < k \<longrightarrow>
        le (xs ! (parent k)) (xs ! j))"

definition heap_but_down :: "('a \<Rightarrow> 'a \<Rightarrow> bool) \<Rightarrow> 'a list \<Rightarrow> nat \<Rightarrow> bool" where
  "heap_but_down le xs k \<longleftrightarrow>
     (\<forall>j. 0 < j \<longrightarrow> j < length xs \<longrightarrow> parent j \<noteq> k \<longrightarrow> le (xs ! (parent j)) (xs ! j)) \<and>
     (\<forall>j. 0 < j \<longrightarrow> j < length xs \<longrightarrow> parent j = k \<longrightarrow> 0 < k \<longrightarrow>
        le (xs ! (parent k)) (xs ! j))"

lemma heap_prop_Nil [simp]: "heap_prop le []"
  by (simp add: heap_prop_def)

lemma heap_prop_cong:
  assumes "heap_prop le xs" and "\<And>x y. x \<in> set xs \<Longrightarrow> y \<in> set xs \<Longrightarrow> le x y \<Longrightarrow> le' x y"
  shows "heap_prop le' xs"
  using assms unfolding heap_prop_def by (simp add: parent_less_length)

section \<open>The contract of a comparator\<close>

locale priority_order =
  fixes le :: "'a \<Rightarrow> 'a \<Rightarrow> bool"
    and better :: "'a \<Rightarrow> 'a \<Rightarrow> bool"
  assumes le_trans: "le a b \<Longrightarrow> le b c \<Longrightarrow> le a c"
    and better_le: "better a b \<Longrightarrow> le a b"
    and not_better_le: "\<not> better a b \<Longrightarrow> le b a"
begin

lemma le_refl [simp]: "le a a"
  using better_le not_better_le by blast

lemma le_total: "le a b \<or> le b a"
  using better_le not_better_le by blast

text \<open>One step of \<open>sift_up\<close>: exchanging a better child with its parent moves the hole up.\<close>

lemma up_step:
  assumes inv: "heap_but_up le xs i" and i: "0 < i" "i < length xs"
    and b: "better (xs ! i) (xs ! (parent i))"
  shows "heap_but_up le (list_swap xs i (parent i)) (parent i)"
proof -
  let ?p = "parent i"
  have p: "?p < i" "?p < length xs" using i parent_less [of i] by auto
  have le_ip: "le (xs ! i) (xs ! ?p)" using b by (rule better_le)
  have old: "\<And>j. 0 < j \<Longrightarrow> j < length xs \<Longrightarrow> j \<noteq> i \<Longrightarrow> le (xs ! (parent j)) (xs ! j)"
    and kids: "\<And>j. 0 < j \<Longrightarrow> j < length xs \<Longrightarrow> parent j = i \<Longrightarrow> le (xs ! ?p) (xs ! j)"
    using inv i by (auto simp: heap_but_up_def)
  note nth = nth_list_swap [OF i(2) p(2)]
  show ?thesis
    unfolding heap_but_up_def
  proof (intro conjI allI impI)
    fix j
    assume j: "0 < j" "j < length (list_swap xs i ?p)" "j \<noteq> ?p"
    then have jl: "j < length xs" "parent j < length xs" by (auto intro: parent_less_length)
    show "le (list_swap xs i ?p ! (parent j)) (list_swap xs i ?p ! j)"
      using old [OF j(1) jl(1)] kids [OF j(1) jl(1)] le_ip j(3) le_trans [OF le_ip] p
      by (auto simp: nth [OF jl(1)] nth [OF jl(2)])
  next
    fix j
    assume j: "0 < j" "j < length (list_swap xs i ?p)" "parent j = ?p" "0 < ?p"
    then have jl: "j < length xs" "j \<noteq> ?p" using parent_less [of j] by auto
    have g: "le (xs ! (parent ?p)) (xs ! ?p)" using old [of ?p] j(4) p by simp
    have gl: "parent ?p < length xs" "parent ?p \<noteq> ?p" "parent ?p \<noteq> i"
      using p parent_less [OF j(4)] by auto
    show "le (list_swap xs i ?p ! (parent ?p)) (list_swap xs i ?p ! j)"
      using g le_trans [OF g old [OF j(1) jl(1), unfolded j(3)]] gl jl
      by (auto simp: nth [OF jl(1)] nth [OF gl(1)])
  qed
qed

lemma heap_but_up_done:
  assumes "heap_but_up le xs i" and "i = 0 \<or> \<not> better (xs ! i) (xs ! parent i)"
  shows "heap_prop le xs"
  unfolding heap_prop_def
proof (intro allI impI)
  fix j
  assume "0 < j" "j < length xs"
  with assms not_better_le show "le (xs ! parent j) (xs ! j)"
    by (cases "j = i") (auto simp: heap_but_up_def)
qed

lemma heap_up: "heap_but_up le xs i \<Longrightarrow> i < length xs \<Longrightarrow> heap_prop le (up better xs i)"
proof (induction i arbitrary: xs rule: less_induct)
  case (less i)
  show ?case
  proof (cases "0 < i \<and> better (xs ! i) (xs ! parent i)")
    case True
    with less up_step [OF less.prems(1)] show ?thesis
      by (subst up.simps) (simp add: parent_less parent_less_length)
  next
    case False
    with less.prems heap_but_up_done show ?thesis
      by (subst up.simps) auto
  qed
qed

text \<open>\<open>sift_down\<close>: the chosen node is at least as good as the node and both children.\<close>

lemma best_child_le:
  assumes "i < length xs" "j < length xs" "j = i \<or> j = 2 * i + 1 \<or> j = 2 * i + 2"
  shows "le (xs ! best_child better xs i) (xs ! j)"
  using assms better_le not_better_le le_trans
  by (auto simp: best_child_def Let_def) blast+

lemma down_step:
  assumes inv: "heap_but_down le xs i" and i: "i < length xs"
    and b: "best_child better xs i \<noteq> i"
  shows "heap_but_down le (list_swap xs i (best_child better xs i)) (best_child better xs i)"
proof -
  let ?c = "best_child better xs i"
  have c: "?c < length xs" using i by (rule best_child_less)
  have pc: "parent ?c = i" "0 < ?c" using best_child_cases [of better xs i] b by auto
  have ic: "i < ?c" using parent_less [OF pc(2)] pc(1) by simp
  have old: "\<And>j. 0 < j \<Longrightarrow> j < length xs \<Longrightarrow> parent j \<noteq> i \<Longrightarrow> le (xs ! parent j) (xs ! j)"
    and kids: "\<And>j. 0 < j \<Longrightarrow> j < length xs \<Longrightarrow> parent j = i \<Longrightarrow> 0 < i \<Longrightarrow> le (xs ! parent i) (xs ! j)"
    using inv by (auto simp: heap_but_down_def)
  have best: "\<And>j. 0 < j \<Longrightarrow> j < length xs \<Longrightarrow> parent j = i \<Longrightarrow> le (xs ! ?c) (xs ! j)"
    using best_child_le [OF i] parent_cases by blast
  have best_i: "le (xs ! ?c) (xs ! i)" using best_child_le [OF i i] by simp
  note nth = nth_list_swap [OF i c]
  show ?thesis
    unfolding heap_but_down_def
  proof (intro conjI allI impI)
    fix j
    assume j: "0 < j" "j < length (list_swap xs i ?c)" "parent j \<noteq> ?c"
    then have jl: "j < length xs" "parent j < length xs" "j \<noteq> parent j"
      using parent_less [of j] by auto
    show "le (list_swap xs i ?c ! parent j) (list_swap xs i ?c ! j)"
      using old [OF j(1) jl(1)] kids [OF pc(2) c pc(1)] best [OF j(1) jl(1)] best_i j jl pc ic
      by (auto simp: nth [OF jl(1)] nth [OF jl(2)])
  next
    fix j
    assume j: "0 < j" "j < length (list_swap xs i ?c)" "parent j = ?c" "0 < ?c"
    then have jl: "j < length xs" "j \<noteq> ?c" "j \<noteq> i" using ic parent_less [of j] by auto
    have "le (xs ! ?c) (xs ! j)" using old [OF j(1) jl(1)] j(3) b by simp
    then show "le (list_swap xs i ?c ! parent ?c) (list_swap xs i ?c ! j)"
      using jl b pc i by (auto simp: nth [OF jl(1)] nth [OF i])
  qed
qed

lemma heap_but_down_done:
  assumes inv: "heap_but_down le xs i" and i: "i < length xs" and b: "best_child better xs i = i"
  shows "heap_prop le xs"
  unfolding heap_prop_def
proof (intro allI impI)
  fix j
  assume j: "0 < j" "j < length xs"
  show "le (xs ! parent j) (xs ! j)"
  proof (cases "parent j = i")
    case True
    then show ?thesis using best_child_le [OF i j(2)] parent_cases [OF j(1)] b by auto
  next
    case False
    with inv j show ?thesis by (simp add: heap_but_down_def)
  qed
qed

lemma heap_down: "heap_but_down le xs i \<Longrightarrow> i < length xs \<Longrightarrow> heap_prop le (down better xs i)"
proof (induction "length xs - i" arbitrary: xs i rule: less_induct)
  case less
  show ?case
  proof (cases "best_child better xs i = i")
    case True
    with less.prems heap_but_down_done show ?thesis
      by (subst down.simps) auto
  next
    case False
    have c: "i < best_child better xs i" "best_child better xs i < length xs"
      using False best_child_ge [of i better xs] best_child_less [OF less.prems(2)] by auto
    have "heap_prop le (down better (list_swap xs i (best_child better xs i)) (best_child better xs i))"
      using c less.prems by (intro less.hyps down_step [OF less.prems False]) auto
    with False less.prems show ?thesis
      by (subst down.simps) simp
  qed
qed

text \<open>The root of a heap is at least as good as every element.\<close>

lemma root_best:
  assumes heap: "heap_prop le xs" and "j < length xs"
  shows "le (xs ! 0) (xs ! j)"
  using \<open>j < length xs\<close>
proof (induction j rule: less_induct)
  case (less j)
  show ?case
  proof (cases "j = 0")
    case True
    then show ?thesis by simp
  next
    case False
    then have "le (xs ! 0) (xs ! parent j)"
      using less by (simp add: parent_less parent_less_length)
    moreover have "le (xs ! parent j) (xs ! j)"
      using heap False less.prems by (simp add: heap_prop_def)
    ultimately show ?thesis by (rule le_trans)
  qed
qed

text \<open>Appending one element and replacing the root leave a heap with a single hole.\<close>

lemma heap_but_up_snoc:
  assumes "heap_prop le xs"
  shows "heap_but_up le (xs @ [x]) (length xs)"
  unfolding heap_but_up_def
proof (intro conjI allI impI)
  fix j
  assume "0 < j" "j < length (xs @ [x])" "j \<noteq> length xs"
  with assms show "le ((xs @ [x]) ! parent j) ((xs @ [x]) ! j)"
    by (simp add: heap_prop_def nth_append parent_less_length)
next
  fix j
  assume "0 < j" "j < length (xs @ [x])" "parent j = length xs"
  then show "le ((xs @ [x]) ! parent (length xs)) ((xs @ [x]) ! j)"
    using parent_less [of j] by simp
qed

lemma heap_but_down_root:
  assumes "heap_prop le xs"
  shows "heap_but_down le (xs[0 := x]) 0"
  using assms by (auto simp: heap_but_down_def heap_prop_def nth_list_update)

lemma heap_prop_butlast: "heap_prop le xs \<Longrightarrow> heap_prop le (butlast xs)"
  by (auto simp: heap_prop_def nth_butlast parent_less_length)

end

end
