(* ===== verification/Order_Heap.thy ===== *)
theory Order_Heap
  imports Binary_Heap
begin

text \<open>
  The order heap of \<open>src/sw_sim/heap.h\<close>: the \<open>Order\<close> and \<open>Heap\<close> structs and the
  operations on them.

  \<^item> An \<open>Order *\<close> is a reference into a store of orders (\<open>store\<close>); the heap array holds
    references, as the C array holds pointers, and \<open>update\<close> changes the order in place.
  \<^item> A comparator returns one of its two arguments, as \<open>HeapCmpFunc\<close> does, and the loops
    test the returned pointer.
  \<^item> \<open>clock_gettime\<close> readings are arguments. Allocation succeeds and \<open>malloc\<close> returns a
    reference given by the caller.
  \<^item> \<open>free_node_memory\<close> is declared in this file and defined by each program that includes
    it; here it is the parameter \<open>fnm\<close> that changes the memory state \<open>'m\<close> reached through
    the \<open>mm\<close>, \<open>ob\<close> and \<open>stats\<close> pointers of a heap.
  \<^item> \<open>int\<close> sizes and capacities are natural numbers; an access outside the array is \<open>None\<close>.
\<close>

section \<open>Data\<close>

type_synonym ref = nat

record Order =
  price :: int
  timestamp :: u32
  amount :: int
  otype :: int
  osymbol :: string

type_synonym store = "ref \<Rightarrow> Order"

type_synonym HeapCmpFunc = "store \<Rightarrow> ref \<Rightarrow> ref \<Rightarrow> ref"

record Heap =
  hdata :: "ref option list"
  hsize :: nat
  capacity :: nat
  cmp :: HeapCmpFunc
  has_mm :: bool

definition TRIM_TIME :: int where
  "TRIM_TIME = 0xFFFFFFFFFFFF"

section \<open>Operations\<close>

definition create_order ::
  "int \<Rightarrow> ref \<Rightarrow> store \<Rightarrow> int \<Rightarrow> int \<Rightarrow> int \<Rightarrow> string \<Rightarrow> store" where
  "create_order tv_nsec o_ref st p a ty symbol =
     st(o_ref := \<lparr>price = to_short p, timestamp = word_of_int tv_nsec, amount = to_short a,
                  otype = ty, osymbol = take 3 symbol\<rparr>)"

definition create_heap :: "nat \<Rightarrow> HeapCmpFunc \<Rightarrow> Heap" where
  "create_heap cap c = \<lparr>hdata = replicate cap None, hsize = 0, capacity = cap, cmp = c, has_mm = False\<rparr>"

definition swap :: "ref option list \<Rightarrow> nat \<Rightarrow> nat \<Rightarrow> ref option list option" where
  "swap d i j = do {
     tmp \<leftarrow> array_read d i;
     b \<leftarrow> array_read d j;
     d' \<leftarrow> array_write d i b;
     array_write d' j tmp }"

function sift_up :: "store \<Rightarrow> Heap \<Rightarrow> nat \<Rightarrow> Heap option" where
  "sift_up st h i =
     (if 0 < i then do {
        a \<leftarrow> array_read (hdata h) i;
        b \<leftarrow> array_read (hdata h) ((i - 1) div 2);
        if cmp h st a b = a then do {
          d \<leftarrow> swap (hdata h) i ((i - 1) div 2);
          sift_up st (h\<lparr>hdata := d\<rparr>) ((i - 1) div 2) }
        else Some h }
      else Some h)"
  by pat_completeness auto
termination
  by (relation "measure (\<lambda>(st, h, i). i)") auto

declare sift_up.simps [simp del]

definition is_expired :: "Order \<Rightarrow> u32 \<Rightarrow> bool" where
  "is_expired ord now \<longleftrightarrow> uint (now - timestamp ord) > TRIM_TIME"

text \<open>The two guards at the top of the loop of \<open>sift_down\<close>: is the child there and expired?\<close>

definition child_expired :: "store \<Rightarrow> u32 \<Rightarrow> Heap \<Rightarrow> nat \<Rightarrow> bool option" where
  "child_expired st now h c =
     (if c < hsize h then do { r \<leftarrow> array_read (hdata h) c; Some (is_expired (st r) now) }
      else Some False)"

text \<open>\<open>h->data[c] = h->data[--h->size]\<close>\<close>

definition drop_child :: "Heap \<Rightarrow> nat \<Rightarrow> Heap option" where
  "drop_child h c = do {
     x \<leftarrow> array_read (hdata h) (hsize h - 1);
     d \<leftarrow> array_write (hdata h) c x;
     Some (h\<lparr>hdata := d, hsize := hsize h - 1\<rparr>) }"

text \<open>\<open>if (c < h->size && h->cmp(h->data[c], h->data[best]) == h->data[c]) best = c\<close>\<close>

definition better_child :: "store \<Rightarrow> Heap \<Rightarrow> nat \<Rightarrow> nat \<Rightarrow> nat option" where
  "better_child st h c best =
     (if c < hsize h then do {
        x \<leftarrow> array_read (hdata h) c;
        b \<leftarrow> array_read (hdata h) best;
        Some (if cmp h st x b = x then c else best) }
      else Some best)"

lemma better_child_less:
  "better_child st h c best = Some b \<Longrightarrow> best < hsize h \<Longrightarrow> b < hsize h"
  by (auto simp: better_child_def bind_eq_Some_iff split: if_splits)

lemma better_child_ge:
  "better_child st h c best = Some b \<Longrightarrow> b = best \<or> b = c"
  by (auto simp: better_child_def bind_eq_Some_iff split: if_splits)

lemma child_expired_less: "child_expired st now h c = Some True \<Longrightarrow> c < hsize h"
  by (auto simp: child_expired_def split: if_splits)

lemma drop_child_size: "drop_child h c = Some h' \<Longrightarrow> hsize h' = hsize h - 1"
  by (auto simp: drop_child_def bind_eq_Some_iff)

function sift_down ::
  "('m \<Rightarrow> 'm option) \<Rightarrow> store \<Rightarrow> u32 \<Rightarrow> Heap \<Rightarrow> 'm \<Rightarrow> nat \<Rightarrow> (Heap \<times> 'm) option" where
  "sift_down fnm st now h m i =
     (if i < hsize h then do {
        el \<leftarrow> child_expired st now h (2 * i + 1);
        if el then do {
          h' \<leftarrow> drop_child h (2 * i + 1);
          m' \<leftarrow> (if has_mm h then fnm m else Some m);
          sift_down fnm st now h' m' i }
        else do {
          er \<leftarrow> child_expired st now h (2 * i + 2);
          if er then do {
            h' \<leftarrow> drop_child h (2 * i + 2);
            m' \<leftarrow> (if has_mm h then fnm m else Some m);
            sift_down fnm st now h' m' i }
          else do {
            b1 \<leftarrow> better_child st h (2 * i + 1) i;
            best \<leftarrow> better_child st h (2 * i + 2) b1;
            if best \<noteq> i then do {
              d \<leftarrow> swap (hdata h) i best;
              sift_down fnm st now (h\<lparr>hdata := d\<rparr>) m best }
            else Some (h, m) } } }
      else Some (h, m))"
  by pat_completeness auto
termination
proof (relation "measure (\<lambda>(fnm, st, now, h, m, i). hsize h - i)", goal_cases)
  case 1
  show ?case by simp
next
  case (2 fnm st now h m i el h' m')
  then show ?case using child_expired_less drop_child_size by fastforce
next
  case (3 fnm st now h m i el er h' m')
  then show ?case using child_expired_less drop_child_size by fastforce
next
  case (4 fnm st now h m i el er b1 best d)
  have "best < hsize h"
    using 4 better_child_less by metis
  moreover have "i < best"
    using 4 better_child_ge [of st h "2 * i + 1" i b1] better_child_ge [of st h "2 * i + 2" b1 best]
    by auto
  ultimately show ?case by simp
qed

declare sift_down.simps [simp del]

definition update :: "Heap \<Rightarrow> store \<Rightarrow> int \<Rightarrow> store option" where
  "update h st new_amount = do {
     r \<leftarrow> array_read (hdata h) 0;
     Some (st(r := (st r)\<lparr>amount := to_short new_amount\<rparr>)) }"

definition push :: "store \<Rightarrow> Heap \<Rightarrow> ref \<Rightarrow> Heap option" where
  "push st h val = do {
     let h1 = (if hsize h = capacity h
               then h\<lparr>capacity := capacity h * 2, hdata := hdata h @ replicate (capacity h) None\<rparr>
               else h);
     d \<leftarrow> array_write (hdata h1) (hsize h1) val;
     h2 \<leftarrow> sift_up st (h1\<lparr>hdata := d\<rparr>) (hsize h1);
     Some (h2\<lparr>hsize := hsize h2 + 1\<rparr>) }"

definition pop ::
  "('m \<Rightarrow> 'm option) \<Rightarrow> store \<Rightarrow> u32 \<Rightarrow> Heap \<Rightarrow> 'm \<Rightarrow> (ref \<times> Heap \<times> 'm) option" where
  "pop fnm st now h m = do {
     top \<leftarrow> array_read (hdata h) 0;
     (if hsize h = 0 then None else do {
        h1 \<leftarrow> drop_child h 0;
        (h2, m') \<leftarrow> sift_down fnm st now h1 m 0;
        Some (top, h2, m') }) }"

definition peek :: "Heap \<Rightarrow> ref option" where
  "peek h = array_read (hdata h) 0"

definition min_cmp :: HeapCmpFunc where
  "min_cmp st a b =
     (if price (st a) < price (st b) then a
      else if price (st a) = price (st b) then
        (if timestamp (st a) < timestamp (st b) then a
         else if timestamp (st a) = timestamp (st b) then
           (if amount (st a) > amount (st b) then a else b)
         else b)
      else b)"

definition max_cmp :: HeapCmpFunc where
  "max_cmp st a b =
     (if price (st a) > price (st b) then a
      else if price (st a) = price (st b) then
        (if timestamp (st a) < timestamp (st b) then a
         else if timestamp (st a) = timestamp (st b) then
           (if amount (st a) > amount (st b) then a else b)
         else b)
      else b)"

section \<open>Sizes\<close>

text \<open>
  Whatever the heap holds, \<open>sift_down\<close> never grows it and \<open>pop\<close> shrinks it: the loops
  of the simulators that pop once per iteration stop.
\<close>

lemma sift_down_size: "sift_down fnm st now h m i = Some (h', m') \<Longrightarrow> hsize h' \<le> hsize h"
proof (induction fnm st now h m i arbitrary: h' m' rule: sift_down.induct)
  case (1 fnm st now h m i)
  show ?case
    using "1.prems" "1.IH" drop_child_size [of h]
    by (subst (asm) sift_down.simps) (fastforce simp: bind_eq_Some_iff split: if_splits)
qed

lemma pop_size: "pop fnm st now h m = Some (r, h', m') \<Longrightarrow> hsize h' < hsize h"
  by (auto simp: pop_def bind_eq_Some_iff split: if_splits dest!: sift_down_size drop_child_size)

section \<open>No order ever expires\<close>

text \<open>
  \<open>now - o->timestamp\<close> is a 32-bit unsigned value, \<open>TRIM_TIME\<close> is a 48-bit constant: the
  test is never true, so \<open>sift_down\<close> never drops an order.
\<close>

lemma not_is_expired [simp]: "\<not> is_expired ord now"
proof -
  have "uint (now - timestamp ord) < 2 ^ 32"
    using uint_lt2p [of "now - timestamp ord"] by simp
  then show ?thesis by (simp add: is_expired_def TRIM_TIME_def)
qed

section \<open>Refinement to the list functions\<close>

text \<open>\<open>heap_rep h xs\<close>: the heap struct \<open>h\<close> represents the list of references \<open>xs\<close>.\<close>

definition heap_rep :: "Heap \<Rightarrow> ref list \<Rightarrow> bool" where
  "heap_rep h xs \<longleftrightarrow> hsize h = length xs \<and> holds_prefix (hdata h) xs \<and>
     length (hdata h) = capacity h \<and> 0 < capacity h"

definition elems :: "Heap \<Rightarrow> ref list" where
  "elems h = map the (take (hsize h) (hdata h))"

definition picks :: "HeapCmpFunc \<Rightarrow> store \<Rightarrow> ref \<Rightarrow> ref \<Rightarrow> bool" where
  "picks c st a b \<longleftrightarrow> c st a b = a"

lemma heap_rep_elems: "heap_rep h xs \<Longrightarrow> elems h = xs"
  by (auto simp: heap_rep_def elems_def holds_prefix_def)

lemma swap_prefix:
  assumes "holds_prefix d xs" "i < length xs" "j < length xs"
  obtains d' where "swap d i j = Some d'" "length d' = length d" "holds_prefix d' (list_swap xs i j)"
proof -
  let ?d = "d[i := Some (xs ! j), j := Some (xs ! i)]"
  have l: "length xs \<le> length d" using assms(1) by (rule holds_prefix_length)
  have "swap d i j = Some ?d"
    using assms l by (simp add: swap_def array_simps array_write_def)
  moreover have "holds_prefix ?d (list_swap xs i j)"
    unfolding list_swap_def using assms by (intro holds_prefix_update) auto
  ultimately show thesis using that by simp
qed

lemma sift_up_refines:
  assumes "holds_prefix (hdata h) xs" and "i < length xs"
  obtains d where "sift_up st h i = Some (h\<lparr>hdata := d\<rparr>)" "length d = length (hdata h)"
    "holds_prefix d (up (picks (cmp h) st) xs i)"
  using assms
proof (induction i arbitrary: h xs thesis rule: less_induct)
  case (less i)
  note pre = less.prems(2,3)
  show ?case
  proof (cases "0 < i \<and> picks (cmp h) st (xs ! i) (xs ! parent i)")
    case False
    then have "sift_up st h i = Some (h\<lparr>hdata := hdata h\<rparr>)"
      using pre parent_less_length [of i "length xs"]
      by (subst sift_up.simps) (auto simp: array_simps picks_def parent_def)
    then show ?thesis
      using False pre by (intro less.prems(1) [of "hdata h"]) (auto simp: up.simps [of _ xs i])
  next
    case True
    have p: "parent i < length xs" "parent i < i"
      using True pre by (auto intro: parent_less parent_less_length)
    obtain d where d: "swap (hdata h) i (parent i) = Some d" "length d = length (hdata h)"
        "holds_prefix d (list_swap xs i (parent i))"
      using swap_prefix [OF pre p(1)] .
    obtain d' where d': "sift_up st (h\<lparr>hdata := d\<rparr>) (parent i) = Some (h\<lparr>hdata := d'\<rparr>)"
        "length d' = length (hdata h)"
        "holds_prefix d' (up (picks (cmp h) st) (list_swap xs i (parent i)) (parent i))"
      using less.IH [OF p(2), of "h\<lparr>hdata := d\<rparr>" "list_swap xs i (parent i)"] d p by auto
    have "sift_up st h i = Some (h\<lparr>hdata := d'\<rparr>)"
      using True pre p d(1) d'(1)
      by (subst sift_up.simps) (auto simp: array_simps picks_def parent_def)
    then show ?thesis
      using True d' by (intro less.prems(1) [of d']) (auto simp: up.simps [of _ xs i])
  qed
qed

lemma better_child_rep:
  assumes "heap_rep h xs" and "b < length xs"
  shows "better_child st h c b =
    Some (if c < length xs \<and> picks (cmp h) st (xs ! c) (xs ! b) then c else b)"
  using assms by (auto simp: better_child_def heap_rep_def array_simps picks_def)

lemma child_expired_rep: "heap_rep h xs \<Longrightarrow> child_expired st now h c = Some False"
  by (auto simp: child_expired_def heap_rep_def array_simps)

lemma sift_down_refines:
  assumes "heap_rep h xs"
  obtains d where "sift_down fnm st now h m i = Some (h\<lparr>hdata := d\<rparr>, m)"
    "heap_rep (h\<lparr>hdata := d\<rparr>) (down (picks (cmp h) st) xs i)"
  using assms
proof (induction "length xs - i" arbitrary: h xs i thesis rule: less_induct)
  case less
  note rep = less.prems(2)
  let ?b = "best_child (picks (cmp h) st) xs i"
  note exp = child_expired_rep [OF rep]
  have sz: "hsize h = length xs" using rep by (simp add: heap_rep_def)
  show ?case
  proof (cases "i < length xs \<and> ?b \<noteq> i")
    case False
    have "i < length xs \<Longrightarrow> do { b1 \<leftarrow> better_child st h (2 * i + 1) i; better_child st h (2 * i + 2) b1 } = Some ?b"
      by (simp add: better_child_rep [OF rep] best_child_def Let_def)
    with False have "sift_down fnm st now h m i = Some (h\<lparr>hdata := hdata h\<rparr>, m)"
      using sz exp by (subst sift_down.simps) (auto simp: bind_eq_Some_iff)
    with False rep show ?thesis
      by (intro less.prems(1) [of "hdata h"]) (auto simp: down.simps [of _ xs i])
  next
    case True
    have b: "i < ?b" "?b < length xs"
      using True best_child_ge [of i "picks (cmp h) st" xs] best_child_less [of i xs "picks (cmp h) st"]
      by auto
    obtain d where d: "swap (hdata h) i ?b = Some d" "length d = length (hdata h)"
        "holds_prefix d (list_swap xs i ?b)"
      using swap_prefix [of "hdata h" xs i ?b] rep b by (auto simp: heap_rep_def)
    have rep': "heap_rep (h\<lparr>hdata := d\<rparr>) (list_swap xs i ?b)"
      using rep d by (simp add: heap_rep_def)
    have lt: "length (list_swap xs i ?b) - ?b < length xs - i" using b by simp
    obtain d' where d': "sift_down fnm st now (h\<lparr>hdata := d\<rparr>) m ?b = Some (h\<lparr>hdata := d'\<rparr>, m)"
        "heap_rep (h\<lparr>hdata := d'\<rparr>) (down (picks (cmp h) st) (list_swap xs i ?b) ?b)"
      by (rule less.hyps [OF lt _ rep']) auto
    have "do { b1 \<leftarrow> better_child st h (2 * i + 1) i; better_child st h (2 * i + 2) b1 } = Some ?b"
      using True by (simp add: better_child_rep [OF rep] best_child_def Let_def)
    then have "sift_down fnm st now h m i = Some (h\<lparr>hdata := d'\<rparr>, m)"
      using True sz exp d(1) d'(1) by (subst sift_down.simps) (auto simp: bind_eq_Some_iff)
    with True d' show ?thesis
      by (intro less.prems(1) [of d']) (auto simp: down.simps [of _ xs i])
  qed
qed

lemma push_refines:
  assumes rep: "heap_rep h xs"
  obtains h' where "push st h r = Some h'"
    "heap_rep h' (up (picks (cmp h) st) (xs @ [r]) (length xs))"
    "cmp h' = cmp h" "has_mm h' = has_mm h"
proof -
  let ?h1 = "if hsize h = capacity h
    then h\<lparr>capacity := capacity h * 2, hdata := hdata h @ replicate (capacity h) None\<rparr> else h"
  have h1: "holds_prefix (hdata ?h1) xs" "length xs < length (hdata ?h1)" "hsize ?h1 = length xs"
      "length (hdata ?h1) = capacity ?h1" "cmp ?h1 = cmp h" "has_mm ?h1 = has_mm h"
    using rep holds_prefix_length [of "hdata h" xs] by (auto simp: heap_rep_def intro: holds_prefix_append)
  let ?d = "(hdata ?h1)[length xs := Some r]"
  have w: "array_write (hdata ?h1) (hsize ?h1) r = Some ?d"
    using h1 by (simp add: array_write_def)
  obtain d where d: "sift_up st (?h1\<lparr>hdata := ?d\<rparr>) (length xs) = Some (?h1\<lparr>hdata := d\<rparr>)"
      "length d = length ?d" "holds_prefix d (up (picks (cmp h) st) (xs @ [r]) (length xs))"
    using sift_up_refines [of "?h1\<lparr>hdata := ?d\<rparr>" "xs @ [r]" "length xs" st]
      holds_prefix_snoc [OF h1(1,2)] h1(5) by auto
  have "push st h r = Some (?h1\<lparr>hdata := d, hsize := hsize ?h1 + 1\<rparr>)"
    using w d(1) h1(3) by (simp add: push_def)
  moreover have "heap_rep (?h1\<lparr>hdata := d, hsize := hsize ?h1 + 1\<rparr>)
      (up (picks (cmp h) st) (xs @ [r]) (length xs))"
    using d h1 rep by (auto simp: heap_rep_def)
  ultimately show thesis using that h1 by simp
qed

lemma pop_refines:
  assumes rep: "heap_rep h xs" and ne: "xs \<noteq> []"
  obtains h' where "pop fnm st now h m = Some (hd xs, h', m)"
    "heap_rep h' (down (picks (cmp h) st) (butlast (xs[0 := last xs])) 0)"
    "cmp h' = cmp h" "has_mm h' = has_mm h"
proof -
  have pre: "holds_prefix (hdata h) xs" "hsize h = length xs" using rep by (auto simp: heap_rep_def)
  have l: "length xs \<le> length (hdata h)" using pre(1) by (rule holds_prefix_length)
  let ?d = "(hdata h)[0 := Some (last xs)]"
  let ?h1 = "h\<lparr>hdata := ?d, hsize := length xs - 1\<rparr>"
  have dc: "drop_child h 0 = Some ?h1"
    using pre ne l by (auto simp: drop_child_def array_simps array_write_def last_conv_nth)
  have "heap_rep ?h1 (butlast (xs[0 := last xs]))"
    using rep ne holds_prefix_update [OF pre(1), of 0 "last xs"]
    by (auto simp: heap_rep_def intro: holds_prefix_butlast)
  from sift_down_refines [OF this, of fnm st now m 0]
  obtain d where d: "sift_down fnm st now ?h1 m 0 = Some (?h1\<lparr>hdata := d\<rparr>, m)"
      "heap_rep (?h1\<lparr>hdata := d\<rparr>) (down (picks (cmp h) st) (butlast (xs[0 := last xs])) 0)"
    by auto
  have "pop fnm st now h m = Some (hd xs, ?h1\<lparr>hdata := d\<rparr>, m)"
    using pre ne dc d(1) by (simp add: pop_def array_simps hd_conv_nth)
  then show thesis using that d(2) by simp
qed

lemma peek_refines: "heap_rep h xs \<Longrightarrow> xs \<noteq> [] \<Longrightarrow> peek h = Some (hd xs)"
  by (auto simp: peek_def heap_rep_def array_simps hd_conv_nth)


section \<open>The queue a heap implements\<close>

text \<open>Removing the first element \<open>n\<close> times, with any removal operation.\<close>

primrec drain ::
  "(store \<Rightarrow> 'q \<Rightarrow> (ref \<times> 'q) option) \<Rightarrow> nat \<Rightarrow> store \<Rightarrow> 'q \<Rightarrow> (ref list \<times> 'q) option" where
  "drain remove_q 0 st q = Some ([], q)"
| "drain remove_q (Suc n) st q = do {
     (r, q') \<leftarrow> remove_q st q;
     (rs, q'') \<leftarrow> drain remove_q n st q';
     Some (r # rs, q'') }"

text \<open>
  What a client of a heap relies on, for any comparator: \<open>push\<close> and \<open>pop\<close> never access
  memory out of range, \<open>pop\<close> and \<open>peek\<close> return an order that is at least as good as every
  other one, and changing amounts in the store keeps the queue usable.
\<close>

locale order_queue =
  fixes insert_q :: "store \<Rightarrow> 'q \<Rightarrow> ref \<Rightarrow> 'q option"
    and first_q :: "'q \<Rightarrow> ref option"
    and remove_q :: "store \<Rightarrow> 'q \<Rightarrow> (ref \<times> 'q) option"
    and invar :: "store \<Rightarrow> 'q \<Rightarrow> bool"
    and contents :: "'q \<Rightarrow> ref multiset"
    and le :: "store \<Rightarrow> ref \<Rightarrow> ref \<Rightarrow> bool"
  assumes insert_ok: "invar st q \<Longrightarrow>
      \<exists>q'. insert_q st q r = Some q' \<and> invar st q' \<and> contents q' = add_mset r (contents q)"
    and first_ok: "invar st q \<Longrightarrow> contents q \<noteq> {#} \<Longrightarrow>
      \<exists>r. first_q q = Some r \<and> r \<in># contents q \<and> (\<forall>s \<in># contents q. le st r s)"
    and remove_ok: "invar st q \<Longrightarrow> contents q \<noteq> {#} \<Longrightarrow>
      \<exists>r q'. first_q q = Some r \<and> remove_q st q = Some (r, q') \<and> invar st q' \<and>
        contents q' = contents q - {#r#}"
    and invar_keys: "invar st q \<Longrightarrow>
      (\<And>r. r \<in># contents q \<Longrightarrow> price (st' r) = price (st r) \<and> timestamp (st' r) = timestamp (st r)) \<Longrightarrow>
      invar st' q"
begin

text \<open>Draining a queue lists its contents in priority order.\<close>

lemma drain_sorted:
  "invar st q \<Longrightarrow> \<exists>rs q'. drain remove_q (size (contents q)) st q = Some (rs, q') \<and> invar st q' \<and>
     contents q' = {#} \<and> mset rs = contents q \<and> sorted_wrt (le st) rs"
proof (induction "size (contents q)" arbitrary: q)
  case 0
  then show ?case by auto
next
  case (Suc n)
  then have ne: "contents q \<noteq> {#}" by auto
  obtain r q1 where r: "remove_q st q = Some (r, q1)" "first_q q = Some r" "invar st q1"
      "contents q1 = contents q - {#r#}"
    using remove_ok [OF Suc.prems ne] by blast
  have best: "r \<in># contents q" "\<forall>s \<in># contents q. le st r s"
    using first_ok [OF Suc.prems ne] r(2) by auto
  have n: "n = size (contents q1)" using Suc.hyps(2) r(4) best(1) by (simp add: size_Diff_singleton)
  obtain rs q2 where rs: "drain remove_q (size (contents q1)) st q1 = Some (rs, q2)" "invar st q2"
      "contents q2 = {#}" "mset rs = contents q1" "sorted_wrt (le st) rs"
    using Suc.hyps(1) [OF n r(3)] by blast
  have "set rs \<subseteq> set_mset (contents q)"
    using rs(4) r(4) by (metis in_diffD set_mset_mset subsetI)
  then have "sorted_wrt (le st) (r # rs)" using rs(5) best(2) by auto
  moreover have "drain remove_q (size (contents q)) st q = Some (r # rs, q2)"
    using r(1) rs(1) n Suc.hyps(2) [symmetric] by simp
  moreover have "mset (r # rs) = contents q" using rs(4) r(4) best(1) by simp
  ultimately show ?case using rs(2,3) by blast
qed

end

text \<open>The contract a comparator of \<open>heap.h\<close> meets, and the queue it gives.\<close>

definition heap_invar :: "HeapCmpFunc \<Rightarrow> (store \<Rightarrow> ref \<Rightarrow> ref \<Rightarrow> bool) \<Rightarrow> store \<Rightarrow> Heap \<Rightarrow> bool" where
  "heap_invar c le st h \<longleftrightarrow> heap_rep h (elems h) \<and> cmp h = c \<and> heap_prop (le st) (elems h)"

definition heap_contents :: "Heap \<Rightarrow> ref multiset" where
  "heap_contents h = mset (elems h)"

definition pop_order ::
  "('m \<Rightarrow> 'm option) \<Rightarrow> u32 \<Rightarrow> 'm \<Rightarrow> store \<Rightarrow> Heap \<Rightarrow> (ref \<times> Heap) option" where
  "pop_order fnm now m st h = do { (r, h', m') \<leftarrow> pop fnm st now h m; Some (r, h') }"

locale heap_comparator =
  fixes c :: HeapCmpFunc
    and le :: "store \<Rightarrow> ref \<Rightarrow> ref \<Rightarrow> bool"
  assumes order: "priority_order (le st) (picks c st)"
    and keys: "price (st' a) = price (st a) \<Longrightarrow> timestamp (st' a) = timestamp (st a) \<Longrightarrow>
      price (st' b) = price (st b) \<Longrightarrow> timestamp (st' b) = timestamp (st b) \<Longrightarrow>
      le st a b \<Longrightarrow> le st' a b"
begin

lemma push_correct:
  assumes inv: "heap_invar c le st h"
  obtains h' where "push st h r = Some h'" "heap_invar c le st h'"
    "heap_contents h' = add_mset r (heap_contents h)" "has_mm h' = has_mm h"
proof -
  from inv have rep: "heap_rep h (elems h)" and c: "cmp h = c" and hp: "heap_prop (le st) (elems h)"
    by (auto simp: heap_invar_def)
  let ?ys = "up (picks c st) (elems h @ [r]) (length (elems h))"
  obtain h' where h': "push st h r = Some h'" "heap_rep h' ?ys" "cmp h' = c" "has_mm h' = has_mm h"
    using push_refines [OF rep, of st r] c by auto
  have "heap_prop (le st) ?ys"
    using priority_order.heap_up [OF order priority_order.heap_but_up_snoc [OF order hp], of r] by simp
  then show thesis
    using that [OF h'(1)] h' heap_rep_elems [OF h'(2)]
    by (auto simp: heap_invar_def heap_contents_def)
qed

lemma pop_correct:
  assumes inv: "heap_invar c le st h" and ne: "elems h \<noteq> []"
  obtains h' where "pop fnm st now h m = Some (hd (elems h), h', m)" "heap_invar c le st h'"
    "heap_contents h' = heap_contents h - {#hd (elems h)#}" "has_mm h' = has_mm h"
proof -
  from inv have rep: "heap_rep h (elems h)" and c: "cmp h = c" and hp: "heap_prop (le st) (elems h)"
    by (auto simp: heap_invar_def)
  let ?ys = "butlast ((elems h)[0 := last (elems h)])"
  obtain h' where h': "pop fnm st now h m = Some (hd (elems h), h', m)"
      "heap_rep h' (down (picks c st) ?ys 0)" "cmp h' = c" "has_mm h' = has_mm h"
    using pop_refines [OF rep ne, of fnm st now m] c by auto
  have "mset ?ys = mset (elems h) - {#hd (elems h)#}" using ne by (rule mset_replace_first)
  moreover have "heap_prop (le st) (down (picks c st) ?ys 0)"
  proof (cases "?ys = []")
    case True
    then show ?thesis by (simp add: down.simps [of _ "[]"])
  next
    case False
    have "heap_but_down (le st) ?ys 0"
      using priority_order.heap_but_down_root [OF order priority_order.heap_prop_butlast [OF order hp]]
      by (simp add: butlast_update_first)
    then show ?thesis
      using length_greater_0_conv [THEN iffD2, OF False] by (rule priority_order.heap_down [OF order])
  qed
  ultimately show thesis
    using that [OF h'(1)] h' heap_rep_elems [OF h'(2)]
    by (auto simp: heap_invar_def heap_contents_def)
qed


lemma peek_correct:
  assumes inv: "heap_invar c le st h" and ne: "elems h \<noteq> []"
  shows "peek h = Some (hd (elems h))" "\<forall>s \<in> set (elems h). le st (hd (elems h)) s"
proof -
  from inv have rep: "heap_rep h (elems h)" and hp: "heap_prop (le st) (elems h)"
    by (auto simp: heap_invar_def)
  show "peek h = Some (hd (elems h))" using peek_refines [OF rep ne] .
  show "\<forall>s \<in> set (elems h). le st (hd (elems h)) s"
    using priority_order.root_best [OF order hp] ne by (auto simp: hd_conv_nth in_set_conv_nth)
qed

lemma invar_keys:
  assumes inv: "heap_invar c le st h"
    and same: "\<And>r. r \<in> set (elems h) \<Longrightarrow> price (st' r) = price (st r) \<and> timestamp (st' r) = timestamp (st r)"
  shows "heap_invar c le st' h"
proof -
  have "heap_prop (le st') (elems h)"
  proof (rule heap_prop_cong)
    show "heap_prop (le st) (elems h)" using inv by (simp add: heap_invar_def)
    show "le st' x y" if "x \<in> set (elems h)" "y \<in> set (elems h)" "le st x y" for x y
      using same [OF that(1)] same [OF that(2)] that(3) by (simp add: keys [of st' x st y])
  qed
  with inv show ?thesis by (simp add: heap_invar_def)
qed

sublocale queue: order_queue push peek "pop_order fnm now m" "heap_invar c le" heap_contents le for fnm now m
proof
  fix st h r
  assume "heap_invar c le st h"
  then show "\<exists>h'. push st h r = Some h' \<and> heap_invar c le st h' \<and>
      heap_contents h' = add_mset r (heap_contents h)"
    by (blast elim: push_correct)
next
  fix st h
  assume "heap_invar c le st h" "heap_contents h \<noteq> {#}"
  then show "\<exists>r. peek h = Some r \<and> r \<in># heap_contents h \<and> (\<forall>s \<in># heap_contents h. le st r s)"
    using peek_correct [of st h] by (auto simp: heap_contents_def)
next
  fix st h
  assume inv: "heap_invar c le st h" and "heap_contents h \<noteq> {#}"
  then have ne: "elems h \<noteq> []" by (simp add: heap_contents_def)
  show "\<exists>r h'. peek h = Some r \<and> pop_order fnm now m st h = Some (r, h') \<and> heap_invar c le st h' \<and>
      heap_contents h' = heap_contents h - {#r#}"
    by (rule pop_correct [OF inv ne, of fnm now m])
      (simp add: pop_order_def peek_correct(1) [OF inv ne])
next
  fix st h and st' :: store
  assume inv: "heap_invar c le st h"
    and "\<And>r. r \<in># heap_contents h \<Longrightarrow> price (st' r) = price (st r) \<and> timestamp (st' r) = timestamp (st r)"
  then show "heap_invar c le st' h"
    by (auto simp: heap_contents_def intro: invar_keys [OF inv])
qed

lemma pop_drains_sorted:
  "heap_invar c le st h \<Longrightarrow> \<exists>rs h'. drain (pop_order fnm now m) (size (heap_contents h)) st h = Some (rs, h') \<and>
     heap_invar c le st h' \<and> heap_contents h' = {#} \<and> mset rs = heap_contents h \<and> sorted_wrt (le st) rs"
  by (rule queue.drain_sorted)

end

section \<open>Price-time priority: the ask heap and the bid heap\<close>

text \<open>
  The order in which asks and bids are served: the better price first, the smaller
  timestamp first among equal prices. The comparators refine it by the amount.
\<close>

definition ask_le :: "store \<Rightarrow> ref \<Rightarrow> ref \<Rightarrow> bool" where
  "ask_le st a b \<longleftrightarrow> price (st a) < price (st b) \<or>
     price (st a) = price (st b) \<and> timestamp (st a) \<le> timestamp (st b)"

definition bid_le :: "store \<Rightarrow> ref \<Rightarrow> ref \<Rightarrow> bool" where
  "bid_le st a b \<longleftrightarrow> price (st a) > price (st b) \<or>
     price (st a) = price (st b) \<and> timestamp (st a) \<le> timestamp (st b)"

interpretation ask_heap: heap_comparator min_cmp ask_le
proof (rule heap_comparator.intro)
  fix st st' :: store and a b
  show "priority_order (ask_le st) (picks min_cmp st)"
    by unfold_locales (auto simp: ask_le_def picks_def min_cmp_def split: if_splits)
  assume "price (st' a) = price (st a)" "timestamp (st' a) = timestamp (st a)"
    "price (st' b) = price (st b)" "timestamp (st' b) = timestamp (st b)" "ask_le st a b"
  then show "ask_le st' a b" by (simp add: ask_le_def)
qed

interpretation bid_heap: heap_comparator max_cmp bid_le
proof (rule heap_comparator.intro)
  fix st st' :: store and a b
  show "priority_order (bid_le st) (picks max_cmp st)"
    by unfold_locales (auto simp: bid_le_def picks_def max_cmp_def split: if_splits)
  assume "price (st' a) = price (st a)" "timestamp (st' a) = timestamp (st a)"
    "price (st' b) = price (st b)" "timestamp (st' b) = timestamp (st b)" "bid_le st a b"
  then show "bid_le st' a b" by (simp add: bid_le_def)
qed

section \<open>Properties\<close>

lemma create_heap_invar: "0 < cap \<Longrightarrow> heap_invar c le st (create_heap cap c)" "heap_contents (create_heap cap c) = {#}"
  by (simp_all add: heap_invar_def heap_contents_def elems_def create_heap_def heap_rep_def heap_prop_def)

text \<open>A full heap of one order, for the instances below.\<close>

definition sample_store :: store where
  "sample_store = (\<lambda>r. \<lparr>price = 10 - int r, timestamp = 0, amount = 5, otype = 1, osymbol = ''AAA''\<rparr>)"

definition sample_heap :: "HeapCmpFunc \<Rightarrow> ref \<Rightarrow> Heap" where
  "sample_heap c r = \<lparr>hdata = [Some r], hsize = 1, capacity = 1, cmp = c, has_mm = False\<rparr>"

lemma sample_heap_invar: "heap_invar c le st (sample_heap c r)" "heap_contents (sample_heap c r) = {#r#}"
  by (simp_all add: heap_invar_def heap_contents_def elems_def sample_heap_def heap_rep_def heap_prop_def holds_prefix_def)

text \<open>The two ways the program sets up a heap: a comparator and the priority it stands for.\<close>

definition sides :: "(HeapCmpFunc \<times> (store \<Rightarrow> ref \<Rightarrow> ref \<Rightarrow> bool)) set" where
  "sides = {(min_cmp, ask_le), (max_cmp, bid_le)}"

lemma heap_side: "(c, le) \<in> sides \<Longrightarrow> heap_comparator c le"
  using ask_heap.heap_comparator_axioms bid_heap.heap_comparator_axioms by (auto simp: sides_def)

primrec push_all :: "store \<Rightarrow> Heap \<Rightarrow> ref list \<Rightarrow> Heap option" where
  "push_all st h [] = Some h"
| "push_all st h (r # rs) = do { h' \<leftarrow> push st h r; push_all st h' rs }"

lemma push_all_ok:
  assumes "heap_comparator c le"
  shows "heap_invar c le st h \<Longrightarrow>
    \<exists>h'. push_all st h rs = Some h' \<and> heap_invar c le st h' \<and> heap_contents h' = heap_contents h + mset rs"
proof (induction rs arbitrary: h)
  case (Cons r rs)
  obtain h1 where "push st h r = Some h1" "heap_invar c le st h1" "heap_contents h1 = add_mset r (heap_contents h)"
    using heap_comparator.push_correct [OF assms Cons.prems] by metis
  then show ?case using Cons.IH [of h1] by auto
qed simp

text \<open>
  C7: Orders pushed in any order on an empty heap come out of \<open>pop\<close> in price-time
  priority: asks by rising price, bids by falling price, and by timestamp among equal prices.
  No order is lost or duplicated, whatever the number of orders, and no access is out of range.
\<close>

theorem push_all_then_pop_sorted:
  assumes "(c, le) \<in> sides" "0 < cap"
  shows "\<exists>h rs' h'. push_all st (create_heap cap c) rs = Some h \<and>
    drain (pop_order fnm now m) (length rs) st h = Some (rs', h') \<and> mset rs' = mset rs \<and> sorted_wrt (le st) rs' \<and>
    heap_contents h' = {#}"
proof -
  note hc = heap_side [OF assms(1)]
  obtain h where h: "push_all st (create_heap cap c) rs = Some h" "heap_invar c le st h" "heap_contents h = mset rs"
    using push_all_ok [OF hc create_heap_invar(1) [OF assms(2)], of st rs] by (auto simp: create_heap_invar)
  show ?thesis using h(1,3) heap_comparator.pop_drains_sorted [OF hc h(2), of fnm now m] by auto
qed

theorem push_all_then_pop_sorted_witness:
  "\<exists>h rs' h'. push_all sample_store (create_heap 10 min_cmp) [0, 1, 2] = Some h \<and>
    drain (pop_order Some 0 ()) (length [0::nat, 1, 2]) sample_store h = Some (rs', h') \<and>
    mset rs' = mset [0, 1, 2] \<and> sorted_wrt (ask_le sample_store) rs' \<and> heap_contents h' = {#}"
  by (rule push_all_then_pop_sorted) (simp_all add: sides_def)

text \<open>
  \<open>push\<close> keeps the heap well formed and adds exactly the given order, growing the array
  when it is full.
\<close>

lemma push_adds_order:
  assumes "(c, le) \<in> sides" "heap_invar c le st h"
  shows "\<exists>h'. push st h r = Some h' \<and> heap_invar c le st h' \<and> heap_contents h' = add_mset r (heap_contents h)"
  using heap_comparator.push_correct [OF heap_side [OF assms(1)] assms(2)] by metis

text \<open>
  \<open>pop\<close> on a heap that is not empty returns the order \<open>peek\<close> shows, which has
  price-time priority over all others, and removes exactly it; the heap stays well formed and
  the memory hook \<open>free_node_memory\<close> is never called.
\<close>

theorem pop_takes_best:
  assumes "(c, le) \<in> sides" "heap_invar c le st h" "heap_contents h \<noteq> {#}"
  shows "\<exists>r h'. peek h = Some r \<and> pop fnm st now h m = Some (r, h', m) \<and> heap_invar c le st h' \<and>
    heap_contents h' = heap_contents h - {#r#} \<and> r \<in># heap_contents h \<and> (\<forall>s \<in># heap_contents h. le st r s)"
proof -
  note hc = heap_side [OF assms(1)]
  have ne: "elems h \<noteq> []" using assms(3) by (simp add: heap_contents_def)
  obtain h' where "pop fnm st now h m = Some (hd (elems h), h', m)" "heap_invar c le st h'"
      "heap_contents h' = heap_contents h - {#hd (elems h)#}"
    using heap_comparator.pop_correct [OF hc assms(2) ne] by metis
  then show ?thesis
    using heap_comparator.peek_correct [OF hc assms(2) ne] ne by (auto simp: heap_contents_def)
qed

text \<open>
  No order ever expires: \<open>TRIM_TIME\<close> is larger than every difference of two 32-bit
  timestamps, so the trimming of old orders in \<open>sift_down\<close> never happens.
\<close>

theorem no_order_expires: "\<not> is_expired ord now"
  by (rule not_is_expired)

end
