(* ===== verification/Matching.thy ===== *)
theory Matching
  imports Order_Heap
begin

text \<open>
  \<open>check_for_trade\<close> of \<open>src/sw_sim/heap.h\<close>: one attempt to match the best bid with the
  best ask, and the specification it implements.

  The state \<open>market\<close> collects what the function reaches through its pointers: the two heaps,
  the orders, the memory state \<open>'m\<close> behind the heaps' \<open>mm\<close> pointers, the number of clock
  readings so far and the lines printed. The clock is a parameter: \<open>clk n\<close> is the
  \<open>tv_nsec\<close> of the reading number \<open>n\<close>.
\<close>

datatype trade_event =
    TradeExecuted (ev_time: u32) (ev_shares: int) (ev_symbol: string) (ev_price: int)
  | BidRemains (ev_time: u32) (ev_shares: int) (ev_symbol: string) (ev_price: int) (ev_rest: int)
  | AskRemains (ev_time: u32) (ev_shares: int) (ev_symbol: string) (ev_price: int) (ev_rest: int)

record 'm market =
  m_asks :: Heap
  m_bids :: Heap
  m_orders :: store
  m_mem :: 'm
  m_ticks :: nat
  m_out :: "trade_event list"

definition reading :: "(nat \<Rightarrow> int) \<Rightarrow> nat \<Rightarrow> u32" where
  "reading clk n = word_of_int (clk n)"

definition check_for_trade ::
  "('m \<Rightarrow> 'm option) \<Rightarrow> (nat \<Rightarrow> int) \<Rightarrow> 'm market \<Rightarrow> (bool \<times> 'm market) option" where
  "check_for_trade fnm clk mk =
     (if hsize (m_asks mk) = 0 \<or> hsize (m_bids mk) = 0 then Some (False, mk)
      else do {
        bid \<leftarrow> peek (m_bids mk);
        ask \<leftarrow> peek (m_asks mk);
        let st = m_orders mk; t = m_ticks mk; ts = reading clk t; now = reading clk (t + 1);
            ba = amount (st bid); aa = amount (st ask) in
        if price (st bid) \<ge> price (st ask) then
          (if ba = aa then do {
             (b, bids', mem1) \<leftarrow> pop fnm st now (m_bids mk) (m_mem mk);
             (a, asks', mem2) \<leftarrow> pop fnm st (reading clk (t + 2)) (m_asks mk) mem1;
             Some (True, mk\<lparr>m_bids := bids', m_asks := asks', m_mem := mem2, m_ticks := t + 3,
               m_out := m_out mk @ [TradeExecuted ts aa (osymbol (st ask)) (price (st bid))]\<rparr>) }
           else if ba > aa then do {
             st' \<leftarrow> update (m_bids mk) st (ba - aa);
             (a, asks', mem1) \<leftarrow> pop fnm st' now (m_asks mk) (m_mem mk);
             Some (True, mk\<lparr>m_orders := st', m_asks := asks', m_mem := mem1, m_ticks := t + 2,
               m_out := m_out mk @ [BidRemains ts aa (osymbol (st ask)) (price (st bid)) (ba - aa)]\<rparr>) }
           else do {
             st' \<leftarrow> update (m_asks mk) st (aa - ba);
             (b, bids', mem1) \<leftarrow> pop fnm st' now (m_bids mk) (m_mem mk);
             Some (True, mk\<lparr>m_orders := st', m_bids := bids', m_mem := mem1, m_ticks := t + 2,
               m_out := m_out mk @ [AskRemains ts ba (osymbol (st ask)) (price (st bid)) (aa - ba)]\<rparr>) })
        else Some (False, mk) })"

text \<open>The three ways a call can report a trade.\<close>

lemma check_for_tradeE:
  assumes "check_for_trade fnm clk mk = Some (True, mk')"
  obtains (full) bid ask b a bids' asks' mem1 mem2 where
      "hsize (m_asks mk) \<noteq> 0" "hsize (m_bids mk) \<noteq> 0"
      "peek (m_bids mk) = Some bid" "peek (m_asks mk) = Some ask"
      "price (m_orders mk ask) \<le> price (m_orders mk bid)" "amount (m_orders mk bid) = amount (m_orders mk ask)"
      "pop fnm (m_orders mk) (reading clk (m_ticks mk + 1)) (m_bids mk) (m_mem mk) = Some (b, bids', mem1)"
      "pop fnm (m_orders mk) (reading clk (m_ticks mk + 2)) (m_asks mk) mem1 = Some (a, asks', mem2)"
      "mk' = mk\<lparr>m_bids := bids', m_asks := asks', m_mem := mem2, m_ticks := m_ticks mk + 3,
         m_out := m_out mk @ [TradeExecuted (reading clk (m_ticks mk)) (amount (m_orders mk ask))
           (osymbol (m_orders mk ask)) (price (m_orders mk bid))]\<rparr>"
  | (bid_rest) bid ask a st' asks' mem1 where
      "hsize (m_asks mk) \<noteq> 0" "hsize (m_bids mk) \<noteq> 0"
      "peek (m_bids mk) = Some bid" "peek (m_asks mk) = Some ask"
      "price (m_orders mk ask) \<le> price (m_orders mk bid)" "amount (m_orders mk ask) < amount (m_orders mk bid)"
      "update (m_bids mk) (m_orders mk) (amount (m_orders mk bid) - amount (m_orders mk ask)) = Some st'"
      "pop fnm st' (reading clk (m_ticks mk + 1)) (m_asks mk) (m_mem mk) = Some (a, asks', mem1)"
      "mk' = mk\<lparr>m_orders := st', m_asks := asks', m_mem := mem1, m_ticks := m_ticks mk + 2,
         m_out := m_out mk @ [BidRemains (reading clk (m_ticks mk)) (amount (m_orders mk ask))
           (osymbol (m_orders mk ask)) (price (m_orders mk bid))
           (amount (m_orders mk bid) - amount (m_orders mk ask))]\<rparr>"
  | (ask_rest) bid ask b st' bids' mem1 where
      "hsize (m_asks mk) \<noteq> 0" "hsize (m_bids mk) \<noteq> 0"
      "peek (m_bids mk) = Some bid" "peek (m_asks mk) = Some ask"
      "price (m_orders mk ask) \<le> price (m_orders mk bid)" "amount (m_orders mk bid) < amount (m_orders mk ask)"
      "update (m_asks mk) (m_orders mk) (amount (m_orders mk ask) - amount (m_orders mk bid)) = Some st'"
      "pop fnm st' (reading clk (m_ticks mk + 1)) (m_bids mk) (m_mem mk) = Some (b, bids', mem1)"
      "mk' = mk\<lparr>m_orders := st', m_bids := bids', m_mem := mem1, m_ticks := m_ticks mk + 2,
         m_out := m_out mk @ [AskRemains (reading clk (m_ticks mk)) (amount (m_orders mk bid))
           (osymbol (m_orders mk ask)) (price (m_orders mk bid))
           (amount (m_orders mk ask) - amount (m_orders mk bid))]\<rparr>"
  using assms
  by (auto simp: check_for_trade_def Let_def bind_eq_Some_iff split: if_splits)

section \<open>Specification: one trade between best bid and best ask\<close>

text \<open>
  The abstract market: the multisets of open asks and bids. A trade takes a best ask and a
  best bid in price-time priority whose prices cross; the smaller order leaves the market
  and the larger one keeps the rest of its shares.
\<close>

record abs_market =
  a_asks :: "ref multiset"
  a_bids :: "ref multiset"
  a_orders :: store

definition best_ask :: "abs_market \<Rightarrow> ref \<Rightarrow> bool" where
  "best_ask s a \<longleftrightarrow> a \<in># a_asks s \<and> (\<forall>x \<in># a_asks s. ask_le (a_orders s) a x)"

definition best_bid :: "abs_market \<Rightarrow> ref \<Rightarrow> bool" where
  "best_bid s b \<longleftrightarrow> b \<in># a_bids s \<and> (\<forall>x \<in># a_bids s. bid_le (a_orders s) b x)"

definition set_amount :: "store \<Rightarrow> ref \<Rightarrow> int \<Rightarrow> store" where
  "set_amount st r n = st(r := (st r)\<lparr>amount := n\<rparr>)"

inductive trade_step :: "abs_market \<Rightarrow> int \<Rightarrow> abs_market \<Rightarrow> bool" where
  full: "best_ask s a \<Longrightarrow> best_bid s b \<Longrightarrow> price (a_orders s a) \<le> price (a_orders s b) \<Longrightarrow>
     amount (a_orders s b) = amount (a_orders s a) \<Longrightarrow>
     trade_step s (amount (a_orders s a))
       (s\<lparr>a_asks := a_asks s - {#a#}, a_bids := a_bids s - {#b#}\<rparr>)"
| bid_rest: "best_ask s a \<Longrightarrow> best_bid s b \<Longrightarrow> price (a_orders s a) \<le> price (a_orders s b) \<Longrightarrow>
     amount (a_orders s a) < amount (a_orders s b) \<Longrightarrow>
     trade_step s (amount (a_orders s a))
       (s\<lparr>a_asks := a_asks s - {#a#},
          a_orders := set_amount (a_orders s) b (amount (a_orders s b) - amount (a_orders s a))\<rparr>)"
| ask_rest: "best_ask s a \<Longrightarrow> best_bid s b \<Longrightarrow> price (a_orders s a) \<le> price (a_orders s b) \<Longrightarrow>
     amount (a_orders s b) < amount (a_orders s a) \<Longrightarrow>
     trade_step s (amount (a_orders s b))
       (s\<lparr>a_bids := a_bids s - {#b#},
          a_orders := set_amount (a_orders s) a (amount (a_orders s a) - amount (a_orders s b))\<rparr>)"

inductive_cases trade_stepE: "trade_step s n s'"

definition abs_of :: "'m market \<Rightarrow> abs_market" where
  "abs_of mk = \<lparr>a_asks = heap_contents (m_asks mk), a_bids = heap_contents (m_bids mk),
     a_orders = m_orders mk\<rparr>"

definition market_inv :: "'m market \<Rightarrow> bool" where
  "market_inv mk \<longleftrightarrow> heap_invar min_cmp ask_le (m_orders mk) (m_asks mk) \<and>
     heap_invar max_cmp bid_le (m_orders mk) (m_bids mk)"

text \<open>Open orders have a positive amount that fits a \<open>short\<close>.\<close>

definition amounts_ok :: "abs_market \<Rightarrow> bool" where
  "amounts_ok s \<longleftrightarrow> (\<forall>r \<in># a_asks s + a_bids s. 0 < amount (a_orders s r) \<and> is_short (amount (a_orders s r)))"

text \<open>Every reference occurs once in the market.\<close>

definition distinct_orders :: "abs_market \<Rightarrow> bool" where
  "distinct_orders s \<longleftrightarrow> (\<forall>r. count (a_asks s + a_bids s) r \<le> 1)"

definition crossed :: "abs_market \<Rightarrow> bool" where
  "crossed s \<longleftrightarrow> (\<exists>a b. best_ask s a \<and> best_bid s b \<and> price (a_orders s a) \<le> price (a_orders s b))"


section \<open>The implementation refines the specification\<close>

lemma hsize_contents: "heap_invar c le st h \<Longrightarrow> hsize h = size (heap_contents h)"
  by (simp add: heap_invar_def heap_rep_def heap_contents_def)

lemma hsize_0_elems: "heap_invar c le st h \<Longrightarrow> hsize h = 0 \<longleftrightarrow> elems h = []"
  by (simp add: heap_invar_def heap_rep_def)

lemma market_sizes:
  assumes "market_inv mk"
  shows "hsize (m_asks mk) = 0 \<longleftrightarrow> elems (m_asks mk) = []" "hsize (m_bids mk) = 0 \<longleftrightarrow> elems (m_bids mk) = []"
  using assms hsize_0_elems by (auto simp only: market_inv_def)

lemma update_root:
  assumes "heap_invar c le st h" "elems h \<noteq> []"
  shows "update h st n = Some (set_amount st (hd (elems h)) (to_short n))"
proof -
  have "array_read (hdata h) 0 = Some (hd (elems h))"
    using peek_refines [of h "elems h"] assms by (simp add: peek_def heap_invar_def)
  then show ?thesis by (simp add: update_def set_amount_def)
qed

lemma set_amount_keys [simp]:
  "price (set_amount st r n x) = price (st x)" "timestamp (set_amount st r n x) = timestamp (st x)"
  by (simp_all add: set_amount_def)

lemma set_amount_amount: "amount (set_amount st r n x) = (if x = r then n else amount (st x))"
  by (simp add: set_amount_def)

lemma ask_invar_set_amount:
  "heap_invar min_cmp ask_le st h \<Longrightarrow> heap_invar min_cmp ask_le (set_amount st r n) h"
  by (erule ask_heap.invar_keys) simp

lemma bid_invar_set_amount:
  "heap_invar max_cmp bid_le st h \<Longrightarrow> heap_invar max_cmp bid_le (set_amount st r n) h"
  by (erule bid_heap.invar_keys) simp

lemmas market_invar_simps = market_inv_def ask_invar_set_amount bid_invar_set_amount

text \<open>The roots of the two heaps are the best ask and the best bid.\<close>

lemma root_best_ask:
  assumes "market_inv mk" "elems (m_asks mk) \<noteq> []"
  shows "peek (m_asks mk) = Some (hd (elems (m_asks mk)))" "best_ask (abs_of mk) (hd (elems (m_asks mk)))"
  using ask_heap.peek_correct [of "m_orders mk" "m_asks mk"] assms
  by (auto simp: market_inv_def best_ask_def abs_of_def heap_contents_def)

lemma root_best_bid:
  assumes "market_inv mk" "elems (m_bids mk) \<noteq> []"
  shows "peek (m_bids mk) = Some (hd (elems (m_bids mk)))" "best_bid (abs_of mk) (hd (elems (m_bids mk)))"
  using bid_heap.peek_correct [of "m_orders mk" "m_bids mk"] assms
  by (auto simp: market_inv_def best_bid_def abs_of_def heap_contents_def)

text \<open>All best asks have one price, and so have all best bids.\<close>

lemma best_ask_price: "best_ask s a \<Longrightarrow> best_ask s a' \<Longrightarrow> price (a_orders s a) = price (a_orders s a')"
  unfolding best_ask_def ask_le_def by force

lemma best_bid_price: "best_bid s b \<Longrightarrow> best_bid s b' \<Longrightarrow> price (a_orders s b) = price (a_orders s b')"
  unfolding best_bid_def bid_le_def by force

lemma crossed_iff:
  "best_ask s a \<Longrightarrow> best_bid s b \<Longrightarrow> crossed s \<longleftrightarrow> price (a_orders s a) \<le> price (a_orders s b)"
  unfolding crossed_def by (metis best_ask_price best_bid_price)

lemma not_crossed_empty: "a_asks s = {#} \<or> a_bids s = {#} \<Longrightarrow> \<not> crossed s"
  by (auto simp: crossed_def best_ask_def best_bid_def)

lemma check_for_trade_idle:
  assumes inv: "market_inv mk" and nc: "\<not> crossed (abs_of mk)"
  shows "check_for_trade fnm clk mk = Some (False, mk)"
proof (cases "hsize (m_asks mk) = 0 \<or> hsize (m_bids mk) = 0")
  case True
  then show ?thesis by (auto simp: check_for_trade_def)
next
  case False
  then have ne: "elems (m_asks mk) \<noteq> []" "elems (m_bids mk) \<noteq> []"
    using market_sizes [OF inv] by auto
  note ra = root_best_ask [OF inv ne(1)] and rb = root_best_bid [OF inv ne(2)]
  from nc crossed_iff [OF ra(2) rb(2)]
  have "\<not> price (m_orders mk (hd (elems (m_asks mk)))) \<le> price (m_orders mk (hd (elems (m_bids mk))))"
    by (simp add: abs_of_def)
  with False ra(1) rb(1) show ?thesis by (auto simp: check_for_trade_def Let_def)
qed

lemma check_for_trade_traded:
  assumes inv: "market_inv mk" and c: "crossed (abs_of mk)" and am: "amounts_ok (abs_of mk)"
  shows "\<exists>mk' ev. check_for_trade fnm clk mk = Some (True, mk') \<and> market_inv mk' \<and>
    m_mem mk' = m_mem mk \<and> m_out mk' = m_out mk @ [ev] \<and>
    trade_step (abs_of mk) (ev_shares ev) (abs_of mk')"
proof -
  let ?st = "m_orders mk" and ?a = "hd (elems (m_asks mk))" and ?b = "hd (elems (m_bids mk))"
  from c have ne: "elems (m_asks mk) \<noteq> []" "elems (m_bids mk) \<noteq> []"
    using not_crossed_empty [of "abs_of mk"] by (auto simp: abs_of_def heap_contents_def)
  have sz: "hsize (m_asks mk) \<noteq> 0" "hsize (m_bids mk) \<noteq> 0"
    using ne market_sizes [OF inv] by auto
  have ia: "heap_invar min_cmp ask_le ?st (m_asks mk)" and ib: "heap_invar max_cmp bid_le ?st (m_bids mk)"
    using inv by (auto simp: market_inv_def)
  note ra = root_best_ask [OF inv ne(1)] and rb = root_best_bid [OF inv ne(2)]
  have cr: "price (?st ?a) \<le> price (?st ?b)"
    using c crossed_iff [OF ra(2) rb(2)] by (simp add: abs_of_def)
  have "?a \<in># a_asks (abs_of mk) + a_bids (abs_of mk)" "?b \<in># a_asks (abs_of mk) + a_bids (abs_of mk)"
    using ra(2) rb(2) by (auto simp: best_ask_def best_bid_def)
  then have ok: "0 < amount (?st ?a)" "is_short (amount (?st ?a))" "0 < amount (?st ?b)" "is_short (amount (?st ?b))"
    using am by (auto simp: amounts_ok_def abs_of_def)
  note short = to_short_diff [OF ok(3,1,4,2)] to_short_diff [OF ok(1,3,2,4)]
  note start = sz ra(1) rb(1) cr
  consider (full) "amount (?st ?b) = amount (?st ?a)" | (bid) "amount (?st ?b) > amount (?st ?a)"
    | (ask) "amount (?st ?a) > amount (?st ?b)" by linarith
  then show ?thesis
  proof cases
    case full
    obtain bids' where b: "pop fnm ?st (reading clk (m_ticks mk + 1)) (m_bids mk) (m_mem mk) = Some (?b, bids', m_mem mk)"
        "heap_invar max_cmp bid_le ?st bids'" "heap_contents bids' = heap_contents (m_bids mk) - {#?b#}"
      using bid_heap.pop_correct [OF ib ne(2)] by metis
    obtain asks' where a: "pop fnm ?st (reading clk (m_ticks mk + 2)) (m_asks mk) (m_mem mk) = Some (?a, asks', m_mem mk)"
        "heap_invar min_cmp ask_le ?st asks'" "heap_contents asks' = heap_contents (m_asks mk) - {#?a#}"
      using ask_heap.pop_correct [OF ia ne(1)] by metis
    show ?thesis
      using start full a b trade_step.full [OF ra(2) rb(2)]
      by (simp add: check_for_trade_def market_inv_def abs_of_def Let_def)
  next
    case bid
    let ?st' = "set_amount ?st ?b (amount (?st ?b) - amount (?st ?a))"
    have u: "update (m_bids mk) ?st (amount (?st ?b) - amount (?st ?a)) = Some ?st'"
      using update_root [OF ib ne(2)] short(1) by simp
    obtain asks' where a: "pop fnm ?st' (reading clk (m_ticks mk + 1)) (m_asks mk) (m_mem mk) = Some (?a, asks', m_mem mk)"
        "heap_invar min_cmp ask_le ?st' asks'" "heap_contents asks' = heap_contents (m_asks mk) - {#?a#}"
      using ask_heap.pop_correct [OF ask_invar_set_amount [OF ia] ne(1)] by metis
    show ?thesis
      using start bid u a trade_step.bid_rest [OF ra(2) rb(2)] bid_invar_set_amount [OF ib]
      by (simp add: check_for_trade_def market_inv_def abs_of_def Let_def)
  next
    case ask
    let ?st' = "set_amount ?st ?a (amount (?st ?a) - amount (?st ?b))"
    have u: "update (m_asks mk) ?st (amount (?st ?a) - amount (?st ?b)) = Some ?st'"
      using update_root [OF ia ne(1)] short(2) by simp
    obtain bids' where b: "pop fnm ?st' (reading clk (m_ticks mk + 1)) (m_bids mk) (m_mem mk) = Some (?b, bids', m_mem mk)"
        "heap_invar max_cmp bid_le ?st' bids'" "heap_contents bids' = heap_contents (m_bids mk) - {#?b#}"
      using bid_heap.pop_correct [OF bid_invar_set_amount [OF ib] ne(2)] by metis
    show ?thesis
      using start ask u b trade_step.ask_rest [OF ra(2) rb(2)] ask_invar_set_amount [OF ia]
      by (simp add: check_for_trade_def market_inv_def abs_of_def Let_def)
  qed
qed

section \<open>What a trade does to the market\<close>

definition shares :: "store \<Rightarrow> ref multiset \<Rightarrow> int" where
  "shares st M = (\<Sum>r \<in># M. amount (st r))"


lemma shares_remove: "r \<in># M \<Longrightarrow> shares st (M - {#r#}) = shares st M - amount (st r)"
  by (auto simp: shares_def dest!: multi_member_split)

lemma shares_set_amount:
  "shares (set_amount st r n) M = shares st M + int (count M r) * (n - amount (st r))"
  by (induction M) (auto simp: shares_def set_amount_amount algebra_simps)

lemma distinct_orders_counts:
  assumes "distinct_orders s"
  shows "a \<in># a_asks s \<Longrightarrow> count (a_asks s) a = 1 \<and> count (a_bids s) a = 0"
    and "b \<in># a_bids s \<Longrightarrow> count (a_bids s) b = 1 \<and> count (a_asks s) b = 0"
proof -
  have le: "count (a_asks s) r + count (a_bids s) r \<le> 1" for r
    using assms by (simp add: distinct_orders_def)
  show "a \<in># a_asks s \<Longrightarrow> count (a_asks s) a = 1 \<and> count (a_bids s) a = 0"
    using le [of a] by (simp only: count_greater_zero_iff [symmetric]) arith
  show "b \<in># a_bids s \<Longrightarrow> count (a_bids s) b = 1 \<and> count (a_asks s) b = 0"
    using le [of b] by (simp only: count_greater_zero_iff [symmetric]) arith
qed

lemmas trade_step_simps = best_ask_def best_bid_def shares_remove shares_set_amount

lemma trade_step_shares:
  assumes "trade_step s n s'" and "distinct_orders s"
  shows "shares (a_orders s') (a_asks s') = shares (a_orders s) (a_asks s) - n"
    and "shares (a_orders s') (a_bids s') = shares (a_orders s) (a_bids s) - n"
  using assms
  by (induction rule: trade_step.induct)
    (auto simp: trade_step_simps distinct_orders_counts)

lemma trade_step_subset:
  assumes "trade_step s n s'"
  shows "a_asks s' \<subseteq># a_asks s" "a_bids s' \<subseteq># a_bids s"
  using assms by (auto elim: trade_stepE)

lemma trade_step_distinct:
  assumes "trade_step s n s'" and "distinct_orders s"
  shows "distinct_orders s'"
  unfolding distinct_orders_def
proof
  fix r
  have "count (a_asks s') r \<le> count (a_asks s) r" "count (a_bids s') r \<le> count (a_bids s) r"
    using trade_step_subset [OF assms(1)] by (auto simp: mset_subset_eq_count)
  then show "count (a_asks s' + a_bids s') r \<le> 1"
    using assms(2) by (simp add: distinct_orders_def) (meson add_mono le_trans)
qed

text \<open>Every amount after a trade is an amount before it, or the positive rest of one.\<close>

lemma trade_step_amounts:
  assumes step: "trade_step s n s'" and ok: "amounts_ok s"
  shows "amounts_ok s'"
  unfolding amounts_ok_def
proof
  fix r
  assume "r \<in># a_asks s' + a_bids s'"
  then have r: "r \<in># a_asks s + a_bids s"
    using trade_step_subset [OF step] by (auto dest: mset_subset_eqD)
  have old: "0 < amount (a_orders s x) \<and> is_short (amount (a_orders s x))" if "x \<in># a_asks s + a_bids s" for x
    using ok that by (simp add: amounts_ok_def)
  show "0 < amount (a_orders s' r) \<and> is_short (amount (a_orders s' r))"
    using step
  proof (cases rule: trade_step.cases)
    case (full a b)
    then show ?thesis using old [OF r] by simp
  next
    case (bid_rest a b)
    then have "a \<in># a_asks s + a_bids s" "b \<in># a_asks s + a_bids s"
      by (auto simp: best_ask_def best_bid_def)
    then show ?thesis using bid_rest old [OF r] old [of a] old [of b]
      by (auto simp: set_amount_amount is_short_def)
  next
    case (ask_rest a b)
    then have "a \<in># a_asks s + a_bids s" "b \<in># a_asks s + a_bids s"
      by (auto simp: best_ask_def best_bid_def)
    then show ?thesis using ask_rest old [OF r] old [of a] old [of b]
      by (auto simp: set_amount_amount is_short_def)
  qed
qed

lemma trade_step_positive: "trade_step s n s' \<Longrightarrow> amounts_ok s \<Longrightarrow> 0 < n"
  by (auto simp: amounts_ok_def best_ask_def best_bid_def elim: trade_stepE)

lemma trade_step_size:
  assumes "trade_step s n s'"
  shows "size (a_asks s') + size (a_bids s') < size (a_asks s) + size (a_bids s)"
  using assms
proof (induction rule: trade_step.induct)
  case (full s a b)
  then have "size (a_asks s - {#a#}) < size (a_asks s)" "size (a_bids s - {#b#}) \<le> size (a_bids s)"
    by (auto simp: best_ask_def size_Diff1_less size_Diff1_le)
  then show ?case by simp
next
  case (bid_rest s a b)
  then show ?case by (auto simp: best_ask_def size_Diff1_less)
next
  case (ask_rest s a b)
  then show ?case by (auto simp: best_bid_def size_Diff1_less)
qed

lemma trade_step_crossed: "trade_step s n s' \<Longrightarrow> crossed s"
  by (induction rule: trade_step.induct) (auto simp: crossed_def)


text \<open>A trade changes the store only in the amount of one order of the market.\<close>

definition store_frame :: "ref multiset \<Rightarrow> store \<Rightarrow> store \<Rightarrow> bool" where
  "store_frame M st st' \<longleftrightarrow> (\<forall>r. price (st' r) = price (st r) \<and> timestamp (st' r) = timestamp (st r) \<and>
     otype (st' r) = otype (st r) \<and> osymbol (st' r) = osymbol (st r) \<and>
     (r \<notin># M \<longrightarrow> amount (st' r) = amount (st r)))"

lemma store_frame_refl [simp]: "store_frame M st st"
  by (simp add: store_frame_def)

lemma store_frame_trans:
  "store_frame M st st' \<Longrightarrow> store_frame M' st' st'' \<Longrightarrow> M' \<subseteq># M \<Longrightarrow> store_frame M st st''"
  by (auto simp: store_frame_def dest: mset_subset_eqD)

lemma trade_step_store:
  "trade_step s n s' \<Longrightarrow> store_frame (a_asks s + a_bids s) (a_orders s) (a_orders s')"
  by (auto simp: store_frame_def best_ask_def best_bid_def set_amount_def elim!: trade_stepE)

lemma market_inv_frame:
  assumes "market_inv mk" and "store_frame M (m_orders mk) st'"
  shows "market_inv (mk\<lparr>m_orders := st'\<rparr>)"
  using assms ask_heap.invar_keys [of "m_orders mk" "m_asks mk" st'] bid_heap.invar_keys [of "m_orders mk" "m_bids mk" st']
  by (simp add: market_inv_def store_frame_def)

section \<open>Series of trades\<close>

inductive trades :: "abs_market \<Rightarrow> int list \<Rightarrow> abs_market \<Rightarrow> bool" where
  trades_done: "trades s [] s"
| trades_more: "trade_step s n s' \<Longrightarrow> trades s' ns s'' \<Longrightarrow> trades s (n # ns) s''"

lemma trades_inv:
  "trades s ns s' \<Longrightarrow> distinct_orders s \<Longrightarrow> amounts_ok s \<Longrightarrow>
   distinct_orders s' \<and> amounts_ok s' \<and> (\<forall>n \<in> set ns. 0 < n) \<and>
   a_asks s' \<subseteq># a_asks s \<and> a_bids s' \<subseteq># a_bids s \<and>
   shares (a_orders s') (a_asks s') = shares (a_orders s) (a_asks s) - sum_list ns \<and>
   shares (a_orders s') (a_bids s') = shares (a_orders s) (a_bids s) - sum_list ns \<and>
   store_frame (a_asks s + a_bids s) (a_orders s) (a_orders s')"
proof (induction rule: trades.induct)
  case (trades_done s)
  then show ?case by simp
next
  case (trades_more s n s' ns s'')
  have ok: "distinct_orders s'" "amounts_ok s'"
    using trade_step_distinct trade_step_amounts trades_more by blast+
  note ih = trades_more.IH [OF ok] and sub = trade_step_subset [OF trades_more.hyps(1)]
  have "store_frame (a_asks s + a_bids s) (a_orders s) (a_orders s'')"
    using trade_step_store [OF trades_more.hyps(1)] ih subset_mset.add_mono [OF sub]
    by (blast intro: store_frame_trans)
  then show ?case
    using ih sub trade_step_shares [OF trades_more.hyps(1) trades_more.prems(1)]
      trade_step_positive [OF trades_more.hyps(1) trades_more.prems(2)]
    by (auto intro: subset_mset.order_trans)
qed

section \<open>Properties\<close>

text \<open>A market with one ask at $3 and one bid at $8, for the instances below.\<close>

definition sample_market :: "unit market" where
  "sample_market = \<lparr>m_asks = sample_heap min_cmp 7, m_bids = sample_heap max_cmp 2, m_orders = sample_store,
     m_mem = (), m_ticks = 0, m_out = []\<rparr>"

lemma sample_market_ok:
  "market_inv sample_market" "amounts_ok (abs_of sample_market)" "distinct_orders (abs_of sample_market)"
  by (simp_all add: market_inv_def sample_market_def sample_heap_invar amounts_ok_def abs_of_def distinct_orders_def
      sample_store_def is_short_def)

text \<open>
  C8: \<open>check_for_trade\<close> implements the trading rule: it reports a trade exactly when the best
  bid's price reaches the best ask's, and then performs one trade step between a best ask and
  a best bid, prints its line, keeps both heaps well formed and touches no memory state.
\<close>

theorem check_for_trade_refines:
  assumes "market_inv mk" "amounts_ok (abs_of mk)"
  shows "if crossed (abs_of mk)
    then \<exists>mk' ev. check_for_trade fnm clk mk = Some (True, mk') \<and> market_inv mk' \<and> m_mem mk' = m_mem mk \<and>
      m_out mk' = m_out mk @ [ev] \<and> trade_step (abs_of mk) (ev_shares ev) (abs_of mk')
    else check_for_trade fnm clk mk = Some (False, mk)"
  using check_for_trade_traded [OF assms(1) _ assms(2)] check_for_trade_idle [OF assms(1)] by auto

theorem check_for_trade_refines_witness:
  "if crossed (abs_of sample_market)
    then \<exists>mk' ev. check_for_trade Some int sample_market = Some (True, mk') \<and> market_inv mk' \<and>
      m_mem mk' = m_mem sample_market \<and> m_out mk' = m_out sample_market @ [ev] \<and>
      trade_step (abs_of sample_market) (ev_shares ev) (abs_of mk')
    else check_for_trade Some int sample_market = Some (False, sample_market)"
  by (rule check_for_trade_refines) (rule sample_market_ok)+

text \<open>
  C13: A trade conserves shares: both sides of the market lose exactly the positive number of
  shares that is printed, no order appears that was not there, and the only change of an
  order is the amount of one of the market.
\<close>

theorem trade_conserves_shares:
  assumes "market_inv mk" "amounts_ok (abs_of mk)" "distinct_orders (abs_of mk)"
    and "check_for_trade fnm clk mk = Some (True, mk')"
  shows "\<exists>ev. m_out mk' = m_out mk @ [ev] \<and> 0 < ev_shares ev \<and>
    shares (m_orders mk') (heap_contents (m_asks mk')) = shares (m_orders mk) (heap_contents (m_asks mk)) - ev_shares ev \<and>
    shares (m_orders mk') (heap_contents (m_bids mk')) = shares (m_orders mk) (heap_contents (m_bids mk)) - ev_shares ev \<and>
    heap_contents (m_asks mk') \<subseteq># heap_contents (m_asks mk) \<and> heap_contents (m_bids mk') \<subseteq># heap_contents (m_bids mk) \<and>
    store_frame (heap_contents (m_asks mk) + heap_contents (m_bids mk)) (m_orders mk) (m_orders mk')"
proof -
  have "crossed (abs_of mk)" using check_for_trade_idle [OF assms(1), of fnm clk] assms(4) by auto
  then obtain ev where ev: "m_out mk' = m_out mk @ [ev]" "trade_step (abs_of mk) (ev_shares ev) (abs_of mk')"
    using check_for_trade_traded [OF assms(1) _ assms(2), of fnm clk] assms(4) by auto
  show ?thesis
    using ev(1) trade_step_positive [OF ev(2) assms(2)] trade_step_shares [OF ev(2) assms(3)]
      trade_step_subset [OF ev(2)] trade_step_store [OF ev(2)]
    by (auto simp: abs_of_def)
qed

theorem trade_conserves_shares_witness:
  "\<exists>mk' ev. check_for_trade Some int sample_market = Some (True, mk') \<and> 0 < ev_shares ev \<and>
    shares (m_orders mk') (heap_contents (m_asks mk')) =
      shares (m_orders sample_market) (heap_contents (m_asks sample_market)) - ev_shares ev"
proof -
  have "fst (the (check_for_trade Some int sample_market))"
    "check_for_trade Some int sample_market \<noteq> None" by code_simp+
  then obtain mk' where c: "check_for_trade Some int sample_market = Some (True, mk')"
    by (cases "check_for_trade Some int sample_market") auto
  show ?thesis using trade_conserves_shares [OF sample_market_ok c] c by blast
qed

end
