(* ===== verification/Memory_Manager.thy ===== *)
theory Memory_Manager
  imports Prelude
begin

text \<open>
  The frame allocator of \<open>src/sw_sim/mmu.h\<close>: physical frames, the free-frame bitmap and the
  page list of a symbol. The bitmap is four 64-bit words with the shifts and masks of the
  source. Frame and page arrays have the fixed sizes of the source; an index outside them is
  \<open>None\<close>. Counters of type \<open>int\<close> are unbounded integers, counters that the code only
  decrements under a positive test are natural numbers.
\<close>

section \<open>Data\<close>

definition PAGE_SIZE :: nat where "PAGE_SIZE = 64"
definition MAX_PAGES :: nat where "MAX_PAGES = 256"
definition MAX_PAGES_PER_SYMBOL :: nat where "MAX_PAGES_PER_SYMBOL = 128"
definition BITMAP_WORDS :: nat where "BITMAP_WORDS = (MAX_PAGES + 63) div 64"
definition OVERFLOW_PAGE_SIZE :: nat where "OVERFLOW_PAGE_SIZE = 8"
definition PAGE_WALK_CYCLES :: int where "PAGE_WALK_CYCLES = 3"
definition OVERFLOW_PENALTY_CYCLES :: int where "OVERFLOW_PENALTY_CYCLES = 2"

lemmas mmu_consts = PAGE_SIZE_def MAX_PAGES_def MAX_PAGES_PER_SYMBOL_def BITMAP_WORDS_def
  OVERFLOW_PAGE_SIZE_def PAGE_WALK_CYCLES_def OVERFLOW_PENALTY_CYCLES_def

record PhysicalFrame =
  frame_index :: int
  owner_symbol :: int
  node_count :: int

record OverflowPage =
  ov_data :: "int option list"
  ov_cnt :: nat

record MemoryManager =
  frames :: "PhysicalFrame list"
  free_bitmap :: "u64 list"
  mm_hard_rejects :: int
  overflow :: OverflowPage

record SymbolMemory =
  virtual_pages :: "int option list"
  page_count :: nat
  nodes_in_curr_page :: nat

record SimStats =
  total_trades :: int
  total_reads :: int
  total_writes :: int
  overflow_accesses :: int
  st_hard_rejects :: int
  hazards :: int
  overflow_max :: int
  total_cycles :: int

section \<open>Operations\<close>

definition create_memory_manager :: MemoryManager where
  "create_memory_manager =
     \<lparr>frames = map (\<lambda>i. \<lparr>frame_index = int i, owner_symbol = -1, node_count = 0\<rparr>) [0..<MAX_PAGES],
      free_bitmap = replicate BITMAP_WORDS (NOT 0),
      mm_hard_rejects = 0,
      overflow = \<lparr>ov_data = replicate OVERFLOW_PAGE_SIZE None, ov_cnt = 0\<rparr>\<rparr>"

definition translate :: "SymbolMemory \<Rightarrow> int \<Rightarrow> SimStats \<Rightarrow> (SimStats \<times> int) option" where
  "translate mem page_index stats =
     (let stats' = stats\<lparr>total_cycles := total_cycles stats + PAGE_WALK_CYCLES\<rparr> in
      if page_index < int (page_count mem) then
        (if page_index < 0 then None
         else do { f \<leftarrow> array_read (virtual_pages mem) (nat page_index); Some (stats', f) })
      else Some (stats', -1))"

text \<open>The test \<open>free_bitmap[i/64] & (1ULL << i%64)\<close> and the two updates of that bit.\<close>

definition frame_free :: "MemoryManager \<Rightarrow> nat \<Rightarrow> bool" where
  "frame_free mm i \<longleftrightarrow> (free_bitmap mm ! (i div 64)) AND push_bit (i mod 64) 1 \<noteq> 0"

definition clear_free_bit :: "MemoryManager \<Rightarrow> nat \<Rightarrow> MemoryManager" where
  "clear_free_bit mm i = mm\<lparr>free_bitmap := (free_bitmap mm)
     [i div 64 := (free_bitmap mm ! (i div 64)) AND NOT (push_bit (i mod 64) 1)]\<rparr>"

definition set_free_bit :: "MemoryManager \<Rightarrow> nat \<Rightarrow> MemoryManager" where
  "set_free_bit mm i = mm\<lparr>free_bitmap := (free_bitmap mm)
     [i div 64 := (free_bitmap mm ! (i div 64)) OR push_bit (i mod 64) 1]\<rparr>"

definition set_frame :: "MemoryManager \<Rightarrow> nat \<Rightarrow> int \<Rightarrow> int \<Rightarrow> MemoryManager" where
  "set_frame mm i owner n = mm\<lparr>frames := (frames mm)
     [i := (frames mm ! i)\<lparr>owner_symbol := owner, node_count := n\<rparr>]\<rparr>"

text \<open>The loop of \<open>allocate_frame\<close> from index \<open>i\<close> on.\<close>

function allocate_from :: "MemoryManager \<Rightarrow> int \<Rightarrow> nat \<Rightarrow> MemoryManager \<times> int" where
  "allocate_from mm symbol_id i =
     (if i < MAX_PAGES then
        (if frame_free mm i then (set_frame (clear_free_bit mm i) i symbol_id 0, int i)
         else allocate_from mm symbol_id (i + 1))
      else (mm, -1))"
  by pat_completeness auto
termination
  by (relation "measure (\<lambda>(mm, s, i). MAX_PAGES - i)") auto

declare allocate_from.simps [simp del]

definition allocate_frame :: "MemoryManager \<Rightarrow> int \<Rightarrow> MemoryManager \<times> int" where
  "allocate_frame mm symbol_id = allocate_from mm symbol_id 0"

text \<open>The second half of \<open>free_frame\<close>: the frame goes back to the bitmap.\<close>

definition release_frame :: "MemoryManager \<Rightarrow> nat \<Rightarrow> MemoryManager option" where
  "release_frame mm frame =
     (if frame < MAX_PAGES then Some (set_frame (set_free_bit mm frame) frame (-1) 0) else None)"

definition free_frame ::
  "MemoryManager \<Rightarrow> SymbolMemory \<Rightarrow> int \<Rightarrow> SimStats \<Rightarrow> (MemoryManager \<times> SimStats) option" where
  "free_frame mm mem page_index stats = do {
     (stats', frame) \<leftarrow> translate mem page_index stats;
     (if frame < 0 then Some (mm, stats')
      else do { mm' \<leftarrow> release_frame mm (nat frame); Some (mm', stats') }) }"

section \<open>The bitmap as a set of free frames\<close>

definition mm_wf :: "MemoryManager \<Rightarrow> bool" where
  "mm_wf mm \<longleftrightarrow> length (frames mm) = MAX_PAGES \<and> length (free_bitmap mm) = BITMAP_WORDS"

definition free_set :: "MemoryManager \<Rightarrow> nat set" where
  "free_set mm = {i. i < MAX_PAGES \<and> bit (free_bitmap mm ! (i div 64)) (i mod 64)}"

lemma frame_free_bit: "frame_free mm i \<longleftrightarrow> bit (free_bitmap mm ! (i div 64)) (i mod 64)"
  by (simp add: frame_free_def push_bit_of_1 and_exp_eq_0_iff_not_bit)

lemma free_set_iff: "i < MAX_PAGES \<Longrightarrow> i \<in> free_set mm \<longleftrightarrow> frame_free mm i"
  by (simp add: free_set_def frame_free_bit)

lemma div_mod_64_eq: "i div 64 = j div 64 \<Longrightarrow> i mod 64 = j mod 64 \<Longrightarrow> i = (j::nat)"
  by (metis div_mult_mod_eq)

lemma frame_free_clear:
  "mm_wf mm \<Longrightarrow> i < MAX_PAGES \<Longrightarrow> frame_free (clear_free_bit mm i) j \<longleftrightarrow> frame_free mm j \<and> j \<noteq> i"
  using div_mod_64_eq [of i j]
  by (auto simp: frame_free_bit clear_free_bit_def mm_wf_def mmu_consts nth_list_update bit_simps)

lemma frame_free_set:
  "mm_wf mm \<Longrightarrow> i < MAX_PAGES \<Longrightarrow> frame_free (set_free_bit mm i) j \<longleftrightarrow> frame_free mm j \<or> j = i"
  using div_mod_64_eq [of i j]
  by (auto simp: frame_free_bit set_free_bit_def mm_wf_def mmu_consts nth_list_update bit_simps)


lemma frame_free_set_frame [simp]: "frame_free (set_frame mm i o' n) j = frame_free mm j"
  by (simp add: frame_free_def set_frame_def)

lemma mm_wf_updates [simp]:
  "mm_wf (clear_free_bit mm i) = mm_wf mm" "mm_wf (set_free_bit mm i) = mm_wf mm"
  "mm_wf (set_frame mm i o' n) = mm_wf mm"
  by (simp_all add: mm_wf_def clear_free_bit_def set_free_bit_def set_frame_def)

lemma free_set_clear:
  "mm_wf mm \<Longrightarrow> i < MAX_PAGES \<Longrightarrow> free_set (set_frame (clear_free_bit mm i) i o' n) = free_set mm - {i}"
  by (auto simp: free_set_def frame_free_bit [symmetric] frame_free_clear)

lemma free_set_set:
  "mm_wf mm \<Longrightarrow> i < MAX_PAGES \<Longrightarrow> free_set (set_frame (set_free_bit mm i) i o' n) = insert i (free_set mm)"
  by (auto simp: free_set_def frame_free_bit [symmetric] frame_free_set)

lemma finite_free_set [simp]: "finite (free_set mm)"
  by (rule finite_subset [of _ "{..<MAX_PAGES}"]) (auto simp: free_set_def)

lemma allocate_from_eq:
  "allocate_from mm s i =
     (if \<exists>f \<in> free_set mm. i \<le> f
      then (let f = Min {f \<in> free_set mm. i \<le> f} in (set_frame (clear_free_bit mm f) f s 0, int f))
      else (mm, -1))"
proof (induction mm s i rule: allocate_from.induct)
  case (1 mm s i)
  let ?S = "{f \<in> free_set mm. i \<le> f}"
  show ?case
  proof (cases "i < MAX_PAGES")
    case False
    then have "\<not> (\<exists>f \<in> free_set mm. i \<le> f)" by (auto simp: free_set_def)
    with False show ?thesis by (subst allocate_from.simps) simp
  next
    case True
    show ?thesis
    proof (cases "frame_free mm i")
      case free: True
      then have "i \<in> ?S" using True by (simp add: free_set_iff)
      moreover from this have "Min ?S = i" by (intro Min_eqI) auto
      ultimately show ?thesis using True free by (subst allocate_from.simps) (auto simp: Let_def)
    next
      case False
      then have S: "?S = {f \<in> free_set mm. i + 1 \<le> f}"
        using True free_set_iff [of i mm] by (auto simp: le_eq_less_or_eq)
      have E: "(\<exists>f \<in> free_set mm. i \<le> f) = (\<exists>f \<in> free_set mm. i + 1 \<le> f)"
        using S by blast
      show ?thesis using True False "1.IH" by (subst allocate_from.simps) (simp add: S [simplified] E [simplified])
    qed
  qed
qed

lemma allocate_frame_eq:
  "allocate_frame mm s =
     (if free_set mm = {} then (mm, -1)
      else let f = Min (free_set mm) in (set_frame (clear_free_bit mm f) f s 0, int f))"
  unfolding allocate_frame_def allocate_from_eq by (auto simp: Let_def)

lemma Min_free_set: "free_set mm \<noteq> {} \<Longrightarrow> Min (free_set mm) \<in> free_set mm"
  by (rule Min_in) simp

section \<open>The allocator's contract\<close>

text \<open>A series of allocations with any allocation operation, one per symbol of the list.\<close>

primrec alloc_all :: "('m \<Rightarrow> int \<Rightarrow> 'm \<times> int) \<Rightarrow> 'm \<Rightarrow> int list \<Rightarrow> 'm \<times> int list" where
  "alloc_all alloc m [] = (m, [])"
| "alloc_all alloc m (s # ss) =
     (let (m', f) = alloc m s; (m'', fs) = alloc_all alloc m' ss in (m'', f # fs))"

text \<open>
  What the page handling relies on: an allocation takes a frame out of the free set or
  reports -1 exactly when there is none, a release puts it back, and neither touches another
  frame.
\<close>

locale frame_pool =
  fixes alloc :: "'m \<Rightarrow> int \<Rightarrow> 'm \<times> int"
    and release :: "'m \<Rightarrow> nat \<Rightarrow> 'm option"
    and invar :: "'m \<Rightarrow> bool"
    and free :: "'m \<Rightarrow> nat set"
    and total :: nat
  assumes free_bound: "free m \<subseteq> {..<total}"
    and alloc_none: "invar m \<Longrightarrow> free m = {} \<Longrightarrow> alloc m s = (m, -1)"
    and alloc_some: "invar m \<Longrightarrow> free m \<noteq> {} \<Longrightarrow>
      \<exists>m' f. alloc m s = (m', int f) \<and> f \<in> free m \<and> invar m' \<and> free m' = free m - {f}"
    and release_ok: "invar m \<Longrightarrow> f < total \<Longrightarrow>
      \<exists>m'. release m f = Some m' \<and> invar m' \<and> free m' = insert f (free m)"
begin

lemma alloc_all_frames:
  "invar m \<Longrightarrow> alloc_all alloc m ss = (m', fs) \<Longrightarrow>
   invar m' \<and> distinct (filter (\<lambda>f. 0 \<le> f) fs) \<and> set (filter (\<lambda>f. 0 \<le> f) fs) = int ` (free m - free m') \<and>
   free m' \<subseteq> free m"
proof (induction ss arbitrary: m m' fs)
  case Nil
  then show ?case by auto
next
  case (Cons s ss)
  obtain m1 f1 fs1 where a: "alloc m s = (m1, f1)" "alloc_all alloc m1 ss = (m', fs1)" "fs = f1 # fs1"
    using Cons.prems(2) by (auto simp: Let_def split: prod.splits)
  show ?case
  proof (cases "free m = {}")
    case True
    then show ?thesis using alloc_none [OF Cons.prems(1) True, of s] a Cons.IH [OF Cons.prems(1)] by auto
  next
    case False
    then obtain f where f: "f1 = int f" "f \<in> free m" "invar m1" "free m1 = free m - {f}"
      using alloc_some [OF Cons.prems(1) False, of s] a(1) by auto
    then show ?thesis using Cons.IH [OF f(3) a(2)] a(3) by auto
  qed
qed

end

interpretation mm_pool: frame_pool allocate_frame release_frame mm_wf free_set MAX_PAGES
proof
  fix mm :: MemoryManager and s :: int and f :: nat
  show "free_set mm \<subseteq> {..<MAX_PAGES}" by (auto simp: free_set_def)
  show "allocate_frame mm s = (mm, -1)" if "free_set mm = {}"
    using that by (simp add: allocate_frame_eq)
  show "\<exists>m' f. allocate_frame mm s = (m', int f) \<and> f \<in> free_set mm \<and> mm_wf m' \<and> free_set m' = free_set mm - {f}"
    if wf: "mm_wf mm" and ne: "free_set mm \<noteq> {}"
  proof -
    have "Min (free_set mm) \<in> free_set mm" using ne by (rule Min_free_set)
    moreover from this have "Min (free_set mm) < MAX_PAGES" by (simp add: free_set_def)
    ultimately show ?thesis
      using wf ne free_set_clear [OF wf, of "Min (free_set mm)" s 0] by (auto simp: allocate_frame_eq Let_def)
  qed
  show "\<exists>m'. release_frame mm f = Some m' \<and> mm_wf m' \<and> free_set m' = insert f (free_set mm)"
    if "mm_wf mm" "f < MAX_PAGES"
    using that by (simp add: release_frame_def free_set_set)
qed

section \<open>Properties\<close>

lemma mm_wf_init: "mm_wf create_memory_manager"
  by (simp add: mm_wf_def create_memory_manager_def)

text \<open>
  A series of allocations never hands out a frame twice: the frames it returns are pairwise
  different, they are exactly the ones that left the free bitmap, and -1 is the only other
  answer.
\<close>

lemma allocations_distinct:
  assumes "mm_wf m" "alloc_all allocate_frame m ss = (m', fs)"
  shows "mm_wf m' \<and> distinct (filter (\<lambda>f. 0 \<le> f) fs) \<and> set (filter (\<lambda>f. 0 \<le> f) fs) = int ` (free_set m - free_set m') \<and>
    free_set m' \<subseteq> free_set m"
  using assms by (rule mm_pool.alloc_all_frames)

text \<open>
  \<open>allocate_frame\<close> returns the lowest free frame, gives it to the symbol with no nodes, and
  returns -1 exactly when no frame is free; freeing the frame makes the same frames free as before.
\<close>

theorem allocate_then_free:
  assumes "mm_wf m"
  shows "if free_set m = {} then allocate_frame m s = (m, -1)
    else \<exists>m' m''. allocate_frame m s = (m', int (Min (free_set m))) \<and>
      owner_symbol (frames m' ! Min (free_set m)) = s \<and> node_count (frames m' ! Min (free_set m)) = 0 \<and>
      free_set m' = free_set m - {Min (free_set m)} \<and>
      release_frame m' (Min (free_set m)) = Some m'' \<and> free_set m'' = free_set m"
proof (cases "free_set m = {}")
  case False
  let ?f = "Min (free_set m)"
  have f: "?f \<in> free_set m" "?f < MAX_PAGES" using Min_free_set [OF False] by (auto simp: free_set_def)
  have "frames (set_frame (clear_free_bit m ?f) ?f s 0) ! ?f = (frames m ! ?f)\<lparr>owner_symbol := s, node_count := 0\<rparr>"
    using assms f(2) by (simp add: set_frame_def clear_free_bit_def mm_wf_def)
  then show ?thesis
    using False f(2) assms insert_Diff [OF f(1)]
    by (simp add: allocate_frame_eq Let_def release_frame_def free_set_clear free_set_set del: Min_in)
qed (simp add: allocate_frame_eq)

end
