(* ===== verification/Order_Book.thy ===== *)
theory Order_Book
  imports Matching Memory_Manager
begin

text \<open>
  Order books and their memory: the rest of \<open>src/sw_sim/mmu.h\<close> (\<open>OrderBook\<close>,
  \<open>Exchange\<close>, \<open>mem_aware_insert\<close>, \<open>check_for_trade_multi\<close>, \<open>post_trade_cleanup\<close>,
  \<open>print_sim_stats\<close>) and \<open>free_node_memory\<close> of \<open>src/sw_sim/memory_sim.c\<close>.

  The record \<open>world\<close> holds what the functions share: the orders and the next free
  reference, the memory manager, the statistics, the number of clock readings, the number of
  streams of \<open>results.txt\<close> that are open, the lines printed and the lines of the file. The
  outcome of \<open>fopen\<close> is a parameter: \<open>fopen_ok n\<close> says whether it succeeds while \<open>n\<close>
  streams are open. The process exit of \<open>check_for_trade_multi\<close> is the result \<open>ExitFailure\<close>.
\<close>

section \<open>Data\<close>

record OrderBook =
  bsymbol :: string
  basks :: Heap
  bbids :: Heap
  btrades :: int
  bmem :: SymbolMemory
  trade_in_progress :: int
  insert_pending :: int

record Exchange =
  books :: "OrderBook list"
  ex_cap :: nat

datatype sim_event =
    AskSubmitted string int int u32
  | BidSubmitted string int int u32
  | OverflowUsed string nat
  | HardRejected string int int
  | TradeLine trade_event
  | MalformedLine string
  | InvalidType string
  | Prompt string

record world =
  orders :: store
  next_ref :: ref
  mm :: MemoryManager
  stats :: SimStats
  ticks :: nat
  open_files :: nat
  stdout :: "sim_event list"
  results :: "trade_event list"

datatype check_result = NoTrade | Traded | ExitFailure

type_synonym mem_state = "MemoryManager \<times> SymbolMemory \<times> SimStats"

section \<open>Operations\<close>

definition create_exchange :: "nat \<Rightarrow> Exchange" where
  "create_exchange cap = \<lparr>books = [], ex_cap = cap\<rparr>"

definition create_order_book :: "string \<Rightarrow> OrderBook" where
  "create_order_book symbol =
     \<lparr>bsymbol = take 3 symbol,
      basks = (create_heap 10 min_cmp)\<lparr>has_mm := True\<rparr>,
      bbids = (create_heap 10 max_cmp)\<lparr>has_mm := True\<rparr>,
      btrades = 0,
      bmem = \<lparr>virtual_pages = replicate MAX_PAGES_PER_SYMBOL None, page_count = 0, nodes_in_curr_page = 0\<rparr>,
      trade_in_progress = 0,
      insert_pending = 0\<rparr>"

text \<open>The index of the first book with the given symbol.\<close>

fun find_book :: "OrderBook list \<Rightarrow> string \<Rightarrow> nat \<Rightarrow> nat option" where
  "find_book [] symbol i = None"
| "find_book (b # bs) symbol i = (if bsymbol b = symbol then Some i else find_book bs symbol (i + 1))"

text \<open>\<open>find_or_create_book\<close> returns the position of the book in \<open>ex->books\<close>.\<close>

definition find_or_create_book :: "Exchange \<Rightarrow> string \<Rightarrow> (nat \<times> Exchange) option" where
  "find_or_create_book ex symbol =
     (case find_book (books ex) symbol 0 of
        Some i \<Rightarrow> Some (i, ex)
      | None \<Rightarrow>
          (let cnt = length (books ex); cap = (if cnt \<ge> ex_cap ex then ex_cap ex * 2 else ex_cap ex) in
           if cnt < cap then Some (cnt, \<lparr>books = books ex @ [create_order_book symbol], ex_cap = cap\<rparr>)
           else None))"

text \<open>Increment and decrement of \<open>mm->frames[frame].node_count\<close>.\<close>

definition add_node_count :: "MemoryManager \<Rightarrow> nat \<Rightarrow> int \<Rightarrow> MemoryManager option" where
  "add_node_count m f d =
     (if f < length (frames m)
      then Some (m\<lparr>frames := (frames m)[f := (frames m ! f)\<lparr>node_count := node_count (frames m ! f) + d\<rparr>]\<rparr>)
      else None)"

definition set_node_count :: "MemoryManager \<Rightarrow> nat \<Rightarrow> int \<Rightarrow> MemoryManager option" where
  "set_node_count m f n =
     (if f < length (frames m)
      then Some (m\<lparr>frames := (frames m)[f := (frames m ! f)\<lparr>node_count := n\<rparr>]\<rparr>)
      else None)"

definition get_node_count :: "MemoryManager \<Rightarrow> nat \<Rightarrow> int option" where
  "get_node_count m f = (if f < length (frames m) then Some (node_count (frames m ! f)) else None)"

text \<open>\<open>if (o->type) push(ob->asks, o); else push(ob->bids, o);\<close>\<close>

definition push_order :: "store \<Rightarrow> OrderBook \<Rightarrow> ref \<Rightarrow> OrderBook option" where
  "push_order st ob o_ref =
     (if otype (st o_ref) \<noteq> 0
      then do { h \<leftarrow> push st (basks ob) o_ref; Some (ob\<lparr>basks := h\<rparr>) }
      else do { h \<leftarrow> push st (bbids ob) o_ref; Some (ob\<lparr>bbids := h\<rparr>) })"

text \<open>The three places \<open>mem_aware_insert\<close> may store an order, and the rejection.\<close>

definition insert_in_page :: "OrderBook \<Rightarrow> ref \<Rightarrow> world \<Rightarrow> (bool \<times> OrderBook \<times> world) option" where
  "insert_in_page ob o_ref w = do {
     (s, frame) \<leftarrow> translate (bmem ob) (int (page_count (bmem ob)) - 1) (stats w);
     (if frame < 0 then Some (False, ob, w\<lparr>stats := s\<rparr>)
      else do {
        mm' \<leftarrow> add_node_count (mm w) (nat frame) 1;
        ob' \<leftarrow> push_order (orders w)
          (ob\<lparr>bmem := (bmem ob)\<lparr>nodes_in_curr_page := nodes_in_curr_page (bmem ob) + 1\<rparr>\<rparr>) o_ref;
        Some (True, ob', w\<lparr>mm := mm', stats := s\<lparr>total_writes := total_writes s + 1\<rparr>\<rparr>) }) }"

definition insert_new_page ::
  "OrderBook \<Rightarrow> ref \<Rightarrow> int \<Rightarrow> MemoryManager \<Rightarrow> world \<Rightarrow> (bool \<times> OrderBook \<times> world) option" where
  "insert_new_page ob o_ref frame m w = do {
     vp \<leftarrow> array_write (virtual_pages (bmem ob)) (page_count (bmem ob)) frame;
     mm' \<leftarrow> set_node_count m (nat frame) 1;
     ob' \<leftarrow> push_order (orders w)
       (ob\<lparr>bmem := \<lparr>virtual_pages = vp, page_count = page_count (bmem ob) + 1, nodes_in_curr_page = 1\<rparr>\<rparr>) o_ref;
     Some (True, ob', w\<lparr>mm := mm',
       stats := (stats w)\<lparr>total_cycles := total_cycles (stats w) + PAGE_WALK_CYCLES,
                          total_writes := total_writes (stats w) + 1\<rparr>\<rparr>) }"

definition insert_overflow :: "OrderBook \<Rightarrow> ref \<Rightarrow> world \<Rightarrow> (bool \<times> OrderBook \<times> world) option" where
  "insert_overflow ob o_ref w = do {
     let cnt = ov_cnt (overflow (mm w)) + 1;
     ob' \<leftarrow> push_order (orders w) ob o_ref;
     let s = (stats w)\<lparr>
       total_cycles := total_cycles (stats w) + (PAGE_WALK_CYCLES + OVERFLOW_PENALTY_CYCLES),
       overflow_accesses := overflow_accesses (stats w) + 1,
       total_writes := total_writes (stats w) + 1\<rparr>;
     Some (True, ob', w\<lparr>mm := (mm w)\<lparr>overflow := (overflow (mm w))\<lparr>ov_cnt := cnt\<rparr>\<rparr>,
       stats := (if int cnt > overflow_max s then s\<lparr>overflow_max := int cnt\<rparr> else s),
       stdout := stdout w @ [OverflowUsed (bsymbol ob) cnt]\<rparr>) }"

definition hard_reject :: "OrderBook \<Rightarrow> ref \<Rightarrow> world \<Rightarrow> bool \<times> OrderBook \<times> world" where
  "hard_reject ob o_ref w =
     (False, ob, w\<lparr>mm := (mm w)\<lparr>mm_hard_rejects := mm_hard_rejects (mm w) + 1\<rparr>,
       stats := (stats w)\<lparr>total_cycles := total_cycles (stats w) + 1\<rparr>,
       stdout := stdout w @ [HardRejected (bsymbol ob) (price (orders w o_ref)) (amount (orders w o_ref))]\<rparr>)"

definition mem_aware_insert ::
  "OrderBook \<Rightarrow> ref \<Rightarrow> int \<Rightarrow> world \<Rightarrow> (bool \<times> OrderBook \<times> world) option" where
  "mem_aware_insert ob o_ref sym_id w =
     (if page_count (bmem ob) > 0 \<and> nodes_in_curr_page (bmem ob) < PAGE_SIZE
      then insert_in_page ob o_ref w
      else
        let (m, frame) = (if page_count (bmem ob) < MAX_PAGES_PER_SYMBOL
                          then allocate_frame (mm w) sym_id else (mm w, -1)) in
        if frame \<ge> 0 then insert_new_page ob o_ref frame m w
        else if ov_cnt (overflow (mm w)) < OVERFLOW_PAGE_SIZE then insert_overflow ob o_ref w
        else Some (hard_reject ob o_ref w))"

text \<open>
  The common part of \<open>free_node_memory\<close> and \<open>post_trade_cleanup\<close>: one node leaves the
  current page, and an empty page goes back to the allocator.
\<close>

definition release_node :: "mem_state \<Rightarrow> mem_state option" where
  "release_node = (\<lambda>(m, mem, s).
     if nodes_in_curr_page mem > 0 then
       (let mem1 = mem\<lparr>nodes_in_curr_page := nodes_in_curr_page mem - 1\<rparr> in
        if page_count mem > 0 then do {
          (s1, frame) \<leftarrow> translate mem1 (int (page_count mem) - 1) s;
          (if frame \<ge> 0 then do {
             m1 \<leftarrow> add_node_count m (nat frame) (-1);
             n \<leftarrow> get_node_count m1 (nat frame);
             (if n = 0 then do {
                (m2, s2) \<leftarrow> free_frame m1 mem1 (int (page_count mem) - 1) s1;
                Some (m2, mem1\<lparr>page_count := page_count mem - 1,
                  nodes_in_curr_page := (if page_count mem - 1 > 0 then PAGE_SIZE else 0)\<rparr>, s2) }
              else Some (m1, mem1, s1)) }
           else Some (m, mem1, s1)) }
        else Some (m, mem1, s))
     else Some (m, mem, s))"

definition free_node_memory :: "mem_state \<Rightarrow> mem_state option" where
  "free_node_memory ms = release_node ms"

definition post_trade_cleanup :: "OrderBook \<Rightarrow> world \<Rightarrow> (OrderBook \<times> world) option" where
  "post_trade_cleanup ob w = do {
     let m = (if ov_cnt (overflow (mm w)) > 0
              then (mm w)\<lparr>overflow := (overflow (mm w))\<lparr>ov_cnt := ov_cnt (overflow (mm w)) - 1\<rparr>\<rparr>
              else mm w);
     (m', mem', s') \<leftarrow> release_node (m, bmem ob, stats w);
     Some (ob\<lparr>bmem := mem'\<rparr>, w\<lparr>mm := m', stats := s'\<rparr>) }"

text \<open>A pop of one of the book's heaps: an expired order would call \<open>free_node_memory\<close>.\<close>

definition pop_bids :: "(nat \<Rightarrow> int) \<Rightarrow> OrderBook \<Rightarrow> world \<Rightarrow> (OrderBook \<times> world) option" where
  "pop_bids clk ob w = do {
     (r, h, m', mem', s') \<leftarrow> pop free_node_memory (orders w) (reading clk (ticks w)) (bbids ob) (mm w, bmem ob, stats w);
     Some (ob\<lparr>bbids := h, bmem := mem'\<rparr>, w\<lparr>mm := m', stats := s', ticks := ticks w + 1\<rparr>) }"

definition pop_asks :: "(nat \<Rightarrow> int) \<Rightarrow> OrderBook \<Rightarrow> world \<Rightarrow> (OrderBook \<times> world) option" where
  "pop_asks clk ob w = do {
     (r, h, m', mem', s') \<leftarrow> pop free_node_memory (orders w) (reading clk (ticks w)) (basks ob) (mm w, bmem ob, stats w);
     Some (ob\<lparr>basks := h, bmem := mem'\<rparr>, w\<lparr>mm := m', stats := s', ticks := ticks w + 1\<rparr>) }"

text \<open>\<open>printf\<close> and \<open>fprintf\<close> of the same line, after one clock reading.\<close>

definition report :: "trade_event \<Rightarrow> world \<Rightarrow> world" where
  "report ev w = w\<lparr>ticks := ticks w + 1, stdout := stdout w @ [TradeLine ev], results := results w @ [ev]\<rparr>"

text \<open>\<open>stats->total_trades++\<close>, \<open>stats->total_writes++\<close> where present, and \<open>fclose\<close>.\<close>

definition count_trade :: "int \<Rightarrow> world \<Rightarrow> world" where
  "count_trade writes w = w\<lparr>stats := (stats w)\<lparr>total_trades := total_trades (stats w) + 1,
       total_writes := total_writes (stats w) + writes\<rparr>, open_files := open_files w - 1\<rparr>"

definition check_for_trade_multi ::
  "(nat \<Rightarrow> int) \<Rightarrow> (nat \<Rightarrow> bool) \<Rightarrow> OrderBook \<Rightarrow> world \<Rightarrow> (check_result \<times> OrderBook \<times> world) option" where
  "check_for_trade_multi clk fopen_ok ob w0 =
     (if \<not> fopen_ok (open_files w0) then Some (ExitFailure, ob, w0)
      else
        let w = w0\<lparr>open_files := open_files w0 + 1\<rparr> in
        if hsize (basks ob) = 0 \<or> hsize (bbids ob) = 0 then Some (NoTrade, ob, w)
        else do {
          (s1, ask_frame) \<leftarrow> translate (bmem ob) 0 (stats w);
          (s2, bid_frame) \<leftarrow> translate (bmem ob) 0 s1;
          bid \<leftarrow> peek (bbids ob);
          ask \<leftarrow> peek (basks ob);
          let w1 = w\<lparr>stats := s2\<lparr>total_reads := total_reads s2 + 2\<rparr>\<rparr>;
              st = orders w1; ts = reading clk (ticks w1);
              ba = amount (st bid); aa = amount (st ask);
              sym' = bsymbol ob; p = price (st bid) in
          if p \<ge> price (st ask) then
            (if ba = aa then do {
               (ob1, w2) \<leftarrow> pop_bids clk ob (report (TradeExecuted ts ba sym' p) w1);
               (ob2, w3) \<leftarrow> pop_asks clk ob1 w2;
               Some (Traded, ob2, count_trade 0 w3) }
             else if ba > aa then do {
               let w2 = report (BidRemains ts aa sym' p (ba - aa)) w1;
               st' \<leftarrow> update (bbids ob) (orders w2) (ba - aa);
               (ob1, w3) \<leftarrow> pop_asks clk ob (w2\<lparr>orders := st'\<rparr>);
               Some (Traded, ob1, count_trade 1 w3) }
             else do {
               let w2 = report (AskRemains ts ba sym' p (aa - ba)) w1;
               st' \<leftarrow> update (basks ob) (orders w2) (aa - ba);
               (ob1, w3) \<leftarrow> pop_bids clk ob (w2\<lparr>orders := st'\<rparr>);
               Some (Traded, ob1, count_trade 1 w3) })
          else Some (NoTrade, ob, w1\<lparr>open_files := open_files w1 - 1\<rparr>) })"

text \<open>\<open>print_sim_stats\<close>: the values it prints, per book and in total.\<close>

record book_report =
  rep_symbol :: string
  rep_trades :: int
  rep_asks :: nat
  rep_bids :: nat
  rep_pages :: nat

record sim_report =
  rep_books :: "book_report list"
  rep_ov_accesses :: int
  rep_ov_usage :: nat
  rep_ov_max :: int
  rep_penalty :: int
  rep_rejects :: int
  rep_total_trades :: int
  rep_reads :: int
  rep_writes :: int
  rep_cycles :: int

definition print_sim_stats :: "Exchange \<Rightarrow> MemoryManager \<Rightarrow> SimStats \<Rightarrow> sim_report" where
  "print_sim_stats ex m s =
     \<lparr>rep_books = map (\<lambda>ob. \<lparr>rep_symbol = bsymbol ob, rep_trades = btrades ob,
        rep_asks = hsize (basks ob), rep_bids = hsize (bbids ob), rep_pages = page_count (bmem ob)\<rparr>) (books ex),
      rep_ov_accesses = overflow_accesses s,
      rep_ov_usage = ov_cnt (overflow m),
      rep_ov_max = overflow_max s,
      rep_penalty = overflow_accesses s * (PAGE_WALK_CYCLES + OVERFLOW_PENALTY_CYCLES),
      rep_rejects = mm_hard_rejects m,
      rep_total_trades = total_trades s,
      rep_reads = total_reads s,
      rep_writes = total_writes s,
      rep_cycles = total_cycles s\<rparr>"

end
