(* ===== verification/Page_Table.thy ===== *)
theory Page_Table
  imports Order_Book
begin

text \<open>
  The memory invariant of the simulator and its preservation by the operations of
  \<open>mmu.h\<close>: every frame is free or owned by exactly one symbol, a symbol's page list holds
  exactly the frames it owns, all its pages but the last are full, and the last one holds
  \<open>nodes_in_curr_page\<close> nodes.
\<close>

section \<open>The invariant\<close>

definition owner :: "MemoryManager \<Rightarrow> nat \<Rightarrow> int" where
  "owner m f = owner_symbol (frames m ! f)"

definition nodes :: "MemoryManager \<Rightarrow> nat \<Rightarrow> int" where
  "nodes m f = node_count (frames m ! f)"

definition mem_rep :: "SymbolMemory \<Rightarrow> nat list \<Rightarrow> bool" where
  "mem_rep mem ps \<longleftrightarrow> page_count mem = length ps \<and> holds_prefix (virtual_pages mem) (map int ps) \<and>
     length (virtual_pages mem) = MAX_PAGES_PER_SYMBOL"

definition pages_ok :: "MemoryManager \<Rightarrow> int \<Rightarrow> nat list \<Rightarrow> nat \<Rightarrow> bool" where
  "pages_ok m k ps n \<longleftrightarrow> distinct ps \<and> set ps = {f. f < MAX_PAGES \<and> owner m f = k} \<and>
     (\<forall>f \<in> set (butlast ps). nodes m f = int PAGE_SIZE) \<and>
     (if ps = [] then n = 0 else 0 < n \<and> n \<le> PAGE_SIZE \<and> nodes m (last ps) = int n)"

definition mem_ok :: "MemoryManager \<Rightarrow> int \<Rightarrow> SymbolMemory \<Rightarrow> bool" where
  "mem_ok m k mem \<longleftrightarrow> (\<exists>ps. mem_rep mem ps \<and> pages_ok m k ps (nodes_in_curr_page mem))"

definition frames_ok :: "MemoryManager \<Rightarrow> nat \<Rightarrow> bool" where
  "frames_ok m n \<longleftrightarrow> mm_wf m \<and> ov_cnt (overflow m) \<le> OVERFLOW_PAGE_SIZE \<and>
     (\<forall>f < MAX_PAGES. (f \<in> free_set m \<longleftrightarrow> owner m f = -1) \<and> (owner m f = -1 \<longrightarrow> nodes m f = 0) \<and>
        -1 \<le> owner m f \<and> owner m f < int n)"

definition mem_inv :: "MemoryManager \<Rightarrow> SymbolMemory list \<Rightarrow> bool" where
  "mem_inv m mems \<longleftrightarrow> frames_ok m (length mems) \<and> (\<forall>k < length mems. mem_ok m (int k) (mems ! k))"

lemma mem_inv_rep: "mem_inv m mems \<Longrightarrow> k < length mems \<Longrightarrow> \<exists>ps. mem_rep (mems ! k) ps"
  by (auto simp: mem_inv_def mem_ok_def)

section \<open>Effects of the primitive updates\<close>

lemma owner_nodes_set_frame:
  "mm_wf m \<Longrightarrow> f < MAX_PAGES \<Longrightarrow> owner (set_frame m f o' n) g = (if g = f then o' else owner m g)"
  "mm_wf m \<Longrightarrow> f < MAX_PAGES \<Longrightarrow> nodes (set_frame m f o' n) g = (if g = f then n else nodes m g)"
  by (auto simp: owner_def nodes_def set_frame_def mm_wf_def nth_list_update)

lemma owner_nodes_bits [simp]:
  "owner (clear_free_bit m i) g = owner m g" "nodes (clear_free_bit m i) g = nodes m g"
  "owner (set_free_bit m i) g = owner m g" "nodes (set_free_bit m i) g = nodes m g"
  by (simp_all add: owner_def nodes_def clear_free_bit_def set_free_bit_def)

lemma overflow_updates [simp]:
  "overflow (clear_free_bit m i) = overflow m" "overflow (set_free_bit m i) = overflow m"
  "overflow (set_frame m f o' n) = overflow m"
  by (simp_all add: clear_free_bit_def set_free_bit_def set_frame_def)

lemma overflow_irrelevant [simp]:
  "owner (m\<lparr>overflow := ov\<rparr>) g = owner m g" "nodes (m\<lparr>overflow := ov\<rparr>) g = nodes m g"
  "mm_wf (m\<lparr>overflow := ov\<rparr>) = mm_wf m" "free_set (m\<lparr>overflow := ov\<rparr>) = free_set m"
  "owner (m\<lparr>mm_hard_rejects := r\<rparr>) g = owner m g" "nodes (m\<lparr>mm_hard_rejects := r\<rparr>) g = nodes m g"
  "mm_wf (m\<lparr>mm_hard_rejects := r\<rparr>) = mm_wf m" "free_set (m\<lparr>mm_hard_rejects := r\<rparr>) = free_set m"
  by (simp_all add: owner_def nodes_def mm_wf_def free_set_def)

lemma set_node_count_ok:
  assumes "mm_wf m" "f < MAX_PAGES"
  obtains m' where "set_node_count m f n = Some m'" "mm_wf m'" "free_set m' = free_set m"
    "overflow m' = overflow m" "\<And>g. owner m' g = owner m g"
    "\<And>g. nodes m' g = (if g = f then n else nodes m g)"
  using assms that
  by (simp add: set_node_count_def mm_wf_def free_set_def owner_def nodes_def nth_list_update)

lemma add_node_count_eq: "add_node_count m f d = set_node_count m f (nodes m f + d)"
  by (simp add: add_node_count_def set_node_count_def nodes_def)

lemma get_node_count_eq: "mm_wf m \<Longrightarrow> f < MAX_PAGES \<Longrightarrow> get_node_count m f = Some (nodes m f)"
  by (simp add: get_node_count_def nodes_def mm_wf_def)

lemma mem_rep_pages_unique: "mem_rep mem ps \<Longrightarrow> mem_rep mem qs \<Longrightarrow> ps = qs"
  by (auto simp: mem_rep_def holds_prefix_def inj_on_def dest!: map_injective [rotated])

lemma mem_rep_limit: "mem_rep mem ps \<Longrightarrow> length ps \<le> MAX_PAGES_PER_SYMBOL"
  using holds_prefix_length [of "virtual_pages mem" "map int ps"] by (simp add: mem_rep_def)

lemma translate_last:
  assumes "mem_rep mem ps" "ps \<noteq> []"
  shows "translate mem (int (page_count mem) - 1) s =
    Some (s\<lparr>total_cycles := total_cycles s + PAGE_WALK_CYCLES\<rparr>, int (last ps))"
proof -
  have "nat (int (length ps) - 1) = length ps - 1" by simp
  moreover have "array_read (virtual_pages mem) (length ps - 1) = Some (int (last ps))"
    using assms array_read_prefix [of "virtual_pages mem" "map int ps" "length ps - 1"]
    by (simp add: mem_rep_def last_conv_nth)
  ultimately show ?thesis using assms by (simp add: translate_def mem_rep_def Suc_le_eq)
qed

lemma translate_first:
  assumes "mem_rep mem ps"
  shows "translate mem 0 s =
    Some (s\<lparr>total_cycles := total_cycles s + PAGE_WALK_CYCLES\<rparr>, if ps = [] then -1 else int (hd ps))"
  using assms by (auto simp: translate_def mem_rep_def array_simps hd_conv_nth)

text \<open>A symbol's pages are untouched by changes of frames it does not own.\<close>

lemma mem_ok_frame:
  assumes "mem_ok m k mem"
    and "\<And>f. f < MAX_PAGES \<Longrightarrow> owner m' f = k \<longleftrightarrow> owner m f = k"
    and "\<And>f. f < MAX_PAGES \<Longrightarrow> owner m f = k \<Longrightarrow> nodes m' f = nodes m f"
  shows "mem_ok m' k mem"
proof -
  obtain ps where ps: "mem_rep mem ps" "pages_ok m k ps (nodes_in_curr_page mem)"
    using assms(1) by (auto simp: mem_ok_def)
  have owned: "set ps = {f. f < MAX_PAGES \<and> owner m f = k}" using ps(2) by (simp add: pages_ok_def)
  then have same: "nodes m' f = nodes m f" if "f \<in> set ps" for f using assms(3) that by auto
  have "set ps = {f. f < MAX_PAGES \<and> owner m' f = k}" using owned assms(2) by auto
  moreover have "\<forall>f \<in> set (butlast ps). nodes m' f = int PAGE_SIZE"
  proof
    fix f
    assume f: "f \<in> set (butlast ps)"
    then show "nodes m' f = int PAGE_SIZE"
      using ps(2) same [OF in_set_butlastD [OF f]] by (simp add: pages_ok_def)
  qed
  ultimately have "pages_ok m' k ps (nodes_in_curr_page mem)"
    using ps(2) same [OF last_in_set] by (simp add: pages_ok_def)
  with ps(1) show ?thesis by (auto simp: mem_ok_def)
qed

text \<open>A change made on behalf of symbol \<open>k\<close> alone.\<close>

lemma mem_inv_update:
  assumes inv: "mem_inv m mems" and k: "k < length mems"
    and ok: "frames_ok m' (length mems)" "mem_ok m' (int k) mem'"
    and others: "\<And>f. f < MAX_PAGES \<Longrightarrow> owner m f \<noteq> int k \<Longrightarrow> owner m' f \<noteq> int k \<Longrightarrow>
      owner m' f = owner m f \<and> nodes m' f = nodes m f"
    and moved: "\<And>f. f < MAX_PAGES \<Longrightarrow> owner m f = int k \<Longrightarrow> owner m' f = int k \<or> owner m' f = -1"
      "\<And>f. f < MAX_PAGES \<Longrightarrow> owner m' f = int k \<Longrightarrow> owner m f = int k \<or> owner m f = -1"
  shows "mem_inv m' (mems[k := mem'])"
proof -
  have "mem_ok m' (int j) (mems ! j)" if "j < length mems" "j \<noteq> k" for j
  proof (rule mem_ok_frame)
    show "mem_ok m (int j) (mems ! j)" using inv that(1) by (simp add: mem_inv_def)
    fix f
    assume f: "f < MAX_PAGES"
    then show "owner m' f = int j \<longleftrightarrow> owner m f = int j"
      using others [OF f] moved(1) [OF f] moved(2) [OF f] that(2)
      by (cases "owner m f = int k"; cases "owner m' f = int k") auto
    assume "owner m f = int j"
    then show "nodes m' f = nodes m f"
      using others [OF f] moved(2) [OF f] that(2) by auto
  qed
  then show ?thesis using ok k by (auto simp: mem_inv_def nth_list_update)
qed


section \<open>Inserting an order\<close>

lemma push_order_mem:
  "push_order st ob r = Some ob' \<Longrightarrow> bmem ob' = bmem ob \<and> bsymbol ob' = bsymbol ob \<and> btrades ob' = btrades ob"
  by (auto simp: push_order_def bind_eq_Some_iff split: if_splits)

lemma insert_in_page_inv:
  assumes inv: "mem_inv (mm w) mems" and k: "k < length mems" "bmem ob = mems ! k"
    and room: "0 < page_count (bmem ob)" "nodes_in_curr_page (bmem ob) < PAGE_SIZE"
    and res: "insert_in_page ob r w = Some (b, ob', w')"
  shows "b \<and> mem_inv (mm w') (mems[k := bmem ob'])"
proof -
  obtain ps where ps: "mem_rep (bmem ob) ps" "pages_ok (mm w) (int k) ps (nodes_in_curr_page (bmem ob))"
    using inv k by (auto simp: mem_inv_def mem_ok_def)
  have fok: "frames_ok (mm w) (length mems)" and wf: "mm_wf (mm w)"
    using inv by (auto simp: mem_inv_def frames_ok_def)
  have ne: "ps \<noteq> []" using room ps(1) by (auto simp: mem_rep_def)
  then have own: "last ps < MAX_PAGES" "owner (mm w) (last ps) = int k"
    using ps(2) last_in_set [OF ne] by (auto simp: pages_ok_def)
  obtain m' where m': "add_node_count (mm w) (last ps) 1 = Some m'" "mm_wf m'" "free_set m' = free_set (mm w)"
      "overflow m' = overflow (mm w)" "\<And>g. owner m' g = owner (mm w) g"
      "\<And>g. nodes m' g = (if g = last ps then nodes (mm w) (last ps) + 1 else nodes (mm w) g)"
    using set_node_count_ok [OF wf own(1)] by (metis add_node_count_eq)
  from res have r: "b" "mm w' = m'" "bmem ob' = (bmem ob)\<lparr>nodes_in_curr_page := nodes_in_curr_page (bmem ob) + 1\<rparr>"
    using m'(1) translate_last [OF ps(1) ne]
    by (auto simp: insert_in_page_def bind_eq_Some_iff dest!: push_order_mem)
  have d: "f \<noteq> last ps" if "f \<in> set (butlast ps)" for f
    using ps(2) that ne by (metis append_butlast_last_id distinct_append pages_ok_def disjoint_iff list.set_intros(1))
  have "mem_rep (bmem ob') ps" using ps(1) r(3) by (simp add: mem_rep_def)
  moreover have "pages_ok m' (int k) ps (nodes_in_curr_page (bmem ob'))"
    using ps(2) ne room r(3) d by (simp add: pages_ok_def m'(5,6))
  ultimately have ok: "mem_ok m' (int k) (bmem ob')" by (auto simp: mem_ok_def)
  have "frames_ok m' (length mems)"
    using fok own(2) m'(2) by (auto simp: frames_ok_def m'(3,4,5,6))
  then have "mem_inv m' (mems[k := bmem ob'])"
    using ok own(2) by (intro mem_inv_update [OF inv k(1)]) (auto simp: m'(5,6))
  with r show ?thesis by simp
qed

lemma insert_new_page_inv:
  assumes inv: "mem_inv (mm w) mems" and k: "k < length mems" "bmem ob = mems ! k"
    and full: "page_count (bmem ob) = 0 \<or> nodes_in_curr_page (bmem ob) = PAGE_SIZE"
    and alloc: "allocate_frame (mm w) (int k) = (m, frame)" "frame \<ge> 0"
    and res: "insert_new_page ob r frame m w = Some (b, ob', w')"
  shows "b \<and> mem_inv (mm w') (mems[k := bmem ob'])"
proof -
  obtain ps where ps: "mem_rep (bmem ob) ps" "pages_ok (mm w) (int k) ps (nodes_in_curr_page (bmem ob))"
    using inv k by (auto simp: mem_inv_def mem_ok_def)
  have fok: "frames_ok (mm w) (length mems)" and wf: "mm_wf (mm w)"
    using inv by (auto simp: mem_inv_def frames_ok_def)
  have ne: "free_set (mm w) \<noteq> {}" using alloc by (auto simp: allocate_frame_eq)
  define f where "f = Min (free_set (mm w))"
  have f: "f \<in> free_set (mm w)" "f < MAX_PAGES"
    using Min_free_set [OF ne] by (auto simp: f_def free_set_def)
  have m: "m = set_frame (clear_free_bit (mm w) f) f (int k) 0" "frame = int f"
    using alloc(1) ne by (auto simp: allocate_frame_eq f_def Let_def)
  have wfm: "mm_wf m" using wf m by simp
  obtain m' where m': "set_node_count m f 1 = Some m'" "mm_wf m'" "free_set m' = free_set m"
      "overflow m' = overflow m" "\<And>g. owner m' g = owner m g" "\<And>g. nodes m' g = (if g = f then 1 else nodes m g)"
    using set_node_count_ok [OF wfm f(2)] by metis
  have eff: "\<And>g. owner m' g = (if g = f then int k else owner (mm w) g)"
      "\<And>g. nodes m' g = (if g = f then 1 else nodes (mm w) g)" "free_set m' = free_set (mm w) - {f}"
      "overflow m' = overflow (mm w)"
    using wf f(2) m' by (auto simp: m(1) owner_nodes_set_frame free_set_clear)
  have free_f: "owner (mm w) f = -1" using fok f by (simp add: frames_ok_def)
  obtain vp where vp: "array_write (virtual_pages (bmem ob)) (page_count (bmem ob)) frame = Some vp"
      "mm w' = m'" "b" "bmem ob' = \<lparr>virtual_pages = vp, page_count = page_count (bmem ob) + 1, nodes_in_curr_page = 1\<rparr>"
    using res m'(1) m(2) by (auto simp: insert_new_page_def bind_eq_Some_iff dest!: push_order_mem)
  have lt: "length ps < length (virtual_pages (bmem ob))" "vp = (virtual_pages (bmem ob))[length ps := Some (int f)]"
    using vp(1) ps(1) m(2) by (auto simp: array_write_def mem_rep_def split: if_splits)
  have "mem_rep (bmem ob') (ps @ [f])"
    using ps(1) lt vp(4) holds_prefix_snoc [of "virtual_pages (bmem ob)" "map int ps" "int f"]
    by (simp add: mem_rep_def)
  moreover have "pages_ok m' (int k) (ps @ [f]) 1"
  proof -
    have notin: "f \<notin> set ps" using ps(2) free_f by (auto simp: pages_ok_def)
    have "\<forall>g \<in> set ps. nodes (mm w) g = int PAGE_SIZE"
    proof (cases "ps = []")
      case False
      then have "nodes_in_curr_page (bmem ob) = PAGE_SIZE" using full ps(1) by (auto simp: mem_rep_def)
      then show ?thesis
        using ps(2) False by (metis append_butlast_last_id pages_ok_def rotate1.simps(2) set_ConsD set_rotate1)
    qed simp
    then show ?thesis
      using ps(2) notin f(2) by (auto simp: pages_ok_def eff PAGE_SIZE_def)
  qed
  ultimately have ok: "mem_ok m' (int k) (bmem ob')" using vp(4) by (auto simp: mem_ok_def)
  have "frames_ok m' (length mems)"
    using fok f k(1) m'(2) by (auto simp: frames_ok_def eff)
  then have "mem_inv m' (mems[k := bmem ob'])"
    using ok free_f by (intro mem_inv_update [OF inv k(1)]) (auto simp: eff split: if_splits)
  with vp show ?thesis by simp
qed


lemma mem_inv_same:
  assumes inv: "mem_inv m mems" and "k < length mems" "mem = mems ! k"
    and "\<And>f. owner m' f = owner m f" "\<And>f. nodes m' f = nodes m f" "free_set m' = free_set m" "mm_wf m' = mm_wf m"
    and "ov_cnt (overflow m') \<le> OVERFLOW_PAGE_SIZE"
  shows "mem_inv m' (mems[k := mem])"
proof -
  have "frames_ok m' (length mems)" using assms by (simp add: mem_inv_def frames_ok_def)
  moreover have "mem_ok m' (int j) (mems ! j)" if "j < length mems" for j
    by (rule mem_ok_frame [of m]) (use assms that in \<open>auto simp: mem_inv_def\<close>)
  ultimately show ?thesis using assms(2,3) by (simp add: mem_inv_def)
qed

text \<open>Whatever branch it takes, \<open>mem_aware_insert\<close> keeps the memory invariant.\<close>

lemma mem_aware_insert_inv:
  assumes inv: "mem_inv (mm w) mems" and k: "k < length mems" "bmem ob = mems ! k"
    and res: "mem_aware_insert ob r (int k) w = Some (b, ob', w')"
  shows "mem_inv (mm w') (mems[k := bmem ob'])"
proof (cases "page_count (bmem ob) > 0 \<and> nodes_in_curr_page (bmem ob) < PAGE_SIZE")
  case True
  then show ?thesis using insert_in_page_inv [OF inv k] res by (auto simp: mem_aware_insert_def)
next
  case False
  obtain ps where ps: "mem_rep (bmem ob) ps" "pages_ok (mm w) (int k) ps (nodes_in_curr_page (bmem ob))"
    using inv k by (auto simp: mem_inv_def mem_ok_def)
  then have full: "page_count (bmem ob) = 0 \<or> nodes_in_curr_page (bmem ob) = PAGE_SIZE"
    using False by (auto simp: mem_rep_def pages_ok_def)
  obtain m frame where mf: "(if page_count (bmem ob) < MAX_PAGES_PER_SYMBOL
      then allocate_frame (mm w) (int k) else (mm w, -1)) = (m, frame)"
    by force
  show ?thesis
  proof (cases "frame \<ge> 0")
    case True
    then have "allocate_frame (mm w) (int k) = (m, frame)" using mf by (auto split: if_splits)
    then show ?thesis
      using insert_new_page_inv [OF inv k full _ True] res False mf True
      by (auto simp: mem_aware_insert_def)
  next
    case neg: False
    have ov: "ov_cnt (overflow (mm w)) \<le> OVERFLOW_PAGE_SIZE" using inv by (simp add: mem_inv_def frames_ok_def)
    have res': "(if ov_cnt (overflow (mm w)) < OVERFLOW_PAGE_SIZE then insert_overflow ob r w
        else Some (hard_reject ob r w)) = Some (b, ob', w')"
      using res False mf neg unfolding mem_aware_insert_def by simp
    have mem: "bmem ob' = mems ! k"
      using res' k(2) by (auto simp: insert_overflow_def hard_reject_def bind_eq_Some_iff Let_def
          split: if_splits dest!: push_order_mem)
    show ?thesis
      using res' ov by (intro mem_inv_same [OF inv k(1) mem])
        (auto simp: insert_overflow_def hard_reject_def bind_eq_Some_iff Let_def split: if_splits)
  qed
qed

section \<open>Releasing a node\<close>

lemma release_node_inv:
  assumes inv: "mem_inv m mems" and k: "k < length mems"
  obtains m' mem' s' where "release_node (m, mems ! k, s) = Some (m', mem', s')"
    "mem_inv m' (mems[k := mem'])" "overflow m' = overflow m"
proof -
  let ?mem = "mems ! k"
  obtain ps where ps: "mem_rep ?mem ps" "pages_ok m (int k) ps (nodes_in_curr_page ?mem)"
    using inv k by (auto simp: mem_inv_def mem_ok_def)
  have fok: "frames_ok m (length mems)" and wf: "mm_wf m"
    using inv by (auto simp: mem_inv_def frames_ok_def)
  show thesis
  proof (cases "ps = []")
    case True
    then have "release_node (m, ?mem, s) = Some (m, ?mem, s)" using ps by (simp add: release_node_def pages_ok_def)
    then show ?thesis using that inv by simp
  next
    case ne: False
    let ?n = "nodes_in_curr_page ?mem" and ?f = "last ps"
    let ?mem1 = "?mem\<lparr>nodes_in_curr_page := ?n - 1\<rparr>"
    have n: "0 < ?n" "?n \<le> PAGE_SIZE" "nodes m ?f = int ?n" "0 < page_count ?mem" "page_count ?mem = length ps"
      using ps ne by (auto simp: pages_ok_def mem_rep_def)
    have own: "?f < MAX_PAGES" "owner m ?f = int k" using ps(2) last_in_set [OF ne] by (auto simp: pages_ok_def)
    have rep1: "mem_rep ?mem1 ps" using ps(1) by (simp add: mem_rep_def)
    note tr = translate_last [OF rep1 ne, simplified]
    obtain m1 where m1: "add_node_count m ?f (-1) = Some m1" "mm_wf m1" "free_set m1 = free_set m"
        "overflow m1 = overflow m" "\<And>g. owner m1 g = owner m g"
        "\<And>g. nodes m1 g = (if g = ?f then int ?n - 1 else nodes m g)"
      using set_node_count_ok [OF wf own(1), of "int ?n - 1"] n(3) by (auto simp: add_node_count_eq)
    have gn: "get_node_count m1 ?f = Some (int ?n - 1)"
      using get_node_count_eq [OF m1(2) own(1)] by (simp add: m1(6))
    have d: "distinct ps" "ps = butlast ps @ [?f]" "?f \<notin> set (butlast ps)"
      using ps(2) ne by (auto simp: pages_ok_def) (metis append_butlast_last_id distinct_append disjoint_iff list.set_intros(1))
    show ?thesis
    proof (cases "?n = 1")
      case False
      have "release_node (m, ?mem, s) = Some (m1, ?mem1, s\<lparr>total_cycles := total_cycles s + PAGE_WALK_CYCLES\<rparr>)"
        using n False tr m1(1) gn by (simp add: release_node_def Let_def)
      moreover have "mem_inv m1 (mems[k := ?mem1])"
      proof (rule mem_inv_update [OF inv k])
        show "frames_ok m1 (length mems)"
          using fok own(2) m1(2) by (auto simp: frames_ok_def m1(3,4,5,6))
        have "pages_ok m1 (int k) ps (?n - 1)"
          using ps(2) ne n False d(3) by (auto simp: pages_ok_def m1(5,6))
        then show "mem_ok m1 (int k) ?mem1" using rep1 by (auto simp: mem_ok_def)
      qed (use own in \<open>auto simp: m1(5,6)\<close>)
      ultimately show ?thesis using that m1(4) by simp
    next
      case True
      define m2 where "m2 = set_frame (set_free_bit m1 ?f) ?f (-1) 0"
      define mem2 where "mem2 = ?mem1\<lparr>page_count := page_count ?mem - 1,
        nodes_in_curr_page := (if page_count ?mem - 1 > 0 then PAGE_SIZE else 0)\<rparr>"
      have eff: "\<And>g. owner m2 g = (if g = ?f then -1 else owner m g)"
          "\<And>g. nodes m2 g = (if g = ?f then 0 else nodes m g)" "free_set m2 = insert ?f (free_set m)"
          "overflow m2 = overflow m" "mm_wf m2"
        using m1 own(1) by (auto simp: m2_def owner_nodes_set_frame free_set_set)
      have "release_node (m, ?mem, s) = Some (m2, mem2, s\<lparr>total_cycles := total_cycles s + PAGE_WALK_CYCLES + PAGE_WALK_CYCLES\<rparr>)"
        using n True tr m1(1) gn own(1)
        by (simp add: release_node_def Let_def free_frame_def release_frame_def m2_def mem2_def)
      moreover have "mem_inv m2 (mems[k := mem2])"
      proof (rule mem_inv_update [OF inv k])
        show "frames_ok m2 (length mems)" using fok eff(5) by (auto simp: frames_ok_def eff(1-4))
        have "mem_rep mem2 (butlast ps)"
          using rep1 holds_prefix_butlast [of "virtual_pages ?mem1" "map int ps"]
          by (simp add: mem_rep_def mem2_def map_butlast)
        moreover have "pages_ok m2 (int k) (butlast ps) (nodes_in_curr_page mem2)"
        proof -
          have set_ps: "set ps = insert ?f (set (butlast ps))" using d(2) by (metis list.simps(15) rotate1.simps(2) set_rotate1)
          have full: "\<forall>g \<in> set (butlast ps). nodes m g = int PAGE_SIZE" "set ps = {f. f < MAX_PAGES \<and> owner m f = int k}"
            using ps(2) by (auto simp: pages_ok_def)
          have "set (butlast ps) = {f. f < MAX_PAGES \<and> owner m2 f = int k}"
            using set_ps full(2) d(3) by (auto simp: eff(1))
          moreover have "\<forall>g \<in> set (butlast ps). nodes m2 g = int PAGE_SIZE" using full(1) d(3) by (auto simp: eff(2))
          moreover have "distinct (butlast ps)" using d(1) by (rule distinct_butlast)
          moreover have "butlast ps = [] \<longleftrightarrow> page_count ?mem - 1 = 0" using n(5) by (cases ps) auto
          ultimately show ?thesis
            by (auto simp: pages_ok_def mem2_def PAGE_SIZE_def dest: in_set_butlastD)
        qed
        ultimately show "mem_ok m2 (int k) mem2" by (auto simp: mem_ok_def)
      qed (use own in \<open>auto simp: eff split: if_splits\<close>)
      ultimately show ?thesis using that eff(4) by simp
    qed
  qed
qed


section \<open>Start and new symbols\<close>

lemma mem_inv_init: "mem_inv create_memory_manager []"
proof -
  have "free_set create_memory_manager = {..<MAX_PAGES}"
  proof -
    have "bit (replicate BITMAP_WORDS (NOT 0 :: u64) ! (i div 64)) (i mod 64)" if "i < MAX_PAGES" for i
    proof -
      have "i div 64 < BITMAP_WORDS" using that by (simp add: mmu_consts)
      then show ?thesis by (simp add: bit_simps)
    qed
    then show ?thesis by (auto simp: free_set_def create_memory_manager_def)
  qed
  then show ?thesis
    by (simp add: mem_inv_def frames_ok_def mm_wf_def owner_def nodes_def create_memory_manager_def)
qed

definition empty_mem :: SymbolMemory where
  "empty_mem = \<lparr>virtual_pages = replicate MAX_PAGES_PER_SYMBOL None, page_count = 0, nodes_in_curr_page = 0\<rparr>"

lemma mem_inv_snoc:
  assumes "mem_inv m mems"
  shows "mem_inv m (mems @ [empty_mem])"
proof -
  have "pages_ok m (int (length mems)) [] 0"
    using assms by (auto simp: pages_ok_def mem_inv_def frames_ok_def)
  moreover have "mem_rep empty_mem []" by (simp add: mem_rep_def empty_mem_def)
  ultimately have "mem_ok m (int (length mems)) empty_mem" by (auto simp: mem_ok_def empty_mem_def)
  moreover have "frames_ok m (Suc (length mems))"
    using assms by (force simp: mem_inv_def frames_ok_def)
  ultimately show ?thesis using assms by (auto simp: mem_inv_def nth_append less_Suc_eq)
qed

section \<open>Properties\<close>

text \<open>A fresh world and the memory of one empty book, for the instances below.\<close>

definition sample_world :: world where
  "sample_world = \<lparr>orders = sample_store, next_ref = 8, mm = create_memory_manager,
     stats = \<lparr>total_trades = 0, total_reads = 0, total_writes = 0, overflow_accesses = 0,
       st_hard_rejects = 0, hazards = 0, overflow_max = 0, total_cycles = 0\<rparr>,
     ticks = 0, open_files = 0, stdout = [], results = []\<rparr>"

lemma sample_world_mem:
  "mem_inv (mm sample_world) [empty_mem]" "bmem (create_order_book symbol) = [empty_mem] ! 0"
  using mem_inv_snoc [OF mem_inv_init] by (simp_all add: sample_world_def create_order_book_def empty_mem_def)

text \<open>
  C9: Inserting an order keeps the memory invariant, wherever the order goes: into the
  current page, a new page, the overflow page, or nowhere. Frames stay owned by one symbol, page
  lists match the ownership, and node counts match the pages.
\<close>

theorem insert_keeps_memory:
  assumes "mem_inv (mm w) mems" "k < length mems" "bmem ob = mems ! k"
    and "mem_aware_insert ob r (int k) w = Some (b, ob', w')"
  shows "mem_inv (mm w') (mems[k := bmem ob'])"
  using assms by (rule mem_aware_insert_inv)

theorem insert_keeps_memory_witness:
  "\<exists>b ob' w'. mem_aware_insert (create_order_book ''AAA'') 2 0 sample_world = Some (b, ob', w') \<and>
     mem_inv (mm w') [bmem ob']"
proof -
  have "mem_aware_insert (create_order_book ''AAA'') 2 0 sample_world \<noteq> None" by code_simp
  then obtain b ob' w' where i: "mem_aware_insert (create_order_book ''AAA'') 2 (int 0) sample_world = Some (b, ob', w')"
    by auto
  have "mem_inv (mm w') ([empty_mem][0 := bmem ob'])"
    using insert_keeps_memory [OF sample_world_mem(1) _ sample_world_mem(2) i] by simp
  then show ?thesis using i by auto
qed

text \<open>
  C10: The cleanup after a trade keeps the memory invariant and never fails: the node leaves
  the last page of the symbol, and an empty page goes back to the allocator.
\<close>

theorem cleanup_keeps_memory:
  assumes "mem_inv (mm w) mems" "k < length mems" "bmem ob = mems ! k"
  shows "\<exists>ob' w'. post_trade_cleanup ob w = Some (ob', w') \<and> mem_inv (mm w') (mems[k := bmem ob']) \<and>
    basks ob' = basks ob \<and> bbids ob' = bbids ob \<and> orders w' = orders w"
proof -
  let ?m = "if ov_cnt (overflow (mm w)) > 0
    then (mm w)\<lparr>overflow := (overflow (mm w))\<lparr>ov_cnt := ov_cnt (overflow (mm w)) - 1\<rparr>\<rparr> else mm w"
  have "mem_inv ?m (mems[k := bmem ob])"
    using assms(1) by (intro mem_inv_same [OF assms]) (auto simp: mem_inv_def frames_ok_def)
  then have "mem_inv ?m mems" using assms(2,3) by simp
  then obtain m' mem' s' where "release_node (?m, mems ! k, stats w) = Some (m', mem', s')" "mem_inv m' (mems[k := mem'])"
    using release_node_inv [OF _ assms(2)] by metis
  then show ?thesis using assms(3) by (auto simp: post_trade_cleanup_def Let_def)
qed

theorem cleanup_keeps_memory_witness:
  "\<exists>ob' w'. post_trade_cleanup (create_order_book ''AAA'') sample_world = Some (ob', w') \<and>
     mem_inv (mm w') ([empty_mem][0 := bmem ob']) \<and> basks ob' = basks (create_order_book ''AAA'') \<and>
     bbids ob' = bbids (create_order_book ''AAA'') \<and> orders w' = orders sample_world"
  by (rule cleanup_keeps_memory) (simp_all add: sample_world_mem)

end
