(* ===== verification/Book_Trading.thy ===== *)
theory Book_Trading
  imports Page_Table
begin

text \<open>
  \<open>check_for_trade_multi\<close> on a well-formed book: it implements the same trade step as
  \<open>check_for_trade\<close>, leaves the memory of the book alone, and closes the results file
  except when one side of the book is empty.
\<close>

definition market_of :: "OrderBook \<Rightarrow> world \<Rightarrow> mem_state market" where
  "market_of ob w = \<lparr>m_asks = basks ob, m_bids = bbids ob, m_orders = orders w,
     m_mem = (mm w, bmem ob, stats w), m_ticks = ticks w, m_out = []\<rparr>"

abbreviation abs_book :: "OrderBook \<Rightarrow> world \<Rightarrow> abs_market" where
  "abs_book ob w \<equiv> abs_of (market_of ob w)"

definition book_inv :: "OrderBook \<Rightarrow> world \<Rightarrow> bool" where
  "book_inv ob w \<longleftrightarrow> market_inv (market_of ob w) \<and> (\<exists>ps. mem_rep (bmem ob) ps)"

text \<open>What a call leaves unchanged apart from the heaps, the orders and the statistics.\<close>

definition same_memory :: "OrderBook \<Rightarrow> world \<Rightarrow> OrderBook \<Rightarrow> world \<Rightarrow> bool" where
  "same_memory ob w ob' w' \<longleftrightarrow> bmem ob' = bmem ob \<and> mm w' = mm w \<and> bsymbol ob' = bsymbol ob \<and>
     btrades ob' = btrades ob \<and> next_ref w' = next_ref w"

text \<open>The body of \<open>check_for_trade_multi\<close> after the file is open, over \<open>check_for_trade\<close>.\<close>

lemma check_multi_trade:
  assumes tr: "\<And>s. \<exists>f. translate (bmem ob) 0 s = Some (s\<lparr>total_cycles := total_cycles s + PAGE_WALK_CYCLES\<rparr>, f)"
    and ok: "fopen_ok (open_files w)"
    and s': "s' = (stats w)\<lparr>total_cycles := total_cycles (stats w) + PAGE_WALK_CYCLES + PAGE_WALK_CYCLES,
      total_reads := total_reads (stats w) + 2\<rparr>"
    and check: "check_for_trade free_node_memory clk (market_of ob (w\<lparr>stats := s'\<rparr>)) = Some (True, mk)"
      "m_mem mk = (mm w, bmem ob, s')"
  shows "\<exists>ob' w' ev. check_for_trade_multi clk fopen_ok ob w = Some (Traded, ob', w') \<and>
    results w' = results w @ [ev] \<and> stdout w' = stdout w @ [TradeLine ev] \<and>
    basks ob' = m_asks mk \<and> bbids ob' = m_bids mk \<and> orders w' = m_orders mk \<and> same_memory ob w ob' w' \<and>
    ev_shares ev = ev_shares (last (m_out mk)) \<and> ev_symbol ev = bsymbol ob \<and>
    ev_price ev = ev_price (last (m_out mk)) \<and> open_files w' = open_files w \<and>
    total_trades (stats w') = total_trades (stats w) + 1"
proof -
  obtain f1 f2 where tr1: "translate (bmem ob) 0 (stats w) = Some ((stats w)\<lparr>total_cycles := total_cycles (stats w) + PAGE_WALK_CYCLES\<rparr>, f1)"
    and tr2: "translate (bmem ob) 0 ((stats w)\<lparr>total_cycles := total_cycles (stats w) + PAGE_WALK_CYCLES\<rparr>)
      = Some ((stats w)\<lparr>total_cycles := total_cycles (stats w) + PAGE_WALK_CYCLES + PAGE_WALK_CYCLES\<rparr>, f2)"
    using tr [of "stats w"] tr [of "(stats w)\<lparr>total_cycles := total_cycles (stats w) + PAGE_WALK_CYCLES\<rparr>"] by auto
  note multi = check_for_trade_multi_def Let_def pop_bids_def pop_asks_def report_def count_trade_def
    same_memory_def
  from check(1) show ?thesis
  proof (cases rule: check_for_tradeE)
    case (full bid ask b a bids' asks' mem1 mem2)
    show ?thesis
      using full ok check(2) tr1 tr2
      by (cases mem1) (simp add: multi market_of_def s')
  next
    case (bid_rest bid ask a st' asks' mem1)
    show ?thesis
      using bid_rest ok check(2) tr1 tr2
      by (simp add: multi market_of_def s')
  next
    case (ask_rest bid ask b st' bids' mem1)
    show ?thesis
      using ask_rest ok check(2) tr1 tr2
      by (simp add: multi market_of_def s')
  qed
qed


lemma book_translate:
  assumes "book_inv ob w"
  shows "\<exists>f. translate (bmem ob) 0 s = Some (s\<lparr>total_cycles := total_cycles s + PAGE_WALK_CYCLES\<rparr>, f)"
  using assms translate_first by (auto simp: book_inv_def)

lemma abs_book_stats [simp]: "abs_book ob (w\<lparr>stats := s\<rparr>) = abs_book ob w"
  by (simp add: market_of_def abs_of_def)

lemma market_inv_of:
  "market_inv (market_of ob w) \<longleftrightarrow> heap_invar min_cmp ask_le (orders w) (basks ob) \<and>
     heap_invar max_cmp bid_le (orders w) (bbids ob)"
  by (simp add: market_inv_def market_of_def)

lemma abs_book_sel [simp]:
  "a_asks (abs_book ob w) = heap_contents (basks ob)" "a_bids (abs_book ob w) = heap_contents (bbids ob)"
  "a_orders (abs_book ob w) = orders w"
  by (simp_all add: abs_of_def market_of_def)

lemma market_of_sel [simp]:
  "m_asks (market_of ob w) = basks ob" "m_bids (market_of ob w) = bbids ob"
  "m_orders (market_of ob w) = orders w"
  by (simp_all add: market_of_def)

lemma check_multi_traded:
  assumes inv: "book_inv ob w" and am: "amounts_ok (abs_book ob w)" and cr: "crossed (abs_book ob w)"
    and ok: "fopen_ok (open_files w)"
  obtains ob' w' ev where "check_for_trade_multi clk fopen_ok ob w = Some (Traded, ob', w')"
    "book_inv ob' w'" "trade_step (abs_book ob w) (ev_shares ev) (abs_book ob' w')" "same_memory ob w ob' w'"
    "results w' = results w @ [ev]" "stdout w' = stdout w @ [TradeLine ev]" "ev_symbol ev = bsymbol ob"
    "open_files w' = open_files w"
proof -
  define s' where "s' = (stats w)\<lparr>total_cycles := total_cycles (stats w) + PAGE_WALK_CYCLES + PAGE_WALK_CYCLES,
      total_reads := total_reads (stats w) + 2\<rparr>"
  let ?mk = "market_of ob (w\<lparr>stats := s'\<rparr>)"
  have "market_inv ?mk" using inv by (simp add: book_inv_def market_inv_of)
  from check_for_trade_traded [OF this, of free_node_memory clk] am cr
  obtain mk' ev' where mk': "check_for_trade free_node_memory clk ?mk = Some (True, mk')" "market_inv mk'"
      "m_mem mk' = m_mem ?mk" "m_out mk' = m_out ?mk @ [ev']" "trade_step (abs_of ?mk) (ev_shares ev') (abs_of mk')"
    by auto
  have mem: "m_mem mk' = (mm w, bmem ob, s')" using mk'(3) by (simp add: market_of_def)
  from check_multi_trade [where fopen_ok = fopen_ok and w = w, OF book_translate [OF inv] ok s'_def mk'(1) mem]
  obtain ob' w' ev where r: "check_for_trade_multi clk fopen_ok ob w = Some (Traded, ob', w')"
      "results w' = results w @ [ev]" "stdout w' = stdout w @ [TradeLine ev]"
      "basks ob' = m_asks mk'" "bbids ob' = m_bids mk'" "orders w' = m_orders mk'" "same_memory ob w ob' w'"
      "ev_shares ev = ev_shares (last (m_out mk'))" "ev_symbol ev = bsymbol ob" "open_files w' = open_files w"
    by blast
  have eq: "abs_book ob' w' = abs_of mk'" using r by (simp add: abs_of_def market_of_def)
  have "book_inv ob' w'"
    using inv r(4-7) mk'(2) by (auto simp: book_inv_def market_inv_of same_memory_def market_inv_def)
  moreover have "trade_step (abs_book ob w) (ev_shares ev) (abs_book ob' w')"
    using mk'(4,5) r(8) eq by simp
  ultimately show thesis using that r by blast
qed

lemma check_multi_idle:
  assumes inv: "book_inv ob w" and nc: "\<not> crossed (abs_book ob w)" and ok: "fopen_ok (open_files w)"
  obtains w' where "check_for_trade_multi clk fopen_ok ob w = Some (NoTrade, ob, w')"
    "orders w' = orders w" "mm w' = mm w" "next_ref w' = next_ref w" "results w' = results w" "stdout w' = stdout w"
    "open_files w' = (if elems (basks ob) = [] \<or> elems (bbids ob) = []
       then open_files w + 1 else open_files w)"
proof -
  have inv': "market_inv (market_of ob w)" using inv by (simp add: book_inv_def)
  note sz = market_sizes [OF inv', unfolded market_of_def, simplified]
  show thesis
  proof (cases "elems (basks ob) = [] \<or> elems (bbids ob) = []")
    case True
    then have "check_for_trade_multi clk fopen_ok ob w = Some (NoTrade, ob, w\<lparr>open_files := open_files w + 1\<rparr>)"
      using ok sz by (auto simp: check_for_trade_multi_def)
    then show ?thesis using that True by simp
  next
    case False
    then have ne: "elems (m_asks (market_of ob w)) \<noteq> []" "elems (m_bids (market_of ob w)) \<noteq> []"
      by (auto simp: market_of_def)
    note ra = root_best_ask [OF inv' ne(1)] and rb = root_best_bid [OF inv' ne(2)]
    have lt: "\<not> price (orders w (hd (elems (basks ob)))) \<le> price (orders w (hd (elems (bbids ob))))"
      using nc crossed_iff [OF ra(2) rb(2)] by simp
    obtain f1 f2 where tr1: "translate (bmem ob) 0 (stats w) = Some ((stats w)\<lparr>total_cycles := total_cycles (stats w) + PAGE_WALK_CYCLES\<rparr>, f1)"
      and tr2: "translate (bmem ob) 0 ((stats w)\<lparr>total_cycles := total_cycles (stats w) + PAGE_WALK_CYCLES\<rparr>)
        = Some ((stats w)\<lparr>total_cycles := total_cycles (stats w) + PAGE_WALK_CYCLES + PAGE_WALK_CYCLES\<rparr>, f2)"
      using book_translate [OF inv, of "stats w"]
        book_translate [OF inv, of "(stats w)\<lparr>total_cycles := total_cycles (stats w) + PAGE_WALK_CYCLES\<rparr>"] by auto
    show ?thesis
      using ok sz False ra(1) rb(1) lt tr1 tr2
      by (intro that [of "w\<lparr>stats := (stats w)\<lparr>total_cycles := total_cycles (stats w) + PAGE_WALK_CYCLES + PAGE_WALK_CYCLES,
          total_reads := total_reads (stats w) + 2\<rparr>\<rparr>"])
        (auto simp: check_for_trade_multi_def Let_def)
  qed
qed

section \<open>Properties\<close>

text \<open>A book with one ask at $3 and one bid at $8.\<close>

definition sample_book :: OrderBook where
  "sample_book = (create_order_book ''AAA'')\<lparr>basks := sample_heap min_cmp 7, bbids := sample_heap max_cmp 2\<rparr>"

lemma sample_book_ok:
  "book_inv sample_book sample_world" "amounts_ok (abs_book sample_book sample_world)"
  "distinct_orders (abs_book sample_book sample_world)" "bmem sample_book = [empty_mem] ! 0"
proof -
  have "mem_rep empty_mem []" by (simp add: mem_rep_def empty_mem_def)
  moreover show m: "bmem sample_book = [empty_mem] ! 0" by (simp add: sample_book_def create_order_book_def empty_mem_def)
  ultimately show "book_inv sample_book sample_world"
    by (auto simp: book_inv_def market_inv_of sample_book_def sample_heap_invar)
  show "amounts_ok (abs_book sample_book sample_world)" "distinct_orders (abs_book sample_book sample_world)"
    by (simp_all add: amounts_ok_def distinct_orders_def sample_book_def sample_heap_invar sample_world_def
        sample_store_def is_short_def)
qed

text \<open>
  C15: On a well-formed book with positive amounts, \<open>check_for_trade_multi\<close> performs the same
  trade step as the single-symbol matcher, appends one line to the results file and closes
  the file; the memory of the book is untouched.
\<close>

theorem check_for_trade_multi_refines:
  assumes "book_inv ob w" "amounts_ok (abs_book ob w)" "crossed (abs_book ob w)" "fopen_ok (open_files w)"
  shows "\<exists>ob' w' ev. check_for_trade_multi clk fopen_ok ob w = Some (Traded, ob', w') \<and> book_inv ob' w' \<and>
    trade_step (abs_book ob w) (ev_shares ev) (abs_book ob' w') \<and> same_memory ob w ob' w' \<and>
    results w' = results w @ [ev] \<and> ev_symbol ev = bsymbol ob \<and> open_files w' = open_files w"
  using check_multi_traded [where fopen_ok = fopen_ok and w = w, OF assms] by metis

theorem check_for_trade_multi_refines_witness:
  "\<exists>ob' w' ev. check_for_trade_multi int (\<lambda>n. n < 100) sample_book sample_world = Some (Traded, ob', w') \<and>
    book_inv ob' w' \<and> trade_step (abs_book sample_book sample_world) (ev_shares ev) (abs_book ob' w') \<and>
    same_memory sample_book sample_world ob' w' \<and> results w' = results sample_world @ [ev] \<and>
    ev_symbol ev = bsymbol sample_book \<and> open_files w' = open_files sample_world"
proof (rule check_for_trade_multi_refines [OF sample_book_ok(1,2)])
  show "crossed (abs_book sample_book sample_world)"
    by (simp add: crossed_def best_ask_def best_bid_def sample_book_def sample_heap_invar sample_world_def
        sample_store_def ask_le_def bid_le_def)
  show "open_files sample_world < 100" by (simp add: sample_world_def)
qed

text \<open>
  When one side of a book is empty, \<open>check_for_trade_multi\<close> opens the results file and
  returns without closing it: every such call leaves one more stream open, and nothing else
  changes.
\<close>

theorem empty_side_leaks_stream:
  assumes "hsize (basks ob) = 0 \<or> hsize (bbids ob) = 0" "fopen_ok (open_files w)"
  shows "check_for_trade_multi clk fopen_ok ob w = Some (NoTrade, ob, w\<lparr>open_files := open_files w + 1\<rparr>)"
  using assms by (simp add: check_for_trade_multi_def Let_def)

end
