(* ===== verification/C_Strings.thy ===== *)
theory C_Strings
  imports Prelude
begin

text \<open>
  The parts of the C library the programs use to read text: \<open>fgets\<close>, \<open>strstr\<close>,
  \<open>strncmp\<close>, \<open>atoi\<close> and the conversions of \<open>sscanf\<close> and \<open>scanf\<close> that occur in the
  sources. A C string is the list of its characters without the terminating NUL; text holds no
  NUL character. A conversion takes the rest of the input and returns the value and what is
  left.
\<close>

definition c_isspace :: "char \<Rightarrow> bool" where
  "c_isspace c \<longleftrightarrow> c \<in> {CHR '' '', CHR 0x09, CHR 0x0A, CHR 0x0B, CHR 0x0C, CHR 0x0D}"

definition c_isdigit :: "char \<Rightarrow> bool" where
  "c_isdigit c \<longleftrightarrow> 48 \<le> (of_char c :: nat) \<and> (of_char c :: nat) \<le> 57"

definition digit_val :: "char \<Rightarrow> int" where
  "digit_val c = int (of_char c) - 48"

definition digits_val :: "string \<Rightarrow> int" where
  "digits_val ds = foldl (\<lambda>n c. n * 10 + digit_val c) 0 ds"

definition skip_ws :: "string \<Rightarrow> string" where
  "skip_ws s = dropWhile c_isspace s"

definition is_newline :: "char \<Rightarrow> bool" where
  "is_newline c \<longleftrightarrow> c = CHR 0x0A"

text \<open>
  \<open>fgets(buf, n, f)\<close> on a stream whose remaining text is \<open>s\<close>: at most \<open>n - 1\<close> characters,
  up to and including the first newline; \<open>None\<close> at the end of the file.
\<close>

fun fgets_take :: "nat \<Rightarrow> string \<Rightarrow> string \<times> string" where
  "fgets_take 0 s = ([], s)"
| "fgets_take (Suc n) [] = ([], [])"
| "fgets_take (Suc n) (c # s) =
     (if is_newline c then ([c], s) else (let (l, r) = fgets_take n s in (c # l, r)))"

definition fgets :: "nat \<Rightarrow> string \<Rightarrow> (string \<times> string) option" where
  "fgets n s = (if s = [] then None else Some (fgets_take (n - 1) s))"

lemma fgets_take_append: "fgets_take n s = (l, r) \<Longrightarrow> s = l @ r \<and> length l \<le> n"
  by (induction n s arbitrary: l r rule: fgets_take.induct) (auto split: if_splits prod.splits)

lemma fgets_take_nonempty: "0 < n \<Longrightarrow> s \<noteq> [] \<Longrightarrow> fgets_take n s = (l, r) \<Longrightarrow> l \<noteq> []"
  by (cases n; cases s) (auto split: if_splits prod.splits)

lemma fgets_shorter: "1 < n \<Longrightarrow> fgets n s = Some (l, r) \<Longrightarrow> length r < length s"
  using fgets_take_append [of "n - 1" s l r] fgets_take_nonempty [of "n - 1" s l r]
  by (auto simp: fgets_def split: if_splits)

text \<open>\<open>strstr(s, t) != NULL\<close> and \<open>strncmp(s, t, strlen(t)) == 0\<close>.\<close>

fun starts_with :: "string \<Rightarrow> string \<Rightarrow> bool" where
  "starts_with s [] = True"
| "starts_with [] (c # t) = False"
| "starts_with (d # s) (c # t) = (c = d \<and> starts_with s t)"

fun strstr :: "string \<Rightarrow> string \<Rightarrow> bool" where
  "strstr [] t = (t = [])"
| "strstr (c # s) t = (starts_with (c # s) t \<or> strstr s t)"

section \<open>Conversions\<close>

text \<open>The range of \<open>int\<close> and of \<open>unsigned\<close>; converting a number outside it is undefined.\<close>

definition is_int32 :: "int \<Rightarrow> bool" where
  "is_int32 n \<longleftrightarrow> -2147483648 \<le> n \<and> n \<le> 2147483647"

definition is_uint32 :: "int \<Rightarrow> bool" where
  "is_uint32 n \<longleftrightarrow> 0 \<le> n \<and> n \<le> 4294967295"

datatype 'a conv = Match 'a string | NoMatch | Undef

text \<open>An optionally signed decimal number after white space: sign, digits and the rest.\<close>

definition scan_number :: "string \<Rightarrow> (bool \<times> string \<times> string) option" where
  "scan_number s =
     (let t = skip_ws s;
          neg = (t \<noteq> [] \<and> hd t = CHR ''-'');
          u = (if t \<noteq> [] \<and> (hd t = CHR ''-'' \<or> hd t = CHR ''+'') then tl t else t);
          ds = takeWhile c_isdigit u in
      if ds = [] then None else Some (neg, ds, dropWhile c_isdigit u))"

definition conv_d :: "string \<Rightarrow> int conv" where
  "conv_d s = (case scan_number s of
       None \<Rightarrow> NoMatch
     | Some (neg, ds, r) \<Rightarrow>
         (let n = (if neg then - digits_val ds else digits_val ds) in
          if is_int32 n then Match n r else Undef))"

text \<open>What is left of the input when \<open>%d\<close> finds no digit: white space and a sign are consumed.\<close>

definition d_fail_rest :: "string \<Rightarrow> string" where
  "d_fail_rest s = (let t = skip_ws s in
     if t \<noteq> [] \<and> (hd t = CHR ''-'' \<or> hd t = CHR ''+'') then tl t else t)"

lemma d_fail_rest_shorter: "length (d_fail_rest s) \<le> length s"
proof -
  have "length (skip_ws s) \<le> length s" by (simp add: skip_ws_def length_dropWhile_le)
  then show ?thesis by (auto simp: d_fail_rest_def Let_def)
qed

text \<open>\<open>%u\<close> accepts a sign: a negative number is converted modulo \<open>2 ^ 32\<close>.\<close>

definition conv_u :: "string \<Rightarrow> u32 conv" where
  "conv_u s = (case scan_number s of
       None \<Rightarrow> NoMatch
     | Some (neg, ds, r) \<Rightarrow>
         (if is_uint32 (digits_val ds)
          then Match (word_of_int (if neg then - digits_val ds else digits_val ds)) r else Undef))"

text \<open>\<open>%[^,]\<close> into a buffer of \<open>sz\<close> bytes without a width, and with the width \<open>w\<close>.\<close>

definition conv_not_comma :: "nat \<Rightarrow> string \<Rightarrow> string conv" where
  "conv_not_comma sz s =
     (let f = takeWhile (\<lambda>c. c \<noteq> CHR '','') s in
      if f = [] then NoMatch else if length f < sz then Match f (dropWhile (\<lambda>c. c \<noteq> CHR '','') s)
      else Undef)"

definition conv_not_comma_width :: "nat \<Rightarrow> string \<Rightarrow> string conv" where
  "conv_not_comma_width w s =
     (let f = take w (takeWhile (\<lambda>c. c \<noteq> CHR '','') s) in
      if f = [] then NoMatch else Match f (drop (length f) s))"

text \<open>\<open>%s\<close> into a buffer of \<open>sz\<close> bytes.\<close>

definition conv_s :: "nat \<Rightarrow> string \<Rightarrow> string conv" where
  "conv_s sz s =
     (let t = skip_ws s; f = takeWhile (\<lambda>c. \<not> c_isspace c) t in
      if f = [] then NoMatch
      else if length f < sz then Match f (dropWhile (\<lambda>c. \<not> c_isspace c) t) else Undef)"

text \<open>A literal character of the format.\<close>

definition conv_lit :: "char \<Rightarrow> string \<Rightarrow> unit conv" where
  "conv_lit c s = (if s \<noteq> [] \<and> hd s = c then Match () (tl s) else NoMatch)"

fun bind_conv :: "'a conv \<Rightarrow> ('a \<Rightarrow> string \<Rightarrow> 'b conv) \<Rightarrow> 'b conv" where
  "bind_conv (Match x r) f = f x r"
| "bind_conv NoMatch f = NoMatch"
| "bind_conv Undef f = Undef"

text \<open>\<open>atoi\<close>: 0 when no number is there.\<close>

definition atoi :: "string \<Rightarrow> int option" where
  "atoi s = (case conv_d s of Match n r \<Rightarrow> Some n | NoMatch \<Rightarrow> Some 0 | Undef \<Rightarrow> None)"

section \<open>Printing decimal numbers\<close>

text \<open>\<open>%u\<close> for a value below \<open>10 ^ fuel\<close>: the decimal digits, for round trips.\<close>

definition digit_char :: "nat \<Rightarrow> char" where
  "digit_char d = char_of (48 + d)"

fun dec_digits :: "nat \<Rightarrow> string" where
  "dec_digits n = (if n < 10 then [digit_char n] else dec_digits (n div 10) @ [digit_char (n mod 10)])"

declare dec_digits.simps [simp del]

lemma of_char_digit: "d < 10 \<Longrightarrow> (of_char (digit_char d) :: nat) = 48 + d"
  by (simp add: digit_char_def)

lemma digit_val_digit: "d < 10 \<Longrightarrow> digit_val (digit_char d) = int d"
  by (simp add: digit_val_def of_char_digit)

lemma isdigit_digit: "d < 10 \<Longrightarrow> c_isdigit (digit_char d)"
  by (simp add: c_isdigit_def of_char_digit)

lemma dec_digits_digits: "list_all c_isdigit (dec_digits n)"
proof (induction n rule: dec_digits.induct)
  case (1 n)
  then show ?case by (subst dec_digits.simps) (auto simp: isdigit_digit)
qed

lemma dec_digits_nonempty: "dec_digits n \<noteq> []"
  by (subst dec_digits.simps) simp

lemma digits_val_snoc: "digits_val (ds @ [c]) = digits_val ds * 10 + digit_val c"
  by (simp add: digits_val_def)

lemma digits_val_dec: "digits_val (dec_digits n) = int n"
proof (induction n rule: dec_digits.induct)
  case (1 n)
  show ?case
  proof (cases "n < 10")
    case True
    then show ?thesis by (subst dec_digits.simps) (simp add: digits_val_def digit_val_digit)
  next
    case False
    then have "digits_val (dec_digits n) = digits_val (dec_digits (n div 10) @ [digit_char (n mod 10)])"
      by (subst dec_digits.simps) simp
    also have "\<dots> = int n"
      using False "1.IH" by (simp add: digits_val_snoc digit_val_digit zdiv_int zmod_int)
    finally show ?thesis .
  qed
qed

lemma not_digit_sign: "c_isdigit c \<Longrightarrow> c \<noteq> CHR ''-'' \<and> c \<noteq> CHR ''+'' \<and> \<not> c_isspace c"
  by (auto simp: c_isdigit_def c_isspace_def)

text \<open>Scanning a printed number, followed by a character that is no digit, reads it back.\<close>

lemma scan_number_dec:
  assumes "r = [] \<or> \<not> c_isdigit (hd r)"
  shows "scan_number (dec_digits n @ r) = Some (False, dec_digits n, r)"
proof -
  obtain d ds where d: "dec_digits n = d # ds" using dec_digits_nonempty by (cases "dec_digits n") auto
  have all: "\<forall>c \<in> set (dec_digits n). c_isdigit c" using dec_digits_digits [of n] by (simp add: list_all_iff)
  then have "c_isdigit d" using d by simp
  note nd = not_digit_sign [OF this]
  have "takeWhile c_isdigit (dec_digits n @ r) = dec_digits n" "dropWhile c_isdigit (dec_digits n @ r) = r"
    using all assms by (cases r; auto simp: takeWhile_append2 dropWhile_append2)+
  then show ?thesis using nd d by (simp add: scan_number_def skip_ws_def)
qed


section \<open>Reading back printed lines\<close>

lemma dec_digits_length: "n < 10 ^ k \<Longrightarrow> 0 < k \<Longrightarrow> length (dec_digits n) \<le> k"
proof (induction k arbitrary: n)
  case (Suc k)
  show ?case
  proof (cases "n < 10")
    case False
    then have "0 < k" using Suc.prems(1) by (cases k) auto
    moreover have "n div 10 < 10 ^ k" using Suc.prems(1) by (simp add: less_mult_imp_div_less mult.commute)
    ultimately have "length (dec_digits (n div 10)) \<le> k" using Suc.IH by blast
    then show ?thesis using False by (subst dec_digits.simps) simp
  qed (subst dec_digits.simps, simp)
qed simp

lemma dec_digits_no: "\<not> c_isdigit c \<Longrightarrow> c \<notin> set (dec_digits n)"
  using dec_digits_digits [of n] by (auto simp: list_all_iff)

lemma conv_d_dec:
  "n \<le> 2147483647 \<Longrightarrow> r = [] \<or> \<not> c_isdigit (hd r) \<Longrightarrow> conv_d (dec_digits n @ r) = Match (int n) r"
  by (simp add: conv_d_def scan_number_dec digits_val_dec is_int32_def)

lemma conv_not_comma_field:
  "f \<noteq> [] \<Longrightarrow> length f < sz \<Longrightarrow> CHR '','' \<notin> set f \<Longrightarrow> conv_not_comma sz (f @ CHR '','' # r) = Match f (CHR '','' # r)"
  by (auto simp: conv_not_comma_def Let_def takeWhile_append dropWhile_append)

lemma fgets_take_line:
  "\<forall>c \<in> set l. \<not> is_newline c \<Longrightarrow> length l < n \<Longrightarrow> fgets_take n (l @ CHR 0x0A # r) = (l @ [CHR 0x0A], r)"
proof (induction l arbitrary: n)
  case Nil
  then show ?case by (cases n) (simp_all add: is_newline_def)
next
  case (Cons c l)
  then show ?case by (cases n) simp_all
qed

lemma fgets_line:
  "\<forall>c \<in> set l. \<not> is_newline c \<Longrightarrow> length l + 1 < n \<Longrightarrow> fgets n (l @ CHR 0x0A # r) = Some (l @ [CHR 0x0A], r)"
  by (simp add: fgets_def fgets_take_line)

section \<open>Conversions of printf\<close>

text \<open>\<open>%d\<close>, \<open>%u\<close>, and \<open>%0wx\<close> and \<open>%0wu\<close>, which fill up with zeros to \<open>w\<close> digits.\<close>

definition fmt_d :: "int \<Rightarrow> string" where
  "fmt_d n = (if n < 0 then CHR ''-'' # dec_digits (nat (- n)) else dec_digits (nat n))"

definition fmt_u :: "u32 \<Rightarrow> string" where
  "fmt_u x = dec_digits (unat x)"

definition pad_zero :: "nat \<Rightarrow> string \<Rightarrow> string" where
  "pad_zero w s = replicate (w - length s) (CHR ''0'') @ s"

definition hex_char :: "nat \<Rightarrow> char" where
  "hex_char d = (if d < 10 then char_of (48 + d) else char_of (87 + d))"

fun hex_digits :: "nat \<Rightarrow> string" where
  "hex_digits n = (if n < 16 then [hex_char n] else hex_digits (n div 16) @ [hex_char (n mod 16)])"

declare hex_digits.simps [simp del]

definition fmt_x :: "nat \<Rightarrow> u32 \<Rightarrow> string" where
  "fmt_x w x = pad_zero w (hex_digits (unat x))"

definition fmt_0u :: "nat \<Rightarrow> u32 \<Rightarrow> string" where
  "fmt_0u w x = pad_zero w (fmt_u x)"

lemma digits_val_zeros: "digits_val (replicate k (CHR ''0'') @ s) = digits_val s"
  by (induction k) (simp_all add: digits_val_def digit_val_def)

lemma digits_val_fmt_u: "digits_val (fmt_u x) = int (unat x)"
  by (simp add: fmt_u_def digits_val_dec)

lemma digits_val_fmt_0u: "digits_val (fmt_0u w x) = int (unat x)"
  by (simp add: fmt_0u_def pad_zero_def digits_val_zeros digits_val_fmt_u)

text \<open>Reading a hexadecimal number back.\<close>

definition hex_val :: "string \<Rightarrow> nat" where
  "hex_val s = foldl (\<lambda>n c. n * 16 + (let k = of_char c in if k < 58 then k - 48 else k - 87)) 0 s"

lemma hex_val_zeros: "hex_val (replicate k (CHR ''0'') @ s) = hex_val s"
  by (induction k) (simp_all add: hex_val_def)

lemma hex_val_digits: "hex_val (hex_digits n) = n"
proof (induction n rule: hex_digits.induct)
  case (1 n)
  have c: "d < 16 \<Longrightarrow> (let k = of_char (hex_char d) in if k < 58 then k - 48 else k - 87) = d" for d
    by (simp add: hex_char_def Let_def)
  show ?case
  proof (cases "n < 16")
    case True
    then show ?thesis using c [of n] by (simp add: hex_digits.simps [of n] hex_val_def)
  next
    case False
    then have "hex_val (hex_digits n) = hex_val (hex_digits (n div 16)) * 16 + n mod 16"
      using c [of "n mod 16"] by (simp add: hex_digits.simps [of n] hex_val_def)
    then show ?thesis using 1 False by simp
  qed
qed

lemma hex_val_fmt_x: "hex_val (fmt_x w x) = unat x"
  by (simp add: fmt_x_def pad_zero_def hex_val_zeros hex_val_digits)

end
