(* ===== verification/Memory_Sim.thy ===== *)
theory Memory_Sim
  imports Book_Trading C_Strings
begin

text \<open>
  The program \<open>src/sw_sim/memory_sim.c\<close>: submission of an order, the matching loop, and the
  automatic, manual and CSV modes with \<open>main\<close>.

  \<^item> \<open>rand()\<close> is a parameter: \<open>rnd i n\<close> is the result used for the draw number \<open>n\<close> of
    order \<open>i\<close> (0 the symbol, 1 the price, 2 the amount, 3 the type), so the evaluation order
    of the arguments of \<open>create_order\<close>, which C leaves open, does not matter.
  \<^item> A run that reaches the \<open>exit(1)\<close> of \<open>check_for_trade_multi\<close> ends with \<open>Exited\<close>.
  \<^item> \<open>free_order\<close> and \<open>free_exchange\<close> at the end of a run only return memory and are not
    part of the model.
\<close>

definition MAX_PRICE :: int where "MAX_PRICE = 100"
definition MAX_AMOUNT :: int where "MAX_AMOUNT = 10"
definition MAX_ORDERS :: nat where "MAX_ORDERS = 1500000"
definition DEFAULT_MODE :: int where "DEFAULT_MODE = 1"
definition DEFAULT_ORDERS :: int where "DEFAULT_ORDERS = 100"

text \<open>\<open>rand()\<close> is never negative.\<close>

definition rand_range :: "nat \<Rightarrow> int \<Rightarrow> int \<Rightarrow> int" where
  "rand_range r mn mx = mn + int r mod (mx - mn + 1)"

section \<open>The matching loop\<close>

text \<open>\<open>while (check_for_trade_multi(ob, &stats)) { ob->trades++; post_trade_cleanup(...); }\<close>\<close>

lemma pop_bids_size:
  "pop_bids clk ob w = Some (ob', w') \<Longrightarrow> hsize (basks ob') = hsize (basks ob) \<and> hsize (bbids ob') < hsize (bbids ob)"
  by (auto simp: pop_bids_def bind_eq_Some_iff dest!: pop_size)

lemma pop_asks_size:
  "pop_asks clk ob w = Some (ob', w') \<Longrightarrow> hsize (bbids ob') = hsize (bbids ob) \<and> hsize (basks ob') < hsize (basks ob)"
  by (auto simp: pop_asks_def bind_eq_Some_iff dest!: pop_size)

lemma check_multi_size:
  "check_for_trade_multi clk fopen_ok ob w = Some (Traded, ob', w') \<Longrightarrow>
   hsize (basks ob') + hsize (bbids ob') < hsize (basks ob) + hsize (bbids ob)"
  by (auto simp: check_for_trade_multi_def Let_def bind_eq_Some_iff split: if_splits
      dest!: pop_bids_size pop_asks_size)

lemma post_trade_cleanup_heaps:
  "post_trade_cleanup ob w = Some (ob', w') \<Longrightarrow> basks ob' = basks ob \<and> bbids ob' = bbids ob \<and> bsymbol ob' = bsymbol ob"
  by (auto simp: post_trade_cleanup_def Let_def bind_eq_Some_iff)

function match_loop ::
  "(nat \<Rightarrow> int) \<Rightarrow> (nat \<Rightarrow> bool) \<Rightarrow> OrderBook \<Rightarrow> world \<Rightarrow> (check_result \<times> OrderBook \<times> world) option" where
  "match_loop clk fopen_ok ob w = do {
     (r, ob1, w1) \<leftarrow> check_for_trade_multi clk fopen_ok ob w;
     (if r = Traded then do {
        (ob2, w2) \<leftarrow> post_trade_cleanup (ob1\<lparr>btrades := btrades ob1 + 1\<rparr>) w1;
        match_loop clk fopen_ok ob2 w2 }
      else Some (r, ob1, w1)) }"
  by pat_completeness auto
termination
proof (relation "measure (\<lambda>(clk, fo, ob, w). hsize (basks ob) + hsize (bbids ob))", goal_cases)
  case 1
  show ?case by simp
next
  case (2 clk fopen_ok ob w res r rest ob1 w1 res' ob2 w2)
  then show ?case
    using check_multi_size [of clk fopen_ok ob w ob1 w1] post_trade_cleanup_heaps [of "ob1\<lparr>btrades := btrades ob1 + 1\<rparr>" w1 ob2 w2]
    by auto
qed

declare match_loop.simps [simp del]

section \<open>Submitting one order\<close>

text \<open>
  The statements the three modes share for one order: create it, find its book and the book's
  number, print the submission, insert it and match. \<open>shown_p\<close> and \<open>shown_a\<close> are the price
  and the amount that the submission line prints.
\<close>

definition book_number :: "OrderBook list \<Rightarrow> string \<Rightarrow> nat" where
  "book_number bs symbol = (case find_book bs symbol 0 of Some j \<Rightarrow> j | None \<Rightarrow> 0)"

definition submit_order ::
  "(nat \<Rightarrow> int) \<Rightarrow> (nat \<Rightarrow> bool) \<Rightarrow> Exchange \<Rightarrow> world \<Rightarrow> int \<Rightarrow> int \<Rightarrow> int \<Rightarrow> string \<Rightarrow> (Order \<Rightarrow> sim_event) \<Rightarrow>
   (check_result \<times> Exchange \<times> world) option" where
  "submit_order clk fopen_ok ex w p a ty symbol line = do {
     let r = next_ref w;
     let w1 = w\<lparr>orders := create_order (clk (ticks w)) r (orders w) p a ty symbol,
                next_ref := r + 1, ticks := ticks w + 1\<rparr>;
     (k, ex1) \<leftarrow> find_or_create_book ex symbol;
     let sym_id = int (book_number (books ex1) symbol);
     let w2 = w1\<lparr>stdout := stdout w1 @ [line (orders w1 r)]\<rparr>;
     (ins, ob, w3) \<leftarrow> mem_aware_insert (books ex1 ! k) r sym_id w2;
     (if ins then do {
        (res, ob', w4) \<leftarrow> match_loop clk fopen_ok ob w3;
        Some (res, ex1\<lparr>books := (books ex1)[k := ob']\<rparr>, w4) }
      else Some (NoTrade, ex1\<lparr>books := (books ex1)[k := ob]\<rparr>, w3)) }"

definition init_stats :: SimStats where
  "init_stats = \<lparr>total_trades = 0, total_reads = 0, total_writes = 0, overflow_accesses = 0,
     st_hard_rejects = 0, hazards = 0, overflow_max = 0, total_cycles = 0\<rparr>"

definition init_world :: "store \<Rightarrow> world" where
  "init_world st = \<lparr>orders = st, next_ref = 0, mm = create_memory_manager, stats = init_stats,
     ticks = 0, open_files = 0, stdout = [], results = []\<rparr>"

datatype run =
    Finished sim_report Exchange world
  | Exited int Exchange world

section \<open>Automatic mode\<close>

definition symbols :: "string list" where
  "symbols = [''AAA'', ''BBB'', ''CCC'', ''DDD'', ''EEE'', ''FFF'']"

text \<open>The submission line of the automatic mode prints the stored order.\<close>

definition auto_line :: "int \<Rightarrow> string \<Rightarrow> Order \<Rightarrow> sim_event" where
  "auto_line ty symbol ord =
     (if otype ord \<noteq> 0 then AskSubmitted symbol (price ord) (amount ord) (timestamp ord)
      else BidSubmitted symbol (price ord) (amount ord) (timestamp ord))"

fun auto_loop ::
  "(nat \<Rightarrow> int) \<Rightarrow> (nat \<Rightarrow> bool) \<Rightarrow> (nat \<Rightarrow> nat \<Rightarrow> nat) \<Rightarrow> nat \<Rightarrow> nat \<Rightarrow> Exchange \<Rightarrow> world \<Rightarrow>
   (check_result \<times> Exchange \<times> world) option" where
  "auto_loop clk fopen_ok rnd i 0 ex w = Some (NoTrade, ex, w)"
| "auto_loop clk fopen_ok rnd i (Suc n) ex w = do {
     let symbol = symbols ! nat (rand_range (rnd i 0) 0 5);
     let ty = rand_range (rnd i 3) 0 1;
     (res, ex', w') \<leftarrow> submit_order clk fopen_ok ex w (rand_range (rnd i 1) 1 MAX_PRICE)
        (rand_range (rnd i 2) 1 MAX_AMOUNT) ty symbol (auto_line ty symbol);
     (if res = ExitFailure then Some (res, ex', w')
      else auto_loop clk fopen_ok rnd (i + 1) n ex' w') }"

text \<open>The end of a run: the report, or the exit status.\<close>

definition end_run :: "check_result \<times> Exchange \<times> world \<Rightarrow> run" where
  "end_run = (\<lambda>(res, ex, w). if res = ExitFailure then Exited 1 ex w
     else Finished (print_sim_stats ex (mm w) (stats w)) ex w)"

definition automatic_execution ::
  "(nat \<Rightarrow> int) \<Rightarrow> (nat \<Rightarrow> bool) \<Rightarrow> (nat \<Rightarrow> nat \<Rightarrow> nat) \<Rightarrow> store \<Rightarrow> nat \<Rightarrow> run option" where
  "automatic_execution clk fopen_ok rnd st n =
     map_option end_run (auto_loop clk fopen_ok rnd 0 n (create_exchange 16) (init_world st))"

section \<open>CSV mode\<close>

text \<open>\<open>sscanf(line, "%[^,],%[^,],%d,%d", type, symbol, &price, &amount)\<close>\<close>

definition scan_csv_line :: "string \<Rightarrow> (string \<times> string \<times> int \<times> int) conv" where
  "scan_csv_line line =
     bind_conv (conv_not_comma 16 line) (\<lambda>ty s1.
     bind_conv (conv_lit CHR '','' s1) (\<lambda>_ s2.
     bind_conv (conv_not_comma 8 s2) (\<lambda>sy s3.
     bind_conv (conv_lit CHR '','' s3) (\<lambda>_ s4.
     bind_conv (conv_d s4) (\<lambda>p s5.
     bind_conv (conv_lit CHR '','' s5) (\<lambda>_ s6.
     bind_conv (conv_d s6) (\<lambda>a s7. Match (ty, sy, p, a) s7)))))))"

definition csv_type :: "string \<Rightarrow> int" where
  "csv_type ty = (if ty = ''Ask'' \<or> ty = ''ASK'' then 1 else if ty = ''Bid'' \<or> ty = ''BID'' then 0 else -1)"

text \<open>The submission line of the manual and CSV modes prints the numbers as they were read.\<close>

definition typed_line :: "int \<Rightarrow> int \<Rightarrow> int \<Rightarrow> string \<Rightarrow> Order \<Rightarrow> sim_event" where
  "typed_line ty p a symbol ord =
     (if ty \<noteq> 0 then AskSubmitted symbol p a (timestamp ord) else BidSubmitted symbol p a (timestamp ord))"

definition say :: "sim_event \<Rightarrow> world \<Rightarrow> world" where
  "say ev w = w\<lparr>stdout := stdout w @ [ev]\<rparr>"

function csv_loop ::
  "(nat \<Rightarrow> int) \<Rightarrow> (nat \<Rightarrow> bool) \<Rightarrow> string \<Rightarrow> nat \<Rightarrow> Exchange \<Rightarrow> world \<Rightarrow>
   (check_result \<times> Exchange \<times> world) option" where
  "csv_loop clk fopen_ok text n ex w =
     (case fgets 256 text of
        None \<Rightarrow> Some (NoTrade, ex, w)
      | Some (line, rest) \<Rightarrow>
          if n < MAX_ORDERS then
            (case scan_csv_line line of
               Undef \<Rightarrow> None
             | NoMatch \<Rightarrow> csv_loop clk fopen_ok rest n ex (say (MalformedLine line) w)
             | Match (ty, sy, p, a) r \<Rightarrow>
                 (let symbol = take 3 sy; is_ask = csv_type ty in
                  if is_ask < 0 then csv_loop clk fopen_ok rest n ex (say (InvalidType ty) w)
                  else do {
                    (res, ex', w') \<leftarrow> submit_order clk fopen_ok ex w p a is_ask symbol (typed_line is_ask p a symbol);
                    (if res = ExitFailure then Some (res, ex', w')
                     else csv_loop clk fopen_ok rest (n + 1) ex' w') }))
          else Some (NoTrade, ex, w))"
  by pat_completeness auto
termination
  by (relation "measure (\<lambda>(clk, fo, text, n, ex, w). length text)") (auto dest: fgets_shorter [of 256, simplified])

declare csv_loop.simps [simp del]

text \<open>The header test: the first line is skipped unless it mentions an order type.\<close>

definition csv_skip_header :: "string \<Rightarrow> string option" where
  "csv_skip_header text =
     (case fgets 256 text of
        None \<Rightarrow> None
      | Some (line, rest) \<Rightarrow>
          Some (if \<not> strstr line ''ask'' \<and> \<not> strstr line ''bid'' \<and>
                   \<not> strstr line ''Ask'' \<and> \<not> strstr line ''Bid'' then rest else text))"

text \<open>
  The file is \<open>None\<close> when it cannot be opened. On an empty file the first \<open>fgets\<close> writes
  nothing and the header test reads an uninitialised buffer.
\<close>

definition csv_execution ::
  "(nat \<Rightarrow> int) \<Rightarrow> (nat \<Rightarrow> bool) \<Rightarrow> store \<Rightarrow> string option \<Rightarrow> run option option" where
  "csv_execution clk fopen_ok st file =
     (case file of
        None \<Rightarrow> Some None
      | Some text \<Rightarrow> do {
          body \<leftarrow> csv_skip_header text;
          res \<leftarrow> csv_loop clk fopen_ok body 0 (create_exchange 16) (init_world st);
          Some (Some (end_run res)) })"

section \<open>Manual mode\<close>

text \<open>
  \<open>scanf(" %c", &order)\<close> and \<open>while (getchar() != '\n');\<close> on the rest of the standard input.
  At the end of the input the latter never ends, whether or not the former read a character:
  that is the value \<open>None\<close>.
\<close>

definition skip_line :: "string \<Rightarrow> string option" where
  "skip_line s = (case dropWhile (\<lambda>c. \<not> is_newline c) s of [] \<Rightarrow> None | c # r \<Rightarrow> Some r)"

definition read_answer :: "string \<Rightarrow> (char \<times> string) option" where
  "read_answer s = (case skip_ws s of [] \<Rightarrow> None | c # r \<Rightarrow> do { r' \<leftarrow> skip_line r; Some (c, r') })"

lemma skip_line_shorter: "skip_line s = Some r \<Longrightarrow> length r < length s"
  using length_dropWhile_le [of "\<lambda>c. \<not> is_newline c" s] by (auto simp: skip_line_def split: list.splits)

lemma read_answer_shorter: "read_answer s = Some (c, r) \<Longrightarrow> length r < length s"
  using length_dropWhile_le [of c_isspace s]
  by (auto simp: read_answer_def skip_ws_def bind_eq_Some_iff split: list.splits dest!: skip_line_shorter)

text \<open>
  \<open>scanf("%s %s %d %d", type, symbol, &price, &amount)\<close> and the rest of the line. A number
  that is not there leaves its variable, and the ones after it, as they were; the variables
  hold \<open>None\<close> until they are first set. A missing word means the end of the input.
\<close>

definition scan_numbers :: "string \<Rightarrow> int option \<Rightarrow> int option \<Rightarrow> (int option \<times> int option \<times> string) option" where
  "scan_numbers s p a =
     (case conv_d s of
        Undef \<Rightarrow> None
      | NoMatch \<Rightarrow> Some (p, a, d_fail_rest s)
      | Match p' s1 \<Rightarrow>
          (case conv_d s1 of
             Undef \<Rightarrow> None
           | NoMatch \<Rightarrow> Some (Some p', a, d_fail_rest s1)
           | Match a' s2 \<Rightarrow> Some (Some p', Some a', s2)))"

definition read_manual :: "string \<Rightarrow> int option \<Rightarrow> int option \<Rightarrow> (string \<times> string \<times> int option \<times> int option \<times> string) option" where
  "read_manual s p a =
     (case conv_s 16 s of
        Match ty s1 \<Rightarrow>
          (case conv_s 8 s1 of
             Match sy s2 \<Rightarrow> do { (p', a', s3) \<leftarrow> scan_numbers s2 p a; s4 \<leftarrow> skip_line s3; Some (ty, sy, p', a', s4) }
           | NoMatch \<Rightarrow> None
           | Undef \<Rightarrow> None)
      | NoMatch \<Rightarrow> None
      | Undef \<Rightarrow> None)"

lemma conv_s_shorter: "conv_s n s = Match x r \<Longrightarrow> length r \<le> length s"
  using length_dropWhile_le [of c_isspace s] length_dropWhile_le [of "\<lambda>c. \<not> c_isspace c" "skip_ws s"]
  by (auto simp: conv_s_def skip_ws_def Let_def split: if_splits)

lemma scan_number_shorter: "scan_number s = Some (b, ds, r) \<Longrightarrow> length r \<le> length s"
proof -
  assume "scan_number s = Some (b, ds, r)"
  then have "length r \<le> length (skip_ws s)"
    using length_dropWhile_le [of c_isdigit "skip_ws s"] length_dropWhile_le [of c_isdigit "tl (skip_ws s)"]
    by (auto simp: scan_number_def Let_def split: if_splits)
  also have "\<dots> \<le> length s" by (simp add: skip_ws_def length_dropWhile_le)
  finally show ?thesis .
qed

lemma conv_d_shorter: "conv_d s = Match x r \<Longrightarrow> length r \<le> length s"
  by (auto simp: conv_d_def Let_def split: option.splits if_splits dest!: scan_number_shorter)

lemma scan_numbers_shorter: "scan_numbers s p a = Some (p', a', r) \<Longrightarrow> length r \<le> length s"
  by (auto simp: scan_numbers_def d_fail_rest_shorter split: conv.splits dest!: conv_d_shorter)
    (meson d_fail_rest_shorter order_trans)

lemma read_manual_shorter: "read_manual s p a = Some (ty, sy, p', a', r) \<Longrightarrow> length r < length s"
  by (auto simp: read_manual_def bind_eq_Some_iff split: conv.splits
      dest!: conv_s_shorter scan_numbers_shorter skip_line_shorter)

definition manual_type :: "string \<Rightarrow> int" where
  "manual_type ty = (if ty = ''Ask'' \<or> ty = ''ask'' then 1 else if ty = ''Bid'' \<or> ty = ''bid'' then 0 else -1)"

function manual_loop ::
  "(nat \<Rightarrow> int) \<Rightarrow> (nat \<Rightarrow> bool) \<Rightarrow> string \<Rightarrow> nat \<Rightarrow> int option \<Rightarrow> int option \<Rightarrow> Exchange \<Rightarrow> world \<Rightarrow>
   (check_result \<times> Exchange \<times> world) option" where
  "manual_loop clk fopen_ok s n p a ex w =
     (if n \<ge> MAX_ORDERS then Some (NoTrade, ex, say (Prompt ''Maximum number of orders received, ending simulation'') w)
      else
        let w1 = say (Prompt ''Would you like to submit an order? (Y/N)'') w in
        (case read_answer s of
           None \<Rightarrow> None
         | Some (c, s1) \<Rightarrow>
             if c = CHR ''Y'' \<or> c = CHR ''y'' then
               (let w2 = say (Prompt ''Format: (ask/bid) (symbol) (price) (amount)'') w1 in
                case read_manual s1 p a of
                  None \<Rightarrow> None
                | Some (ty, sy, p', a', s2) \<Rightarrow>
                    (let symbol = take 3 sy; is_ask = manual_type ty in
                     if is_ask < 0 then manual_loop clk fopen_ok s2 n p' a' ex (say (Prompt ''Please specify ask or bid'') w2)
                     else
                       (case (p', a') of
                          (Some pv, Some av) \<Rightarrow> do {
                            (res, ex', w') \<leftarrow> submit_order clk fopen_ok ex w2 pv av is_ask symbol
                               (typed_line is_ask pv av symbol);
                            (if res = ExitFailure then Some (res, ex', w')
                             else manual_loop clk fopen_ok s2 (n + 1) p' a' ex' w') }
                        | _ \<Rightarrow> None)))
             else if c = CHR ''N'' \<or> c = CHR ''n'' then Some (NoTrade, ex, say (Prompt ''Ending simulation'') w1)
             else manual_loop clk fopen_ok s1 n p a ex (say (Prompt ''Please submit Y or N'') w1)))"
  by pat_completeness auto
termination
proof (relation "measure (\<lambda>(clk, fo, s, n, p, a, ex, w). length s)", goal_cases)
  case 1
  show ?case by simp
next
  case 2
  then show ?case by (auto dest!: read_answer_shorter read_manual_shorter)
next
  case 3
  then show ?case by (auto dest!: read_answer_shorter read_manual_shorter)
next
  case 4
  then show ?case by (auto dest!: read_answer_shorter)
qed

declare manual_loop.simps [simp del]

definition manual_execution :: "(nat \<Rightarrow> int) \<Rightarrow> (nat \<Rightarrow> bool) \<Rightarrow> store \<Rightarrow> string \<Rightarrow> run option" where
  "manual_execution clk fopen_ok st input =
     map_option end_run (manual_loop clk fopen_ok input 0 None None (create_exchange 16) (init_world st))"

section \<open>The program\<close>

text \<open>
  The arguments after the program name: the last \<open>--mode\<close> and \<open>--orders\<close> count, and a flag
  without its value passes a null pointer to \<open>atoi\<close>.
\<close>

fun parse_args :: "string list \<Rightarrow> int \<Rightarrow> int \<Rightarrow> (int \<times> int) option" where
  "parse_args [] mode num_orders = Some (mode, num_orders)"
| "parse_args (x # xs) mode num_orders =
     (if x = ''--mode'' then
        (case xs of [] \<Rightarrow> None | v # ys \<Rightarrow> do { m \<leftarrow> atoi v; parse_args ys m num_orders })
      else if x = ''--orders'' then
        (case xs of [] \<Rightarrow> None | v # ys \<Rightarrow> do { n \<leftarrow> atoi v; parse_args ys mode n })
      else parse_args xs mode num_orders)"

definition exit_status :: "run \<Rightarrow> int" where
  "exit_status r = (case r of Finished rep ex w \<Rightarrow> 0 | Exited c ex w \<Rightarrow> c)"

text \<open>\<open>main\<close> returns its exit status and the run, when one was made; \<open>files\<close> is the file system.\<close>

definition main :: "(nat \<Rightarrow> int) \<Rightarrow> (nat \<Rightarrow> bool) \<Rightarrow> (nat \<Rightarrow> nat \<Rightarrow> nat) \<Rightarrow> store \<Rightarrow> (string \<Rightarrow> string option) \<Rightarrow>
    string \<Rightarrow> string list \<Rightarrow> (int \<times> run option) option" where
  "main clk fopen_ok rnd st files input args = do {
     (mode, num_orders) \<leftarrow> parse_args args DEFAULT_MODE DEFAULT_ORDERS;
     (if mode \<noteq> 1 \<and> mode \<noteq> 0 \<and> mode \<noteq> 2 then Some (1, None)
      else if num_orders < 2 then Some (1, None)
      else if mode = 1 then do { r \<leftarrow> automatic_execution clk fopen_ok rnd st (nat num_orders); Some (exit_status r, Some r) }
      else if mode = 0 then do { r \<leftarrow> manual_execution clk fopen_ok st input; Some (exit_status r, Some r) }
      else if length args + 1 > 2 then do {
        r \<leftarrow> csv_execution clk fopen_ok st (files (last args));
        Some (case r of None \<Rightarrow> 0 | Some r' \<Rightarrow> exit_status r', r) }
      else Some (1, None)) }"


section \<open>Correctness of the matching loop\<close>

lemma post_trade_cleanup_ok:
  assumes inv: "mem_inv (mm w) mems" and k: "k < length mems" "bmem ob = mems ! k"
  obtains ob' w' where "post_trade_cleanup ob w = Some (ob', w')"
    "mem_inv (mm w') (mems[k := bmem ob'])" "btrades ob' = btrades ob"
    "orders w' = orders w" "next_ref w' = next_ref w" "results w' = results w" "stdout w' = stdout w"
    "open_files w' = open_files w"
proof -
  let ?m = "if ov_cnt (overflow (mm w)) > 0
    then (mm w)\<lparr>overflow := (overflow (mm w))\<lparr>ov_cnt := ov_cnt (overflow (mm w)) - 1\<rparr>\<rparr> else mm w"
  have "mem_inv ?m (mems[k := bmem ob])"
    using inv by (intro mem_inv_same [OF inv k]) (auto simp: mem_inv_def frames_ok_def)
  then have inv': "mem_inv ?m mems" using k by simp
  obtain m' mem' s' where r: "release_node (?m, mems ! k, stats w) = Some (m', mem', s')"
      "mem_inv m' (mems[k := mem'])"
    using release_node_inv [OF inv' k(1)] by metis
  show thesis
    using r k(2) by (intro that [of "ob\<lparr>bmem := mem'\<rparr>" "w\<lparr>mm := m', stats := s'\<rparr>"])
      (auto simp: post_trade_cleanup_def Let_def)
qed

text \<open>
  From a well-formed book the loop ends: it executes a series of trades of the specification
  and stops when the prices no longer cross, or when \<open>fopen\<close> fails. Every trade is in the
  results file and in the book's trade count.
\<close>

lemma match_loop_correct:
  assumes "book_inv ob w" "amounts_ok (abs_book ob w)" "distinct_orders (abs_book ob w)"
    and "mem_inv (mm w) mems" "k < length mems" "bmem ob = mems ! k"
  shows "\<exists>res ob' w' evs. match_loop clk fopen_ok ob w = Some (res, ob', w') \<and>
    book_inv ob' w' \<and> mem_inv (mm w') (mems[k := bmem ob']) \<and>
    trades (abs_book ob w) (map ev_shares evs) (abs_book ob' w') \<and>
    results w' = results w @ evs \<and> stdout w' = stdout w @ map TradeLine evs \<and>
    (\<forall>ev \<in> set evs. ev_symbol ev = bsymbol ob) \<and> bsymbol ob' = bsymbol ob \<and>
    btrades ob' = btrades ob + int (length evs) \<and> next_ref w' = next_ref w \<and> res \<noteq> Traded \<and>
    (res = NoTrade \<longrightarrow> \<not> crossed (abs_book ob' w')) \<and> (res = ExitFailure \<longrightarrow> \<not> fopen_ok (open_files w'))"
  using assms
proof (induction "hsize (basks ob) + hsize (bbids ob)" arbitrary: ob w mems rule: less_induct)
  case less
  note inv = less.prems
  show ?case
  proof (cases "fopen_ok (open_files w)")
    case False
    then have "match_loop clk fopen_ok ob w = Some (ExitFailure, ob, w)"
      by (subst match_loop.simps) (simp add: check_for_trade_multi_def)
    then show ?thesis using inv False by (intro exI [of _ ExitFailure] exI [of _ ob] exI [of _ w] exI [of _ "[]"])
        (auto intro: trades_done)
  next
    case ok: True
    show ?thesis
    proof (cases "crossed (abs_book ob w)")
      case False
      obtain w' where w': "check_for_trade_multi clk fopen_ok ob w = Some (NoTrade, ob, w')"
          "orders w' = orders w" "mm w' = mm w" "next_ref w' = next_ref w" "results w' = results w" "stdout w' = stdout w"
        using check_multi_idle [where fopen_ok = fopen_ok and w = w, OF inv(1) False ok] by metis
      have eq: "abs_book ob w' = abs_book ob w" using w' by (simp add: abs_of_def market_of_def)
      show ?thesis
        using w' inv False
        by (intro exI [of _ NoTrade] exI [of _ ob] exI [of _ w'] exI [of _ "[]"], subst match_loop.simps)
          (auto intro: trades_done simp: book_inv_def market_inv_of eq)
    next
      case True
      obtain ob1 w1 ev where c: "check_for_trade_multi clk fopen_ok ob w = Some (Traded, ob1, w1)"
          "book_inv ob1 w1" "trade_step (abs_book ob w) (ev_shares ev) (abs_book ob1 w1)" "same_memory ob w ob1 w1"
          "results w1 = results w @ [ev]" "stdout w1 = stdout w @ [TradeLine ev]" "ev_symbol ev = bsymbol ob"
        using check_multi_traded [where fopen_ok = fopen_ok and w = w, OF inv(1,2) True ok] by metis
      let ?ob1 = "ob1\<lparr>btrades := btrades ob1 + 1\<rparr>"
      have m1: "mem_inv (mm w1) mems" "bmem ?ob1 = mems ! k"
        using c(4) inv(4,6) by (auto simp: same_memory_def)
      obtain ob2 w2 where d: "post_trade_cleanup ?ob1 w1 = Some (ob2, w2)"
          "mem_inv (mm w2) (mems[k := bmem ob2])" "btrades ob2 = btrades ?ob1"
          "orders w2 = orders w1" "next_ref w2 = next_ref w1" "results w2 = results w1" "stdout w2 = stdout w1"
        using post_trade_cleanup_ok [OF m1(1) inv(5) m1(2)] by metis
      note heaps = post_trade_cleanup_heaps [OF d(1)]
      have ab: "abs_book ob2 w2 = abs_book ob1 w1"
        using d(4) heaps by (simp add: abs_of_def market_of_def)
      have lt: "hsize (basks ob2) + hsize (bbids ob2) < hsize (basks ob) + hsize (bbids ob)"
        using check_multi_size [OF c(1)] heaps by simp
      have "book_inv ob2 w2"
        using c(2) d(4) heaps mem_inv_rep [OF d(2), of k] inv(5) by (simp add: book_inv_def market_inv_of)
      moreover have "amounts_ok (abs_book ob2 w2)" unfolding ab by (rule trade_step_amounts [OF c(3) inv(2)])
      moreover have "distinct_orders (abs_book ob2 w2)" unfolding ab by (rule trade_step_distinct [OF c(3) inv(3)])
      ultimately have inv2: "book_inv ob2 w2" "amounts_ok (abs_book ob2 w2)" "distinct_orders (abs_book ob2 w2)"
        by blast+
      from less.hyps [OF lt inv2 d(2)] inv(5)
      obtain res ob' w' evs where r: "match_loop clk fopen_ok ob2 w2 = Some (res, ob', w')"
          "book_inv ob' w'" "mem_inv (mm w') (mems[k := bmem ob'])"
          "trades (abs_book ob2 w2) (map ev_shares evs) (abs_book ob' w')"
          "results w' = results w2 @ evs" "stdout w' = stdout w2 @ map TradeLine evs"
          "\<forall>ev \<in> set evs. ev_symbol ev = bsymbol ob2" "bsymbol ob' = bsymbol ob2"
          "btrades ob' = btrades ob2 + int (length evs)" "next_ref w' = next_ref w2" "res \<noteq> Traded"
          "res = NoTrade \<longrightarrow> \<not> crossed (abs_book ob' w')" "res = ExitFailure \<longrightarrow> \<not> fopen_ok (open_files w')"
        by auto
      have "match_loop clk fopen_ok ob w = Some (res, ob', w')"
        using c(1) d(1) r(1) by (subst match_loop.simps) simp
      moreover have "trades (abs_book ob w) (map ev_shares (ev # evs)) (abs_book ob' w')"
        using trades_more [OF c(3)] r(4) ab by simp
      ultimately show ?thesis
        using r c d heaps
        by (intro exI [of _ res] exI [of _ ob'] exI [of _ w'] exI [of _ "ev # evs"]) (auto simp: same_memory_def)
    qed
  qed
qed

section \<open>Properties\<close>

text \<open>
  C1: The matching loop of the simulator ends and is complete: from a well-formed book it makes a
  series of trade steps of the specification and stops with no pair of orders left that
  could trade, unless the results file cannot be opened. Each trade is reported and counted
  once, both sides lose the same shares, and the memory invariant is kept.
\<close>

theorem match_loop_complete:
  assumes "book_inv ob w" "amounts_ok (abs_book ob w)" "distinct_orders (abs_book ob w)"
    and "mem_inv (mm w) mems" "k < length mems" "bmem ob = mems ! k"
  shows "\<exists>res ob' w' evs. match_loop clk fopen_ok ob w = Some (res, ob', w') \<and>
    book_inv ob' w' \<and> mem_inv (mm w') (mems[k := bmem ob']) \<and>
    trades (abs_book ob w) (map ev_shares evs) (abs_book ob' w') \<and> results w' = results w @ evs \<and>
    btrades ob' = btrades ob + int (length evs) \<and>
    shares (orders w) (heap_contents (basks ob)) - shares (orders w') (heap_contents (basks ob')) = sum_list (map ev_shares evs) \<and>
    shares (orders w) (heap_contents (bbids ob)) - shares (orders w') (heap_contents (bbids ob')) = sum_list (map ev_shares evs) \<and>
    (res = NoTrade \<and> \<not> crossed (abs_book ob' w') \<or> res = ExitFailure \<and> \<not> fopen_ok (open_files w'))"
proof -
  obtain res ob' w' evs where r: "match_loop clk fopen_ok ob w = Some (res, ob', w')"
    "book_inv ob' w'" "mem_inv (mm w') (mems[k := bmem ob'])"
    "trades (abs_book ob w) (map ev_shares evs) (abs_book ob' w')" "results w' = results w @ evs"
    "btrades ob' = btrades ob + int (length evs)" "res \<noteq> Traded"
    "res = NoTrade \<longrightarrow> \<not> crossed (abs_book ob' w')" "res = ExitFailure \<longrightarrow> \<not> fopen_ok (open_files w')"
    using match_loop_correct [OF assms, of clk fopen_ok] by blast
  note t = trades_inv [OF r(4) assms(3,2)]
  have "res = NoTrade \<and> \<not> crossed (abs_book ob' w') \<or> res = ExitFailure \<and> \<not> fopen_ok (open_files w')"
    using r(7-9) by (cases res) auto
  then show ?thesis using r t by (intro exI [of _ res] exI [of _ ob'] exI [of _ w'] exI [of _ evs]) simp
qed

theorem match_loop_complete_witness:
  "\<exists>res ob' w' evs. match_loop int (\<lambda>n. n < 100) sample_book sample_world = Some (res, ob', w') \<and>
    book_inv ob' w' \<and> mem_inv (mm w') ([empty_mem][0 := bmem ob']) \<and>
    trades (abs_book sample_book sample_world) (map ev_shares evs) (abs_book ob' w') \<and>
    results w' = results sample_world @ evs \<and> btrades ob' = btrades sample_book + int (length evs) \<and>
    shares (orders sample_world) (heap_contents (basks sample_book)) -
      shares (orders w') (heap_contents (basks ob')) = sum_list (map ev_shares evs) \<and>
    shares (orders sample_world) (heap_contents (bbids sample_book)) -
      shares (orders w') (heap_contents (bbids ob')) = sum_list (map ev_shares evs) \<and>
    (res = NoTrade \<and> \<not> crossed (abs_book ob' w') \<or> res = ExitFailure \<and> \<not> open_files w' < 100)"
  by (rule match_loop_complete [OF sample_book_ok(1-3) sample_world_mem(1) _ sample_book_ok(4)]) simp

text \<open>
  Command lines without a valid mode or with fewer than two orders end with status 1 and
  make no run.
\<close>

theorem main_usage_errors:
  assumes "parse_args args DEFAULT_MODE DEFAULT_ORDERS = Some (mode, n)" "mode \<notin> {0, 1, 2} \<or> n < 2"
  shows "main clk fopen_ok rnd st files input args = Some (1, None)"
  using assms by (auto simp: main_def)

end
