(* ===== verification/Exchange_Inv.thy ===== *)
theory Exchange_Inv
  imports Memory_Sim
begin

text \<open>
  The invariant of the whole simulator and its preservation by the submission of an order, for
  every mode of \<open>memory_sim.c\<close>.
\<close>

section \<open>The invariant\<close>

definition refs :: "OrderBook \<Rightarrow> ref multiset" where
  "refs ob = heap_contents (basks ob) + heap_contents (bbids ob)"

definition all_refs :: "OrderBook list \<Rightarrow> ref multiset" where
  "all_refs bs = sum_list (map refs bs)"

definition book_ok :: "OrderBook \<Rightarrow> world \<Rightarrow> bool" where
  "book_ok ob w \<longleftrightarrow> market_inv (market_of ob w) \<and> amounts_ok (abs_book ob w)"

definition refs_ok :: "OrderBook list \<Rightarrow> ref \<Rightarrow> bool" where
  "refs_ok bs n \<longleftrightarrow> (\<forall>r. count (all_refs bs) r \<le> 1) \<and> (\<forall>r \<in># all_refs bs. r < n)"

definition exchange_ok :: "Exchange \<Rightarrow> bool" where
  "exchange_ok ex \<longleftrightarrow> distinct (map bsymbol (books ex)) \<and> 0 < ex_cap ex \<and> length (books ex) \<le> ex_cap ex"

definition sim_inv :: "Exchange \<Rightarrow> world \<Rightarrow> bool" where
  "sim_inv ex w \<longleftrightarrow> mem_inv (mm w) (map bmem (books ex)) \<and> (\<forall>ob \<in> set (books ex). book_ok ob w) \<and>
     refs_ok (books ex) (next_ref w) \<and> exchange_ok ex"

definition settled :: "Exchange \<Rightarrow> world \<Rightarrow> bool" where
  "settled ex w \<longleftrightarrow> (\<forall>ob \<in> set (books ex). \<not> crossed (abs_book ob w))"

section \<open>References\<close>

lemma all_refs_update:
  "k < length bs \<Longrightarrow> all_refs (bs[k := ob]) + refs (bs ! k) = all_refs bs + refs ob"
proof (induction bs arbitrary: k)
  case (Cons b bs)
  then show ?case by (cases k) (auto simp: all_refs_def ac_simps)
qed simp

lemma all_refs_count_update:
  "k < length bs \<Longrightarrow> count (all_refs (bs[k := ob])) r + count (refs (bs ! k)) r = count (all_refs bs) r + count (refs ob) r"
  by (metis all_refs_update count_union)

lemma refs_subset_all: "k < length bs \<Longrightarrow> refs (bs ! k) \<subseteq># all_refs bs"
proof (induction bs arbitrary: k)
  case (Cons b bs)
  then show ?case
    by (cases k) (auto simp: all_refs_def intro: subset_mset.add_increasing)
qed simp

lemma all_refs_snoc: "all_refs (bs @ [ob]) = all_refs bs + refs ob"
  by (simp add: all_refs_def)

text \<open>References of different books are different.\<close>

lemma refs_disjoint:
  assumes "refs_ok bs n" "j < length bs" "k < length bs" "j \<noteq> k" "r \<in># refs (bs ! j)"
  shows "r \<notin># refs (bs ! k)"
proof
  assume r: "r \<in># refs (bs ! k)"
  have "count (refs (bs ! j)) r + count (refs (bs ! k)) r \<le> count (all_refs bs) r"
  proof -
    have "refs (bs ! j) \<subseteq># all_refs (bs[k := create_order_book []])"
      using refs_subset_all [of j "bs[k := create_order_book []]"] assms by simp
    moreover have "refs (create_order_book []) = {#}"
      by (simp add: refs_def create_order_book_def create_heap_def heap_contents_def elems_def)
    ultimately have "refs (bs ! j) + refs (bs ! k) \<subseteq># all_refs bs"
      using all_refs_update [OF assms(3), of "create_order_book []"]
      by (metis add.right_neutral mset_subset_eq_mono_add_right_cancel)
    then show ?thesis by (metis count_union mset_subset_eq_count)
  qed
  moreover have "1 \<le> count (refs (bs ! j)) r" "1 \<le> count (refs (bs ! k)) r"
    using r assms(5) by (simp_all add: Suc_le_eq)
  moreover have "count (all_refs bs) r \<le> 1" using assms(1) by (simp add: refs_ok_def)
  ultimately show False by linarith
qed

lemma refs_ok_distinct:
  assumes "refs_ok bs n" "k < length bs"
  shows "distinct_orders (abs_book (bs ! k) w)"
proof -
  have "count (refs (bs ! k)) r \<le> 1" for r
    using assms mset_subset_eq_count [OF refs_subset_all [OF assms(2)], of r]
    by (simp add: refs_ok_def) (meson le_trans)
  then show ?thesis by (simp add: distinct_orders_def refs_def)
qed

text \<open>A book is unaffected by changes of the store outside its references.\<close>

lemma book_ok_frame:
  assumes ok: "book_ok ob w" and st: "\<And>r. r \<in># refs ob \<Longrightarrow> price (orders w' r) = price (orders w r) \<and>
      timestamp (orders w' r) = timestamp (orders w r) \<and> amount (orders w' r) = amount (orders w r)"
  shows "book_ok ob w'"
proof -
  have "heap_invar min_cmp ask_le (orders w') (basks ob)" "heap_invar max_cmp bid_le (orders w') (bbids ob)"
    using ok st by (auto simp: book_ok_def market_inv_of refs_def heap_contents_def
        intro: ask_heap.invar_keys bid_heap.invar_keys)
  moreover have "amounts_ok (abs_book ob w')"
    using ok st by (auto simp: book_ok_def amounts_ok_def refs_def)
  ultimately show ?thesis by (simp add: book_ok_def market_inv_of)
qed

lemma crossed_frame:
  assumes st: "\<And>r. r \<in># refs ob \<Longrightarrow> price (orders w' r) = price (orders w r) \<and>
      timestamp (orders w' r) = timestamp (orders w r)"
  shows "crossed (abs_book ob w') \<longleftrightarrow> crossed (abs_book ob w)"
  using st by (auto simp: crossed_def best_ask_def best_bid_def ask_le_def bid_le_def refs_def) metis+

section \<open>Finding a book\<close>

lemma find_book_Some:
  "find_book bs symbol i = Some j \<Longrightarrow> i \<le> j \<and> j - i < length bs \<and> bsymbol (bs ! (j - i)) = symbol"
proof (induction bs symbol i rule: find_book.induct)
  case (2 b bs symbol i)
  then show ?case by (cases "bsymbol b = symbol") (auto simp: nth_Cons' Suc_diff_le)
qed simp

lemma find_book_None: "find_book bs symbol i = None \<longleftrightarrow> symbol \<notin> set (map bsymbol bs)"
  by (induction bs symbol i rule: find_book.induct) auto

lemma find_book_snoc:
  "symbol \<notin> set (map bsymbol bs) \<Longrightarrow> bsymbol b = symbol \<Longrightarrow> find_book (bs @ [b]) symbol i = Some (i + length bs)"
  by (induction bs symbol i rule: find_book.induct) auto

lemma find_or_create_ok:
  assumes "exchange_ok ex" "length symbol \<le> 3"
  obtains k ex1 where "find_or_create_book ex symbol = Some (k, ex1)" "exchange_ok ex1"
    "k < length (books ex1)" "bsymbol (books ex1 ! k) = symbol" "book_number (books ex1) symbol = k"
    "ex1 = ex \<or> books ex1 = books ex @ [create_order_book symbol]"
proof (cases "find_book (books ex) symbol 0")
  case (Some k)
  then show ?thesis
    using assms find_book_Some [OF Some] that [of k ex]
    by (simp add: find_or_create_book_def book_number_def)
next
  case None
  let ?cap = "if length (books ex) \<ge> ex_cap ex then ex_cap ex * 2 else ex_cap ex"
  let ?ex = "\<lparr>books = books ex @ [create_order_book symbol], ex_cap = ?cap\<rparr>"
  have sym: "bsymbol (create_order_book symbol) = symbol" using assms(2) by (simp add: create_order_book_def)
  have new: "symbol \<notin> set (map bsymbol (books ex))" using None by (simp add: find_book_None)
  have cap: "length (books ex) < ?cap" using assms(1) by (auto simp: exchange_ok_def)
  have "find_or_create_book ex symbol = Some (length (books ex), ?ex)"
    using None cap by (auto simp: find_or_create_book_def Let_def)
  moreover have "exchange_ok ?ex" using assms(1) new sym cap by (auto simp: exchange_ok_def)
  moreover have "book_number (books ?ex) symbol = length (books ex)"
    using find_book_snoc [OF new sym, of 0] by (simp add: book_number_def)
  ultimately show ?thesis using that [of "length (books ex)" ?ex] sym by simp
qed


section \<open>Inserting an order into its book\<close>

text \<open>Room for one more order of a symbol: in its last page, in a new page, or in the overflow page.\<close>

definition has_room :: "MemoryManager \<Rightarrow> SymbolMemory \<Rightarrow> bool" where
  "has_room m mem \<longleftrightarrow> (0 < page_count mem \<and> nodes_in_curr_page mem < PAGE_SIZE) \<or>
     (page_count mem < MAX_PAGES_PER_SYMBOL \<and> free_set m \<noteq> {}) \<or>
     ov_cnt (overflow m) < OVERFLOW_PAGE_SIZE"

definition inserted :: "store \<Rightarrow> ref \<Rightarrow> OrderBook \<Rightarrow> OrderBook \<Rightarrow> bool" where
  "inserted st r ob ob' \<longleftrightarrow>
     (if otype (st r) \<noteq> 0
      then heap_contents (basks ob') = add_mset r (heap_contents (basks ob)) \<and> bbids ob' = bbids ob
      else heap_contents (bbids ob') = add_mset r (heap_contents (bbids ob)) \<and> basks ob' = basks ob)"

lemma push_order_ok:
  assumes a: "heap_invar min_cmp ask_le st (basks ob)" and b: "heap_invar max_cmp bid_le st (bbids ob)"
  obtains ob' where "push_order st ob r = Some ob'" "heap_invar min_cmp ask_le st (basks ob')"
    "heap_invar max_cmp bid_le st (bbids ob')" "inserted st r ob ob'"
proof (cases "otype (st r) \<noteq> 0")
  case True
  obtain h where "push st (basks ob) r = Some h" "heap_invar min_cmp ask_le st h"
      "heap_contents h = add_mset r (heap_contents (basks ob))"
    using ask_heap.push_correct [OF a] by metis
  with True b show ?thesis using that [of "ob\<lparr>basks := h\<rparr>"] by (simp add: push_order_def inserted_def)
next
  case False
  obtain h where "push st (bbids ob) r = Some h" "heap_invar max_cmp bid_le st h"
      "heap_contents h = add_mset r (heap_contents (bbids ob))"
    using bid_heap.push_correct [OF b] by metis
  with False a show ?thesis using that [of "ob\<lparr>bbids := h\<rparr>"] by (simp add: push_order_def inserted_def)
qed

definition same_env :: "world \<Rightarrow> world \<Rightarrow> bool" where
  "same_env w w' \<longleftrightarrow> orders w' = orders w \<and> next_ref w' = next_ref w \<and> results w' = results w \<and>
     open_files w' = open_files w \<and> ticks w' = ticks w"

lemma allocate_nonneg: "allocate_frame m s = (m', f) \<Longrightarrow> 0 \<le> f \<longleftrightarrow> free_set m \<noteq> {}"
  by (auto simp: allocate_frame_eq Let_def split: if_splits)

lemma push_order_book:
  assumes "market_inv (market_of ob w)"
  shows "\<exists>ob'. push_order (orders w) (ob\<lparr>bmem := mem'\<rparr>) r = Some ob' \<and>
      market_inv (market_of ob' w) \<and> inserted (orders w) r ob ob' \<and> bsymbol ob' = bsymbol ob \<and> btrades ob' = btrades ob"
proof -
  have h: "heap_invar min_cmp ask_le (orders w) (basks (ob\<lparr>bmem := mem'\<rparr>))"
      "heap_invar max_cmp bid_le (orders w) (bbids (ob\<lparr>bmem := mem'\<rparr>))"
    using assms by (auto simp: market_inv_of)
  obtain ob' where "push_order (orders w) (ob\<lparr>bmem := mem'\<rparr>) r = Some ob'"
      "heap_invar min_cmp ask_le (orders w) (basks ob')" "heap_invar max_cmp bid_le (orders w) (bbids ob')"
      "inserted (orders w) r (ob\<lparr>bmem := mem'\<rparr>) ob'"
    using push_order_ok [OF h] by metis
  then show ?thesis
    using push_order_mem [of "orders w" "ob\<lparr>bmem := mem'\<rparr>" r ob'] by (simp add: inserted_def market_inv_of)
qed

text \<open>What a successful insertion establishes.\<close>

definition insert_post :: "OrderBook \<Rightarrow> ref \<Rightarrow> world \<Rightarrow> OrderBook \<Rightarrow> world \<Rightarrow> bool" where
  "insert_post ob r w ob' w' \<longleftrightarrow> market_inv (market_of ob' w') \<and> same_env w w' \<and>
     bsymbol ob' = bsymbol ob \<and> btrades ob' = btrades ob \<and> inserted (orders w) r ob ob'"

lemma insert_in_page_ok:
  assumes inv: "mem_inv (mm w) mems" and k: "k < length mems" "bmem ob = mems ! k"
    and heaps: "market_inv (market_of ob w)" and pc: "0 < page_count (bmem ob)"
  shows "\<exists>ob' w'. insert_in_page ob r w = Some (True, ob', w') \<and> insert_post ob r w ob' w'"
proof -
  have wf: "mm_wf (mm w)" using inv by (auto simp: mem_inv_def frames_ok_def)
  obtain ps where ps: "mem_rep (bmem ob) ps" "pages_ok (mm w) (int k) ps (nodes_in_curr_page (bmem ob))"
    using inv k by (auto simp: mem_inv_def mem_ok_def)
  then have ne: "ps \<noteq> []" using pc by (auto simp: mem_rep_def)
  then have "last ps < MAX_PAGES" using ps(2) last_in_set [OF ne] by (auto simp: pages_ok_def)
  then obtain m' where m': "add_node_count (mm w) (last ps) 1 = Some m'"
    using set_node_count_ok [OF wf] by (metis add_node_count_eq)
  show ?thesis
    using translate_last [OF ps(1) ne] m' push_order_book [OF heaps,
        of "(bmem ob)\<lparr>nodes_in_curr_page := nodes_in_curr_page (bmem ob) + 1\<rparr>" r]
    by (auto simp: insert_in_page_def insert_post_def same_env_def market_inv_of)
qed

lemma insert_new_page_ok:
  assumes inv: "mem_inv (mm w) mems" and k: "k < length mems" "bmem ob = mems ! k"
    and heaps: "market_inv (market_of ob w)" and pc: "page_count (bmem ob) < MAX_PAGES_PER_SYMBOL"
    and al: "allocate_frame (mm w) (int k) = (m, frame)" "0 \<le> frame"
  shows "\<exists>ob' w'. insert_new_page ob r frame m w = Some (True, ob', w') \<and> insert_post ob r w ob' w'"
proof -
  have wf: "mm_wf (mm w)" using inv by (auto simp: mem_inv_def frames_ok_def)
  obtain ps where ps: "mem_rep (bmem ob) ps"
    using inv k by (auto simp: mem_inv_def mem_ok_def)
  have ne: "free_set (mm w) \<noteq> {}" using allocate_nonneg [OF al(1)] al(2) by simp
  have "Min (free_set (mm w)) < MAX_PAGES" using Min_free_set [OF ne] by (simp add: free_set_def)
  moreover from this have "frame = int (Min (free_set (mm w)))" "mm_wf m"
    using al(1) wf ne by (auto simp: allocate_frame_eq Let_def)
  ultimately obtain m' where m': "set_node_count m (nat frame) 1 = Some m'" using set_node_count_ok by (metis nat_int)
  let ?mem = "\<lparr>virtual_pages = (virtual_pages (bmem ob))[page_count (bmem ob) := Some frame],
    page_count = page_count (bmem ob) + 1, nodes_in_curr_page = 1\<rparr>"
  have "array_write (virtual_pages (bmem ob)) (page_count (bmem ob)) frame = Some (virtual_pages ?mem)"
    using ps pc by (simp add: array_write_def mem_rep_def)
  then show ?thesis
    using m' push_order_book [OF heaps, of ?mem r]
    by (auto simp: insert_new_page_def insert_post_def same_env_def market_inv_of)
qed

lemma insert_overflow_ok:
  assumes "market_inv (market_of ob w)"
  shows "\<exists>ob' w'. insert_overflow ob r w = Some (True, ob', w') \<and> insert_post ob r w ob' w'"
  using push_order_book [OF assms, of "bmem ob" r]
  by (auto simp: insert_overflow_def insert_post_def same_env_def market_inv_of Let_def)

text \<open>An order is accepted exactly when there is room; a rejected one changes counters only.\<close>

lemma mem_aware_insert_ok:
  assumes inv: "mem_inv (mm w) mems" and k: "k < length mems" "bmem ob = mems ! k"
    and heaps: "market_inv (market_of ob w)"
  shows "\<exists>b ob' w'. mem_aware_insert ob r (int k) w = Some (b, ob', w') \<and> (b \<longleftrightarrow> has_room (mm w) (bmem ob)) \<and>
    (if b then insert_post ob r w ob' w' else ob' = ob \<and> same_env w w')"
proof (cases "page_count (bmem ob) > 0 \<and> nodes_in_curr_page (bmem ob) < PAGE_SIZE")
  case True
  then show ?thesis
    using insert_in_page_ok [OF assms, of r] by (auto simp: mem_aware_insert_def has_room_def)
next
  case full: False
  obtain m frame where mf: "(if page_count (bmem ob) < MAX_PAGES_PER_SYMBOL
      then allocate_frame (mm w) (int k) else (mm w, -1)) = (m, frame)"
    by force
  have room: "0 \<le> frame \<longleftrightarrow> page_count (bmem ob) < MAX_PAGES_PER_SYMBOL \<and> free_set (mm w) \<noteq> {}"
    using mf allocate_nonneg [of "mm w" "int k" m frame] by (auto split: if_splits)
  have unfold: "mem_aware_insert ob r (int k) w =
      (if frame \<ge> 0 then insert_new_page ob r frame m w
       else if ov_cnt (overflow (mm w)) < OVERFLOW_PAGE_SIZE then insert_overflow ob r w
       else Some (hard_reject ob r w))"
    by (simp only: mem_aware_insert_def if_not_P [OF full] mf Let_def prod.case)
  have new: "\<exists>ob' w'. insert_new_page ob r frame m w = Some (True, ob', w') \<and> insert_post ob r w ob' w'" if "0 \<le> frame"
    using insert_new_page_ok [OF assms, of m frame r] mf that by (auto split: if_splits)
  show ?thesis
    using new room full insert_overflow_ok [OF heaps, of r] unfolding unfold has_room_def
    by (auto simp: hard_reject_def same_env_def)
qed


section \<open>Submitting an order\<close>

lemma books_nth_refs: "k < length bs \<Longrightarrow> r \<in># refs (bs ! k) \<Longrightarrow> r \<in># all_refs bs"
  by (meson mset_subset_eqD refs_subset_all)

lemma refs_create [simp]: "refs (create_order_book symbol) = {#}"
  by (simp add: refs_def create_order_book_def create_heap_def heap_contents_def elems_def)

lemma book_ok_create: "book_ok (create_order_book symbol) w"
  by (simp add: book_ok_def market_inv_of create_order_book_def create_heap_def amounts_ok_def
      heap_contents_def elems_def heap_invar_def heap_rep_def heap_prop_def)

text \<open>The new order is a fresh reference: no book sees it yet.\<close>

lemma sim_inv_new_order:
  assumes "sim_inv ex w" and "\<And>x. x \<noteq> next_ref w \<Longrightarrow> orders w' x = orders w x"
    and "mm w' = mm w" "next_ref w' = next_ref w + 1"
  shows "sim_inv ex w'" "settled ex w \<Longrightarrow> settled ex w'" "next_ref w \<notin># all_refs (books ex)"
proof -
  have lt: "\<forall>r \<in># all_refs (books ex). r < next_ref w" using assms(1) by (simp add: sim_inv_def refs_ok_def)
  then show new: "next_ref w \<notin># all_refs (books ex)" by blast
  have same: "orders w' r = orders w r" if "ob \<in> set (books ex)" "r \<in># refs ob" for ob r
    using that lt assms(2) books_nth_refs [of _ "books ex" r] by (metis in_set_conv_nth less_irrefl)
  show "sim_inv ex w'"
    using assms(1,3,4) lt book_ok_frame [of _ w w'] same by (auto simp: sim_inv_def refs_ok_def)
  show "settled ex w \<Longrightarrow> settled ex w'"
    using same crossed_frame [of _ w' w] by (simp add: settled_def)
qed

text \<open>A new empty book.\<close>

lemma sim_inv_new_book:
  assumes "sim_inv ex w" "exchange_ok ex1" "books ex1 = books ex @ [create_order_book symbol]"
  shows "sim_inv ex1 w" "settled ex w \<Longrightarrow> settled ex1 w"
proof -
  have "bmem (create_order_book symbol) = empty_mem" by (simp add: create_order_book_def empty_mem_def)
  then show "sim_inv ex1 w"
    using assms mem_inv_snoc [of "mm w" "map bmem (books ex)"] book_ok_create
    by (auto simp: sim_inv_def refs_ok_def all_refs_snoc)
  have "\<not> crossed (abs_book (create_order_book symbol) w)"
    using refs_create [of symbol] by (intro not_crossed_empty) (simp add: refs_def)
  then show "settled ex w \<Longrightarrow> settled ex1 w" using assms(3) by (auto simp: settled_def)
qed

text \<open>One book is replaced; the orders of the other books are as before.\<close>

lemma sim_inv_replace:
  assumes inv: "sim_inv ex w" and k: "k < length (books ex)"
    and mem: "mem_inv (mm w') ((map bmem (books ex))[k := bmem ob'])" and ok: "book_ok ob' w'"
    and refs: "refs_ok ((books ex)[k := ob']) (next_ref w')" "bsymbol ob' = bsymbol (books ex ! k)"
    and st: "store_frame (refs (books ex ! k) + N) (orders w) (orders w')" "N \<inter># all_refs (books ex) = {#}"
  shows "sim_inv (ex\<lparr>books := (books ex)[k := ob']\<rparr>) w'"
    "settled ex w \<Longrightarrow> \<not> crossed (abs_book ob' w') \<Longrightarrow> settled (ex\<lparr>books := (books ex)[k := ob']\<rparr>) w'"
proof -
  have same: "price (orders w' r) = price (orders w r) \<and> timestamp (orders w' r) = timestamp (orders w r) \<and>
      amount (orders w' r) = amount (orders w r)" if "j < length (books ex)" "j \<noteq> k" "r \<in># refs (books ex ! j)" for j r
  proof -
    have "r \<notin># refs (books ex ! k)"
      using refs_disjoint [of "books ex" "next_ref w" j k r] inv k that by (auto simp: sim_inv_def)
    moreover have "r \<notin># N" using st(2) books_nth_refs [OF that(1,3)] by (metis disjunct_not_in)
    ultimately show ?thesis using st(1) by (simp add: store_frame_def)
  qed
  have oks: "book_ok (books ex ! j) w' \<and> (crossed (abs_book (books ex ! j) w') \<longleftrightarrow> crossed (abs_book (books ex ! j) w))"
    if "j < length (books ex)" "j \<noteq> k" for j
    using book_ok_frame [of "books ex ! j" w w'] crossed_frame [of "books ex ! j" w' w] same [OF that] inv that(1)
    by (auto simp: sim_inv_def)
  have ex: "exchange_ok (ex\<lparr>books := (books ex)[k := ob']\<rparr>)"
    using inv k refs(2) by (simp add: sim_inv_def exchange_ok_def map_update) (metis list_update_id map_update nth_map)
  have "book_ok ob w'" if ob: "ob \<in> set ((books ex)[k := ob'])" for ob
  proof -
    obtain j where "j < length (books ex)" "ob = (if j = k then ob' else books ex ! j)"
      using in_set_update_cases [OF ob] by blast
    then show ?thesis using ok oks [of j] by (cases "j = k") auto
  qed
  then show "sim_inv (ex\<lparr>books := (books ex)[k := ob']\<rparr>) w'"
    using mem refs(1) ex by (simp add: sim_inv_def map_update)
  assume "settled ex w" "\<not> crossed (abs_book ob' w')"
  then have "\<not> crossed (abs_book ob w')" if ob: "ob \<in> set ((books ex)[k := ob'])" for ob
  proof -
    assume s: "settled ex w" "\<not> crossed (abs_book ob' w')"
    obtain j where "j < length (books ex)" "ob = (if j = k then ob' else books ex ! j)"
      using in_set_update_cases [OF ob] by blast
    then show ?thesis using s oks [of j] by (cases "j = k") (auto simp: settled_def)
  qed
  then show "settled (ex\<lparr>books := (books ex)[k := ob']\<rparr>) w'" by (simp add: settled_def)
qed


text \<open>The insertion followed by the matching loop, on the book at position \<open>k\<close>.\<close>

lemma inserted_refs: "inserted st r ob ob' \<Longrightarrow> refs ob' = add_mset r (refs ob)"
  by (auto simp: inserted_def refs_def split: if_splits)

lemma refs_ok_add:
  assumes "refs_ok bs n" "k < length bs" "refs ob' = add_mset r (refs (bs ! k))" "r \<notin># all_refs bs" "r < n"
  shows "refs_ok (bs[k := ob']) n"
proof -
  have "all_refs (bs[k := ob']) + refs (bs ! k) = add_mset r (all_refs bs) + refs (bs ! k)"
    using all_refs_update [OF assms(2), of ob'] assms(3) by simp
  then have eq: "all_refs (bs[k := ob']) = add_mset r (all_refs bs)" by (simp only: add_right_cancel)
  then show ?thesis using assms(1,4,5) by (auto simp: refs_ok_def count_eq_zero_iff)
qed

lemma refs_ok_sub:
  assumes "refs_ok bs n" "k < length bs" "refs ob' \<subseteq># refs (bs ! k)"
  shows "refs_ok (bs[k := ob']) n"
proof -
  have "all_refs (bs[k := ob']) \<subseteq># all_refs bs"
    unfolding subseteq_mset_def
    using all_refs_count_update [OF assms(2), of ob'] mset_subset_eq_count [OF assms(3)]
    by (metis add_le_cancel_right nat_add_left_cancel_le)
  then show ?thesis
    using assms(1) by (meson mset_subset_eqD mset_subset_eq_count order_trans refs_ok_def)
qed

text \<open>An accepted order enters the book with a positive amount, so the book stays well formed.\<close>

lemma insert_post_ok:
  assumes inv: "sim_inv ex w" and k: "k < length (books ex)" and new: "r \<notin># all_refs (books ex)" "r < next_ref w"
    and am: "0 < amount (orders w r)" "is_short (amount (orders w r))"
    and ins: "insert_post (books ex ! k) r w ob' w'" and mem: "mem_inv (mm w') ((map bmem (books ex))[k := bmem ob'])"
  shows "sim_inv (ex\<lparr>books := (books ex)[k := ob']\<rparr>) w'"
proof (rule sim_inv_replace(1) [OF inv k mem, where N = "{#}"])
  have i: "inserted (orders w) r (books ex ! k) ob'" "same_env w w'" "market_inv (market_of ob' w')"
    using ins by (auto simp: insert_post_def)
  have bok: "book_ok (books ex ! k) w" using inv k by (simp add: sim_inv_def)
  show "book_ok ob' w'"
    using bok i am inserted_refs [OF i(1)] by (simp add: book_ok_def amounts_ok_def same_env_def refs_def)
  show "refs_ok ((books ex)[k := ob']) (next_ref w')"
    using inv i(2) new refs_ok_add [OF _ k inserted_refs [OF i(1)]] by (simp add: sim_inv_def same_env_def)
qed (use ins in \<open>simp_all add: insert_post_def same_env_def\<close>)

text \<open>The matching loop on one book of the exchange.\<close>

lemma match_loop_sim:
  assumes inv: "sim_inv ex w" and k: "k < length (books ex)"
  shows "\<exists>res ob' w' evs. match_loop clk fopen_ok (books ex ! k) w = Some (res, ob', w') \<and>
    sim_inv (ex\<lparr>books := (books ex)[k := ob']\<rparr>) w' \<and> trades (abs_book (books ex ! k) w) (map ev_shares evs) (abs_book ob' w') \<and>
    results w' = results w @ evs \<and> (\<forall>ev \<in> set evs. ev_symbol ev = bsymbol (books ex ! k)) \<and>
    btrades ob' = btrades (books ex ! k) + int (length evs) \<and> bsymbol ob' = bsymbol (books ex ! k) \<and>
    store_frame (refs (books ex ! k)) (orders w) (orders w') \<and> res \<noteq> Traded \<and>
    (res = NoTrade \<longrightarrow> \<not> crossed (abs_book ob' w')) \<and> (res = ExitFailure \<longrightarrow> \<not> fopen_ok (open_files w'))"
proof -
  let ?ob = "books ex ! k"
  have ok: "book_ok ?ob w" and mem: "mem_inv (mm w) (map bmem (books ex))" and rok: "refs_ok (books ex) (next_ref w)"
    using inv k by (auto simp: sim_inv_def)
  have b: "book_inv ?ob w" "amounts_ok (abs_book ?ob w)" "distinct_orders (abs_book ?ob w)"
    using ok mem_inv_rep [OF mem, of k] k refs_ok_distinct [OF rok k] by (auto simp: book_ok_def book_inv_def)
  obtain res ob' w' evs where r: "match_loop clk fopen_ok ?ob w = Some (res, ob', w')"
    "book_inv ob' w'" "mem_inv (mm w') ((map bmem (books ex))[k := bmem ob'])"
    "trades (abs_book ?ob w) (map ev_shares evs) (abs_book ob' w')"
    "results w' = results w @ evs" "\<forall>ev \<in> set evs. ev_symbol ev = bsymbol ?ob" "bsymbol ob' = bsymbol ?ob"
    "btrades ob' = btrades ?ob + int (length evs)" "next_ref w' = next_ref w" "res \<noteq> Traded"
    "res = NoTrade \<longrightarrow> \<not> crossed (abs_book ob' w')" "res = ExitFailure \<longrightarrow> \<not> fopen_ok (open_files w')"
    using match_loop_correct [OF b mem, of k clk fopen_ok] k by auto
  note t = trades_inv [OF r(4) b(3,2), simplified]
  have st: "store_frame (refs ?ob) (orders w) (orders w')" using t by (simp add: refs_def)
  have "refs ob' \<subseteq># refs ?ob" using t by (simp add: refs_def subset_mset.add_mono)
  then have "refs_ok ((books ex)[k := ob']) (next_ref w')" using refs_ok_sub [OF rok k] r(9) by simp
  moreover have "book_ok ob' w'" using r(2) t by (simp add: book_ok_def book_inv_def)
  ultimately have "sim_inv (ex\<lparr>books := (books ex)[k := ob']\<rparr>) w'"
    using sim_inv_replace(1) [OF inv k r(3), where N = "{#}"] r(7) st by simp
  with r st show ?thesis by blast
qed


text \<open>
  Submitting an order keeps the invariant, and leaves no two orders of any symbol that could
  still trade, unless the results file cannot be opened.
\<close>

lemma submit_insert_sim:
  assumes inv: "sim_inv ex w" "settled ex w" and k: "k < length (books ex)"
    and new: "r \<notin># all_refs (books ex)" "r < next_ref w"
    and am: "0 < amount (orders w r)" "is_short (amount (orders w r))"
  shows "\<exists>ins ob w3. mem_aware_insert (books ex ! k) r (int k) w = Some (ins, ob, w3) \<and>
    (ins \<longleftrightarrow> has_room (mm w) (bmem (books ex ! k))) \<and> sim_inv (ex\<lparr>books := (books ex)[k := ob]\<rparr>) w3 \<and>
    bsymbol ob = bsymbol (books ex ! k) \<and> same_env w w3 \<and>
    (if ins then inserted (orders w) r (books ex ! k) ob else settled (ex\<lparr>books := (books ex)[k := ob]\<rparr>) w3)"
proof -
  let ?ob = "books ex ! k"
  have mem: "mem_inv (mm w) (map bmem (books ex))" and ok: "book_ok ?ob w" and rok: "refs_ok (books ex) (next_ref w)"
    using inv k by (auto simp: sim_inv_def)
  have k': "k < length (map bmem (books ex))" "bmem ?ob = map bmem (books ex) ! k" using k by simp_all
  obtain ins ob w3 where i: "mem_aware_insert ?ob r (int k) w = Some (ins, ob, w3)"
      "ins \<longleftrightarrow> has_room (mm w) (bmem ?ob)" "if ins then insert_post ?ob r w ob w3 else ob = ?ob \<and> same_env w w3"
    using mem_aware_insert_ok [OF mem k', of r] ok by (auto simp: book_ok_def)
  note mem' = mem_aware_insert_inv [OF mem k' i(1)]
  show ?thesis
  proof (cases ins)
    case True
    then show ?thesis
      using i insert_post_ok [OF inv(1) k new am _ mem'] by (auto simp: insert_post_def)
  next
    case False
    then have eq: "ob = ?ob" "same_env w w3" using i(3) by auto
    have "book_ok ?ob w3" "\<not> crossed (abs_book ?ob w3)"
      using book_ok_frame [OF ok, of w3] crossed_frame [of ?ob w3 w] inv(2) k eq(2) by (auto simp: same_env_def settled_def)
    then show ?thesis
      using sim_inv_replace [OF inv(1) k mem', where N = "{#}"] i False eq rok inv(2) by (auto simp: same_env_def)
  qed
qed

lemma submit_order_ok:
  assumes inv: "sim_inv ex w" "settled ex w" and symbol: "length symbol \<le> 3" and a: "0 < a" "a \<le> 32767"
  shows "\<exists>res ex' w' evs. submit_order clk fopen_ok ex w p a ty symbol line = Some (res, ex', w') \<and>
    sim_inv ex' w' \<and> results w' = results w @ evs \<and> (\<forall>ev \<in> set evs. ev_symbol ev = symbol) \<and> res \<noteq> Traded \<and>
    (res = NoTrade \<longrightarrow> settled ex' w') \<and> (res = ExitFailure \<longrightarrow> \<not> fopen_ok (open_files w'))"
proof -
  let ?r = "next_ref w"
  let ?w1 = "w\<lparr>orders := create_order (clk (ticks w)) ?r (orders w) p a ty symbol, next_ref := ?r + 1, ticks := ticks w + 1\<rparr>"
  let ?w2 = "?w1\<lparr>stdout := stdout ?w1 @ [line (orders ?w1 ?r)]\<rparr>"
  obtain k ex1 where f: "find_or_create_book ex symbol = Some (k, ex1)" "exchange_ok ex1"
    "k < length (books ex1)" "bsymbol (books ex1 ! k) = symbol" "book_number (books ex1) symbol = k"
    "ex1 = ex \<or> books ex1 = books ex @ [create_order_book symbol]"
    using find_or_create_ok [of ex symbol] inv(1) symbol by (auto simp: sim_inv_def)
  have w2: "sim_inv ex ?w2" "settled ex ?w2" "?r \<notin># all_refs (books ex)"
    using sim_inv_new_order [OF inv(1), of ?w2] inv(2) by (auto simp: create_order_def)
  have ex1: "sim_inv ex1 ?w2" "settled ex1 ?w2" "?r \<notin># all_refs (books ex1)"
    using f(6) w2 sim_inv_new_book [OF w2(1) f(2)] by (auto simp: all_refs_snoc)
  have am: "0 < amount (orders ?w2 ?r)" "is_short (amount (orders ?w2 ?r))"
    using a by (simp_all add: create_order_def to_short_id is_short_def)
  obtain ins ob w3 where i: "mem_aware_insert (books ex1 ! k) ?r (int k) ?w2 = Some (ins, ob, w3)"
      "sim_inv (ex1\<lparr>books := (books ex1)[k := ob]\<rparr>) w3" "same_env ?w2 w3" "bsymbol ob = symbol"
      "if ins then inserted (orders ?w2) ?r (books ex1 ! k) ob else settled (ex1\<lparr>books := (books ex1)[k := ob]\<rparr>) w3"
    using submit_insert_sim [OF ex1(1,2) f(3) ex1(3) _ am] f(4) by auto
  show ?thesis
  proof (cases ins)
    case False
    then show ?thesis
      using i f unfolding submit_order_def by (auto simp: Let_def same_env_def)
  next
    case True
    let ?ex = "ex1\<lparr>books := (books ex1)[k := ob]\<rparr>"
    have k: "k < length (books ?ex)" and at: "books ?ex ! k = ob" using f(3) by simp_all
    obtain res ob' w' evs where m: "match_loop clk fopen_ok ob w3 = Some (res, ob', w')"
        "sim_inv (ex1\<lparr>books := (books ex1)[k := ob']\<rparr>) w'" "results w' = results w3 @ evs"
        "\<forall>ev \<in> set evs. ev_symbol ev = bsymbol ob" "bsymbol ob' = bsymbol ob"
        "store_frame (refs ob) (orders w3) (orders w')" "res \<noteq> Traded"
        "res = NoTrade \<longrightarrow> \<not> crossed (abs_book ob' w')" "res = ExitFailure \<longrightarrow> \<not> fopen_ok (open_files w')"
      using match_loop_sim [OF i(2) k, of clk fopen_ok] unfolding at by auto
    have "inserted (orders ?w2) ?r (books ex1 ! k) ob" using i(5) True by simp
    from inserted_refs [OF this] have "store_frame (refs (books ex1 ! k) + {#?r#}) (orders ?w2) (orders w')"
      using m(6) i(3) by (simp add: same_env_def)
    moreover have "mem_inv (mm w') ((map bmem (books ex1))[k := bmem ob'])" "book_ok ob' w'"
        "refs_ok ((books ex1)[k := ob']) (next_ref w')"
      using m(2) f(3) set_update_memI [OF f(3), of ob'] by (auto simp: sim_inv_def map_update)
    moreover have "{#?r#} \<inter># all_refs (books ex1) = {#}" using ex1(3) by simp
    ultimately have "settled (ex1\<lparr>books := (books ex1)[k := ob']\<rparr>) w'" if "res = NoTrade"
      using sim_inv_replace(2) [OF ex1(1) f(3), of w' ob' "{#?r#}"] m(5,8) i(4) f(4) ex1(2) that by simp
    moreover have "submit_order clk fopen_ok ex w p a ty symbol line = Some (res, ex1\<lparr>books := (books ex1)[k := ob']\<rparr>, w')"
      using i(1) f(1,5) m(1) True unfolding submit_order_def by (simp add: Let_def)
    ultimately show ?thesis using m i(3,4) by (auto simp: same_env_def)
  qed
qed

section \<open>Properties\<close>

text \<open>
  C14: An order is accepted exactly when there is room for it: in the symbol's current page, in a
  new page, or in the shared overflow page. An accepted order enters the heap of its side and
  only that heap; a rejected one leaves the book as it was.
\<close>

theorem insert_accepts_iff_room:
  assumes "mem_inv (mm w) mems" "k < length mems" "bmem ob = mems ! k" "market_inv (market_of ob w)"
  shows "\<exists>b ob' w'. mem_aware_insert ob r (int k) w = Some (b, ob', w') \<and> (b \<longleftrightarrow> has_room (mm w) (bmem ob)) \<and>
    (if b then insert_post ob r w ob' w' else ob' = ob \<and> same_env w w')"
  using assms by (rule mem_aware_insert_ok)

theorem insert_accepts_iff_room_witness:
  "\<exists>b ob' w'. mem_aware_insert sample_book 4 (int 0) sample_world = Some (b, ob', w') \<and>
    (b \<longleftrightarrow> has_room (mm sample_world) (bmem sample_book)) \<and>
    (if b then insert_post sample_book 4 sample_world ob' w' else ob' = sample_book \<and> same_env sample_world w')"
  by (rule insert_accepts_iff_room [OF sample_world_mem(1) _ sample_book_ok(4)])
    (use sample_book_ok(1) in \<open>simp_all add: book_inv_def\<close>)

text \<open>
  C2: Submitting an order with a positive amount that fits a \<open>short\<close> never reaches undefined
  behaviour, keeps the invariant of the whole simulator over all its books, reports only trades of
  the order's symbol, and leaves no book with a pair of orders that could trade, unless the
  results file cannot be opened.
\<close>

theorem submit_order_sound:
  assumes "sim_inv ex w" "settled ex w" "length symbol \<le> 3" "0 < a" "a \<le> 32767"
  shows "\<exists>res ex' w' evs. submit_order clk fopen_ok ex w p a ty symbol line = Some (res, ex', w') \<and>
    sim_inv ex' w' \<and> results w' = results w @ evs \<and> (\<forall>ev \<in> set evs. ev_symbol ev = symbol) \<and> res \<noteq> Traded \<and>
    (res = NoTrade \<longrightarrow> settled ex' w') \<and> (res = ExitFailure \<longrightarrow> \<not> fopen_ok (open_files w'))"
  using assms by (rule submit_order_ok)

lemma sim_inv_init: "sim_inv (create_exchange 16) (init_world st)" "settled (create_exchange 16) (init_world st)"
  by (simp_all add: sim_inv_def settled_def create_exchange_def init_world_def mem_inv_init refs_ok_def all_refs_def
      exchange_ok_def)

theorem submit_order_sound_witness:
  "\<exists>res ex' w' evs. submit_order int (\<lambda>n. n < 100) (create_exchange 16) (init_world sample_store) 12 5 1 ''BBB''
      (typed_line 1 12 5 ''BBB'') = Some (res, ex', w') \<and>
    sim_inv ex' w' \<and> results w' = results (init_world sample_store) @ evs \<and> (\<forall>ev \<in> set evs. ev_symbol ev = ''BBB'') \<and>
    res \<noteq> Traded \<and> (res = NoTrade \<longrightarrow> settled ex' w') \<and> (res = ExitFailure \<longrightarrow> \<not> open_files w' < 100)"
  by (rule submit_order_sound [OF sim_inv_init]) simp_all

end
