(* ===== verification/Sim_Runs.thy ===== *)
theory Sim_Runs
  imports Exchange_Inv
begin

text \<open>
  Complete runs of \<open>memory_sim.c\<close>: every mode is the submission of a list of orders, so one
  induction shows that a run never reaches undefined behaviour, keeps the invariant of the
  simulator and ends with no pair of orders left that could trade. For the CSV mode the list is
  read from the file: a printed file is read back order by order.
\<close>

section \<open>A list of orders\<close>

type_synonym submission = "int \<times> int \<times> int \<times> string \<times> (Order \<Rightarrow> sim_event)"

fun submit_all :: "(nat \<Rightarrow> int) \<Rightarrow> (nat \<Rightarrow> bool) \<Rightarrow> submission list \<Rightarrow> Exchange \<Rightarrow> world \<Rightarrow>
    (check_result \<times> Exchange \<times> world) option" where
  "submit_all clk fopen_ok [] ex w = Some (NoTrade, ex, w)"
| "submit_all clk fopen_ok ((p, a, ty, symbol, line) # os) ex w = do {
     (res, ex', w') \<leftarrow> submit_order clk fopen_ok ex w p a ty symbol line;
     (if res = ExitFailure then Some (res, ex', w') else submit_all clk fopen_ok os ex' w') }"


text \<open>What every run establishes.\<close>

definition run_ok :: "(nat \<Rightarrow> bool) \<Rightarrow> (check_result \<times> Exchange \<times> world) option \<Rightarrow> bool" where
  "run_ok fopen_ok r \<longleftrightarrow> (\<exists>res ex w. r = Some (res, ex, w) \<and> sim_inv ex w \<and> res \<noteq> Traded \<and>
     (res = NoTrade \<longrightarrow> settled ex w) \<and> (res = ExitFailure \<longrightarrow> \<not> fopen_ok (open_files w)))"

lemma submit_order_run:
  assumes "sim_inv ex w" "settled ex w" "length symbol \<le> 3" "0 < a" "a \<le> 32767"
    and "\<And>ex' w'. sim_inv ex' w' \<Longrightarrow> settled ex' w' \<Longrightarrow> run_ok fopen_ok (rest ex' w')"
  shows "run_ok fopen_ok (do {
     (res, ex', w') \<leftarrow> submit_order clk fopen_ok ex w p a ty symbol line;
     (if res = ExitFailure then Some (res, ex', w') else rest ex' w') })"
proof -
  obtain res ex' w' where r: "submit_order clk fopen_ok ex w p a ty symbol line = Some (res, ex', w')"
      "sim_inv ex' w'" "res \<noteq> Traded" "res = NoTrade \<longrightarrow> settled ex' w'" "res = ExitFailure \<longrightarrow> \<not> fopen_ok (open_files w')"
    using submit_order_ok [OF assms(1-5), of clk fopen_ok p ty line] by blast
  then show ?thesis using assms(6) [of ex' w'] by (cases res) (auto simp: run_ok_def)
qed


section \<open>Automatic mode\<close>






section \<open>CSV mode\<close>

text \<open>
  The files the CSV reader handles: no field or number that overflows, and positive
  \<open>short\<close> amounts. Lines it skips may be anything.
\<close>

definition csv_line_ok :: "string \<Rightarrow> bool" where
  "csv_line_ok line = (case scan_csv_line line of
     Undef \<Rightarrow> False
   | NoMatch \<Rightarrow> True
   | Match (ty, sy, p, a) r \<Rightarrow> csv_type ty < 0 \<or> (0 < a \<and> a \<le> 32767))"

function csv_ok :: "string \<Rightarrow> bool" where
  "csv_ok text = (case fgets 256 text of None \<Rightarrow> True | Some (line, rest) \<Rightarrow> csv_line_ok line \<and> csv_ok rest)"
  by pat_completeness auto
termination
  by (relation "measure length") (auto dest: fgets_shorter [of 256, simplified])

declare csv_ok.simps [simp del]

lemma sim_inv_say:
  "sim_inv ex (say ev w) = sim_inv ex w" "settled ex (say ev w) = settled ex w"
  by (simp_all add: say_def sim_inv_def settled_def book_ok_def market_of_def abs_of_def market_inv_def)

lemma csv_loop_ok:
  "csv_ok input \<Longrightarrow> sim_inv ex w \<Longrightarrow> settled ex w \<Longrightarrow> run_ok fopen_ok (csv_loop clk fopen_ok input n ex w)"
proof (induction "length input" arbitrary: input n ex w rule: less_induct)
  case less
  show ?case
  proof (cases "fgets 256 input")
    case None
    then show ?thesis using less.prems by (subst csv_loop.simps) (auto simp: run_ok_def)
  next
    case (Some lr)
    obtain line rest where lr: "lr = (line, rest)" by (cases lr) auto
    have lt: "length rest < length input" using Some lr fgets_shorter [of 256 input line rest] by simp
    have ok: "csv_line_ok line" "csv_ok rest"
      using less.prems(1) Some lr by (subst (asm) csv_ok.simps; simp)+
    note step = Some lr and IH = less.hyps [OF lt ok(2)]
    show ?thesis
    proof (cases "n < MAX_ORDERS")
      case False
      then show ?thesis using step less.prems by (subst csv_loop.simps) (auto simp: run_ok_def)
    next
      case True
      show ?thesis
      proof (cases "scan_csv_line line")
        case (Match x r)
        obtain ty sy p a where x: "x = (ty, sy, p, a)" by (cases x) auto
        show ?thesis
        proof (cases "csv_type ty < 0")
          case neg: True
          then have "csv_loop clk fopen_ok input n ex w = csv_loop clk fopen_ok rest n ex (say (InvalidType ty) w)"
            using step True Match x by (subst csv_loop.simps) simp
          then show ?thesis using IH less.prems by (simp add: sim_inv_say)
        next
          case pos: False
          have a: "0 < a" "a \<le> 32767" using ok(1) Match x pos by (auto simp: csv_line_ok_def)
          have "csv_loop clk fopen_ok input n ex w = do {
              (res, ex', w') \<leftarrow> submit_order clk fopen_ok ex w p a (csv_type ty) (take 3 sy)
                (typed_line (csv_type ty) p a (take 3 sy));
              (if res = ExitFailure then Some (res, ex', w') else csv_loop clk fopen_ok rest (n + 1) ex' w') }"
            using step True Match x pos by (subst csv_loop.simps) (simp add: Let_def)
          then show ?thesis
            using submit_order_run [OF less.prems(2,3), of "take 3 sy" a fopen_ok] a IH by simp
        qed
      next
        case NoMatch
        then have "csv_loop clk fopen_ok input n ex w = csv_loop clk fopen_ok rest n ex (say (MalformedLine line) w)"
          using step True by (subst csv_loop.simps) simp
        then show ?thesis using IH less.prems by (simp add: sim_inv_say)
      next
        case Undef
        then show ?thesis using ok(1) by (simp add: csv_line_ok_def)
      qed
    qed
  qed
qed


section \<open>Reading back a printed file\<close>

type_synonym csv_order = "bool \<times> string \<times> nat \<times> nat"

text \<open>The line of an order: \<open>Ask,<symbol>,<price>,<amount>\<close>.\<close>

definition print_csv :: "csv_order \<Rightarrow> string" where
  "print_csv = (\<lambda>(ask, symbol, p, a). (if ask then ''Ask'' else ''Bid'') @ CHR '','' # symbol @ CHR '','' #
     dec_digits p @ CHR '','' # dec_digits a)"

definition csv_text :: "csv_order list \<Rightarrow> string" where
  "csv_text os = concat (map (\<lambda>x. print_csv x @ [CHR 0x0A]) os)"

definition printable :: "csv_order \<Rightarrow> bool" where
  "printable = (\<lambda>(ask, symbol, p, a). symbol \<noteq> [] \<and> length symbol \<le> 3 \<and> CHR '','' \<notin> set symbol \<and>
     CHR 0x0A \<notin> set symbol \<and> p \<le> 2147483647 \<and> a \<le> 2147483647)"

definition csv_submission :: "csv_order \<Rightarrow> submission" where
  "csv_submission = (\<lambda>(ask, symbol, p, a). (int p, int a, if ask then 1 else 0, symbol,
     typed_line (if ask then 1 else 0) (int p) (int a) symbol))"

lemma scan_print_csv:
  assumes "printable (ask, symbol, p, a)"
  shows "scan_csv_line (print_csv (ask, symbol, p, a) @ [CHR 0x0A]) =
    Match (if ask then ''Ask'' else ''Bid'', symbol, int p, int a) [CHR 0x0A]"
proof -
  have t: "conv_not_comma 16 (''Ask'' @ CHR '','' # r) = Match ''Ask'' (CHR '','' # r)"
      "conv_not_comma 16 (''Bid'' @ CHR '','' # r) = Match ''Bid'' (CHR '','' # r)" for r
    by (rule conv_not_comma_field; simp)+
  have s: "conv_not_comma 8 (symbol @ CHR '','' # r) = Match symbol (CHR '','' # r)" for r
    using assms by (intro conv_not_comma_field) (auto simp: printable_def)
  have d: "conv_d (dec_digits p @ CHR '','' # r) = Match (int p) (CHR '','' # r)"
      "conv_d (dec_digits a @ [CHR 0x0A]) = Match (int a) [CHR 0x0A]" for r
    using assms by (auto intro!: conv_d_dec simp: printable_def c_isdigit_def)
  show ?thesis
    using t s d by (auto simp: scan_csv_line_def print_csv_def conv_lit_def)
qed

lemma print_csv_line:
  assumes "printable x"
  shows "length (print_csv x) < 255" "\<forall>c \<in> set (print_csv x). \<not> is_newline c"
proof -
  obtain ask symbol p a where x: "x = (ask, symbol, p, a)" by (cases x) auto
  have "length (dec_digits p) \<le> 10" "length (dec_digits a) \<le> 10"
    using assms by (auto intro!: dec_digits_length simp: x printable_def)
  then show "length (print_csv x) < 255" using assms by (simp add: x print_csv_def printable_def)
  have "CHR 0x0A \<notin> set (dec_digits n)" for n by (rule dec_digits_no) (simp add: c_isdigit_def)
  then show "\<forall>c \<in> set (print_csv x). \<not> is_newline c"
    using assms by (auto simp: x print_csv_def printable_def is_newline_def)
qed

text \<open>The reader submits exactly the printed orders, in order.\<close>

lemma csv_loop_print:
  assumes "list_all printable os" "n + length os \<le> MAX_ORDERS"
  shows "csv_loop clk fopen_ok (csv_text os) n ex w = submit_all clk fopen_ok (map csv_submission os) ex w"
  using assms
proof (induction os arbitrary: n ex w)
  case Nil
  show ?case by (subst csv_loop.simps) (simp add: csv_text_def fgets_def)
next
  case (Cons x os)
  obtain ask symbol p a where x: "x = (ask, symbol, p, a)" by (cases x) auto
  have pr: "printable x" "n < MAX_ORDERS" using Cons.prems by auto
  have fg: "fgets 256 (csv_text (x # os)) = Some (print_csv x @ [CHR 0x0A], csv_text os)"
    using fgets_line [of "print_csv x" 256 "csv_text os"] print_csv_line [OF pr(1)] by (simp add: csv_text_def)
  have ty: "csv_type (if ask then ''Ask'' else ''Bid'') = (if ask then 1 else 0)" by (simp add: csv_type_def)
  have sy: "take 3 symbol = symbol" using pr(1) by (simp add: x printable_def)
  have IH: "csv_loop clk fopen_ok (csv_text os) (n + 1) ex' w' = submit_all clk fopen_ok (map csv_submission os) ex' w'" for ex' w'
    using Cons.IH [of "n + 1"] Cons.prems by simp
  have "csv_loop clk fopen_ok (csv_text (x # os)) n ex w = do {
      (res, ex', w') \<leftarrow> submit_order clk fopen_ok ex w (int p) (int a) (if ask then 1 else 0) symbol
        (typed_line (if ask then 1 else 0) (int p) (int a) symbol);
      (if res = ExitFailure then Some (res, ex', w') else csv_loop clk fopen_ok (csv_text os) (n + 1) ex' w') }"
    using fg pr(2) scan_print_csv [OF pr(1) [unfolded x]] ty sy by (subst csv_loop.simps) (simp add: x Let_def)
  moreover have "csv_submission x = (int p, int a, if ask then 1 else 0, symbol,
      typed_line (if ask then 1 else 0) (int p) (int a) symbol)"
    by (simp add: x csv_submission_def)
  ultimately show ?case unfolding IH by (simp only: list.map submit_all.simps)
qed

text \<open>A file of printed orders is not mistaken for one with a header line.\<close>

lemma csv_skip_header_print:
  assumes "list_all printable os" "os \<noteq> []"
  shows "csv_skip_header (csv_text os) = Some (csv_text os)"
proof -
  obtain x os' where os: "os = x # os'" using assms(2) by (cases os) auto
  have fg: "fgets 256 (csv_text os) = Some (print_csv x @ [CHR 0x0A], csv_text os')"
    using fgets_line [of "print_csv x" 256 "csv_text os'"] print_csv_line [of x] assms(1) by (simp add: csv_text_def os)
  have "strstr (print_csv x @ [CHR 0x0A]) ''Ask'' \<or> strstr (print_csv x @ [CHR 0x0A]) ''Bid''"
    by (cases x) (simp add: print_csv_def)
  then show ?thesis using fg by (auto simp: csv_skip_header_def)
qed

section \<open>Properties\<close>

text \<open>The exchange and the world at the end of a run.\<close>

fun final :: "run \<Rightarrow> Exchange \<times> world" where
  "final (Finished rep ex w) = (ex, w)"
| "final (Exited c ex w) = (ex, w)"

text \<open>What holds at the end of every run that is made.\<close>

definition good_run :: "(nat \<Rightarrow> bool) \<Rightarrow> run \<Rightarrow> bool" where
  "good_run fopen_ok r \<longleftrightarrow> sim_inv (fst (final r)) (snd (final r)) \<and>
     (case r of Finished rep ex w \<Rightarrow> settled ex w \<and> rep = print_sim_stats ex (mm w) (stats w)
      | Exited c ex w \<Rightarrow> c = 1 \<and> \<not> fopen_ok (open_files w))"

lemma run_ok_end: "run_ok fopen_ok r \<Longrightarrow> \<exists>x. r = Some x \<and> good_run fopen_ok (end_run x)"
proof -
  assume "run_ok fopen_ok r"
  then obtain res ex w where "r = Some (res, ex, w)" "sim_inv ex w" "res \<noteq> Traded" "res = NoTrade \<longrightarrow> settled ex w"
      "res = ExitFailure \<longrightarrow> \<not> fopen_ok (open_files w)"
    by (auto simp: run_ok_def)
  then show ?thesis by (cases res) (auto simp: good_run_def end_run_def)
qed


text \<open>
  C12: The CSV mode is safe on every file whose fields fit their buffers and whose amounts are
  positive \<open>short\<close> values, malformed lines and unknown order types included: it ends with
  all invariants intact and every book settled, or because the results file cannot be opened.
\<close>

theorem csv_execution_sound:
  assumes "csv_skip_header contents = Some body" "csv_ok body"
  shows "\<exists>r. csv_execution clk fopen_ok st (Some contents) = Some (Some r) \<and> good_run fopen_ok r"
  using run_ok_end [OF csv_loop_ok [OF assms(2) sim_inv_init [where st = st], of fopen_ok clk 0]] assms(1)
  by (auto simp: csv_execution_def)

theorem csv_execution_sound_witness:
  "\<exists>r. csv_execution int (\<lambda>n. n < 100) sample_store (Some ''Ask,AAA,5,6'') = Some (Some r) \<and> good_run (\<lambda>n. n < 100) r"
proof (rule csv_execution_sound)
  show "csv_skip_header ''Ask,AAA,5,6'' = Some ''Ask,AAA,5,6''" by code_simp
  show "csv_ok ''Ask,AAA,5,6''" by code_simp
qed

text \<open>
  C11: Round trip of the CSV format: a file with one printed order per line, with symbols of
  one to three characters and numbers that fit an \<open>int\<close>, makes the program submit exactly
  these orders, in the order of the file.
\<close>

theorem csv_execution_reads_back:
  assumes "list_all printable os" "os \<noteq> []" "length os \<le> MAX_ORDERS"
  shows "csv_execution clk fopen_ok st (Some (csv_text os)) =
    map_option (Some \<circ> end_run) (submit_all clk fopen_ok (map csv_submission os) (create_exchange 16) (init_world st))"
  using csv_loop_print [OF assms(1), of 0 clk fopen_ok] csv_skip_header_print [OF assms(1,2)] assms(3)
  by (simp add: csv_execution_def map_conv_bind_option comp_def)

theorem csv_execution_reads_back_witness:
  "csv_execution int (\<lambda>n. n < 100) sample_store (Some (csv_text [(True, ''AAA'', 5, 6), (False, ''B'', 7, 8)])) =
    map_option (Some \<circ> end_run) (submit_all int (\<lambda>n. n < 100)
      (map csv_submission [(True, ''AAA'', 5, 6), (False, ''B'', 7, 8)]) (create_exchange 16) (init_world sample_store))"
  by (rule csv_execution_reads_back) (simp_all add: printable_def MAX_ORDERS_def)

end
