(* ===== verification/No_Memory_Sim.thy ===== *)
theory No_Memory_Sim
  imports Memory_Sim
begin

text \<open>
  The program \<open>src/sw_sim/no_memory_sim.c\<close>: the simulator for one symbol without a memory
  model. Its \<open>free_node_memory\<close> does nothing, its heaps have no memory manager, and
  it calls \<open>check_for_trade\<close> a fixed number of times per order instead of in a loop.
\<close>

definition nm_free_node_memory :: "unit \<Rightarrow> unit option" where
  "nm_free_node_memory u = Some ()"

datatype nm_line =
    NmAsk int int u32
  | NmBid int int u32
  | NmTrade trade_event
  | NmPrompt string

record nm_state =
  nm_market :: "unit market"
  nm_next :: ref
  nm_trades :: int
  nm_stdout :: "nm_line list"

definition nm_say :: "nm_line \<Rightarrow> nm_state \<Rightarrow> nm_state" where
  "nm_say l s = s\<lparr>nm_stdout := nm_stdout s @ [l]\<rparr>"

definition nm_init :: "store \<Rightarrow> nm_state" where
  "nm_init st = \<lparr>nm_market = \<lparr>m_asks = create_heap 10 min_cmp, m_bids = create_heap 10 max_cmp, m_orders = st,
     m_mem = (), m_ticks = 0, m_out = []\<rparr>, nm_next = 0, nm_trades = 0, nm_stdout = []\<rparr>"

text \<open>\<open>if (check_for_trade(asks, bids)) trades++;\<close>\<close>

definition nm_check :: "(nat \<Rightarrow> int) \<Rightarrow> nm_state \<Rightarrow> nm_state option" where
  "nm_check clk s = do {
     (b, mk) \<leftarrow> check_for_trade nm_free_node_memory clk ((nm_market s)\<lparr>m_out := []\<rparr>);
     Some (s\<lparr>nm_market := mk, nm_trades := (if b then nm_trades s + 1 else nm_trades s),
       nm_stdout := nm_stdout s @ map NmTrade (m_out mk)\<rparr>) }"

text \<open>\<open>create_order\<close> and the push on the side of the order's type.\<close>

definition nm_push :: "(nat \<Rightarrow> int) \<Rightarrow> int \<Rightarrow> int \<Rightarrow> int \<Rightarrow> nm_state \<Rightarrow> nm_state option" where
  "nm_push clk p a ty s = do {
     let mk = nm_market s;
     let r = nm_next s;
     let st = create_order (clk (m_ticks mk)) r (m_orders mk) p a ty ''AAA'';
     let mk1 = mk\<lparr>m_orders := st, m_ticks := m_ticks mk + 1\<rparr>;
     (if ty \<noteq> 0
      then do { h \<leftarrow> push st (m_asks mk) r; Some (s\<lparr>nm_market := mk1\<lparr>m_asks := h\<rparr>, nm_next := r + 1\<rparr>) }
      else do { h \<leftarrow> push st (m_bids mk) r; Some (s\<lparr>nm_market := mk1\<lparr>m_bids := h\<rparr>, nm_next := r + 1\<rparr>) }) }"

definition nm_order_line :: "Order \<Rightarrow> nm_line" where
  "nm_order_line ord = (if otype ord \<noteq> 0 then NmAsk (price ord) (amount ord) (timestamp ord)
     else NmBid (price ord) (amount ord) (timestamp ord))"

section \<open>Automatic mode\<close>

definition nm_submit :: "(nat \<Rightarrow> int) \<Rightarrow> int \<Rightarrow> int \<Rightarrow> int \<Rightarrow> nm_state \<Rightarrow> nm_state option" where
  "nm_submit clk p a ty s = do {
     s1 \<leftarrow> nm_push clk p a ty s;
     nm_check clk (nm_say (nm_order_line (m_orders (nm_market s1) (nm_next s))) s1) }"

fun nm_auto_loop :: "(nat \<Rightarrow> int) \<Rightarrow> (nat \<Rightarrow> nat \<Rightarrow> nat) \<Rightarrow> nat \<Rightarrow> nat \<Rightarrow> nm_state \<Rightarrow> nm_state option" where
  "nm_auto_loop clk rnd i 0 s = Some s"
| "nm_auto_loop clk rnd i (Suc n) s = do {
     s' \<leftarrow> nm_submit clk (rand_range (rnd i 1) 1 MAX_PRICE) (rand_range (rnd i 2) 1 MAX_AMOUNT)
       (rand_range (rnd i 3) 0 1) s;
     nm_auto_loop clk rnd (i + 1) n s' }"

definition nm_automatic_execution :: "(nat \<Rightarrow> int) \<Rightarrow> (nat \<Rightarrow> nat \<Rightarrow> nat) \<Rightarrow> store \<Rightarrow> nat \<Rightarrow> nm_state option" where
  "nm_automatic_execution clk rnd st n = nm_auto_loop clk rnd 0 n (nm_init st)"

section \<open>Manual mode\<close>

text \<open>
  \<open>scanf("%s %d %d", type, &price, &amount)\<close>: the rest of the line stays in the input, and a
  conversion that fails leaves its variable and the later ones unchanged.
\<close>

definition nm_read :: "string \<Rightarrow> string option \<Rightarrow> int option \<Rightarrow> int option \<Rightarrow>
    (string option \<times> int option \<times> int option \<times> string) option" where
  "nm_read s ty p a =
     (case conv_s 1000 s of
        Undef \<Rightarrow> None
      | NoMatch \<Rightarrow> Some (ty, p, a, skip_ws s)
      | Match ty' s1 \<Rightarrow> do { (p', a', s2) \<leftarrow> scan_numbers s1 p a; Some (Some ty', p', a', s2) })"

lemma nm_read_shorter: "nm_read s ty p a = Some (ty', p', a', r) \<Longrightarrow> length r \<le> length s"
  by (auto simp: nm_read_def bind_eq_Some_iff skip_ws_def length_dropWhile_le split: conv.splits
      dest!: conv_s_shorter scan_numbers_shorter)

text \<open>The order of one \<open>Y\<close> answer; using a variable that was never read is undefined.\<close>

definition nm_enter :: "(nat \<Rightarrow> int) \<Rightarrow> string option \<Rightarrow> int option \<Rightarrow> int option \<Rightarrow> nat \<Rightarrow> nm_state \<Rightarrow> (nat \<times> nm_state) option" where
  "nm_enter clk ty p a n s = do {
     t \<leftarrow> ty;
     (if manual_type t < 0 then Some (n, nm_say (NmPrompt ''Please specify ask or bid'') s)
      else do { pv \<leftarrow> p; av \<leftarrow> a; s' \<leftarrow> nm_push clk pv av (manual_type t) s; Some (n + 1, s') }) }"

function nm_manual_loop :: "(nat \<Rightarrow> int) \<Rightarrow> string \<Rightarrow> nat \<Rightarrow> string option \<Rightarrow> int option \<Rightarrow> int option \<Rightarrow>
    nm_state \<Rightarrow> nm_state option" where
  "nm_manual_loop clk inp n ty p a s =
     (if n \<ge> 1000 then nm_check clk (nm_say (NmPrompt ''Maximum number of orders received, ending simulation'') s)
      else
        let s1 = nm_say (NmPrompt ''Would you like to submit an order? (Y/N)'') s in
        (case read_answer inp of
           None \<Rightarrow> None
         | Some (c, r) \<Rightarrow>
             if c = CHR ''Y'' then
               (case nm_read r ty p a of
                  None \<Rightarrow> None
                | Some (ty', p', a', r') \<Rightarrow> do {
                    (n', s2) \<leftarrow> nm_enter clk ty' p' a' n
                      (nm_say (NmPrompt ''Please submit an order in the format (ask/bid), (price), (amount)'') s1);
                    s3 \<leftarrow> nm_check clk s2;
                    s4 \<leftarrow> nm_check clk s3;
                    nm_manual_loop clk r' n' ty' p' a' s4 })
             else if c = CHR ''N'' then nm_check clk (nm_say (NmPrompt ''Ending simulation'') s1)
             else do {
               s2 \<leftarrow> nm_check clk (nm_say (NmPrompt ''Please submit Y or N'') s1);
               nm_manual_loop clk r n ty p a s2 }))"
  by pat_completeness auto
termination
proof (relation "measure (\<lambda>(clk, inp, n, ty, p, a, s). length inp)", goal_cases)
  case 1
  show ?case by simp
next
  case 2
  then show ?case by (auto dest!: read_answer_shorter nm_read_shorter)
next
  case 3
  then show ?case by (auto dest!: read_answer_shorter)
qed

declare nm_manual_loop.simps [simp del]

definition nm_manual_execution :: "(nat \<Rightarrow> int) \<Rightarrow> store \<Rightarrow> string \<Rightarrow> nm_state option" where
  "nm_manual_execution clk st input = nm_manual_loop clk input 0 None None None (nm_init st)"

definition nm_main :: "(nat \<Rightarrow> int) \<Rightarrow> (nat \<Rightarrow> nat \<Rightarrow> nat) \<Rightarrow> store \<Rightarrow> string \<Rightarrow> string list \<Rightarrow> (int \<times> nm_state option) option" where
  "nm_main clk rnd st input args = do {
     (mode, num_orders) \<leftarrow> parse_args args DEFAULT_MODE DEFAULT_ORDERS;
     (if mode \<noteq> 1 \<and> mode \<noteq> 0 then Some (1, None)
      else if num_orders < 2 then Some (1, None)
      else if mode \<noteq> 0 then do { s \<leftarrow> nm_automatic_execution clk rnd st (nat num_orders); Some (0, Some s) }
      else do { s \<leftarrow> nm_manual_execution clk st input; Some (0, Some s) }) }"

section \<open>Invariant\<close>

definition nm_inv :: "nm_state \<Rightarrow> bool" where
  "nm_inv s \<longleftrightarrow> market_inv (nm_market s) \<and> amounts_ok (abs_of (nm_market s)) \<and> distinct_orders (abs_of (nm_market s)) \<and>
     (\<forall>r \<in># a_asks (abs_of (nm_market s)) + a_bids (abs_of (nm_market s)). r < nm_next s)"

definition is_trade :: "nm_line \<Rightarrow> bool" where
  "is_trade l = (case l of NmTrade ev \<Rightarrow> True | _ \<Rightarrow> False)"

text \<open>The trade counter counts the trade lines printed.\<close>

definition nm_counted :: "nm_state \<Rightarrow> bool" where
  "nm_counted s \<longleftrightarrow> nm_trades s = int (length (filter is_trade (nm_stdout s)))"

lemma market_out [simp]:
  "market_inv (mk\<lparr>m_out := o'\<rparr>) = market_inv mk" "abs_of (mk\<lparr>m_out := o'\<rparr>) = abs_of mk"
  by (simp_all add: market_inv_def abs_of_def)

text \<open>One call of \<open>check_for_trade\<close>: a trade exactly when the book is crossed.\<close>

lemma nm_check_ok:
  assumes inv: "nm_inv s" and c: "nm_counted s"
  shows "\<exists>s'. nm_check clk s = Some s' \<and> nm_inv s' \<and> nm_counted s' \<and> nm_next s' = nm_next s \<and>
    (if crossed (abs_of (nm_market s))
     then \<exists>k. trade_step (abs_of (nm_market s)) k (abs_of (nm_market s')) \<and> nm_trades s' = nm_trades s + 1
     else abs_of (nm_market s') = abs_of (nm_market s) \<and> nm_trades s' = nm_trades s)"
proof -
  let ?mk = "(nm_market s)\<lparr>m_out := []\<rparr>"
  have i: "market_inv ?mk" "amounts_ok (abs_of ?mk)" using inv by (simp_all add: nm_inv_def)
  show ?thesis
  proof (cases "crossed (abs_of (nm_market s))")
    case False
    then have "check_for_trade nm_free_node_memory clk ?mk = Some (False, ?mk)"
      using check_for_trade_idle [OF i(1)] by simp
    then show ?thesis using inv c False by (simp add: nm_check_def nm_inv_def nm_counted_def)
  next
    case True
    obtain mk' ev where m: "check_for_trade nm_free_node_memory clk ?mk = Some (True, mk')" "market_inv mk'"
        "m_out mk' = [ev]" "trade_step (abs_of (nm_market s)) (ev_shares ev) (abs_of mk')"
      using check_for_trade_traded [OF i(1) _ i(2), of nm_free_node_memory clk] True by auto
    have "a_asks (abs_of mk') \<subseteq># a_asks (abs_of (nm_market s))" "a_bids (abs_of mk') \<subseteq># a_bids (abs_of (nm_market s))"
      using trade_step_subset [OF m(4)] .
    then have "nm_inv (s\<lparr>nm_market := mk', nm_trades := t, nm_stdout := x\<rparr>)" for t x
      using inv m(2) trade_step_amounts [OF m(4)] trade_step_distinct [OF m(4)]
      by (auto simp: nm_inv_def dest: mset_subset_eqD)
    then show ?thesis using m c True by (auto simp: nm_check_def nm_counted_def is_trade_def)
  qed
qed

lemma nm_push_ok:
  assumes inv: "nm_inv s" and c: "nm_counted s" and a: "0 < a" "a \<le> 32767"
  shows "\<exists>s'. nm_push clk p a ty s = Some s' \<and> nm_inv s' \<and> nm_counted s' \<and> nm_next s' = nm_next s + 1 \<and>
    nm_trades s' = nm_trades s"
proof -
  let ?mk = "nm_market s" and ?r = "nm_next s"
  let ?st = "create_order (clk (m_ticks ?mk)) ?r (m_orders ?mk) p a ty ''AAA''"
  have lt: "r < ?r" if "r \<in># heap_contents (m_asks ?mk) + heap_contents (m_bids ?mk)" for r
    using inv that by (auto simp: nm_inv_def abs_of_def)
  then have fresh: "?r \<notin># heap_contents (m_asks ?mk) + heap_contents (m_bids ?mk)" by blast
  have same: "?st r = m_orders ?mk r" if "r \<in># heap_contents (m_asks ?mk) + heap_contents (m_bids ?mk)" for r
    using lt [OF that] by (simp add: create_order_def)
  have h: "heap_invar min_cmp ask_le ?st (m_asks ?mk)" "heap_invar max_cmp bid_le ?st (m_bids ?mk)"
    using inv same by (auto simp: nm_inv_def market_inv_def heap_contents_def
        intro: ask_heap.invar_keys bid_heap.invar_keys)
  obtain ha hb where p: "push ?st (m_asks ?mk) ?r = Some ha" "heap_invar min_cmp ask_le ?st ha"
      "heap_contents ha = add_mset ?r (heap_contents (m_asks ?mk))"
      "push ?st (m_bids ?mk) ?r = Some hb" "heap_invar max_cmp bid_le ?st hb"
      "heap_contents hb = add_mset ?r (heap_contents (m_bids ?mk))"
    using ask_heap.push_correct [OF h(1)] bid_heap.push_correct [OF h(2)] by metis
  have new: "amount (?st ?r) = a" using a by (simp add: create_order_def to_short_id is_short_def)
  have am: "0 < amount (?st r) \<and> is_short (amount (?st r))"
    if "r \<in># heap_contents (m_asks ?mk) + heap_contents (m_bids ?mk)" for r
    using inv that same [OF that] by (auto simp: nm_inv_def amounts_ok_def abs_of_def)
  have d: "count (heap_contents (m_asks ?mk)) r + count (heap_contents (m_bids ?mk)) r \<le> 1" for r
    using inv by (simp add: nm_inv_def distinct_orders_def abs_of_def)
  have z: "count (heap_contents (m_asks ?mk)) ?r = 0" "count (heap_contents (m_bids ?mk)) ?r = 0"
    using fresh by (auto simp: count_eq_zero_iff)
  have lt': "r < Suc ?r" if "r \<in># heap_contents (m_asks ?mk) + heap_contents (m_bids ?mk)" for r
    using lt [OF that] by simp
  show ?thesis
    using p h new am d z lt' a c
    by (auto simp: nm_push_def Let_def nm_inv_def market_inv_def amounts_ok_def distinct_orders_def abs_of_def
        nm_counted_def is_short_def)
qed

lemma nm_say_ok:
  "nm_inv (nm_say l s) = nm_inv s" "\<not> is_trade l \<Longrightarrow> nm_counted (nm_say l s) = nm_counted s"
  "nm_market (nm_say l s) = nm_market s" "nm_next (nm_say l s) = nm_next s"
  by (simp_all add: nm_say_def nm_inv_def nm_counted_def)


lemma nm_submit_ok:
  assumes "nm_inv s" "nm_counted s" "0 < a" "a \<le> 32767"
  shows "\<exists>s'. nm_submit clk p a ty s = Some s' \<and> nm_inv s' \<and> nm_counted s' \<and> nm_next s' = nm_next s + 1 \<and>
    nm_trades s' \<le> nm_trades s + 1"
proof -
  obtain s1 where s1: "nm_push clk p a ty s = Some s1" "nm_inv s1" "nm_counted s1" "nm_next s1 = nm_next s + 1"
      "nm_trades s1 = nm_trades s"
    using nm_push_ok [OF assms] by blast
  let ?s2 = "nm_say (nm_order_line (m_orders (nm_market s1) (nm_next s))) s1"
  have "\<not> is_trade (nm_order_line ord)" for ord by (simp add: is_trade_def nm_order_line_def)
  then have i: "nm_inv ?s2" "nm_counted ?s2" using s1 by (simp_all add: nm_say_ok)
  obtain s' where "nm_check clk ?s2 = Some s'" "nm_inv s'" "nm_counted s'" "nm_next s' = nm_next ?s2"
      "nm_trades s' \<le> nm_trades ?s2 + 1"
    using nm_check_ok [OF i, of clk] by (auto split: if_splits)
  then show ?thesis using s1 by (auto simp: nm_submit_def nm_say_def)
qed

lemma nm_auto_loop_ok:
  "nm_inv s \<Longrightarrow> nm_counted s \<Longrightarrow> \<exists>s'. nm_auto_loop clk rnd i n s = Some s' \<and> nm_inv s' \<and> nm_counted s' \<and>
     nm_next s' = nm_next s + n \<and> nm_trades s' \<le> nm_trades s + int n"
proof (induction n arbitrary: i s)
  case (Suc n)
  let ?a = "rand_range (rnd i 2) 1 MAX_AMOUNT"
  have "0 < ?a" "?a \<le> 32767"
    using pos_mod_sign [of 10 "int (rnd i 2)"] pos_mod_bound [of 10 "int (rnd i 2)"]
    by (simp_all add: rand_range_def MAX_AMOUNT_def)
  from nm_submit_ok [OF Suc.prems this]
  obtain s1 where s1: "nm_submit clk (rand_range (rnd i 1) 1 MAX_PRICE) ?a (rand_range (rnd i 3) 0 1) s = Some s1"
      "nm_inv s1" "nm_counted s1" "nm_next s1 = nm_next s + 1" "nm_trades s1 \<le> nm_trades s + 1"
    by blast
  then show ?case using Suc.IH [OF s1(2,3), of "i + 1"] by auto
qed simp

lemma nm_init_ok: "nm_inv (nm_init st)" "nm_counted (nm_init st)"
  by (simp_all add: nm_inv_def nm_counted_def nm_init_def market_inv_def abs_of_def amounts_ok_def distinct_orders_def
      heap_contents_def elems_def create_heap_def heap_invar_def heap_rep_def heap_prop_def)



section \<open>Properties\<close>

text \<open>
  C16: The automatic mode of the simulator without a memory model returns for every input, keeps
  its heaps well formed, and counts exactly the trades it prints: at most one per order.
\<close>

theorem nm_automatic_execution_sound:
  "\<exists>s. nm_automatic_execution clk rnd st n = Some s \<and> nm_inv s \<and> nm_next s = n \<and>
     nm_trades s = int (length (filter is_trade (nm_stdout s))) \<and> nm_trades s \<le> int n"
  using nm_auto_loop_ok [OF nm_init_ok, of clk rnd 0 n st]
  by (auto simp: nm_automatic_execution_def nm_counted_def nm_init_def)


end
