(* ===== verification/Driver.thy ===== *)
theory Driver
  imports Prelude
begin

text \<open>
  The kernel driver: \<open>src/sw/HFT_drivers.h\<close> and \<open>src/sw/HFT_drivers.c\<close>.

  The hardware is a parameter: a value of type \<open>'d bus\<close> says how \<open>ioread32\<close>, \<open>iowrite32\<close> and
  \<open>udelay\<close> act on a device state. The copies from and to user memory are a parameter too, a
  value of type \<open>'u uaccess\<close>: \<open>None\<close> and \<open>False\<close> are faults, and a copy to user memory returns
  the memory after it. Return values are the C integers,
  with errors negative.
\<close>

section \<open>Data\<close>

definition HFT_NUM_LANES :: nat where "HFT_NUM_LANES = 8"

record hft_disp_order =
  o_type :: u8
  o_price :: u16
  o_quantity :: u16

record hft_disp_push_req =
  req_lane :: u32
  req_order :: hft_disp_order

record hft_disp_status =
  st_state :: u32
  st_ready_mask :: u32
  st_empty_mask :: u32
  st_full_mask :: u32

record hft_log_info =
  li_count :: u32
  li_overflow :: u32
  li_engine_idle_mask :: u32
  li_all_engines_idle :: u32
  li_trade_done :: u32

record hft_log_entry =
  le_index :: u32
  le_word0 :: u32
  le_word1 :: u32

section \<open>Commands, registers and errors\<close>

text \<open>
  \<open>_IOC(dir, type, nr, size)\<close> of the kernel: the direction in the two top bits, the size of the
  argument in 14 bits, the magic byte and the number.
\<close>

definition IOC :: "nat \<Rightarrow> nat \<Rightarrow> nat \<Rightarrow> u32" where
  "IOC dir nr sz = of_nat (dir * 2 ^ 30 + sz * 2 ^ 16 + 104 * 2 ^ 8 + nr)"

definition HFT_IOC_DISP_BEGIN_WRITE :: u32 where "HFT_IOC_DISP_BEGIN_WRITE = IOC 0 1 0"
definition HFT_IOC_DISP_BEGIN_DISPATCH :: u32 where "HFT_IOC_DISP_BEGIN_DISPATCH = IOC 0 2 0"
definition HFT_IOC_DISP_CLEAR_DONE :: u32 where "HFT_IOC_DISP_CLEAR_DONE = IOC 0 3 0"
definition HFT_IOC_DISP_PUSH_ORDER :: u32 where "HFT_IOC_DISP_PUSH_ORDER = IOC 1 4 12"
definition HFT_IOC_DISP_GET_STATUS :: u32 where "HFT_IOC_DISP_GET_STATUS = IOC 2 5 16"
definition HFT_IOC_LOG_GET_INFO :: u32 where "HFT_IOC_LOG_GET_INFO = IOC 2 6 20"
definition HFT_IOC_LOG_READ_ENTRY :: u32 where "HFT_IOC_LOG_READ_ENTRY = IOC 3 7 12"
definition HFT_IOC_LOG_CLEAR :: u32 where "HFT_IOC_LOG_CLEAR = IOC 0 8 0"

lemmas hft_ioc_defs = HFT_IOC_DISP_BEGIN_WRITE_def HFT_IOC_DISP_BEGIN_DISPATCH_def HFT_IOC_DISP_CLEAR_DONE_def
  HFT_IOC_DISP_PUSH_ORDER_def HFT_IOC_DISP_GET_STATUS_def HFT_IOC_LOG_GET_INFO_def HFT_IOC_LOG_READ_ENTRY_def
  HFT_IOC_LOG_CLEAR_def

definition EINVAL :: int where "EINVAL = 22"
definition EAGAIN :: int where "EAGAIN = 11"
definition EBUSY :: int where "EBUSY = 16"
definition ETIMEDOUT :: int where "ETIMEDOUT = 110"
definition EFAULT :: int where "EFAULT = 14"
definition ENOENT :: int where "ENOENT = 2"
definition ENOMEM :: int where "ENOMEM = 12"
definition EINTR :: int where "EINTR = 4"
definition ECONNRESET :: int where "ECONNRESET = 104"

lemmas errno_defs = EINVAL_def EAGAIN_def EBUSY_def ETIMEDOUT_def EFAULT_def ENOENT_def ENOMEM_def EINTR_def
  ECONNRESET_def

definition REG_CONTROL :: nat where "REG_CONTROL = 0x00"
definition REG_STATUS :: nat where "REG_STATUS = 0x04"
definition REG_PUSH_BASE :: nat where "REG_PUSH_BASE = 0x08"
definition REG_PUSH :: "nat \<Rightarrow> nat" where "REG_PUSH n = REG_PUSH_BASE + 4 * n"
definition REG_LOG_INFO :: nat where "REG_LOG_INFO = 0x28"
definition REG_LOG_CMD :: nat where "REG_LOG_CMD = 0x2C"
definition REG_LOG_DATA0 :: nat where "REG_LOG_DATA0 = 0x30"
definition REG_LOG_DATA1 :: nat where "REG_LOG_DATA1 = 0x34"

lemmas reg_defs = REG_CONTROL_def REG_STATUS_def REG_PUSH_BASE_def REG_PUSH_def REG_LOG_INFO_def REG_LOG_CMD_def
  REG_LOG_DATA0_def REG_LOG_DATA1_def

definition BIT :: "nat \<Rightarrow> u32" where "BIT n = push_bit n 1"

definition CTRL_BEGIN_WRITE :: u32 where "CTRL_BEGIN_WRITE = BIT 0"
definition CTRL_BEGIN_DISPATCH :: u32 where "CTRL_BEGIN_DISPATCH = BIT 1"
definition CTRL_CLEAR_DONE :: u32 where "CTRL_CLEAR_DONE = BIT 2"
definition STATUS_STATE_MASK :: u32 where "STATUS_STATE_MASK = 0x00000003"
definition STATUS_READY_MASK :: u32 where "STATUS_READY_MASK = 0x000003FC"
definition STATUS_EMPTY_MASK :: u32 where "STATUS_EMPTY_MASK = 0x0003FC00"
definition STATUS_FULL_MASK :: u32 where "STATUS_FULL_MASK = 0x03FC0000"
definition STATUS_READY_SHIFT :: nat where "STATUS_READY_SHIFT = 2"
definition STATUS_EMPTY_SHIFT :: nat where "STATUS_EMPTY_SHIFT = 10"
definition STATUS_FULL_SHIFT :: nat where "STATUS_FULL_SHIFT = 18"
definition HFT_STATE_IDLE :: u32 where "HFT_STATE_IDLE = 0"
definition HFT_STATE_WRITE :: u32 where "HFT_STATE_WRITE = 1"
definition HFT_STATE_DISPATCH :: u32 where "HFT_STATE_DISPATCH = 2"
definition HFT_STATE_DONE :: u32 where "HFT_STATE_DONE = 3"
definition LOG_INFO_OVERFLOW_BIT :: nat where "LOG_INFO_OVERFLOW_BIT = 0"
definition LOG_INFO_DATA_VALID_BIT :: nat where "LOG_INFO_DATA_VALID_BIT = 1"
definition LOG_INFO_COUNT_SHIFT :: nat where "LOG_INFO_COUNT_SHIFT = 2"
definition LOG_INFO_COUNT_MASK :: u32 where "LOG_INFO_COUNT_MASK = push_bit LOG_INFO_COUNT_SHIFT 0x7FFF"
definition LOG_INFO_ENGINE_IDLE_SHIFT :: nat where "LOG_INFO_ENGINE_IDLE_SHIFT = 17"
definition LOG_INFO_ENGINE_IDLE_MASK :: u32 where "LOG_INFO_ENGINE_IDLE_MASK = push_bit LOG_INFO_ENGINE_IDLE_SHIFT 0xFF"
definition LOG_INFO_ALL_ENGINES_IDLE_BIT :: nat where "LOG_INFO_ALL_ENGINES_IDLE_BIT = 25"
definition LOG_INFO_TRADE_DONE_BIT :: nat where "LOG_INFO_TRADE_DONE_BIT = 26"

lemmas status_defs = STATUS_STATE_MASK_def STATUS_READY_MASK_def STATUS_EMPTY_MASK_def STATUS_FULL_MASK_def
  STATUS_READY_SHIFT_def STATUS_EMPTY_SHIFT_def STATUS_FULL_SHIFT_def
lemmas state_defs = HFT_STATE_IDLE_def HFT_STATE_WRITE_def HFT_STATE_DISPATCH_def HFT_STATE_DONE_def
lemmas log_info_defs = LOG_INFO_OVERFLOW_BIT_def LOG_INFO_DATA_VALID_BIT_def LOG_INFO_COUNT_SHIFT_def
  LOG_INFO_COUNT_MASK_def LOG_INFO_ENGINE_IDLE_SHIFT_def LOG_INFO_ENGINE_IDLE_MASK_def
  LOG_INFO_ALL_ENGINES_IDLE_BIT_def LOG_INFO_TRADE_DONE_BIT_def

section \<open>The device and user memory\<close>

record 'd bus =
  ioread32 :: "nat \<Rightarrow> 'd \<Rightarrow> u32 \<times> 'd"
  iowrite32 :: "u32 \<Rightarrow> nat \<Rightarrow> 'd \<Rightarrow> 'd"
  udelay :: "nat \<Rightarrow> 'd \<Rightarrow> 'd"

record 'u uaccess =
  from_push :: "'u \<Rightarrow> hft_disp_push_req option"
  from_entry :: "'u \<Rightarrow> hft_log_entry option"
  to_status :: "hft_disp_status \<Rightarrow> 'u \<Rightarrow> bool \<times> 'u"
  to_info :: "hft_log_info \<Rightarrow> 'u \<Rightarrow> bool \<times> 'u"
  to_entry :: "hft_log_entry \<Rightarrow> 'u \<Rightarrow> bool \<times> 'u"

section \<open>Helper functions\<close>

definition hft_disp_pack_order_word :: "hft_disp_order \<Rightarrow> u32" where
  "hft_disp_pack_order_word ord =
     push_bit 31 (ucast (o_type ord AND 0x1)) OR
     (push_bit 15 (ucast (o_price ord AND 0xFFFF)) OR
      ucast (o_quantity ord AND 0x7FFF))"

definition hft_disp_push_order_hw :: "'d bus \<Rightarrow> u32 \<Rightarrow> hft_disp_order \<Rightarrow> 'd \<Rightarrow> int \<times> 'd" where
  "hft_disp_push_order_hw b lane ord d =
     (if lane \<ge> 8 then (- EINVAL, d)
      else if o_type ord > 1 \<or> o_quantity ord > 0x7FFF then (- EINVAL, d)
      else
        let (raw, d1) = ioread32 b REG_STATUS d in
        if raw AND STATUS_STATE_MASK \<noteq> HFT_STATE_WRITE then (- EAGAIN, d1)
        else
          let ready_mask = drop_bit STATUS_READY_SHIFT (raw AND STATUS_READY_MASK) in
          if ready_mask AND BIT (unat lane) = 0 then (- EBUSY, d1)
          else (0, iowrite32 b (hft_disp_pack_order_word ord) (REG_PUSH (unat lane)) d1))"

text \<open>
  The loop that waits for the data-valid bit: \<open>n\<close> is \<open>timeout_us\<close> and is never 0 on entry.
  The result is the last word read from \<open>LOG_INFO\<close>.
\<close>

fun wait_data_valid :: "'d bus \<Rightarrow> nat \<Rightarrow> 'd \<Rightarrow> u32 \<times> 'd" where
  "wait_data_valid b n d =
     (let (info, d1) = ioread32 b REG_LOG_INFO d in
      if info AND BIT LOG_INFO_DATA_VALID_BIT \<noteq> 0 then (info, d1)
      else let d2 = udelay b 1 d1 in
        if n \<le> 1 then (info, d2) else wait_data_valid b (n - 1) d2)"

declare wait_data_valid.simps [simp del]

definition hft_log_read_entry_hw :: "'d bus \<Rightarrow> hft_log_entry \<Rightarrow> 'd \<Rightarrow> int \<times> hft_log_entry \<times> 'd" where
  "hft_log_read_entry_hw b entry d =
     (let (status, d1) = ioread32 b REG_STATUS d; state = status AND STATUS_STATE_MASK in
      if state \<noteq> HFT_STATE_DONE then (- EAGAIN, entry, d1)
      else
        let (info, d2) = ioread32 b REG_LOG_INFO d1;
            cnt = drop_bit LOG_INFO_COUNT_SHIFT (info AND LOG_INFO_COUNT_MASK) in
        if le_index entry \<ge> cnt then (- EINVAL, entry, d2)
        else
          let d3 = iowrite32 b (BIT 1 OR push_bit 2 (le_index entry)) REG_LOG_CMD d2;
              (info', d4) = wait_data_valid b 1000 d3 in
          if info' AND BIT LOG_INFO_DATA_VALID_BIT = 0 then (- ETIMEDOUT, entry, d4)
          else
            let (w0, d5) = ioread32 b REG_LOG_DATA0 d4;
                (w1, d6) = ioread32 b REG_LOG_DATA1 d5 in
            (0, entry\<lparr>le_word0 := w0, le_word1 := w1\<rparr>, d6))"

section \<open>The ioctl interface\<close>

definition unpack_status :: "u32 \<Rightarrow> hft_disp_status" where
  "unpack_status raw = \<lparr>st_state = raw AND STATUS_STATE_MASK,
     st_ready_mask = drop_bit STATUS_READY_SHIFT (raw AND STATUS_READY_MASK),
     st_empty_mask = drop_bit STATUS_EMPTY_SHIFT (raw AND STATUS_EMPTY_MASK),
     st_full_mask = drop_bit STATUS_FULL_SHIFT (raw AND STATUS_FULL_MASK)\<rparr>"

text \<open>\<open>!!x\<close>\<close>

definition truth :: "u32 \<Rightarrow> u32" where
  "truth x = (if x \<noteq> 0 then 1 else 0)"

definition unpack_info :: "u32 \<Rightarrow> hft_log_info" where
  "unpack_info raw = \<lparr>li_count = drop_bit LOG_INFO_COUNT_SHIFT (raw AND LOG_INFO_COUNT_MASK),
     li_overflow = truth (raw AND BIT LOG_INFO_OVERFLOW_BIT),
     li_engine_idle_mask = drop_bit LOG_INFO_ENGINE_IDLE_SHIFT (raw AND LOG_INFO_ENGINE_IDLE_MASK),
     li_all_engines_idle = truth (raw AND BIT LOG_INFO_ALL_ENGINES_IDLE_BIT),
     li_trade_done = truth (raw AND BIT LOG_INFO_TRADE_DONE_BIT)\<rparr>"

text \<open>The body of \<open>hft_ioctl\<close> between the lock and the unlock.\<close>

definition ioctl_body :: "'d bus \<Rightarrow> 'u uaccess \<Rightarrow> u32 \<Rightarrow> 'u \<Rightarrow> 'd \<Rightarrow> int \<times> 'u \<times> 'd" where
  "ioctl_body b ua c arg d =
     (if c = HFT_IOC_DISP_BEGIN_WRITE then (0, arg, iowrite32 b CTRL_BEGIN_WRITE REG_CONTROL d)
      else if c = HFT_IOC_DISP_BEGIN_DISPATCH then (0, arg, iowrite32 b CTRL_BEGIN_DISPATCH REG_CONTROL d)
      else if c = HFT_IOC_DISP_CLEAR_DONE then (0, arg, iowrite32 b CTRL_CLEAR_DONE REG_CONTROL d)
      else if c = HFT_IOC_LOG_CLEAR then (0, arg, iowrite32 b (BIT 0) REG_LOG_CMD d)
      else if c = HFT_IOC_DISP_PUSH_ORDER then
        (case from_push ua arg of
           None \<Rightarrow> (- EFAULT, arg, d)
         | Some req \<Rightarrow> let (ret, d') = hft_disp_push_order_hw b (req_lane req) (req_order req) d in (ret, arg, d'))
      else if c = HFT_IOC_DISP_GET_STATUS then
        (let (raw, d') = ioread32 b REG_STATUS d in
         let (ok, arg') = to_status ua (unpack_status raw) arg in (if ok then 0 else - EFAULT, arg', d'))
      else if c = HFT_IOC_LOG_GET_INFO then
        (let (raw, d') = ioread32 b REG_LOG_INFO d in
         let (ok, arg') = to_info ua (unpack_info raw) arg in (if ok then 0 else - EFAULT, arg', d'))
      else if c = HFT_IOC_LOG_READ_ENTRY then
        (case from_entry ua arg of
           None \<Rightarrow> (- EFAULT, arg, d)
         | Some le \<Rightarrow>
             let (ret, le', d') = hft_log_read_entry_hw b le d in
             if ret \<noteq> 0 then (ret, arg, d')
             else let (ok, arg') = to_entry ua le' arg in (if ok then 0 else - EFAULT, arg', d'))
      else (- EINVAL, arg, d))"

text \<open>
  The driver's state: its lock and the device. Taking a lock that is held and never released
  does not return, which is the value \<open>None\<close>.
\<close>

record 'd hft_dev =
  dev_lock :: bool
  dev_hw :: 'd

definition mutex_lock :: "'d hft_dev \<Rightarrow> 'd hft_dev option" where
  "mutex_lock s = (if dev_lock s then None else Some (s\<lparr>dev_lock := True\<rparr>))"

definition mutex_unlock :: "'d hft_dev \<Rightarrow> 'd hft_dev" where
  "mutex_unlock s = s\<lparr>dev_lock := False\<rparr>"

definition hft_ioctl :: "'d bus \<Rightarrow> 'u uaccess \<Rightarrow> u32 \<Rightarrow> 'u \<Rightarrow> 'd hft_dev \<Rightarrow> (int \<times> 'u \<times> 'd hft_dev) option" where
  "hft_ioctl b ua c arg s = do {
     s1 \<leftarrow> mutex_lock s;
     let (ret, arg', d') = ioctl_body b ua c arg (dev_hw s1) in
     Some (ret, arg', mutex_unlock (s1\<lparr>dev_hw := d'\<rparr>)) }"

section \<open>Probe and remove\<close>

text \<open>
  The kernel services that \<open>hft_probe\<close> calls are parameters: what each returns. The state
  records what the driver holds.
\<close>

record probe_env =
  misc_register :: int
  of_address_to_resource :: int
  request_mem_region :: bool
  of_iomap :: bool

record driver_res =
  registered :: bool
  region_held :: bool
  mapped :: bool

definition hft_probe :: "probe_env \<Rightarrow> driver_res \<Rightarrow> int \<times> driver_res" where
  "hft_probe e s =
     (let ret = misc_register e in
      if ret \<noteq> 0 then (ret, s)
      else let s1 = s\<lparr>registered := True\<rparr>; out_deregister = (\<lambda>x. x\<lparr>registered := False\<rparr>) in
        if of_address_to_resource e \<noteq> 0 then (- ENOENT, out_deregister s1)
        else if \<not> request_mem_region e then (- EBUSY, out_deregister s1)
        else let s2 = s1\<lparr>region_held := True\<rparr>;
                 out_release_mem = (\<lambda>x. out_deregister (x\<lparr>region_held := False\<rparr>)) in
          if \<not> of_iomap e then (- ENOMEM, out_release_mem s2)
          else (0, s2\<lparr>mapped := True\<rparr>))"

definition hft_remove :: "driver_res \<Rightarrow> int \<times> driver_res" where
  "hft_remove s = (0, s\<lparr>mapped := False, region_held := False, registered := False\<rparr>)"

text \<open>\<open>platform_driver_probe\<close> and \<open>platform_driver_unregister\<close> are parameters.\<close>

definition hft_init :: "((driver_res \<Rightarrow> int \<times> driver_res) \<Rightarrow> driver_res \<Rightarrow> int \<times> driver_res) \<Rightarrow> probe_env \<Rightarrow>
    driver_res \<Rightarrow> int \<times> driver_res" where
  "hft_init platform_driver_probe e s = platform_driver_probe (hft_probe e) s"

definition hft_exit :: "((driver_res \<Rightarrow> int \<times> driver_res) \<Rightarrow> driver_res \<Rightarrow> driver_res) \<Rightarrow> driver_res \<Rightarrow> driver_res" where
  "hft_exit platform_driver_unregister s = platform_driver_unregister hft_remove s"

section \<open>Bit fields\<close>

lemma and_masks:
  "(x :: 'a::len word) AND 0x7FFF = take_bit 15 x" "x AND 0xFFFF = take_bit 16 x" "x AND 1 = take_bit 1 x"
  "x AND 0x3 = take_bit 2 x" "x AND 0x7F = take_bit 7 x" "x AND 0x7 = take_bit 3 x" "x AND 0xFF = take_bit 8 x"
  by (simp_all add: take_bit_eq_mask mask_eq_exp_minus_1)

lemma shifted_masks:
  "STATUS_STATE_MASK = mask 2" "STATUS_READY_MASK = push_bit 2 (mask 8)" "STATUS_EMPTY_MASK = push_bit 10 (mask 8)"
  "STATUS_FULL_MASK = push_bit 18 (mask 8)" "LOG_INFO_COUNT_MASK = push_bit 2 (mask 15)"
  "LOG_INFO_ENGINE_IDLE_MASK = push_bit 17 (mask 8)"
  by (simp_all add: status_defs log_info_defs mask_eq_exp_minus_1 push_bit_eq_mult)

lemma take_bit_15: "(x :: u16) \<le> 0x7FFF \<Longrightarrow> take_bit 15 x = x"
  by (auto simp: word_unat_eq_iff unsigned_take_bit_eq take_bit_nat_eq_self_iff word_le_nat_alt)

lemma u8_le_1: "(y :: u8) \<le> 1 \<Longrightarrow> y = 0 \<or> y = 1"
  by (auto simp: word_le_nat_alt word_unat_eq_iff le_Suc_eq)

lemma pack_price: "drop_bit 15 (hft_disp_pack_order_word ord) AND 0xFFFF = ucast (o_price ord)"
  by (rule bit_word_eqI)
    (auto simp: hft_disp_pack_order_word_def and_masks bit_simps dest: bit_imp_le_length)

lemma pack_quantity: "hft_disp_pack_order_word ord AND 0x7FFF = ucast (take_bit 15 (o_quantity ord))"
  by (rule bit_word_eqI)
    (auto simp: hft_disp_pack_order_word_def and_masks bit_simps dest: bit_imp_le_length)

lemma pack_type: "drop_bit 31 (hft_disp_pack_order_word ord) = ucast (take_bit 1 (o_type ord))"
  by (rule bit_word_eqI)
    (auto simp: hft_disp_pack_order_word_def and_masks bit_simps dest: bit_imp_le_length)

lemma ucast_u32 [simp]: "ucast (ucast (x :: u8) :: u32) = x" "ucast (ucast (y :: u16) :: u32) = y"
  by (rule bit_word_eqI; auto simp: bit_simps)+

text \<open>The order a word of the dispatcher stands for, as \<open>DISPATCH_ORDER\<close> in \<open>sys_def.svh\<close> lays it out.\<close>

definition unpack_order_word :: "u32 \<Rightarrow> hft_disp_order" where
  "unpack_order_word w = \<lparr>o_type = ucast (drop_bit 31 w), o_price = ucast (drop_bit 15 w AND 0xFFFF),
     o_quantity = ucast (w AND 0x7FFF)\<rparr>"

text \<open>An order the hardware can hold.\<close>

definition order_fits :: "hft_disp_order \<Rightarrow> bool" where
  "order_fits ord \<longleftrightarrow> o_type ord \<le> 1 \<and> o_quantity ord \<le> 0x7FFF"

lemma unpack_pack:
  assumes "order_fits ord"
  shows "unpack_order_word (hft_disp_pack_order_word ord) = ord"
proof -
  have "take_bit 1 (o_type ord) = o_type ord" using assms u8_le_1 [of "o_type ord"] by (auto simp: order_fits_def)
  moreover have "take_bit 15 (o_quantity ord) = o_quantity ord" using assms by (simp add: order_fits_def take_bit_15)
  ultimately show ?thesis by (simp add: unpack_order_word_def pack_price pack_quantity pack_type)
qed

text \<open>
  The status word as \<open>HFT_SIM.sv\<close> drives it on a read of \<open>ADDR_STATUS\<close>, and the information
  word of the trade log.
\<close>

definition status_word :: "2 word \<Rightarrow> u8 \<Rightarrow> u8 \<Rightarrow> u8 \<Rightarrow> u32" where
  "status_word state ready emptym full =
     push_bit 18 (ucast full) OR push_bit 10 (ucast emptym) OR push_bit 2 (ucast ready) OR ucast state"

definition info_word :: "bool \<Rightarrow> bool \<Rightarrow> 14 word \<Rightarrow> u8 \<Rightarrow> bool \<Rightarrow> bool \<Rightarrow> u32" where
  "info_word ov valid cnt idle all_idle done =
     of_bool ov OR push_bit 1 (of_bool valid) OR push_bit 2 (ucast cnt) OR push_bit 17 (ucast idle) OR
     push_bit 25 (of_bool all_idle) OR push_bit 26 (of_bool done)"

lemmas word_fields = status_word_def info_word_def shifted_masks status_defs(5-7) log_info_defs(1,2,3,5,7,8) BIT_def
  bit_simps

lemma status_fields:
  "status_word state ready em full AND STATUS_STATE_MASK = ucast state"
  "drop_bit STATUS_READY_SHIFT (status_word state ready em full AND STATUS_READY_MASK) = ucast ready"
  "drop_bit STATUS_EMPTY_SHIFT (status_word state ready em full AND STATUS_EMPTY_MASK) = ucast em"
  "drop_bit STATUS_FULL_SHIFT (status_word state ready em full AND STATUS_FULL_MASK) = ucast full"
  by (rule bit_word_eqI; auto simp: word_fields dest: bit_imp_le_length)+

lemma info_fields:
  "drop_bit LOG_INFO_COUNT_SHIFT (info_word ov v n idle ai dn AND LOG_INFO_COUNT_MASK) = ucast n"
  "drop_bit LOG_INFO_ENGINE_IDLE_SHIFT (info_word ov v n idle ai dn AND LOG_INFO_ENGINE_IDLE_MASK) = ucast idle"
  by (rule bit_word_eqI; auto simp: word_fields dest: bit_imp_le_length)+

lemma and_BIT: "n < 32 \<Longrightarrow> (w AND BIT n = 0) = (\<not> bit w n)"
  by (simp add: BIT_def push_bit_of_1 and_exp_eq_0_iff_not_bit)

lemma info_bits:
  "bit (info_word ov v n idle ai dn) 0 = ov" "bit (info_word ov v n idle ai dn) (Suc 0) = v"
  "bit (info_word ov v n idle ai dn) 25 = ai" "bit (info_word ov v n idle ai dn) 26 = dn"
  by (auto simp: info_word_def bit_simps dest: bit_imp_le_length)

section \<open>Pushing an order\<close>

lemma ready_bit:
  assumes "lane < 8"
  shows "drop_bit STATUS_READY_SHIFT (raw AND STATUS_READY_MASK) AND BIT (unat (lane :: u32)) = 0 \<longleftrightarrow> \<not> bit raw (unat lane + 2)"
proof -
  have "unat lane < 8" using assms by (simp add: word_less_nat_alt)
  then show ?thesis by (simp add: and_BIT) (auto simp: word_fields)
qed

text \<open>The conditions under which the driver writes an order to the hardware.\<close>

definition push_allowed :: "u32 \<Rightarrow> hft_disp_order \<Rightarrow> u32 \<Rightarrow> bool" where
  "push_allowed lane ord raw \<longleftrightarrow> lane < 8 \<and> order_fits ord \<and> raw AND STATUS_STATE_MASK = HFT_STATE_WRITE \<and>
     bit raw (unat lane + 2)"

lemma push_order_hw_cases:
  assumes "ioread32 b REG_STATUS d = (raw, d1)"
  shows "hft_disp_push_order_hw b lane ord d =
    (if \<not> (lane < 8 \<and> order_fits ord) then (- EINVAL, d)
     else if raw AND STATUS_STATE_MASK \<noteq> HFT_STATE_WRITE then (- EAGAIN, d1)
     else if \<not> bit raw (unat lane + 2) then (- EBUSY, d1)
     else (0, iowrite32 b (hft_disp_pack_order_word ord) (REG_PUSH (unat lane)) d1))"
proof (cases "lane < 8 \<and> order_fits ord")
  case True
  then show ?thesis
    using assms ready_bit [of lane raw]
    by (auto simp: hft_disp_push_order_hw_def order_fits_def not_le not_less Let_def)
qed (auto simp: hft_disp_push_order_hw_def order_fits_def not_le not_less)

section \<open>Waiting for log data\<close>

text \<open>The device after \<open>k\<close> unsuccessful polls.\<close>

fun polled :: "'d bus \<Rightarrow> nat \<Rightarrow> 'd \<Rightarrow> 'd" where
  "polled b 0 d = d"
| "polled b (Suc k) d = polled b k (udelay b 1 (snd (ioread32 b REG_LOG_INFO d)))"

definition poll_valid :: "'d bus \<Rightarrow> 'd \<Rightarrow> bool" where
  "poll_valid b d \<longleftrightarrow> bit (fst (ioread32 b REG_LOG_INFO d)) 1"

lemma info_valid: "info AND BIT LOG_INFO_DATA_VALID_BIT = 0 \<longleftrightarrow> \<not> bit info 1"
  by (simp add: and_BIT LOG_INFO_DATA_VALID_BIT_def)

lemma wait_data_valid_found:
  "k < n \<Longrightarrow> poll_valid b (polled b k d) \<Longrightarrow> \<forall>j < k. \<not> poll_valid b (polled b j d) \<Longrightarrow>
   wait_data_valid b n d = ioread32 b REG_LOG_INFO (polled b k d)"
proof (induction k arbitrary: n d)
  case 0
  then show ?case
    by (subst wait_data_valid.simps) (auto simp: poll_valid_def info_valid split: prod.splits)
next
  case (Suc k)
  have first: "\<not> poll_valid b d" using Suc.prems(3) by force
  have "wait_data_valid b n d = wait_data_valid b (n - 1) (udelay b 1 (snd (ioread32 b REG_LOG_INFO d)))"
    using first Suc.prems(1)
    by (subst wait_data_valid.simps) (auto simp: poll_valid_def info_valid Let_def split: prod.splits)
  also have "\<dots> = ioread32 b REG_LOG_INFO (polled b (Suc k) d)"
  proof -
    have "\<forall>j < k. \<not> poll_valid b (polled b j (udelay b 1 (snd (ioread32 b REG_LOG_INFO d))))"
      using Suc.prems(3) by (metis Suc_less_eq polled.simps(2))
    then show ?thesis using Suc.IH [of "n - 1"] Suc.prems(1,2) by simp
  qed
  finally show ?case .
qed

lemma wait_data_valid_timeout:
  "0 < n \<Longrightarrow> \<forall>j < n. \<not> poll_valid b (polled b j d) \<Longrightarrow>
   \<not> bit (fst (wait_data_valid b n d)) 1 \<and> snd (wait_data_valid b n d) = polled b n d"
proof (induction n arbitrary: d)
  case (Suc n)
  have first: "\<not> poll_valid b d" using Suc.prems(2) by force
  show ?case
  proof (cases "n = 0")
    case True
    then show ?thesis
      using first by (subst (1 2) wait_data_valid.simps) (auto simp: poll_valid_def info_valid Let_def split: prod.splits)
  next
    case False
    have "wait_data_valid b (Suc n) d = wait_data_valid b n (udelay b 1 (snd (ioread32 b REG_LOG_INFO d)))"
      using first False
      by (subst wait_data_valid.simps) (auto simp: poll_valid_def info_valid Let_def split: prod.splits)
    moreover have "\<forall>j < n. \<not> poll_valid b (polled b j (udelay b 1 (snd (ioread32 b REG_LOG_INFO d))))"
      using Suc.prems(2) by (metis Suc_less_eq polled.simps(2))
    ultimately show ?thesis using Suc.IH False by simp
  qed
qed simp

section \<open>Commands\<close>

definition hft_commands :: "u32 list" where
  "hft_commands = [HFT_IOC_DISP_BEGIN_WRITE, HFT_IOC_DISP_BEGIN_DISPATCH, HFT_IOC_DISP_CLEAR_DONE,
     HFT_IOC_DISP_PUSH_ORDER, HFT_IOC_DISP_GET_STATUS, HFT_IOC_LOG_GET_INFO, HFT_IOC_LOG_READ_ENTRY, HFT_IOC_LOG_CLEAR]"

lemma hft_ioc_values [simp]:
  "HFT_IOC_DISP_BEGIN_WRITE = 0x6801" "HFT_IOC_DISP_BEGIN_DISPATCH = 0x6802" "HFT_IOC_DISP_CLEAR_DONE = 0x6803"
  "HFT_IOC_DISP_PUSH_ORDER = 0x400C6804" "HFT_IOC_DISP_GET_STATUS = 0x80106805" "HFT_IOC_LOG_GET_INFO = 0x80146806"
  "HFT_IOC_LOG_READ_ENTRY = 0xC00C6807" "HFT_IOC_LOG_CLEAR = 0x6808"
  by (simp_all add: hft_ioc_defs IOC_def)

definition driver_errors :: "int set" where
  "driver_errors = {- EINVAL, - EAGAIN, - EBUSY, - ETIMEDOUT, - EFAULT}"

lemma push_order_hw_ret: "fst (hft_disp_push_order_hw b lane ord d) \<in> insert 0 driver_errors"
  by (cases "ioread32 b REG_STATUS d") (simp add: push_order_hw_cases driver_errors_def)

lemma read_entry_hw_ret: "fst (hft_log_read_entry_hw b le d) \<in> insert 0 driver_errors"
  by (simp add: hft_log_read_entry_hw_def driver_errors_def Let_def split: prod.splits)

lemma ioctl_body_ret: "fst (ioctl_body b ua c arg d) \<in> insert 0 driver_errors"
proof -
  have e: "- EFAULT \<in> driver_errors" "- EINVAL \<in> driver_errors" by (simp_all add: driver_errors_def)
  have "ret \<in> insert 0 driver_errors" if "hft_disp_push_order_hw b lane ord d = (ret, d')" for lane ord ret d'
    using push_order_hw_ret [of b lane ord d] that by simp
  moreover have "ret \<in> insert 0 driver_errors" if "hft_log_read_entry_hw b le d = (ret, x)" for le ret x
    using read_entry_hw_ret [of b le d] that by simp
  ultimately show ?thesis
    using e by (simp add: ioctl_body_def Let_def split: prod.splits option.splits) blast
qed

section \<open>Properties\<close>

text \<open>
  A device for the instances below: registers with fixed values, and a record of all writes
  with the last one first.
\<close>

definition recording_bus :: "(nat \<Rightarrow> u32) \<Rightarrow> (u32 \<times> nat) list bus" where
  "recording_bus regs = \<lparr>ioread32 = \<lambda>a d. (regs a, d), iowrite32 = \<lambda>v a d. (v, a) # d, udelay = \<lambda>n d. d\<rparr>"

definition plain_uaccess :: "hft_log_entry uaccess" where
  "plain_uaccess = \<lparr>from_push = \<lambda>u. None, from_entry = Some, to_status = \<lambda>s u. (False, u),
     to_info = \<lambda>i u. (False, u), to_entry = \<lambda>e u. (True, e)\<rparr>"

text \<open>
  C22: The order word round trip: an order whose type and quantity fit is packed into the layout
  type in bit 31, price in bits 30 to 15, quantity in bits 14 to 0, and unpacking that
  layout gives the order back.
\<close>

theorem order_word_roundtrip:
  assumes "order_fits ord"
  shows "unpack_order_word (hft_disp_pack_order_word ord) = ord"
  using assms by (rule unpack_pack)

theorem order_word_roundtrip_witness:
  "unpack_order_word (hft_disp_pack_order_word \<lparr>o_type = 1, o_price = 12345, o_quantity = 77\<rparr>) =
     \<lparr>o_type = 1, o_price = 12345, o_quantity = 77\<rparr>"
  by (rule order_word_roundtrip) (simp add: order_fits_def)

text \<open>
  C21: The driver writes an order to the hardware exactly when the lane exists, the order fits, the
  dispatcher is in its WRITE state and the lane is ready, and then it writes the packed order
  to that lane's push register and nothing else. Every other case returns EINVAL, EAGAIN or
  EBUSY and writes nothing.
\<close>

theorem push_order_hw_correct:
  assumes "ioread32 b REG_STATUS d = (raw, d1)"
  shows "if push_allowed lane ord raw
    then hft_disp_push_order_hw b lane ord d =
      (0, iowrite32 b (hft_disp_pack_order_word ord) (REG_PUSH (unat lane)) d1) \<and>
      REG_PUSH (unat lane) \<in> {0x08..0x24}
    else \<exists>e \<in> {EINVAL, EAGAIN, EBUSY}. hft_disp_push_order_hw b lane ord d = (- e, d) \<or>
      hft_disp_push_order_hw b lane ord d = (- e, d1)"
proof -
  have "lane < 8 \<Longrightarrow> REG_PUSH (unat lane) \<in> {0x08..0x24}" by (simp add: reg_defs word_less_nat_alt)
  then show ?thesis by (auto simp: push_order_hw_cases [OF assms] push_allowed_def)
qed

theorem push_order_hw_correct_witness:
  "if push_allowed 3 \<lparr>o_type = 0, o_price = 5, o_quantity = 6\<rparr> (0x3FD :: u32)
    then hft_disp_push_order_hw (recording_bus (\<lambda>a. 0x3FD)) 3 \<lparr>o_type = 0, o_price = 5, o_quantity = 6\<rparr> [] =
      (0, iowrite32 (recording_bus (\<lambda>a. 0x3FD)) (hft_disp_pack_order_word \<lparr>o_type = 0, o_price = 5, o_quantity = 6\<rparr>)
        (REG_PUSH (unat (3 :: u32))) []) \<and> REG_PUSH (unat (3 :: u32)) \<in> {0x08..0x24}
    else \<exists>e \<in> {EINVAL, EAGAIN, EBUSY}.
      hft_disp_push_order_hw (recording_bus (\<lambda>a. 0x3FD)) 3 \<lparr>o_type = 0, o_price = 5, o_quantity = 6\<rparr> [] = (- e, []) \<or>
      hft_disp_push_order_hw (recording_bus (\<lambda>a. 0x3FD)) 3 \<lparr>o_type = 0, o_price = 5, o_quantity = 6\<rparr> [] = (- e, [])"
  by (rule push_order_hw_correct) (simp add: recording_bus_def)

text \<open>
  C26: Reading a log entry is bounded and correct: with the dispatcher in DONE and an index below
  the count, the driver requests the entry, polls the valid bit at most 1000 times, and
  returns the two data words when the bit appears in poll \<open>k\<close>; when it never appears it returns
  ETIMEDOUT and leaves the entry unchanged.
\<close>

theorem log_read_entry_polls:
  assumes "ioread32 b REG_STATUS d = (status, d1)" "status AND STATUS_STATE_MASK = HFT_STATE_DONE"
    and "ioread32 b REG_LOG_INFO d1 = (info, d2)"
    and "le_index le < drop_bit LOG_INFO_COUNT_SHIFT (info AND LOG_INFO_COUNT_MASK)"
    and "d3 = iowrite32 b (BIT 1 OR push_bit 2 (le_index le)) REG_LOG_CMD d2"
  shows "(\<forall>k < 1000. poll_valid b (polled b k d3) \<longrightarrow> (\<forall>j < k. \<not> poll_valid b (polled b j d3)) \<longrightarrow>
      (\<exists>w0 w1 d4 d5. ioread32 b REG_LOG_DATA0 (snd (ioread32 b REG_LOG_INFO (polled b k d3))) = (w0, d4) \<and>
        ioread32 b REG_LOG_DATA1 d4 = (w1, d5) \<and>
        hft_log_read_entry_hw b le d = (0, le\<lparr>le_word0 := w0, le_word1 := w1\<rparr>, d5))) \<and>
    ((\<forall>k < 1000. \<not> poll_valid b (polled b k d3)) \<longrightarrow>
      hft_log_read_entry_hw b le d = (- ETIMEDOUT, le, polled b 1000 d3))"
proof -
  have unfold: "hft_log_read_entry_hw b le d =
      (let (info', d4) = wait_data_valid b 1000 d3 in
       if info' AND BIT LOG_INFO_DATA_VALID_BIT = 0 then (- ETIMEDOUT, le, d4)
       else let (w0, d5) = ioread32 b REG_LOG_DATA0 d4; (w1, d6) = ioread32 b REG_LOG_DATA1 d5 in
         (0, le\<lparr>le_word0 := w0, le_word1 := w1\<rparr>, d6))"
    using assms(4) unfolding not_le [symmetric]
    by (simp only: hft_log_read_entry_hw_def Let_def assms(1-3,5) prod.case simp_thms if_False)
  show ?thesis
  proof (intro conjI allI impI)
    fix k
    assume k: "k < 1000" "poll_valid b (polled b k d3)" "\<forall>j < k. \<not> poll_valid b (polled b j d3)"
    have "wait_data_valid b 1000 d3 = ioread32 b REG_LOG_INFO (polled b k d3)"
      using wait_data_valid_found [OF k] .
    then show "\<exists>w0 w1 d4 d5. ioread32 b REG_LOG_DATA0 (snd (ioread32 b REG_LOG_INFO (polled b k d3))) = (w0, d4) \<and>
        ioread32 b REG_LOG_DATA1 d4 = (w1, d5) \<and>
        hft_log_read_entry_hw b le d = (0, le\<lparr>le_word0 := w0, le_word1 := w1\<rparr>, d5)"
      using k(2) by (auto simp: unfold poll_valid_def info_valid Let_def split: prod.splits)
  next
    assume "\<forall>k < 1000. \<not> poll_valid b (polled b k d3)"
    from wait_data_valid_timeout [OF _ this]
    have "\<not> bit (fst (wait_data_valid b 1000 d3)) 1" "snd (wait_data_valid b 1000 d3) = polled b 1000 d3" by auto
    then show "hft_log_read_entry_hw b le d = (- ETIMEDOUT, le, polled b 1000 d3)"
      by (cases "wait_data_valid b 1000 d3") (simp add: unfold info_valid)
  qed
qed

theorem log_read_entry_polls_witness:
  "\<exists>w0 w1 d4 d5. hft_log_read_entry_hw (recording_bus (\<lambda>a. 0xFF)) \<lparr>le_index = 2, le_word0 = 0, le_word1 = 0\<rparr> [] =
    (0, \<lparr>le_index = 2, le_word0 = w0, le_word1 = w1\<rparr>, d5)"
proof -
  let ?b = "recording_bus (\<lambda>a. 0xFF)" and ?le = "\<lparr>le_index = 2, le_word0 = 0, le_word1 = 0\<rparr>"
  have s: "ioread32 ?b REG_STATUS [] = (0xFF, [])" "ioread32 ?b REG_LOG_INFO [] = (0xFF, [])"
    by (simp_all add: recording_bus_def)
  have st: "(0xFF :: u32) AND STATUS_STATE_MASK = HFT_STATE_DONE" by code_simp
  have n: "le_index ?le < drop_bit LOG_INFO_COUNT_SHIFT (0xFF AND LOG_INFO_COUNT_MASK)" by code_simp
  have v: "poll_valid ?b (polled ?b 0 (iowrite32 ?b (BIT 1 OR push_bit 2 (le_index ?le)) REG_LOG_CMD []))"
    by (simp add: poll_valid_def recording_bus_def)
  show ?thesis
    using log_read_entry_polls [OF s(1) st s(2) n refl, THEN conjunct1, rule_format, OF _ v] by auto
qed

text \<open>
  C27: Every ioctl returns and releases the lock: from a state in which the lock is free it gives 0 or one
  of the five error codes, with the lock free again.
\<close>

theorem ioctl_returns_unlocked:
  assumes "\<not> dev_lock s"
  shows "\<exists>ret arg' s'. hft_ioctl b ua c arg s = Some (ret, arg', s') \<and> \<not> dev_lock s' \<and>
    ret \<in> {0, - EINVAL, - EAGAIN, - EBUSY, - ETIMEDOUT, - EFAULT}"
  using assms ioctl_body_ret [of b ua c arg "dev_hw s"]
  by (cases "ioctl_body b ua c arg (dev_hw s)")
    (auto simp: hft_ioctl_def mutex_lock_def mutex_unlock_def driver_errors_def)

theorem ioctl_returns_unlocked_witness:
  "\<exists>ret arg' s'. hft_ioctl (recording_bus (\<lambda>a. 0)) plain_uaccess HFT_IOC_LOG_READ_ENTRY
      \<lparr>le_index = 2, le_word0 = 0, le_word1 = 0\<rparr> \<lparr>dev_lock = False, dev_hw = []\<rparr> = Some (ret, arg', s') \<and>
    \<not> dev_lock s' \<and> ret \<in> {0, - EINVAL, - EAGAIN, - EBUSY, - ETIMEDOUT, - EFAULT}"
  by (rule ioctl_returns_unlocked) simp

text \<open>
  The eight commands have different numbers, and any other number is answered with EINVAL
  without touching the device or the user's memory.
\<close>

lemma ioctl_rejects_unknown:
  "distinct hft_commands \<and> (c \<notin> set hft_commands \<longrightarrow> \<not> dev_lock s \<longrightarrow>
     hft_ioctl b ua c arg s = Some (- EINVAL, arg, s))"
  by (cases s) (auto simp: hft_commands_def hft_ioctl_def ioctl_body_def mutex_lock_def mutex_unlock_def)

lemma info_truth:
  "truth (info_word ov v n idle ai dn AND BIT LOG_INFO_OVERFLOW_BIT) = of_bool ov"
  "truth (info_word ov v n idle ai dn AND BIT LOG_INFO_ALL_ENGINES_IDLE_BIT) = of_bool ai"
  "truth (info_word ov v n idle ai dn AND BIT LOG_INFO_TRADE_DONE_BIT) = of_bool dn"
  by (simp_all only: truth_def log_info_defs(1,7,8) and_BIT [of 0] and_BIT [of 25] and_BIT [of 26] info_bits) simp_all

text \<open>
  The fields of the status and log-information words that the hardware drives are read back
  exactly by \<open>GET_STATUS\<close> and \<open>GET_INFO\<close>.
\<close>

lemma status_info_roundtrip:
  "unpack_status (status_word state ready em full) =
     \<lparr>st_state = ucast state, st_ready_mask = ucast ready, st_empty_mask = ucast em, st_full_mask = ucast full\<rparr> \<and>
   unpack_info (info_word ov valid n idle all_idle dn) =
     \<lparr>li_count = ucast n, li_overflow = of_bool ov, li_engine_idle_mask = ucast idle,
      li_all_engines_idle = of_bool all_idle, li_trade_done = of_bool dn\<rparr>"
  by (simp only: unpack_status_def status_fields unpack_info_def info_fields info_truth simp_thms)

text \<open>
  C30: Probing the device is all or nothing: it returns 0 with the misc device registered, the
  register region held and mapped, or a negative or registration error with nothing held; removing
  the driver after a successful probe gives everything back.
\<close>

theorem probe_all_or_nothing:
  assumes "\<not> registered s" "\<not> region_held s" "\<not> mapped s"
  shows "case hft_probe e s of (ret, s') \<Rightarrow>
    (if ret = 0 then registered s' \<and> region_held s' \<and> mapped s' \<and> hft_remove s' = (0, s)
     else s' = s \<and> ret \<in> {misc_register e, - ENOENT, - EBUSY, - ENOMEM})"
  using assms by (cases s) (auto simp: hft_probe_def hft_remove_def Let_def errno_defs)

theorem probe_all_or_nothing_witness:
  "case hft_probe \<lparr>misc_register = 0, of_address_to_resource = 0, request_mem_region = True, of_iomap = False\<rparr>
      \<lparr>registered = False, region_held = False, mapped = False\<rparr> of (ret, s') \<Rightarrow>
    (if ret = 0 then registered s' \<and> region_held s' \<and> mapped s' \<and>
        hft_remove s' = (0, \<lparr>registered = False, region_held = False, mapped = False\<rparr>)
     else s' = \<lparr>registered = False, region_held = False, mapped = False\<rparr> \<and>
       ret \<in> {misc_register \<lparr>misc_register = 0, of_address_to_resource = 0, request_mem_region = True, of_iomap = False\<rparr>,
         - ENOENT, - EBUSY, - ENOMEM})"
  by (rule probe_all_or_nothing) simp_all

end
