(* ===== verification/Harness.thy ===== *)
theory Harness
  imports Driver C_Strings
begin

text \<open>
  The user-space harness \<open>src/sw/HFT_harness.c\<close>.

  Everything outside the program is a value of type \<open>'e sys\<close> over an environment state \<open>'e\<close>:
  the clock, \<open>nanosleep\<close>, the five forms of \<open>ioctl\<close> on the device (an error is returned as
  the negative of \<open>errno\<close>), the flag \<open>g_stop\<close> that the signal handler sets, printing to a
  stream, closing a file, and the results of opening files (\<open>Inl\<close> or \<open>Some\<close> of \<open>errno\<close>). Loops that wait for the device have no bound of their own, so they are
  partial functions: \<open>None\<close> means that the call does not return, or that it reaches undefined
  behaviour of C.
\<close>

section \<open>The environment\<close>

datatype stream = Stdout | Stderr | Progress | Trades | Device

datatype nano_result = Slept | Interrupted "nat \<times> nat" | SleepError int

record 'e sys =
  clock_gettime :: "'e \<Rightarrow> (nat \<times> nat) option \<times> 'e"
  nanosleep :: "nat \<times> nat \<Rightarrow> 'e \<Rightarrow> nano_result \<times> 'e"
  ioc_command :: "u32 \<Rightarrow> 'e \<Rightarrow> int \<times> 'e"
  ioc_status :: "'e \<Rightarrow> (int + hft_disp_status) \<times> 'e"
  ioc_push :: "hft_disp_push_req \<Rightarrow> 'e \<Rightarrow> int \<times> 'e"
  ioc_info :: "'e \<Rightarrow> (int + hft_log_info) \<times> 'e"
  ioc_entry :: "hft_log_entry \<Rightarrow> 'e \<Rightarrow> (int + hft_log_entry) \<times> 'e"
  g_stop :: "'e \<Rightarrow> bool \<times> 'e"
  put :: "stream \<Rightarrow> string \<Rightarrow> 'e \<Rightarrow> 'e"
  close_file :: "stream \<Rightarrow> 'e \<Rightarrow> 'e"
  file_system :: "string \<Rightarrow> int + string"
  open_device :: bool
  open_progress :: "int option"
  open_trades :: "int option"
  can_calloc :: "nat \<Rightarrow> bool"
  strerror :: "int \<Rightarrow> string"

text \<open>The signal handler: the new value of \<open>g_stop\<close>.\<close>

definition on_sigint :: "int \<Rightarrow> bool \<Rightarrow> bool" where
  "on_sigint signo stop = True"

definition HFT_ALL_LANES_MASK :: u32 where
  "HFT_ALL_LANES_MASK = push_bit HFT_NUM_LANES 1 - 1"

definition HFT_ERR_RESET :: int where
  "HFT_ERR_RESET = - ECONNRESET"

section \<open>Time\<close>

definition now_ms :: "'e sys \<Rightarrow> 'e \<Rightarrow> u64 \<times> 'e" where
  "now_ms sys e =
     (case clock_gettime sys e of
        (None, e1) \<Rightarrow> (0, e1)
      | (Some (tv_sec, tv_nsec), e1) \<Rightarrow> (of_nat tv_sec * 1000 + of_nat (tv_nsec div 1000000), e1))"

text \<open>The loop around \<open>nanosleep\<close> in \<open>sleep_ms\<close> and \<open>sleep_us\<close>.\<close>

partial_function (option) sleep_loop :: "'e sys \<Rightarrow> nat \<times> nat \<Rightarrow> 'e \<Rightarrow> (int \<times> 'e) option" where
  "sleep_loop sys ts e =
     (case nanosleep sys ts e of
        (Slept, e1) \<Rightarrow> Some (0, e1)
      | (Interrupted rest, e1) \<Rightarrow> sleep_loop sys rest e1
      | (SleepError err, e1) \<Rightarrow> Some (- err, e1))"

definition sleep_ms :: "'e sys \<Rightarrow> nat \<Rightarrow> 'e \<Rightarrow> (int \<times> 'e) option" where
  "sleep_ms sys ms e = sleep_loop sys (ms div 1000, (ms mod 1000) * 1000000) e"

definition sleep_us :: "'e sys \<Rightarrow> nat \<Rightarrow> 'e \<Rightarrow> (int \<times> 'e) option" where
  "sleep_us sys us e = sleep_loop sys (us div 1000000, (us mod 1000000) * 1000) e"

text \<open>
  \<open>deadline = (timeout_ms < 0) ? 0 : now_ms() + timeout_ms\<close>, and the test
  \<open>timeout_ms >= 0 && now_ms() >= deadline\<close>.
\<close>

definition start_deadline :: "'e sys \<Rightarrow> int \<Rightarrow> 'e \<Rightarrow> u64 \<times> 'e" where
  "start_deadline sys timeout_ms e =
     (if timeout_ms < 0 then (0, e) else let (t, e1) = now_ms sys e in (t + word_of_int timeout_ms, e1))"

definition expired :: "'e sys \<Rightarrow> int \<Rightarrow> u64 \<Rightarrow> 'e \<Rightarrow> bool \<times> 'e" where
  "expired sys timeout_ms deadline e =
     (if timeout_ms \<ge> 0 then let (t, e1) = now_ms sys e in (t \<ge> deadline, e1) else (False, e))"

section \<open>CSV files\<close>

text \<open>An open stream is the whole text of the file and the part not read yet.\<close>

record LaneCSVReader =
  lane_csv :: "(string \<times> string) option list"
  lane_eof :: "bool list"

definition closed_reader :: LaneCSVReader where
  "closed_reader = \<lparr>lane_csv = replicate HFT_NUM_LANES None, lane_eof = replicate HFT_NUM_LANES False\<rparr>"

definition close_all_csvs :: "LaneCSVReader \<Rightarrow> LaneCSVReader" where
  "close_all_csvs r = \<lparr>lane_csv = map (\<lambda>f. None) (lane_csv r), lane_eof = map (\<lambda>b. False) (lane_eof r)\<rparr>"

definition lane_file :: "string list" where
  "lane_file = [''AAPL.csv'', ''BSX.csv'', ''BUS.csv'', ''MMM.csv'', ''MSFT.csv'', ''SBUX.csv'', ''TUS.csv'', ''WMT.csv'']"

fun open_lanes :: "'e sys \<Rightarrow> string \<Rightarrow> string list \<Rightarrow> nat \<Rightarrow> LaneCSVReader \<Rightarrow> 'e \<Rightarrow> int \<times> LaneCSVReader \<times> 'e" where
  "open_lanes sys data_dir [] lane r e = (0, r, e)"
| "open_lanes sys data_dir (f # fs) lane r e =
     (let path = take 511 (data_dir @ ''/'' @ f) in
      case file_system sys path of
        Inl err \<Rightarrow>
          (- ENOENT, close_all_csvs r,
           put sys Stderr (''ERROR: cannot open lane '' @ dec_digits lane @ '' CSV '' @ [CHR 0x27] @ path @ [CHR 0x27] @
             '': '' @ strerror sys err @ [CHR 0x0A]) e)
      | Inr content \<Rightarrow> open_lanes sys data_dir fs (lane + 1)
          (r\<lparr>lane_csv := (lane_csv r)[lane := Some (content, content)], lane_eof := (lane_eof r)[lane := False]\<rparr>) e)"

definition open_all_csvs :: "'e sys \<Rightarrow> LaneCSVReader \<Rightarrow> string \<Rightarrow> 'e \<Rightarrow> int \<times> LaneCSVReader \<times> 'e" where
  "open_all_csvs sys r data_dir e = open_lanes sys data_dir lane_file 0 r e"

definition csv_rewind_all :: "LaneCSVReader \<Rightarrow> LaneCSVReader" where
  "csv_rewind_all r = \<lparr>lane_csv = map (map_option (\<lambda>(whole, rest). (whole, whole))) (lane_csv r),
     lane_eof = map (\<lambda>b. False) (lane_eof r)\<rparr>"

text \<open>\<open>sscanf(line, " %15[^,],%u,%u", type_s, &price_u, &qty_u)\<close>\<close>

definition scan_order_line :: "string \<Rightarrow> (string \<times> u32 \<times> u32) conv" where
  "scan_order_line line =
     bind_conv (conv_not_comma_width 15 (skip_ws line)) (\<lambda>ty s1.
     bind_conv (conv_lit CHR '','' s1) (\<lambda>_ s2.
     bind_conv (conv_u s2) (\<lambda>p s3.
     bind_conv (conv_lit CHR '','' s3) (\<lambda>_ s4.
     bind_conv (conv_u s4) (\<lambda>q s5. Match (ty, p, q) s5)))))"

text \<open>The order of one line, or an error; \<open>None\<close> when a number overflows.\<close>

definition parse_order :: "string \<Rightarrow> (int + hft_disp_order) option" where
  "parse_order line =
     (case scan_order_line line of
        Undef \<Rightarrow> None
      | NoMatch \<Rightarrow> Some (Inl (- EINVAL))
      | Match (ty, p, q) r \<Rightarrow>
          if ty \<noteq> ''ASK'' \<and> ty \<noteq> ''BID'' then Some (Inl (- EINVAL))
          else if p > 0xFFFF then Some (Inl (- EINVAL))
          else if q > 0x7FFF then Some (Inl (- EINVAL))
          else Some (Inr \<lparr>o_type = (if ty = ''ASK'' then 0 else 1), o_price = ucast p, o_quantity = ucast q\<rparr>))"

definition skipped_line :: "string \<Rightarrow> bool" where
  "skipped_line line \<longleftrightarrow> (line \<noteq> [] \<and> (hd line = CHR 0x0A \<or> hd line = CHR 0x0D)) \<or> starts_with line ''Type,''"

text \<open>The loop of \<open>lane_csv_next_order\<close>: \<open>Inr None\<close> is the end of the file.\<close>

function next_line_order :: "string \<Rightarrow> ((int + hft_disp_order option) \<times> string) option" where
  "next_line_order rest =
     (case fgets 256 rest of
        None \<Rightarrow> Some (Inr None, rest)
      | Some (line, rest') \<Rightarrow>
          if skipped_line line then next_line_order rest'
          else (case parse_order line of
              None \<Rightarrow> None
            | Some (Inl err) \<Rightarrow> Some (Inl err, rest')
            | Some (Inr ord) \<Rightarrow> Some (Inr (Some ord), rest')))"
  by pat_completeness auto
termination
  by (relation "measure length") (auto dest: fgets_shorter [of 256, simplified])

declare next_line_order.simps [simp del]

text \<open>
  A next-order callback returns 1 with an order, 0 at the end, or a negative error, with the
  order \<open>None\<close> unless the code is 1.
\<close>

type_synonym 'c next_order_fn = "'c \<Rightarrow> nat \<Rightarrow> (int \<times> hft_disp_order option \<times> 'c) option"

definition lane_csv_next_order :: "LaneCSVReader next_order_fn" where
  "lane_csv_next_order r lane =
     (if lane \<ge> HFT_NUM_LANES then Some (- EINVAL, None, r)
      else if lane_eof r ! lane then Some (0, None, r)
      else
        (case lane_csv r ! lane of
           None \<Rightarrow> None
         | Some (whole, rest) \<Rightarrow>
             (case next_line_order rest of
                None \<Rightarrow> None
              | Some (Inr None, rest') \<Rightarrow>
                  Some (0, None, r\<lparr>lane_csv := (lane_csv r)[lane := Some (whole, rest')], lane_eof := (lane_eof r)[lane := True]\<rparr>)
              | Some (Inl err, rest') \<Rightarrow> Some (err, None, r\<lparr>lane_csv := (lane_csv r)[lane := Some (whole, rest')]\<rparr>)
              | Some (Inr (Some ord), rest') \<Rightarrow>
                  Some (1, Some ord, r\<lparr>lane_csv := (lane_csv r)[lane := Some (whole, rest')]\<rparr>))))"

section \<open>Dispatcher states\<close>

definition hft_disp_get_status :: "'e sys \<Rightarrow> 'e \<Rightarrow> (int + hft_disp_status) \<times> 'e" where
  "hft_disp_get_status sys e = ioc_status sys e"

partial_function (option) wait_state_loop ::
  "'e sys \<Rightarrow> u32 \<Rightarrow> int \<Rightarrow> int \<Rightarrow> bool \<Rightarrow> u64 \<Rightarrow> 'e \<Rightarrow> (int \<times> 'e) option" where
  "wait_state_loop sys want_state timeout_ms poll_ms abort_on_idle deadline e =
     (case hft_disp_get_status sys e of
        (Inl rc, e1) \<Rightarrow> Some (rc, e1)
      | (Inr st, e1) \<Rightarrow>
          if st_state st = want_state then Some (0, e1)
          else if abort_on_idle \<and> st_state st = HFT_STATE_IDLE \<and> want_state \<noteq> HFT_STATE_IDLE then Some (HFT_ERR_RESET, e1)
          else let (late, e2) = expired sys timeout_ms deadline e1 in
            if late then Some (- ETIMEDOUT, e2)
            else do {
              (rc, e3) \<leftarrow> sleep_ms sys (nat poll_ms) e2;
              wait_state_loop sys want_state timeout_ms poll_ms abort_on_idle deadline e3 })"

definition hft_disp_wait_state :: "'e sys \<Rightarrow> u32 \<Rightarrow> int \<Rightarrow> int \<Rightarrow> bool \<Rightarrow> 'e \<Rightarrow> (int \<times> 'e) option" where
  "hft_disp_wait_state sys want_state timeout_ms poll_ms abort_on_idle e =
     (let poll = (if poll_ms \<le> 0 then 1 else poll_ms); (deadline, e1) = start_deadline sys timeout_ms e in
      wait_state_loop sys want_state timeout_ms poll abort_on_idle deadline e1)"

definition hft_transition_to_dispatch :: "'e sys \<Rightarrow> int \<Rightarrow> 'e \<Rightarrow> (int \<times> 'e) option" where
  "hft_transition_to_dispatch sys timeout_ms e = do {
     (rc, e1) \<leftarrow> hft_disp_wait_state sys HFT_STATE_WRITE timeout_ms 1 False e;
     (if rc \<noteq> 0 then Some (rc, e1)
      else let (rc', e2) = ioc_command sys HFT_IOC_DISP_BEGIN_DISPATCH e1 in
        if rc' < 0 then Some (rc', e2)
        else hft_disp_wait_state sys HFT_STATE_DISPATCH timeout_ms 1 True e2) }"

partial_function (option) wait_dispatch_loop :: "'e sys \<Rightarrow> int \<Rightarrow> int \<Rightarrow> u64 \<Rightarrow> 'e \<Rightarrow> (int \<times> 'e) option" where
  "wait_dispatch_loop sys timeout_ms poll_ms deadline e =
     (case hft_disp_get_status sys e of
        (Inl rc, e1) \<Rightarrow> Some (rc, e1)
      | (Inr st, e1) \<Rightarrow>
          if st_state st = HFT_STATE_DISPATCH \<or> st_state st = HFT_STATE_DONE then Some (0, e1)
          else if st_state st = HFT_STATE_IDLE then Some (HFT_ERR_RESET, e1)
          else let (late, e2) = expired sys timeout_ms deadline e1 in
            if late then Some (- ETIMEDOUT, e2)
            else do {
              (rc, e3) \<leftarrow> sleep_ms sys (nat poll_ms) e2;
              wait_dispatch_loop sys timeout_ms poll_ms deadline e3 })"

definition hft_disp_wait_dispatch_or_done :: "'e sys \<Rightarrow> int \<Rightarrow> int \<Rightarrow> 'e \<Rightarrow> (int \<times> 'e) option" where
  "hft_disp_wait_dispatch_or_done sys timeout_ms poll_ms e =
     (let poll = (if poll_ms \<le> 0 then 1 else poll_ms); (deadline, e1) = start_deadline sys timeout_ms e in
      wait_dispatch_loop sys timeout_ms poll deadline e1)"

definition hft_transition_done_to_idle :: "'e sys \<Rightarrow> int \<Rightarrow> 'e \<Rightarrow> (int \<times> 'e) option" where
  "hft_transition_done_to_idle sys timeout_ms e = do {
     (rc, e1) \<leftarrow> hft_disp_wait_state sys HFT_STATE_DONE timeout_ms 1 False e;
     (if rc \<noteq> 0 then Some (rc, e1)
      else let (rc', e2) = ioc_command sys HFT_IOC_DISP_CLEAR_DONE e1 in
        if rc' < 0 then Some (rc', e2)
        else hft_disp_wait_state sys HFT_STATE_IDLE timeout_ms 1 False e2) }"

definition hft_all_fifos_full_mask :: "u32 \<Rightarrow> bool" where
  "hft_all_fifos_full_mask full_mask \<longleftrightarrow> full_mask AND HFT_ALL_LANES_MASK = HFT_ALL_LANES_MASK"

section \<open>Pushing orders\<close>

definition hft_disp_push_order :: "'e sys \<Rightarrow> u32 \<Rightarrow> hft_disp_order \<Rightarrow> 'e \<Rightarrow> int \<times> 'e" where
  "hft_disp_push_order sys lane ord e =
     (let (rc, e1) = ioc_push sys \<lparr>req_lane = lane, req_order = ord\<rparr> e in if rc < 0 then (rc, e1) else (0, e1))"

partial_function (option) push_blocking_loop ::
  "'e sys \<Rightarrow> u32 \<Rightarrow> hft_disp_order \<Rightarrow> int \<Rightarrow> int \<Rightarrow> u64 \<Rightarrow> 'e \<Rightarrow> (int \<times> 'e) option" where
  "push_blocking_loop sys lane ord timeout_ms poll_us deadline e =
     (let (rc, e1) = hft_disp_push_order sys lane ord e in
      if rc = 0 then Some (0, e1)
      else if rc \<noteq> - EAGAIN \<and> rc \<noteq> - EBUSY then Some (rc, e1)
      else let (late, e2) = expired sys timeout_ms deadline e1 in
        if late then Some (- ETIMEDOUT, e2)
        else do {
          (rc', e3) \<leftarrow> sleep_us sys (nat poll_us) e2;
          push_blocking_loop sys lane ord timeout_ms poll_us deadline e3 })"

definition hft_disp_push_order_blocking ::
  "'e sys \<Rightarrow> u32 \<Rightarrow> hft_disp_order \<Rightarrow> int \<Rightarrow> int \<Rightarrow> 'e \<Rightarrow> (int \<times> 'e) option" where
  "hft_disp_push_order_blocking sys lane ord timeout_ms poll_us e =
     (let poll = (if poll_us \<le> 0 then 200 else poll_us); (deadline, e1) = start_deadline sys timeout_ms e in
      push_blocking_loop sys lane ord timeout_ms poll deadline e1)"

text \<open>
  One pass over the lanes from \<open>lane\<close> on. \<open>Inl rc\<close> is a \<open>return rc\<close> inside the loop body; the
  status is the one of the last query.
\<close>

fun rr_lanes :: "'e sys \<Rightarrow> 'c next_order_fn \<Rightarrow> int \<Rightarrow> u64 \<Rightarrow> nat list \<Rightarrow> hft_disp_status \<Rightarrow> bool list \<Rightarrow> 'c \<Rightarrow> 'e \<Rightarrow>
    ((int + bool list) \<times> 'c \<times> 'e) option" where
  "rr_lanes sys next_order timeout_ms deadline [] st lane_done ctx e = Some (Inr lane_done, ctx, e)"
| "rr_lanes sys next_order timeout_ms deadline (lane # lanes) st lane_done ctx e =
     (if lane_done ! lane then rr_lanes sys next_order timeout_ms deadline lanes st lane_done ctx e
      else if bit (st_full_mask st) lane then rr_lanes sys next_order timeout_ms deadline lanes st lane_done ctx e
      else do {
        (have, ord, ctx1) \<leftarrow> next_order ctx lane;
        (if have < 0 then Some (Inl have, ctx1, e)
         else if have = 0 then
           rr_lanes sys next_order timeout_ms deadline lanes st (lane_done[lane := True]) ctx1 e
         else do {
           ord' \<leftarrow> ord;
           (rc, e1) \<leftarrow> hft_disp_push_order_blocking sys (of_nat lane) ord' 2000 200 e;
           (if rc \<noteq> 0 then Some (Inl rc, ctx1, e1)
            else let (late, e2) = expired sys timeout_ms deadline e1 in
              if late then Some (Inl (- ETIMEDOUT), ctx1, e2)
              else (case hft_disp_get_status sys e2 of
                  (Inl rc', e3) \<Rightarrow> Some (Inl rc', ctx1, e3)
                | (Inr st', e3) \<Rightarrow>
                    if hft_all_fifos_full_mask (st_full_mask st') then Some (Inl 0, ctx1, e3)
                    else rr_lanes sys next_order timeout_ms deadline lanes st' lane_done ctx1 e3)) }) })"

partial_function (option) rr_loop :: "'e sys \<Rightarrow> 'c next_order_fn \<Rightarrow> int \<Rightarrow> u64 \<Rightarrow> bool list \<Rightarrow> 'c \<Rightarrow> 'e \<Rightarrow>
    (int \<times> 'c \<times> 'e) option" where
  "rr_loop sys next_order timeout_ms deadline lane_done ctx e =
     (if list_all id lane_done then Some (0, ctx, e)
      else (case hft_disp_get_status sys e of
          (Inl rc, e1) \<Rightarrow> Some (rc, ctx, e1)
        | (Inr st, e1) \<Rightarrow>
            if hft_all_fifos_full_mask (st_full_mask st) then Some (0, ctx, e1)
            else if st_state st = HFT_STATE_IDLE then Some (HFT_ERR_RESET, ctx, e1)
            else if st_state st \<noteq> HFT_STATE_WRITE then Some (- EAGAIN, ctx, e1)
            else do {
              (r, ctx1, e2) \<leftarrow> rr_lanes sys next_order timeout_ms deadline [0..<HFT_NUM_LANES] st lane_done ctx e1;
              (case r of
                 Inl rc \<Rightarrow> Some (rc, ctx1, e2)
               | Inr lane_done' \<Rightarrow> rr_loop sys next_order timeout_ms deadline lane_done' ctx1 e2) }))"

definition hft_write_orders_round_robin ::
  "'e sys \<Rightarrow> 'c next_order_fn \<Rightarrow> 'c \<Rightarrow> int \<Rightarrow> 'e \<Rightarrow> (int \<times> 'c \<times> 'e) option" where
  "hft_write_orders_round_robin sys next_order ctx timeout_ms e =
     (let (deadline, e1) = start_deadline sys timeout_ms e in
      rr_loop sys next_order timeout_ms deadline (replicate HFT_NUM_LANES False) ctx e1)"

end
