(* ===== verification/Harness_Main.thy ===== *)
theory Harness_Main
  imports Harness
begin

text \<open>
  The second half of \<open>src/sw/HFT_harness.c\<close>: reading the trade log, progress reports, the dump
  of the log, and \<open>main\<close>. A file pointer that may be null is a \<open>bool\<close>, \<open>True\<close> when the file
  is open.
\<close>

section \<open>Reading the trade log\<close>

definition hft_log_get_info :: "'e sys \<Rightarrow> 'e \<Rightarrow> (int + hft_log_info) \<times> 'e" where
  "hft_log_get_info sys e = ioc_info sys e"

fun read_entries :: "'e sys \<Rightarrow> nat \<Rightarrow> nat \<Rightarrow> 'e \<Rightarrow> (int + hft_log_entry list) \<times> 'e" where
  "read_entries sys i 0 e = (Inr [], e)"
| "read_entries sys i (Suc k) e =
     (case ioc_entry sys \<lparr>le_index = of_nat i, le_word0 = 0, le_word1 = 0\<rparr> e of
        (Inl rc, e1) \<Rightarrow> (Inl rc, e1)
      | (Inr le, e1) \<Rightarrow>
          (case read_entries sys (Suc i) k e1 of
             (Inl rc, e2) \<Rightarrow> (Inl rc, e2)
           | (Inr les, e2) \<Rightarrow> (Inr (le # les), e2)))"

text \<open>
  On success the entries read (their number is \<open>out_count\<close>) and the overflow flag. The outputs
  of a failing call are not returned: the only caller drops them.
\<close>

definition hft_log_read_all :: "'e sys \<Rightarrow> u32 \<Rightarrow> 'e \<Rightarrow> (int + hft_log_entry list \<times> u32) \<times> 'e" where
  "hft_log_read_all sys max_entries e =
     (case hft_log_get_info sys e of
        (Inl rc, e1) \<Rightarrow> (Inl rc, e1)
      | (Inr li, e1) \<Rightarrow>
          let n = (if li_count li > max_entries then max_entries else li_count li) in
          (case read_entries sys 0 (unat n) e1 of
             (Inl rc, e2) \<Rightarrow> (Inl rc, e2)
           | (Inr les, e2) \<Rightarrow> (Inr (les, li_overflow li), e2)))"

section \<open>Progress reports\<close>

definition tee_printf :: "'e sys \<Rightarrow> bool \<Rightarrow> string \<Rightarrow> 'e \<Rightarrow> 'e" where
  "tee_printf sys fp s e = (let e1 = (if fp then put sys Progress s e else e) in put sys Stdout s e1)"

fun print_lanes :: "'e sys \<Rightarrow> bool \<Rightarrow> u32 \<Rightarrow> nat list \<Rightarrow> 'e \<Rightarrow> 'e" where
  "print_lanes sys fp msk [] e = e"
| "print_lanes sys fp msk (lane # lanes) e =
     print_lanes sys fp msk lanes
       (tee_printf sys fp (CHR '' '' # dec_digits lane @ ''='' @ (if bit msk lane then ''1'' else ''0'')) e)"

definition print_lane_mask :: "'e sys \<Rightarrow> bool \<Rightarrow> string \<Rightarrow> u32 \<Rightarrow> 'e \<Rightarrow> 'e" where
  "print_lane_mask sys fp label msk e =
     tee_printf sys fp [CHR 0x0A] (print_lanes sys fp msk [0..<HFT_NUM_LANES] (tee_printf sys fp (label @ '':'') e))"

definition disp_state_str :: "u32 \<Rightarrow> string" where
  "disp_state_str state =
     (if state = HFT_STATE_IDLE then ''IDLE''
      else if state = HFT_STATE_WRITE then ''WRITE''
      else if state = HFT_STATE_DISPATCH then ''DISPATCH''
      else if state = HFT_STATE_DONE then ''DONE''
      else ''UNKNOWN'')"

definition hft_print_progress_snapshot :: "'e sys \<Rightarrow> bool \<Rightarrow> 'e \<Rightarrow> 'e" where
  "hft_print_progress_snapshot sys fp e =
     (let (rc_st, e1) = hft_disp_get_status sys e;
          (rc_li, e2) = hft_log_get_info sys e1;
          e3 = (case rc_st of
              Inr st \<Rightarrow>
                print_lane_mask sys fp ''[progress] FIFO ready_mask'' (st_ready_mask st)
                  (print_lane_mask sys fp ''[progress] FIFO full_mask '' (st_full_mask st)
                    (print_lane_mask sys fp ''[progress] FIFO empty_mask'' (st_empty_mask st)
                      (tee_printf sys fp (''[progress] Dispatcher state='' @ disp_state_str (st_state st) @
                         '' ('' @ fmt_u (st_state st) @ '')'' @ [CHR 0x0A]) e2)))
            | Inl rc \<Rightarrow>
                tee_printf sys fp (''[progress] Dispatcher status unavailable (rc='' @ fmt_d rc @ '')'' @ [CHR 0x0A]) e2) in
      case rc_li of
        Inr li \<Rightarrow>
          tee_printf sys fp (''[progress] Engines: all_idle='' @ fmt_u (li_all_engines_idle li) @ '' idle_mask=0x'' @
              fmt_x 8 (li_engine_idle_mask li) @ [CHR 0x0A])
            (tee_printf sys fp (''[progress] Trade log count='' @ fmt_u (li_count li) @ '' overflow='' @
              fmt_u (li_overflow li) @ '' trade_done='' @ fmt_u (li_trade_done li) @ [CHR 0x0A]) e3)
      | Inl rc \<Rightarrow>
          if rc = - EAGAIN
          then tee_printf sys fp (''[progress] Trade logger info not ready yet (rc='' @ fmt_d rc @ '')'' @ [CHR 0x0A]) e3
          else tee_printf sys fp (''[progress] Trade logger info unavailable (rc='' @ fmt_d rc @ '')'' @ [CHR 0x0A]) e3)"

section \<open>Waiting for the end of trading\<close>

definition maybe_snapshot :: "'e sys \<Rightarrow> bool \<Rightarrow> u64 \<Rightarrow> u64 \<Rightarrow> 'e \<Rightarrow> u64 \<times> 'e" where
  "maybe_snapshot sys fp t next_print_ms e =
     (if t \<ge> next_print_ms
      then (t + 250, if fp then hft_print_progress_snapshot sys fp e else e)
      else (next_print_ms, e))"

text \<open>The result code, the value of \<open>*out_final\<close>, and the environment.\<close>

partial_function (option) trade_done_loop ::
  "'e sys \<Rightarrow> bool \<Rightarrow> int \<Rightarrow> int \<Rightarrow> u64 \<Rightarrow> u64 \<Rightarrow> hft_log_info \<Rightarrow> 'e \<Rightarrow> (int \<times> hft_log_info \<times> 'e) option" where
  "trade_done_loop sys fp timeout_ms poll_ms deadline next_print_ms out_final e =
     (let (stop, e1) = g_stop sys e in
      if stop then Some (- EINTR, out_final, tee_printf sys fp (''[progress] interrupted (SIGINT)'' @ [CHR 0x0A]) e1)
      else (case hft_disp_get_status sys e1 of
          (Inl rc_st, e2) \<Rightarrow> Some (rc_st, out_final, e2)
        | (Inr st, e2) \<Rightarrow>
            if st_state st = HFT_STATE_IDLE then Some (HFT_ERR_RESET, out_final, e2)
            else
              let (rc, e3) = hft_log_get_info sys e2;
                  (t, e4) = now_ms sys e3;
                  (next_print, e5) = maybe_snapshot sys fp t next_print_ms e4 in
              if (case rc of Inr li \<Rightarrow> li_trade_done li \<noteq> 0 | Inl err \<Rightarrow> err \<noteq> - EAGAIN) then
                Some (case rc of Inr li \<Rightarrow> (0, li, e5) | Inl err \<Rightarrow> (err, out_final, e5))
              else
                let (late, e6) = expired sys timeout_ms deadline e5 in
                if late then Some (- ETIMEDOUT, out_final, e6)
                else do {
                  (rc', e7) \<leftarrow> sleep_ms sys (nat poll_ms) e6;
                  trade_done_loop sys fp timeout_ms poll_ms deadline next_print out_final e7 }))"

definition hft_log_wait_trade_done ::
  "'e sys \<Rightarrow> bool \<Rightarrow> int \<Rightarrow> int \<Rightarrow> hft_log_info \<Rightarrow> 'e \<Rightarrow> (int \<times> hft_log_info \<times> 'e) option" where
  "hft_log_wait_trade_done sys fp timeout_ms poll_ms out_final e =
     (let poll = (if poll_ms \<le> 0 then 1 else poll_ms); (deadline, e1) = start_deadline sys timeout_ms e in
      trade_done_loop sys fp timeout_ms poll deadline 0 out_final e1)"

section \<open>The dump of the log\<close>

definition dump_line :: "nat \<Rightarrow> hft_log_entry \<Rightarrow> string" where
  "dump_line i le =
     (let ts = le_word0 le;
          w1 = le_word1 le;
          engine_id = drop_bit 24 w1 AND 0x7;
          quantity = drop_bit 16 w1 AND 0x7F;
          price_cents = drop_bit 0 w1 AND 0xFFFF;
          dollars = price_cents div 100;
          cents = price_cents mod 100 in
      dec_digits i @ '',0x'' @ fmt_x 8 (le_word0 le) @ '',0x'' @ fmt_x 8 (le_word1 le) @ '','' @ fmt_u engine_id @ '','' @
      fmt_u quantity @ '','' @ fmt_u dollars @ ''.'' @ fmt_0u 2 cents @ '','' @ fmt_u ts @ [CHR 0x0A])"

fun hft_log_dump_entries :: "'e sys \<Rightarrow> nat \<Rightarrow> hft_log_entry list \<Rightarrow> 'e \<Rightarrow> 'e" where
  "hft_log_dump_entries sys i [] e = e"
| "hft_log_dump_entries sys i (le # les) e = hft_log_dump_entries sys (Suc i) les (put sys Trades (dump_line i le) e)"

section \<open>The main function\<close>

text \<open>
  After trading is done: the counts, the entries and the file of trades. The result is the
  value returned from \<open>main\<close>, or \<open>None\<close> for the \<open>break\<close> out of its loop.
\<close>

definition collect_trades :: "'e sys \<Rightarrow> LaneCSVReader \<Rightarrow> hft_log_info \<Rightarrow> 'e \<Rightarrow> int option \<times> LaneCSVReader \<times> 'e" where
  "collect_trades sys csv final_li e =
     (let e1 = put sys Stdout (''Trading done.'' @ [CHR 0x0A]) e;
          e2 = put sys Stdout (''Trade log count (trades recorded): '' @ fmt_u (li_count final_li) @ [CHR 0x0A]) e1;
          e3 = put sys Stdout (''Trade log overflow: '' @ fmt_u (li_overflow final_li) @ [CHR 0x0A]) e2;
          n = (if li_count final_li > 8704 then 8704 else li_count final_li) in
      if n = 0 then (Some 0, close_all_csvs csv, put sys Stdout (''No trades recorded.'' @ [CHR 0x0A]) e3)
      else if \<not> can_calloc sys (unat n) then
        (Some 1, close_all_csvs csv, put sys Stderr (''ERROR: calloc failed'' @ [CHR 0x0A]) e3)
      else (case hft_log_read_all sys n e3 of
          (Inl rc, e4) \<Rightarrow>
            (Some 1, close_all_csvs csv,
             put sys Stderr (''ERROR: hft_log_read_all failed: '' @ fmt_d rc @ [CHR 0x0A]) e4)
        | (Inr (logbuf, overflow), e4) \<Rightarrow>
            let e5 = put sys Stdout (''Read back '' @ dec_digits (length logbuf) @ '' trade log entries (overflow='' @
                  fmt_u overflow @ '')'' @ [CHR 0x0A]) e4 in
            (case open_trades sys of
               Some err \<Rightarrow>
                 (Some 1, close_all_csvs csv,
                  put sys Stderr (''ERROR: could not open hft_trades.txt for writing: '' @ strerror sys err @ [CHR 0x0A]) e5)
             | None \<Rightarrow>
                 let e6 = put sys Trades (''index,word0,word1,engine_id,quantity,price,timestamp'' @ [CHR 0x0A]) e5;
                     e7 = hft_log_dump_entries sys 0 logbuf e6 in
                 (None, csv, close_file sys Trades e7))))"

definition close_progress_and_device :: "'e sys \<Rightarrow> bool \<Rightarrow> 'e \<Rightarrow> 'e" where
  "close_progress_and_device sys fp e = (let e1 = (if fp then close_file sys Progress e else e) in close_file sys Device e1)"

text \<open>
  One turn of the loop of \<open>main\<close>: \<open>Restart\<close> is \<open>continue\<close>, \<open>Leave\<close> is \<open>break\<close>, \<open>Return rc\<close>
  a return from \<open>main\<close>.
\<close>

datatype turn = Restart | Leave | Return int

definition no_info :: hft_log_info where
  "no_info = \<lparr>li_count = 0, li_overflow = 0, li_engine_idle_mask = 0, li_all_engines_idle = 0, li_trade_done = 0\<rparr>"

definition say_rc :: "'e sys \<Rightarrow> stream \<Rightarrow> string \<Rightarrow> int \<Rightarrow> 'e \<Rightarrow> 'e" where
  "say_rc sys f s rc e = put sys f (s @ fmt_d rc @ [CHR 0x0A]) e"

definition after_dispatch :: "'e sys \<Rightarrow> bool \<Rightarrow> LaneCSVReader \<Rightarrow> 'e \<Rightarrow> (turn \<times> LaneCSVReader \<times> 'e) option" where
  "after_dispatch sys fp csv e =
     (case hft_disp_get_status sys e of
        (Inl rc, e1) \<Rightarrow>
          Some (Return 1, close_all_csvs csv,
            close_progress_and_device sys fp (say_rc sys Stderr ''Error: get status after dispatch wait failed rc='' rc e1))
      | (Inr st, e1) \<Rightarrow> do {
          let e2 = put sys Stdout
            ((if st_state st = HFT_STATE_DISPATCH then ''Virtualized HFT Simulator has started.''
              else ''Dispatcher already reached DONE before SW observed DISPATCH.'') @ [CHR 0x0A]) e1;
          (rc, final_li, e3) \<leftarrow> hft_log_wait_trade_done sys fp 600000 2 no_info e2;
          (if rc = HFT_ERR_RESET then
             Some (Restart, csv, put sys Stdout (''Reset detected during dispatch. Restarting.'' @ [CHR 0x0A]) e3)
           else if rc = - EINTR then
             Some (Return 0, close_all_csvs csv, put sys Stderr (''Interrupted (Ctrl+C). Exiting cleanly.'' @ [CHR 0x0A]) e3)
           else if rc \<noteq> 0 then
             Some (Return 1, close_all_csvs csv,
               say_rc sys Stderr ''ERROR: timed out / failed waiting for trade_done: '' rc e3)
           else (case collect_trades sys csv final_li e3 of
               (Some rc', csv', e4) \<Rightarrow> Some (Return rc', csv', e4)
             | (None, csv', e4) \<Rightarrow> Some (Leave, csv', e4))) })"

definition main_turn :: "'e sys \<Rightarrow> bool \<Rightarrow> LaneCSVReader \<Rightarrow> 'e \<Rightarrow> (turn \<times> LaneCSVReader \<times> 'e) option" where
  "main_turn sys fp csv0 e0 =
     (let (stop, e) = g_stop sys e0 in
      if stop then Some (Leave, csv0, e)
      else
        let csv = csv_rewind_all csv0;
            (rc0, e1) = ioc_command sys HFT_IOC_LOG_CLEAR e in
        if rc0 < 0 then Some (Return rc0, csv, e1)
        else do {
          (rc1, e2) \<leftarrow> hft_disp_wait_state sys HFT_STATE_WRITE (-1) 10 False e1;
          (if rc1 = HFT_ERR_RESET then
             Some (Restart, csv, put sys Stdout (''Reset detected. Restarting.'' @ [CHR 0x0A]) e2)
           else if rc1 \<noteq> 0 then
             Some (Return 1, csv, say_rc sys Stderr ''Error: wait for WRITE failed rc='' rc1 e2)
           else do {
             let e3 = put sys Stdout (''Writing Data to Order Dispatcher.'' @ [CHR 0x0A]) e2;
             (rc2, csv', e4) \<leftarrow> hft_write_orders_round_robin sys lane_csv_next_order csv 30000 e3;
             (if rc2 = HFT_ERR_RESET then
                Some (Restart, csv', put sys Stdout (''Reset detected during write. Restarting.'' @ [CHR 0x0A]) e4)
              else if rc2 \<noteq> 0 then
                Some (Return 1, csv', say_rc sys Stderr ''ERROR: write_orders_round_robin failed: '' rc2 e4)
              else (case hft_disp_get_status sys e4 of
                  (Inl rc3, e5) \<Rightarrow>
                    Some (Return 1, close_all_csvs csv',
                      close_progress_and_device sys fp (say_rc sys Stderr ''Error: get status before dispatch failed rc='' rc3 e5))
                | (Inr st, e5) \<Rightarrow> do {
                    let e6 = put sys Stderr (''Before DISPATCH: state='' @ fmt_u (st_state st) @ '' ready=0x'' @
                      fmt_x 2 (st_ready_mask st) @ '' empty=0x'' @ fmt_x 2 (st_empty_mask st) @ '' full=0x'' @
                      fmt_x 2 (st_full_mask st) @ [CHR 0x0A]) e5;
                    (rc4, e7) \<leftarrow> hft_disp_wait_dispatch_or_done sys (-1) 1 e6;
                    (if rc4 = HFT_ERR_RESET then
                       Some (Restart, csv', put sys Stdout (''Reset detected before dispatch. Restarting.'' @ [CHR 0x0A]) e7)
                     else if rc4 \<noteq> 0 then
                       Some (Return 1, csv', say_rc sys Stderr ''Error: wait for DISPATCH/DONE failed rc='' rc4 e7)
                     else after_dispatch sys fp csv' e7) })) }) })"

partial_function (option) main_loop :: "'e sys \<Rightarrow> bool \<Rightarrow> LaneCSVReader \<Rightarrow> 'e \<Rightarrow> (int \<times> LaneCSVReader \<times> 'e) option" where
  "main_loop sys fp csv e = do {
     (r, csv', e1) \<leftarrow> main_turn sys fp csv e;
     (case r of
        Restart \<Rightarrow> main_loop sys fp csv' e1
      | Return rc \<Rightarrow> Some (rc, csv', e1)
      | Leave \<Rightarrow> Some (0, close_all_csvs csv', close_progress_and_device sys fp e1)) }"

text \<open>The value returned from \<open>main\<close>, the streams of the CSV files, and the environment.\<close>

definition harness_main :: "'e sys \<Rightarrow> 'e \<Rightarrow> (int \<times> LaneCSVReader \<times> 'e) option" where
  "harness_main sys e =
     (let (fp, e1) = (case open_progress sys of
            None \<Rightarrow> (True, e)
          | Some err \<Rightarrow>
              (False, put sys Stderr (''WARNING: could not open hft_progress.txt for writing: '' @ strerror sys err @ [CHR 0x0A]) e)) in
      if \<not> open_device sys then
        Some (-1, closed_reader, put sys Stderr (''Error: could not open /dev/hft_sim'' @ [CHR 0x0A]) e1)
      else
        let e2 = put sys Stdout (''Starting HFT Simulator Harness.'' @ [CHR 0x0A]) e1;
            (rc, csv, e3) = open_all_csvs sys closed_reader ''../data'' e2 in
        if rc \<noteq> 0 then Some (1, csv, e3) else main_loop sys fp csv e3)"

end
