(* ===== verification/Harness_Time.thy ===== *)
theory Harness_Time
  imports Harness_Main
begin

text \<open>
  The waiting loops of the harness return.

  The locale \<open>ticking\<close> is the interface of the harness to time: \<open>ns\<close> is the time of an
  environment in nanoseconds, the clock shows it, sleeping takes at least the time asked for
  (an interrupted sleep reports what is left, as \<open>nanosleep(2)\<close> documents), and every call
  takes at most \<open>slack\<close> nanoseconds besides. Under these laws every loop with a timeout returns,
  whatever the device answers.
\<close>

definition ts_ns :: "nat \<times> nat \<Rightarrow> nat" where
  "ts_ns ts = fst ts * 1000000000 + snd ts"

lemma ms_of_ns: "N div 1000000000 * 1000 + N mod 1000000000 div 1000000 = N div (1000000 :: nat)"
proof -
  have "N div (1000000 * 1000) * 1000 + N mod (1000000 * 1000) div 1000000 = N div (1000000 :: nat)"
    by (simp only: div_mult2_eq mod_mult2_eq) simp
  then show ?thesis by simp
qed

lemma split_ns: "k div b * (b * c) + k mod b * c = k * (c :: nat)"
  by (metis add_mult_distrib div_mult_mod_eq mult.assoc)

lemma ts_ns_ms: "ts_ns (k div 1000, (k mod 1000) * 1000000) = k * 1000000"
  using split_ns [of k 1000 1000000] by (simp add: ts_ns_def)

lemma ts_ns_us: "ts_ns (k div 1000000, (k mod 1000000) * 1000) = k * 1000"
  using split_ns [of k 1000000 1000] by (simp add: ts_ns_def)

lemma mod_times_less: "0 < b \<Longrightarrow> 0 < c \<Longrightarrow> k mod b * c < b * (c :: nat)"
  by simp

locale ticking =
  fixes sys :: "'e sys" and ns :: "'e \<Rightarrow> nat" and slack :: nat
  assumes clock: "\<exists>e'. clock_gettime sys e = (Some (ns e' div 1000000000, ns e' mod 1000000000), e') \<and>
      ns e \<le> ns e' \<and> ns e' \<le> ns e + slack"
    and slept: "nanosleep sys ts e = (Slept, e') \<Longrightarrow> ns e + ts_ns ts \<le> ns e' \<and> ns e' \<le> ns e + ts_ns ts + slack"
    and interrupted: "nanosleep sys ts e = (Interrupted rest, e') \<Longrightarrow>
      ns e' + ts_ns rest = ns e + ts_ns ts \<and> ts_ns rest < ts_ns ts \<and> snd rest < 1000000000"
    and sleep_error: "snd ts < 1000000000 \<Longrightarrow> nanosleep sys ts e \<noteq> (SleepError err, e')"
    and status_time: "ns e \<le> ns (snd (ioc_status sys e)) \<and> ns (snd (ioc_status sys e)) \<le> ns e + slack"
    and info_time: "ns e \<le> ns (snd (ioc_info sys e)) \<and> ns (snd (ioc_info sys e)) \<le> ns e + slack"
    and push_time: "ns e \<le> ns (snd (ioc_push sys req e)) \<and> ns (snd (ioc_push sys req e)) \<le> ns e + slack"
    and stop_time: "ns e \<le> ns (snd (g_stop sys e)) \<and> ns (snd (g_stop sys e)) \<le> ns e + slack"
    and put_time: "ns e \<le> ns (put sys f s e) \<and> ns (put sys f s e) \<le> ns e + slack"
begin

text \<open>The environment after up to \<open>k\<close> calls.\<close>

definition within :: "nat \<Rightarrow> 'e \<Rightarrow> 'e \<Rightarrow> bool" where
  "within k e e' \<longleftrightarrow> ns e \<le> ns e' \<and> ns e' \<le> ns e + k * slack"

lemma within_refl: "within 0 e e"
  by (simp add: within_def)

lemma within_trans: "within k e e' \<Longrightarrow> within l e' e'' \<Longrightarrow> within (k + l) e e''"
  by (simp add: within_def add_mult_distrib)

lemma within_mono: "within k e e' \<Longrightarrow> k \<le> l \<Longrightarrow> within l e e'"
  unfolding within_def using mult_le_mono1 [of k l slack] by linarith

lemma within_status: "hft_disp_get_status sys e = (r, e') \<Longrightarrow> within 1 e e'"
  using status_time [of e] by (simp add: hft_disp_get_status_def within_def)

lemma within_info: "hft_log_get_info sys e = (r, e') \<Longrightarrow> within 1 e e'"
  using info_time [of e] by (simp add: hft_log_get_info_def within_def)

lemma within_push: "hft_disp_push_order sys lane ord e = (r, e') \<Longrightarrow> within 1 e e'"
  using push_time [of e "\<lparr>req_lane = lane, req_order = ord\<rparr>"]
  by (auto simp: hft_disp_push_order_def within_def split: prod.splits if_splits)

lemma within_stop: "g_stop sys e = (r, e') \<Longrightarrow> within 1 e e'"
  using stop_time [of e] by (simp add: within_def)

lemma within_put: "within 1 e (put sys f s e)"
  using put_time [of e f s] by (simp add: within_def)

lemma now_ms_ticks:
  obtains e' where "now_ms sys e = (of_nat (ns e' div 1000000), e')" and "within 1 e e'"
proof -
  obtain e' where e': "clock_gettime sys e = (Some (ns e' div 1000000000, ns e' mod 1000000000), e')"
    "ns e \<le> ns e'" "ns e' \<le> ns e + slack"
    using clock by blast
  have "(of_nat (ns e' div 1000000) :: u64) = of_nat (ns e' div 1000000000) * 1000 + of_nat (ns e' mod 1000000000 div 1000000)"
    by (subst ms_of_ns [symmetric]) (simp only: of_nat_add of_nat_mult of_nat_numeral)
  then have "now_ms sys e = (of_nat (ns e' div 1000000), e')"
    by (simp only: now_ms_def e'(1) prod.case option.case)
  then show thesis using that e' by (simp add: within_def)
qed

lemma sleep_loop_ticks:
  "snd ts < 1000000000 \<Longrightarrow> \<exists>e'. sleep_loop sys ts e = Some (0, e') \<and> ns e + ts_ns ts \<le> ns e' \<and> ns e' \<le> ns e + ts_ns ts + slack"
proof (induction "ts_ns ts" arbitrary: ts e rule: less_induct)
  case less
  obtain r e1 where r: "nanosleep sys ts e = (r, e1)" by fastforce
  show ?case
  proof (cases r)
    case Slept
    then show ?thesis using r slept [of ts e e1] by (subst sleep_loop.simps) simp
  next
    case (Interrupted rest)
    then have i: "ns e1 + ts_ns rest = ns e + ts_ns ts" "ts_ns rest < ts_ns ts" "snd rest < 1000000000"
      using r interrupted [of ts e rest e1] by simp_all
    obtain e' where "sleep_loop sys rest e1 = Some (0, e')" "ns e1 + ts_ns rest \<le> ns e'" "ns e' \<le> ns e1 + ts_ns rest + slack"
      using less.hyps [of rest e1] i by blast
    then show ?thesis using r Interrupted i by (subst sleep_loop.simps) simp
  next
    case (SleepError err)
    then show ?thesis using r sleep_error [of ts e err e1] less.prems by simp
  qed
qed

lemma sleep_ms_ticks:
  obtains e' where "sleep_ms sys k e = Some (0, e')" and "ns e + k * 1000000 \<le> ns e'" and "ns e' \<le> ns e + k * 1000000 + slack"
  using sleep_loop_ticks [of "(k div 1000, (k mod 1000) * 1000000)" e] mod_times_less [of 1000 1000000 k]
  by (auto simp: sleep_ms_def ts_ns_ms)

lemma sleep_us_ticks:
  obtains e' where "sleep_us sys k e = Some (0, e')" and "ns e + k * 1000 \<le> ns e'" and "ns e' \<le> ns e + k * 1000 + slack"
  using sleep_loop_ticks [of "(k div 1000000, (k mod 1000000) * 1000)" e] mod_times_less [of 1000000 1000 k]
  by (auto simp: sleep_us_def ts_ns_us)

text \<open>
  A loop that goes on only while the time is below a limit, and whose time grows in each turn,
  returns.
\<close>

lemma poll_returns:
  assumes step: "\<And>x e. ns e \<le> lim \<Longrightarrow> (\<exists>r. f x e = Some r \<and> Q r) \<or> (\<exists>x' e'. f x e = f x' e' \<and> ns e < ns e' \<and> ns e' \<le> lim)"
  shows "ns e \<le> lim \<Longrightarrow> \<exists>r. f x e = Some r \<and> Q r"
proof (induction "lim - ns e" arbitrary: x e rule: less_induct)
  case less
  consider "\<exists>r. f x e = Some r \<and> Q r" | x' e' where "f x e = f x' e'" "ns e < ns e'" "ns e' \<le> lim"
    using step less.prems by blast
  then show ?case
  proof cases
    case 2
    then have "\<exists>r. f x' e' = Some r \<and> Q r" using less.prems by (intro less.hyps) auto
    then show ?thesis using 2 by simp
  qed simp
qed

text \<open>
  The test for the timeout: before the deadline \<open>D\<close> in milliseconds, the time is early, and the
  \<open>u64\<close> arithmetic does not wrap around in the life of the machine.
\<close>

lemma expired_ticks:
  assumes "0 \<le> timeout" and "D < 2 ^ 64" and "(ns e + slack) div 1000000 < 2 ^ 64"
  obtains late e' where "expired sys timeout (of_nat D) e = (late, e')" and "within 1 e e'"
    and "\<not> late \<Longrightarrow> ns e' div 1000000 < D"
proof -
  obtain e' where e': "now_ms sys e = (of_nat (ns e' div 1000000), e')" "within 1 e e'" by (rule now_ms_ticks)
  have "ns e' div 1000000 \<le> (ns e + slack) div 1000000"
    using e'(2) by (intro div_le_mono) (simp add: within_def)
  then have "ns e' div 1000000 < 2 ^ 64" using assms(3) by linarith
  then have "((of_nat D :: u64) \<le> of_nat (ns e' div 1000000)) = (D \<le> ns e' div 1000000)"
    using assms(2) by (simp add: word_of_nat_less_eq_iff take_bit_nat_eq_self)
  then have "expired sys timeout (of_nat D) e = (D \<le> ns e' div 1000000, e')"
    using assms(1) by (simp only: expired_def e'(1) if_True Let_def prod.case)
  then show thesis using that e'(2) by (simp only: not_le)
qed

text \<open>
  Waiting \<open>w\<close> nanoseconds per turn until the deadline \<open>D\<close>: no turn starts after \<open>limit D w\<close>.
  \<open>in_life\<close> says that the \<open>u64\<close> clock in milliseconds does not wrap around before the wait ends.
\<close>

definition limit :: "nat \<Rightarrow> nat \<Rightarrow> nat" where
  "limit D w = (D + 1) * 1000000 + w + slack"

definition in_life :: "'e \<Rightarrow> int \<Rightarrow> nat \<Rightarrow> bool" where
  "in_life e timeout w \<longleftrightarrow> ns e + nat timeout * 1000000 + 2000000 + w + 200 * slack < 2 ^ 64 * 1000000"

lemma start_deadline_ticks:
  assumes "0 \<le> timeout"
  obtains e' where "start_deadline sys timeout e = (of_nat (ns e' div 1000000 + nat timeout), e')" and "within 1 e e'"
proof -
  obtain e' where e': "now_ms sys e = (of_nat (ns e' div 1000000), e')" "within 1 e e'" by (rule now_ms_ticks)
  have "start_deadline sys timeout e = (of_nat (ns e' div 1000000 + nat timeout), e')"
    using assms by (simp add: start_deadline_def e'(1))
  then show thesis using that e'(2) by blast
qed

lemma deadline_fits:
  assumes "in_life e timeout w" and "within 1 e e1" and "D = ns e1 div 1000000 + nat timeout"
  shows "D < 2 ^ 64" and "limit D w + 100 * slack < 2 ^ 64 * 1000000" and "ns e1 \<le> limit D w"
proof -
  have d: "ns e1 div 1000000 * 1000000 \<le> ns e1" "ns e1 \<le> ns e1 div 1000000 * 1000000 + 1000000"
    by (simp, metis div_mult_mod_eq less_imp_le add_left_mono mod_less_divisor zero_less_numeral)
  have b: "D * 1000000 + 2000000 + w + 199 * slack < 2 ^ 64 * 1000000"
  proof -
    have "D * 1000000 = ns e1 div 1000000 * 1000000 + nat timeout * 1000000"
      by (simp add: assms(3) add_mult_distrib)
    then show ?thesis using assms(1,2) d(1) unfolding in_life_def within_def by linarith
  qed
  then show "D < 2 ^ 64" by simp
  show "limit D w + 100 * slack < 2 ^ 64 * 1000000" using b unfolding limit_def by simp
  show "ns e1 \<le> limit D w" using d(2) assms(3) unfolding limit_def by simp
qed

lemma late_or_sleep:
  assumes "0 \<le> timeout" and "D < 2 ^ 64" and "ns e + slack < 2 ^ 64 * 1000000"
  obtains e' where "expired sys timeout (of_nat D) e = (True, e')" and "within 1 e e'"
  | e' where "expired sys timeout (of_nat D) e = (False, e')" and "within 1 e e'" and "ns e' < (D + 1) * 1000000"
proof -
  have "(ns e + slack) div 1000000 < 2 ^ 64" using assms(3) by (simp add: less_mult_imp_div_less)
  then obtain late e' where l: "expired sys timeout (of_nat D) e = (late, e')" "within 1 e e'"
      "\<not> late \<Longrightarrow> ns e' div 1000000 < D"
    using expired_ticks [OF assms(1,2)] by blast
  have "ns e' div 1000000 < D \<Longrightarrow> ns e' < (D + 1) * 1000000"
    by (metis div_less_iff_less_mult zero_less_numeral trans_less_add1)
  then show thesis using that l by (cases late) auto
qed

text \<open>
  The common form of the waiting loops: look at the device, return or test for the timeout,
  sleep, repeat. \<open>f\<close> is the loop, \<open>sl\<close> its sleep, \<open>mk\<close> the result on a timeout, \<open>Q\<close> what every
  result has, and a turn makes at most \<open>K\<close> calls before the test.
\<close>

lemma timed_loop:
  assumes "0 \<le> timeout" and "D < 2 ^ 64" and "limit D w + 100 * slack < 2 ^ 64 * 1000000" and "K \<le> 98" and "0 < w"
    and sleep: "\<And>e. \<exists>e'. sl e = Some (0 :: int, e') \<and> ns e + w \<le> ns e' \<and> ns e' \<le> ns e + w + slack"
    and mk: "\<And>e. Q (mk e) \<and> env (mk e) = e"
    and step: "\<And>x e. (\<exists>r. f x e = Some r \<and> Q r \<and> within K e (env r)) \<or>
      (\<exists>x' e'. within K e e' \<and> f x e = (let (late, e2) = expired sys timeout (of_nat D) e' in
         if late then Some (mk e2) else do { (rc, e3) \<leftarrow> sl e2; f x' e3 }))"
    and start: "ns e \<le> limit D w"
  shows "\<exists>r. f x e = Some r \<and> Q r \<and> ns (env r) \<le> limit D w + (K + 1) * slack"
proof (rule poll_returns [where f = f and lim = "limit D w" and Q = "\<lambda>r. Q r \<and> ns (env r) \<le> limit D w + (K + 1) * slack", OF _ start])
  fix x e assume le: "ns e \<le> limit D w"
  let ?R = "\<exists>r. f x e = Some r \<and> Q r \<and> ns (env r) \<le> limit D w + (K + 1) * slack"
  consider r where "f x e = Some r" "Q r" "within K e (env r)"
    | x' e' where "within K e e'" "f x e = (let (late, e2) = expired sys timeout (of_nat D) e' in
         if late then Some (mk e2) else do { (rc, e3) \<leftarrow> sl e2; f x' e3 })"
    using step by blast
  then show "?R \<or> (\<exists>x' e'. f x e = f x' e' \<and> ns e < ns e' \<and> ns e' \<le> limit D w)"
  proof cases
    case 1
    then have ?R using le by (auto simp: within_def)
    then show ?thesis ..
  next
    case 2
    have "K * slack \<le> 98 * slack" using assms(4) by (rule mult_le_mono1)
    then have "ns e' + slack < 2 ^ 64 * 1000000" using 2(1) le assms(3) unfolding within_def by linarith
    then consider e2 where "expired sys timeout (of_nat D) e' = (True, e2)" "within 1 e' e2"
      | e2 where "expired sys timeout (of_nat D) e' = (False, e2)" "within 1 e' e2" "ns e2 < (D + 1) * 1000000"
      using late_or_sleep [OF assms(1,2)] by blast
    then show ?thesis
    proof cases
      case late: 1
      then have ?R using 2 le mk [of e2] by (auto simp: within_def)
      then show ?thesis ..
    next
      case early: 2
      obtain e3 where e3: "sl e2 = Some (0, e3)" "ns e2 + w \<le> ns e3" "ns e3 \<le> ns e2 + w + slack"
        using sleep by blast
      have "ns e < ns e3" using 2(1) early(2) e3(2) assms(5) unfolding within_def by linarith
      moreover have "ns e3 \<le> limit D w" using early(3) e3(3) unfolding limit_def by linarith
      moreover have "f x e = f x' e3" using 2(2) early(1) e3(1) by simp
      ultimately show ?thesis by blast
    qed
  qed
qed

lemma timed_wait:
  assumes "0 \<le> timeout" and life: "in_life e timeout w" and "K \<le> 98" and "0 < w"
    and sleep: "\<And>e. \<exists>e'. sl e = Some (0 :: int, e') \<and> ns e + w \<le> ns e' \<and> ns e' \<le> ns e + w + slack"
    and mk: "\<And>e. Q (mk e) \<and> env (mk e) = e"
    and step: "\<And>dl x e. (\<exists>r. f dl x e = Some r \<and> Q r \<and> within K e (env r)) \<or>
      (\<exists>x' e'. within K e e' \<and> f dl x e = (let (late, e2) = expired sys timeout dl e' in
         if late then Some (mk e2) else do { (rc, e3) \<leftarrow> sl e2; f dl x' e3 }))"
  shows "\<exists>r. (let (deadline, e1) = start_deadline sys timeout e in f deadline x e1) = Some r \<and> Q r \<and>
    ns (env r) \<le> ns e + nat timeout * 1000000 + 1000000 + w + (K + 3) * slack"
proof -
  obtain e1 where e1: "start_deadline sys timeout e = (of_nat (ns e1 div 1000000 + nat timeout), e1)" "within 1 e e1"
    using start_deadline_ticks [OF assms(1)] by blast
  define D where "D = ns e1 div 1000000 + nat timeout"
  note fits = deadline_fits [OF life e1(2) D_def]
  obtain r where r: "f (of_nat D) x e1 = Some r" "Q r" "ns (env r) \<le> limit D w + (K + 1) * slack"
    using timed_loop [OF assms(1) fits(1,2) assms(3,4) sleep mk step fits(3)] by blast
  have "ns e1 div 1000000 * 1000000 \<le> ns e1" by simp
  then have "ns (env r) \<le> ns e + nat timeout * 1000000 + 1000000 + w + (K + 3) * slack"
    using r(3) e1(2) unfolding limit_def D_def within_def add_mult_distrib by linarith
  then show ?thesis using r e1(1) unfolding D_def by auto
qed

lemma poll_sleep_ms:
  "\<exists>e'. sleep_ms sys k e = Some (0, e') \<and> ns e + k * 1000000 \<le> ns e' \<and> ns e' \<le> ns e + k * 1000000 + slack"
  by (rule sleep_ms_ticks [of k e]) blast

lemma poll_sleep_us:
  "\<exists>e'. sleep_us sys k e = Some (0, e') \<and> ns e + k * 1000 \<le> ns e' \<and> ns e' \<le> ns e + k * 1000 + slack"
  by (rule sleep_us_ticks [of k e]) blast

section \<open>Waiting for a state\<close>

text \<open>
  What the result of a wait says: success only right after a status that shows what was waited
  for, the timeout, a reset, or the error of a failing query.
\<close>

definition wait_outcome :: "(u32 \<Rightarrow> bool) \<Rightarrow> int \<times> 'e \<Rightarrow> bool" where
  "wait_outcome wanted r \<longleftrightarrow>
     (fst r = 0 \<and> (\<exists>e0 st. hft_disp_get_status sys e0 = (Inr st, snd r) \<and> wanted (st_state st))) \<or>
     fst r = - ETIMEDOUT \<or> fst r = HFT_ERR_RESET \<or> (\<exists>e0. hft_disp_get_status sys e0 = (Inl (fst r), snd r))"

lemma wait_state_returns:
  assumes "0 \<le> timeout" and "in_life e timeout (nat (max 1 poll) * 1000000)"
  shows "\<exists>r. hft_disp_wait_state sys want timeout poll abort e = Some r \<and> wait_outcome (\<lambda>s. s = want) r \<and>
    ns (snd r) \<le> ns e + nat timeout * 1000000 + 1000000 + nat (max 1 poll) * 1000000 + 4 * slack"
proof -
  define p where "p = (if poll \<le> 0 then 1 else poll)"
  have p: "nat p = nat (max 1 poll)" by (auto simp: p_def max_def)
  have "\<exists>r. (let (deadline, e1) = start_deadline sys timeout e in wait_state_loop sys want timeout p abort deadline e1) = Some r \<and>
      wait_outcome (\<lambda>s. s = want) r \<and> ns (snd r) \<le> ns e + nat timeout * 1000000 + 1000000 + nat (max 1 poll) * 1000000 + (1 + 3) * slack"
  proof (rule timed_wait [where f = "\<lambda>dl _. wait_state_loop sys want timeout p abort dl" and mk = "\<lambda>e. (- ETIMEDOUT, e)"
        and sl = "sleep_ms sys (nat p)" and env = snd, OF assms])
    fix dl and x :: unit and e
    obtain s e1 where s: "hft_disp_get_status sys e = (s, e1)" by fastforce
    show "(\<exists>r. wait_state_loop sys want timeout p abort dl e = Some r \<and> wait_outcome (\<lambda>s. s = want) r \<and> within 1 e (snd r)) \<or>
      (\<exists>x' e'. within 1 e e' \<and> wait_state_loop sys want timeout p abort dl e = (let (late, e2) = expired sys timeout dl e' in
         if late then Some (- ETIMEDOUT, e2)
         else do { (rc, e3) \<leftarrow> sleep_ms sys (nat p) e2; wait_state_loop sys want timeout p abort dl e3 }))"
    proof (cases s)
      case (Inl rc)
      then show ?thesis
        using s within_status [OF s] by (auto simp: wait_state_loop.simps [of sys want timeout p abort dl e] wait_outcome_def)
    next
      case (Inr st)
      have "wait_state_loop sys want timeout p abort dl e =
        (if st_state st = want then Some (0, e1)
         else if abort \<and> st_state st = HFT_STATE_IDLE \<and> want \<noteq> HFT_STATE_IDLE then Some (HFT_ERR_RESET, e1)
         else let (late, e2) = expired sys timeout dl e1 in
           if late then Some (- ETIMEDOUT, e2)
           else do { (rc, e3) \<leftarrow> sleep_ms sys (nat p) e2; wait_state_loop sys want timeout p abort dl e3 })"
        by (simp add: wait_state_loop.simps [of sys want timeout p abort dl e] s Inr)
      then show ?thesis
        using s Inr within_status [OF s] by (auto simp: wait_outcome_def)
    qed
  qed (use p in \<open>auto simp: wait_outcome_def poll_sleep_ms\<close>)
  then show ?thesis by (simp add: hft_disp_wait_state_def p_def Let_def)
qed

lemma wait_dispatch_returns:
  assumes "0 \<le> timeout" and "in_life e timeout (nat (max 1 poll) * 1000000)"
  shows "\<exists>r. hft_disp_wait_dispatch_or_done sys timeout poll e = Some r \<and>
    wait_outcome (\<lambda>s. s = HFT_STATE_DISPATCH \<or> s = HFT_STATE_DONE) r \<and>
    ns (snd r) \<le> ns e + nat timeout * 1000000 + 1000000 + nat (max 1 poll) * 1000000 + 4 * slack"
proof -
  define p where "p = (if poll \<le> 0 then 1 else poll)"
  have p: "nat p = nat (max 1 poll)" by (auto simp: p_def max_def)
  let ?W = "wait_outcome (\<lambda>s. s = HFT_STATE_DISPATCH \<or> s = HFT_STATE_DONE)"
  have "\<exists>r. (let (deadline, e1) = start_deadline sys timeout e in wait_dispatch_loop sys timeout p deadline e1) = Some r \<and>
      ?W r \<and> ns (snd r) \<le> ns e + nat timeout * 1000000 + 1000000 + nat (max 1 poll) * 1000000 + (1 + 3) * slack"
  proof (rule timed_wait [where f = "\<lambda>dl _. wait_dispatch_loop sys timeout p dl" and mk = "\<lambda>e. (- ETIMEDOUT, e)"
        and sl = "sleep_ms sys (nat p)" and env = snd, OF assms])
    fix dl and x :: unit and e
    obtain s e1 where s: "hft_disp_get_status sys e = (s, e1)" by fastforce
    show "(\<exists>r. wait_dispatch_loop sys timeout p dl e = Some r \<and> ?W r \<and> within 1 e (snd r)) \<or>
      (\<exists>x' e'. within 1 e e' \<and> wait_dispatch_loop sys timeout p dl e = (let (late, e2) = expired sys timeout dl e' in
         if late then Some (- ETIMEDOUT, e2)
         else do { (rc, e3) \<leftarrow> sleep_ms sys (nat p) e2; wait_dispatch_loop sys timeout p dl e3 }))"
    proof (cases s)
      case (Inl rc)
      then show ?thesis
        using s within_status [OF s] by (auto simp: wait_dispatch_loop.simps [of sys timeout p dl e] wait_outcome_def)
    next
      case (Inr st)
      have "wait_dispatch_loop sys timeout p dl e =
        (if st_state st = HFT_STATE_DISPATCH \<or> st_state st = HFT_STATE_DONE then Some (0, e1)
         else if st_state st = HFT_STATE_IDLE then Some (HFT_ERR_RESET, e1)
         else let (late, e2) = expired sys timeout dl e1 in
           if late then Some (- ETIMEDOUT, e2)
           else do { (rc, e3) \<leftarrow> sleep_ms sys (nat p) e2; wait_dispatch_loop sys timeout p dl e3 })"
        by (simp add: wait_dispatch_loop.simps [of sys timeout p dl e] s Inr)
      then show ?thesis
        using s Inr within_status [OF s] by (auto simp: wait_outcome_def)
    qed
  qed (use p in \<open>auto simp: wait_outcome_def poll_sleep_ms\<close>)
  then show ?thesis by (simp add: hft_disp_wait_dispatch_or_done_def p_def Let_def)
qed

section \<open>A blocking push\<close>

text \<open>The result of a blocking push: that of the last push, or the timeout.\<close>

definition push_outcome :: "u32 \<Rightarrow> hft_disp_order \<Rightarrow> int \<times> 'e \<Rightarrow> bool" where
  "push_outcome lane ord r \<longleftrightarrow>
     (\<exists>e0. hft_disp_push_order sys lane ord e0 = r \<and> fst r \<noteq> - EAGAIN \<and> fst r \<noteq> - EBUSY) \<or> fst r = - ETIMEDOUT"

lemma push_blocking_returns:
  assumes "0 \<le> timeout" and "in_life e timeout (nat (if poll \<le> 0 then 200 else poll) * 1000)"
  shows "\<exists>r. hft_disp_push_order_blocking sys lane ord timeout poll e = Some r \<and> push_outcome lane ord r \<and>
    ns (snd r) \<le> ns e + nat timeout * 1000000 + 1000000 + nat (if poll \<le> 0 then 200 else poll) * 1000 + 4 * slack"
proof -
  define p where "p = (if poll \<le> 0 then 200 else poll)"
  have p: "0 < nat p" by (auto simp: p_def)
  have "\<exists>r. (let (deadline, e1) = start_deadline sys timeout e in push_blocking_loop sys lane ord timeout p deadline e1) = Some r \<and>
      push_outcome lane ord r \<and> ns (snd r) \<le> ns e + nat timeout * 1000000 + 1000000 + nat p * 1000 + (1 + 3) * slack"
  proof (rule timed_wait [where f = "\<lambda>dl _. push_blocking_loop sys lane ord timeout p dl" and mk = "\<lambda>e. (- ETIMEDOUT, e)"
        and sl = "sleep_us sys (nat p)" and env = snd, OF assms(1) assms(2) [folded p_def]])
    fix dl and x :: unit and e
    obtain rc e1 where s: "hft_disp_push_order sys lane ord e = (rc, e1)" by fastforce
    have "push_blocking_loop sys lane ord timeout p dl e =
      (if rc = 0 then Some (0, e1)
       else if rc \<noteq> - EAGAIN \<and> rc \<noteq> - EBUSY then Some (rc, e1)
       else let (late, e2) = expired sys timeout dl e1 in
         if late then Some (- ETIMEDOUT, e2)
         else do { (rc', e3) \<leftarrow> sleep_us sys (nat p) e2; push_blocking_loop sys lane ord timeout p dl e3 })"
      by (simp add: push_blocking_loop.simps [of sys lane ord timeout p dl e] s)
    then show "(\<exists>r. push_blocking_loop sys lane ord timeout p dl e = Some r \<and> push_outcome lane ord r \<and> within 1 e (snd r)) \<or>
      (\<exists>x' e'. within 1 e e' \<and> push_blocking_loop sys lane ord timeout p dl e = (let (late, e2) = expired sys timeout dl e' in
         if late then Some (- ETIMEDOUT, e2)
         else do { (rc, e3) \<leftarrow> sleep_us sys (nat p) e2; push_blocking_loop sys lane ord timeout p dl e3 }))"
      using s within_push [OF s] by (auto simp: push_outcome_def errno_defs)
  qed (use p in \<open>auto simp: push_outcome_def poll_sleep_us\<close>)
  then show ?thesis by (simp add: hft_disp_push_order_blocking_def p_def Let_def)
qed

section \<open>Waiting for the end of trading\<close>

lemma within_tee: "within 2 e (tee_printf sys fp s e)"
proof (cases fp)
  case True
  then show ?thesis
    using within_trans [OF within_put [of e Progress s] within_put] by (simp add: tee_printf_def numeral_2_eq_2)
next
  case False
  then show ?thesis using within_mono [OF within_put, of 2] by (simp add: tee_printf_def)
qed

lemma within_print_lanes: "within (2 * length lanes) e (print_lanes sys fp msk lanes e)"
proof (induction lanes arbitrary: e)
  case (Cons lane lanes)
  show ?case using within_trans [OF within_tee Cons.IH] by (simp only: print_lanes.simps list.size) simp
qed (simp add: within_refl)

lemma within_tee_add: "within k e e' \<Longrightarrow> within (k + 2) e (tee_printf sys fp s e')"
  by (rule within_trans [OF _ within_tee])

lemma within_print_lane_mask: "within 20 e (print_lane_mask sys fp label msk e)"
proof -
  let ?l = "tee_printf sys fp (label @ '':'') e"
  have "within (2 + 2 * 8) e (print_lanes sys fp msk [0..<HFT_NUM_LANES] ?l)"
    using within_trans [OF within_tee within_print_lanes [of "[0..<HFT_NUM_LANES]" ?l]] by (simp add: HFT_NUM_LANES_def)
  then show ?thesis using within_tee_add unfolding print_lane_mask_def by force
qed

lemma within_snapshot: "within 70 e (hft_print_progress_snapshot sys fp e)"
proof -
  obtain s e1 where s: "hft_disp_get_status sys e = (s, e1)" by fastforce
  obtain l e2 where l: "hft_log_get_info sys e1 = (l, e2)" by fastforce
  have w2: "within (1 + 1) e e2" by (rule within_trans [OF within_status [OF s] within_info [OF l]])
  have m: "within (1 + 1 + 2 + 20 + 20 + 20) e (print_lane_mask sys fp c x3 (print_lane_mask sys fp b x2 (print_lane_mask sys fp a x1 (tee_printf sys fp h e2))))"
    for a b c h x1 x2 x3
    by (intro within_trans [OF _ within_print_lane_mask] within_tee_add w2)
  have w4: "within (1 + 1 + 2) e (tee_printf sys fp a e2)" for a by (intro within_tee_add w2)
  note n = within_mono [of _ _ _ 70]
  show ?thesis
    unfolding hft_print_progress_snapshot_def s l Let_def prod.case
    by (cases s; cases l)
      (auto intro: n [OF within_tee_add [OF m]] n [OF within_tee_add [OF w4]]
        n [OF within_tee_add [OF within_tee_add [OF m]]] n [OF within_tee_add [OF within_tee_add [OF w4]]])
qed

text \<open>The result of the wait for the end of trading.\<close>

definition done_outcome :: "int \<times> hft_log_info \<times> 'e \<Rightarrow> bool" where
  "done_outcome r \<longleftrightarrow> (case r of (rc, li, e') \<Rightarrow>
     (rc = 0 \<and> li_trade_done li \<noteq> 0 \<and> (\<exists>e0 e1. hft_log_get_info sys e0 = (Inr li, e1))) \<or>
     rc = - ETIMEDOUT \<or> rc = HFT_ERR_RESET \<or> rc = - EINTR \<or>
     (\<exists>e0 e1. hft_disp_get_status sys e0 = (Inl rc, e1)) \<or> (\<exists>e0 e1. hft_log_get_info sys e0 = (Inl rc, e1)))"

lemma trade_done_turn:
  "(\<exists>r. trade_done_loop sys fp timeout p dl np li e = Some r \<and> done_outcome r \<and> within 74 e (snd (snd r))) \<or>
   (\<exists>np' e'. within 74 e e' \<and> trade_done_loop sys fp timeout p dl np li e = (let (late, e2) = expired sys timeout dl e' in
      if late then Some (- ETIMEDOUT, li, e2)
      else do { (rc, e3) \<leftarrow> sleep_ms sys (nat p) e2; trade_done_loop sys fp timeout p dl np' li e3 }))"
proof -
  obtain stop e1 where stop: "g_stop sys e = (stop, e1)" by fastforce
  obtain s e2 where s: "hft_disp_get_status sys e1 = (s, e2)" by fastforce
  obtain l e3 where l: "hft_log_get_info sys e2 = (l, e3)" by fastforce
  obtain e4 where t: "now_ms sys e3 = (of_nat (ns e4 div 1000000), e4)" "within 1 e3 e4" by (rule now_ms_ticks)
  define t0 :: u64 where "t0 = of_nat (ns e4 div 1000000)"
  obtain np' e5 where m: "maybe_snapshot sys fp t0 np e4 = (np', e5)" by fastforce
  have w1: "within 1 e e1" by (rule within_stop [OF stop])
  have w2: "within (1 + 1) e e2" by (rule within_trans [OF w1 within_status [OF s]])
  have w4: "within (1 + 1 + 1 + 1) e e4" by (rule within_trans [OF within_trans [OF w2 within_info [OF l]] t(2)])
  have "within 70 e4 e5"
    using m within_snapshot [of e4 fp] within_mono [OF within_refl, of 70 e4] by (auto simp: maybe_snapshot_def split: if_splits)
  then have w5: "within 74 e e5" using within_trans [OF w4] by fastforce
  have u: "trade_done_loop sys fp timeout p dl np li e =
    (if stop then Some (- EINTR, li, tee_printf sys fp (''[progress] interrupted (SIGINT)'' @ [CHR 0x0A]) e1)
     else (case s of
        Inl rc_st \<Rightarrow> Some (rc_st, li, e2)
      | Inr st \<Rightarrow>
          if st_state st = HFT_STATE_IDLE then Some (HFT_ERR_RESET, li, e2)
          else if (case l of Inr li \<Rightarrow> li_trade_done li \<noteq> 0 | Inl err \<Rightarrow> err \<noteq> - EAGAIN) then
            Some (case l of Inr li \<Rightarrow> (0, li, e5) | Inl err \<Rightarrow> (err, li, e5))
          else let (late, e6) = expired sys timeout dl e5 in
            if late then Some (- ETIMEDOUT, li, e6)
            else do { (rc', e7) \<leftarrow> sleep_ms sys (nat p) e6; trade_done_loop sys fp timeout p dl np' li e7 }))"
    by (cases s) (simp_all add: trade_done_loop.simps [of sys fp timeout p dl np li e] stop s l t(1) [folded t0_def] m Let_def)
  have w: "within 74 e (tee_printf sys fp a e1)" "within 74 e e2" for a
    using within_mono [OF within_tee_add [OF w1]] within_mono [OF w2] by simp_all
  show ?thesis
    using s l w w5 unfolding u done_outcome_def
    by (cases stop; cases s; cases l) (auto split: if_splits)
qed

lemma trade_done_returns:
  assumes "0 \<le> timeout" and "in_life e timeout (nat (max 1 poll) * 1000000)"
  shows "\<exists>r. hft_log_wait_trade_done sys fp timeout poll li e = Some r \<and> done_outcome r \<and>
    ns (snd (snd r)) \<le> ns e + nat timeout * 1000000 + 1000000 + nat (max 1 poll) * 1000000 + 77 * slack"
proof -
  define p where "p = (if poll \<le> 0 then 1 else poll)"
  have p: "nat p = nat (max 1 poll)" by (auto simp: p_def max_def)
  have "\<exists>r. (let (deadline, e1) = start_deadline sys timeout e in trade_done_loop sys fp timeout p deadline 0 li e1) = Some r \<and>
      done_outcome r \<and> ns ((snd \<circ> snd) r) \<le> ns e + nat timeout * 1000000 + 1000000 + nat (max 1 poll) * 1000000 + (74 + 3) * slack"
    by (rule timed_wait [where f = "\<lambda>dl np. trade_done_loop sys fp timeout p dl np li" and mk = "\<lambda>e. (- ETIMEDOUT, li, e)"
        and sl = "sleep_ms sys (nat p)" and env = "snd \<circ> snd", OF assms])
      (use p trade_done_turn in \<open>auto simp: done_outcome_def poll_sleep_ms\<close>)
  then show ?thesis by (simp add: hft_log_wait_trade_done_def p_def Let_def)
qed

end

end
