(* ===== verification/Harness_Machine.thy ===== *)
theory Harness_Machine
  imports Harness_Time
begin

text \<open>
  The harness on top of the driver. A machine is the device, the time, the moment at which
  SIGINT arrives, and everything printed. Its system calls run \<open>hft_ioctl\<close> on the device; the
  bus of the device, the cost of a call and the files are parameters. The machine is an instance
  of the locale \<open>ticking\<close>, so that the waits of the harness return on every device.
\<close>

section \<open>User memory\<close>

text \<open>The argument of an ioctl: nothing, or a pointer to one of the four structures.\<close>

datatype uarg = NoArg | PushArg hft_disp_push_req | StatusArg hft_disp_status | InfoArg hft_log_info | EntryArg hft_log_entry

definition user_mem :: "uarg uaccess" where
  "user_mem = \<lparr>
     from_push = (\<lambda>u. case u of PushArg r \<Rightarrow> Some r | _ \<Rightarrow> None),
     from_entry = (\<lambda>u. case u of EntryArg le \<Rightarrow> Some le | _ \<Rightarrow> None),
     to_status = (\<lambda>st u. case u of StatusArg _ \<Rightarrow> (True, StatusArg st) | _ \<Rightarrow> (False, u)),
     to_info = (\<lambda>li u. case u of InfoArg _ \<Rightarrow> (True, InfoArg li) | _ \<Rightarrow> (False, u)),
     to_entry = (\<lambda>le u. case u of EntryArg _ \<Rightarrow> (True, EntryArg le) | _ \<Rightarrow> (False, u))\<rparr>"

section \<open>The machine\<close>

record 'd machine =
  m_dev :: 'd
  m_ns :: nat
  m_sigint :: "nat option"
  m_out :: "(stream \<times> string) list"

text \<open>
  A system call of the harness. The lock is free between the calls of one process, and
  \<open>hft_ioctl\<close> always returns then.
\<close>

definition run_ioctl :: "'d bus \<Rightarrow> nat \<Rightarrow> u32 \<Rightarrow> uarg \<Rightarrow> 'd machine \<Rightarrow> int \<times> uarg \<times> 'd machine" where
  "run_ioctl b cost c arg m =
     (case hft_ioctl b user_mem c arg \<lparr>dev_lock = False, dev_hw = m_dev m\<rparr> of
        Some (ret, arg', s) \<Rightarrow> (ret, arg', m\<lparr>m_dev := dev_hw s, m_ns := m_ns m + cost\<rparr>)
      | None \<Rightarrow> (- EINTR, arg, m\<lparr>m_ns := m_ns m + cost\<rparr>))"

definition machine_sleep :: "nat \<times> nat \<Rightarrow> 'd machine \<Rightarrow> nano_result \<times> 'd machine" where
  "machine_sleep ts m =
     (let wake = m_ns m + ts_ns ts in
      if snd ts \<ge> 1000000000 then (SleepError EINVAL, m)
      else case m_sigint m of
        None \<Rightarrow> (Slept, m\<lparr>m_ns := wake\<rparr>)
      | Some t \<Rightarrow>
          if m_ns m < t \<and> t < wake
          then (Interrupted ((wake - t) div 1000000000, (wake - t) mod 1000000000), m\<lparr>m_ns := t\<rparr>)
          else (Slept, m\<lparr>m_ns := wake\<rparr>))"

definition machine_stop :: "'d machine \<Rightarrow> bool" where
  "machine_stop m = (case m_sigint m of None \<Rightarrow> False | Some t \<Rightarrow> if t \<le> m_ns m then on_sigint 2 False else False)"

definition zero_status :: hft_disp_status where
  "zero_status = \<lparr>st_state = 0, st_ready_mask = 0, st_empty_mask = 0, st_full_mask = 0\<rparr>"

definition sys_on :: "'d bus \<Rightarrow> nat \<Rightarrow> (string \<Rightarrow> int + string) \<Rightarrow> 'd machine sys" where
  "sys_on b cost files = \<lparr>
     clock_gettime = (\<lambda>m. let t = m_ns m + cost in (Some (t div 1000000000, t mod 1000000000), m\<lparr>m_ns := t\<rparr>)),
     nanosleep = machine_sleep,
     ioc_command = (\<lambda>c m. case run_ioctl b cost c NoArg m of (ret, a, m') \<Rightarrow> (ret, m')),
     ioc_status = (\<lambda>m. case run_ioctl b cost HFT_IOC_DISP_GET_STATUS (StatusArg zero_status) m of
        (ret, a, m') \<Rightarrow> (case a of StatusArg st \<Rightarrow> if ret < 0 then Inl ret else Inr st | _ \<Rightarrow> Inl ret, m')),
     ioc_push = (\<lambda>req m. case run_ioctl b cost HFT_IOC_DISP_PUSH_ORDER (PushArg req) m of (ret, a, m') \<Rightarrow> (ret, m')),
     ioc_info = (\<lambda>m. case run_ioctl b cost HFT_IOC_LOG_GET_INFO (InfoArg no_info) m of
        (ret, a, m') \<Rightarrow> (case a of InfoArg li \<Rightarrow> if ret < 0 then Inl ret else Inr li | _ \<Rightarrow> Inl ret, m')),
     ioc_entry = (\<lambda>le m. case run_ioctl b cost HFT_IOC_LOG_READ_ENTRY (EntryArg le) m of
        (ret, a, m') \<Rightarrow> (case a of EntryArg le' \<Rightarrow> if ret < 0 then Inl ret else Inr le' | _ \<Rightarrow> Inl ret, m')),
     g_stop = (\<lambda>m. (machine_stop m, m)),
     put = (\<lambda>f s m. m\<lparr>m_out := m_out m @ [(f, s)]\<rparr>),
     close_file = (\<lambda>f m. m),
     file_system = files, open_device = True, open_progress = None, open_trades = None,
     can_calloc = (\<lambda>n. True), strerror = (\<lambda>n. ''error'')\<rparr>"

section \<open>System calls through the driver\<close>

lemma run_ioctl_body:
  "run_ioctl b cost c arg m = (case ioctl_body b user_mem c arg (m_dev m) of
     (ret, arg', d) \<Rightarrow> (ret, arg', m\<lparr>m_dev := d, m_ns := m_ns m + cost\<rparr>))"
  by (simp add: run_ioctl_def hft_ioctl_def mutex_lock_def mutex_unlock_def split: prod.splits)

lemma run_ioctl_ns: "run_ioctl b cost c arg m = (ret, arg', m') \<Longrightarrow> m_ns m' = m_ns m + cost"
  by (auto simp: run_ioctl_body split: prod.splits)

lemma status_on:
  "hft_disp_get_status (sys_on b cost files) m =
     (let (raw, d) = ioread32 b REG_STATUS (m_dev m) in (Inr (unpack_status raw), m\<lparr>m_dev := d, m_ns := m_ns m + cost\<rparr>))"
  by (simp add: hft_disp_get_status_def sys_on_def run_ioctl_body ioctl_body_def user_mem_def split: prod.splits)

lemma info_on:
  "hft_log_get_info (sys_on b cost files) m =
     (let (raw, d) = ioread32 b REG_LOG_INFO (m_dev m) in (Inr (unpack_info raw), m\<lparr>m_dev := d, m_ns := m_ns m + cost\<rparr>))"
  by (simp add: hft_log_get_info_def sys_on_def run_ioctl_body ioctl_body_def user_mem_def split: prod.splits)

lemma push_on:
  "hft_disp_push_order (sys_on b cost files) lane ord m =
     (let (ret, d) = hft_disp_push_order_hw b lane ord (m_dev m) in
      (if ret < 0 then ret else 0, m\<lparr>m_dev := d, m_ns := m_ns m + cost\<rparr>))"
  by (simp add: hft_disp_push_order_def sys_on_def run_ioctl_body ioctl_body_def user_mem_def split: prod.splits)

lemma entry_on:
  "ioc_entry (sys_on b cost files) le m =
     (let (ret, le', d) = hft_log_read_entry_hw b le (m_dev m) in
      (if ret < 0 then Inl ret else if ret = 0 then Inr le' else Inr le, m\<lparr>m_dev := d, m_ns := m_ns m + cost\<rparr>))"
  by (simp add: sys_on_def run_ioctl_body ioctl_body_def user_mem_def split: prod.splits)

interpretation machine: ticking "sys_on b cost files" m_ns cost
proof unfold_locales
  fix m m' :: "'a machine" and ts rest :: "nat \<times> nat"
  assume "nanosleep (sys_on b cost files) ts m = (Interrupted rest, m')"
  then obtain t where t: "m_ns m < t" "t < m_ns m + ts_ns ts" "m' = m\<lparr>m_ns := t\<rparr>"
      "rest = ((m_ns m + ts_ns ts - t) div 1000000000, (m_ns m + ts_ns ts - t) mod 1000000000)"
    by (auto simp: sys_on_def machine_sleep_def Let_def split: if_splits option.splits)
  have "ts_ns rest = m_ns m + ts_ns ts - t" by (simp only: t ts_ns_def fst_conv snd_conv div_mult_mod_eq)
  then show "m_ns m' + ts_ns rest = m_ns m + ts_ns ts \<and> ts_ns rest < ts_ns ts \<and> snd rest < 1000000000"
    using t by simp
qed (auto simp: sys_on_def machine_sleep_def Let_def dest: run_ioctl_ns split: prod.splits if_splits option.splits)

lemmas machine_waits = machine.wait_state_returns machine.wait_dispatch_returns machine.push_blocking_returns
  machine.trade_done_returns

section \<open>Orders of a lane\<close>

lemma parse_order_fits:
  assumes "parse_order line = Some (Inr ord)"
  shows "order_fits ord"
proof -
  obtain q :: u32 where "q \<le> 0x7FFF" and f: "o_quantity ord = ucast q" "o_type ord \<le> 1"
    using assms by (auto simp: parse_order_def not_less split: conv.splits if_splits)
  then have "(ucast q :: u16) \<le> 0x7FFF" 
    by (simp add: word_le_nat_alt unsigned_ucast_eq le_trans [OF take_bit_nat_less_eq_self])
  then show ?thesis using f by (simp add: order_fits_def)
qed

lemma next_line_order_fits: "next_line_order rest = Some (Inr (Some ord), rest') \<Longrightarrow> order_fits ord"
proof (induction rest rule: next_line_order.induct)
  case (1 rest)
  from "1.prems" "1.IH" show ?case
    by (auto simp: next_line_order.simps [of rest] split: option.splits if_splits sum.splits dest: parse_order_fits)
qed

lemma csv_order_fits:
  assumes "lane_csv_next_order r lane = Some (have, Some ord, r')"
  shows "order_fits ord \<and> lane < 8 \<and> have = 1"
proof -
  obtain rest rest' where "next_line_order rest = Some (Inr (Some ord), rest')" "lane < 8" "have = 1"
    using assms by (auto simp: lane_csv_next_order_def HFT_NUM_LANES_def split: if_splits option.splits sum.splits)
  then show ?thesis by (auto dest: next_line_order_fits)
qed

section \<open>Properties of the waits\<close>

lemma state_read:
  assumes "hft_disp_get_status (sys_on b cost files) m0 = (Inr st, m')"
  shows "\<exists>d raw. ioread32 b REG_STATUS d = (raw, m_dev m') \<and> st = unpack_status raw"
proof -
  obtain raw d where r: "ioread32 b REG_STATUS (m_dev m0) = (raw, d)" by fastforce
  then have "st = unpack_status raw" "m_dev m' = d" using assms by (auto simp: status_on)
  then show ?thesis using r by blast
qed

lemma wait_codes: "ETIMEDOUT \<noteq> 0" "HFT_ERR_RESET \<noteq> 0" "ECONNRESET \<noteq> ETIMEDOUT" "EINTR \<noteq> 0"
  by (simp_all add: HFT_ERR_RESET_def errno_defs)

text \<open>
  C19: Waiting for a dispatcher state with a timeout always returns, on every device: not later than
  the timeout plus one poll (and the cost of the calls), with 0 only when the last status word
  read shows the state, and otherwise with the timeout or a reset.
\<close>

theorem wait_state_in_time:
  assumes "0 \<le> timeout" and "m_ns m + nat timeout * 1000000 + 2000000 + nat (max 1 poll) * 1000000 + 200 * cost < 2 ^ 64 * 1000000"
  shows "\<exists>rc m'. hft_disp_wait_state (sys_on b cost files) want timeout poll abort m = Some (rc, m') \<and>
    rc \<in> {0, - ETIMEDOUT, HFT_ERR_RESET} \<and>
    (rc = 0 \<longrightarrow> (\<exists>d raw. ioread32 b REG_STATUS d = (raw, m_dev m') \<and> st_state (unpack_status raw) = want)) \<and>
    m_ns m' \<le> m_ns m + nat timeout * 1000000 + 1000000 + nat (max 1 poll) * 1000000 + 4 * cost"
proof -
  obtain rc m' where r: "hft_disp_wait_state (sys_on b cost files) want timeout poll abort m = Some (rc, m')"
      "machine.wait_outcome b cost files (\<lambda>s. s = want) (rc, m')"
      "m_ns m' \<le> m_ns m + nat timeout * 1000000 + 1000000 + nat (max 1 poll) * 1000000 + 4 * cost"
    using machine.wait_state_returns [where e = m and cost = cost and poll = poll and b = b and files = files and want = want and abort = abort, OF assms(1)] assms(2)
    by (auto simp: machine.in_life_def)
  have "rc \<in> {0, - ETIMEDOUT, HFT_ERR_RESET}"
    using r(2) by (auto simp: machine.wait_outcome_def status_on Let_def split: prod.splits)
  moreover have "\<exists>d raw. ioread32 b REG_STATUS d = (raw, m_dev m') \<and> st_state (unpack_status raw) = want" if "rc = 0"
    using r(2) that state_read [of b cost files _ _ m'] wait_codes
    by (fastforce simp: machine.wait_outcome_def status_on Let_def split: prod.splits)
  ultimately show ?thesis using r by blast
qed

theorem wait_state_in_time_witness:
  "\<exists>rc m'. hft_disp_wait_state (sys_on (recording_bus (\<lambda>a. 0)) 50 (\<lambda>f. Inl 2)) HFT_STATE_WRITE 1000 1 False
      \<lparr>m_dev = [], m_ns = 0, m_sigint = None, m_out = []\<rparr> = Some (rc, m') \<and> rc \<in> {0, - ETIMEDOUT, HFT_ERR_RESET}"
  using wait_state_in_time [where m = "\<lparr>m_dev = [], m_ns = 0, m_sigint = None, m_out = []\<rparr>" and timeout = 1000 and poll = 1
      and cost = 50 and b = "recording_bus (\<lambda>a. 0)" and files = "\<lambda>f. Inl 2" and want = HFT_STATE_WRITE and abort = False]
  by auto

text \<open>
  C20: Waiting for the end of trading with a timeout always returns, on every device, within the
  timeout plus one poll: with 0 and the log information only when the trade-done bit was read,
  and otherwise with the timeout, a reset or the interruption by the user.
\<close>

theorem trade_done_in_time:
  assumes "0 \<le> timeout" and "m_ns m + nat timeout * 1000000 + 2000000 + nat (max 1 poll) * 1000000 + 200 * cost < 2 ^ 64 * 1000000"
  shows "\<exists>rc li' m'. hft_log_wait_trade_done (sys_on b cost files) fp timeout poll li m = Some (rc, li', m') \<and>
    rc \<in> {0, - ETIMEDOUT, HFT_ERR_RESET, - EINTR} \<and>
    (rc = 0 \<longrightarrow> (\<exists>d raw d'. ioread32 b REG_LOG_INFO d = (raw, d') \<and> li' = unpack_info raw \<and> li_trade_done li' \<noteq> 0)) \<and>
    m_ns m' \<le> m_ns m + nat timeout * 1000000 + 1000000 + nat (max 1 poll) * 1000000 + 77 * cost"
proof -
  obtain rc li' m' where r: "hft_log_wait_trade_done (sys_on b cost files) fp timeout poll li m = Some (rc, li', m')"
      "machine.done_outcome b cost files (rc, li', m')"
      "m_ns m' \<le> m_ns m + nat timeout * 1000000 + 1000000 + nat (max 1 poll) * 1000000 + 77 * cost"
    using machine.trade_done_returns [where e = m and cost = cost and poll = poll and b = b and files = files and fp = fp and li = li, OF assms(1)] assms(2)
    by (auto simp: machine.in_life_def)
  have "rc \<in> {0, - ETIMEDOUT, HFT_ERR_RESET, - EINTR}"
    using r(2) by (auto simp: machine.done_outcome_def status_on info_on Let_def split: prod.splits)
  moreover have "\<exists>d raw d'. ioread32 b REG_LOG_INFO d = (raw, d') \<and> li' = unpack_info raw \<and> li_trade_done li' \<noteq> 0" if "rc = 0"
    using r(2) that wait_codes by (auto simp: machine.done_outcome_def status_on info_on Let_def split: prod.splits)
  ultimately show ?thesis using r by blast
qed

theorem trade_done_in_time_witness:
  "\<exists>rc li' m'. hft_log_wait_trade_done (sys_on (recording_bus (\<lambda>a. 0)) 50 (\<lambda>f. Inl 2)) True 1000 2 no_info
      \<lparr>m_dev = [], m_ns = 0, m_sigint = Some 7, m_out = []\<rparr> = Some (rc, li', m') \<and> rc \<in> {0, - ETIMEDOUT, HFT_ERR_RESET, - EINTR}"
  using trade_done_in_time [where m = "\<lparr>m_dev = [], m_ns = 0, m_sigint = Some 7, m_out = []\<rparr>" and timeout = 1000 and poll = 2
      and cost = 50 and b = "recording_bus (\<lambda>a. 0)" and files = "\<lambda>f. Inl 2" and fp = True and li = no_info]
  by auto

text \<open>
  C18: Every order the CSV reader delivers for a lane can be pushed: the blocking push returns with 0
  or with the timeout, never with a rejection by the driver, and 0 means that the last access to
  the device wrote the packed order to the register of that lane while the lane was ready.
\<close>

theorem csv_order_reaches_device:
  assumes "lane_csv_next_order r lane = Some (1, Some ord, r')" and "0 \<le> timeout"
    and "m_ns m + nat timeout * 1000000 + 3000000 + 200 * cost < 2 ^ 64 * 1000000"
  shows "\<exists>rc m'. hft_disp_push_order_blocking (sys_on b cost files) (of_nat lane) ord timeout 200 m = Some (rc, m') \<and>
    (rc = - ETIMEDOUT \<or> rc = 0 \<and> (\<exists>d raw d1. ioread32 b REG_STATUS d = (raw, d1) \<and> push_allowed (of_nat lane) ord raw \<and>
       m_dev m' = iowrite32 b (hft_disp_pack_order_word ord) (REG_PUSH lane) d1))"
proof -
  have f: "order_fits ord" "lane < 8" using csv_order_fits [OF assms(1)] by simp_all
  then have l: "(of_nat lane :: u32) < 8" "unat (of_nat lane :: u32) = lane"
    by (simp_all add: word_less_nat_alt unsigned_of_nat take_bit_nat_eq_self)
  obtain rc m' where p: "hft_disp_push_order_blocking (sys_on b cost files) (of_nat lane) ord timeout 200 m = Some (rc, m')"
      "machine.push_outcome b cost files (of_nat lane) ord (rc, m')"
    using machine.push_blocking_returns [where e = m and cost = cost and poll = 200 and b = b and files = files and lane = "of_nat lane" and ord = ord, OF assms(2)] assms(3)
    by (auto simp: machine.in_life_def)
  have "rc = 0 \<and> (\<exists>d raw d1. ioread32 b REG_STATUS d = (raw, d1) \<and> push_allowed (of_nat lane) ord raw \<and>
       m_dev m' = iowrite32 b (hft_disp_pack_order_word ord) (REG_PUSH lane) d1)" if late: "rc \<noteq> - ETIMEDOUT"
  proof -
    obtain m0 where m0: "hft_disp_push_order (sys_on b cost files) (of_nat lane) ord m0 = (rc, m')" "rc \<noteq> - EAGAIN" "rc \<noteq> - EBUSY"
      using p(2) late by (auto simp: machine.push_outcome_def)
    obtain raw d1 where d: "ioread32 b REG_STATUS (m_dev m0) = (raw, d1)" by fastforce
    have "rc = 0 \<and> push_allowed (of_nat lane) ord raw \<and> m_dev m' = iowrite32 b (hft_disp_pack_order_word ord) (REG_PUSH lane) d1"
      using m0 f l by (auto simp: push_on push_order_hw_cases [OF d] push_allowed_def errno_defs split: if_splits)
    then show ?thesis using d by blast
  qed
  then show ?thesis using p(1) by blast
qed

text \<open>A reader on one given file for lane 0, for the instances below.\<close>

definition lane0_reader :: "string \<Rightarrow> LaneCSVReader" where
  "lane0_reader s = closed_reader\<lparr>lane_csv := (lane_csv closed_reader)[0 := Some (s, s)]\<rparr>"

theorem csv_order_reaches_device_witness:
  "\<exists>rc m'. hft_disp_push_order_blocking (sys_on (recording_bus (\<lambda>a. 0x3FD)) 50 (\<lambda>f. Inl 2)) (of_nat 0)
      \<lparr>o_type = 1, o_price = 25, o_quantity = 7\<rparr> 2000 200
      \<lparr>m_dev = [], m_ns = 0, m_sigint = None, m_out = []\<rparr> = Some (rc, m') \<and> (rc = - ETIMEDOUT \<or> rc = 0)"
proof -
  have l: "lane_csv_next_order (lane0_reader ''BID,25,7'') 0 =
      Some (1, Some \<lparr>o_type = 1, o_price = 25, o_quantity = 7\<rparr>, (lane0_reader ''BID,25,7'')
        \<lparr>lane_csv := (lane_csv (lane0_reader ''BID,25,7''))[0 := Some (''BID,25,7'', [])]\<rparr>)"
    by code_simp
  show ?thesis
    using csv_order_reaches_device [OF l, where timeout = 2000 and cost = 50 and b = "recording_bus (\<lambda>a. 0x3FD)" and files = "\<lambda>f. Inl 2"
        and m = "\<lparr>m_dev = [], m_ns = 0, m_sigint = None, m_out = []\<rparr>"]
    by auto
qed

end
