(* ===== verification/Harness_Runs.thy ===== *)
theory Harness_Runs
  imports Harness_Machine
begin

text \<open>
  Runs of the harness: reading back a lane's CSV file, when the round-robin writer stops and when
  it never stops, an interrupt during an unlimited wait, and the file of trades.
\<close>

section \<open>A lane's CSV file\<close>

text \<open>An order as a line of a CSV file, and a file with its header.\<close>

definition order_line :: "hft_disp_order \<Rightarrow> string" where
  "order_line ord = (if o_type ord = 0 then ''ASK'' else ''BID'') @ '','' @ dec_digits (unat (o_price ord)) @ '','' @
     dec_digits (unat (o_quantity ord))"

definition orders_text :: "hft_disp_order list \<Rightarrow> string" where
  "orders_text os = concat (map (\<lambda>ord. order_line ord @ [CHR 0x0A]) os)"

lemma conv_u_dec:
  "n \<le> 4294967295 \<Longrightarrow> r = [] \<or> \<not> c_isdigit (hd r) \<Longrightarrow> conv_u (dec_digits n @ r) = Match (of_nat n) r"
  by (simp add: conv_u_def scan_number_dec digits_val_dec is_uint32_def)

lemma u16_less: "unat (x :: u16) < 65536"
  by (rule order_less_le_trans [OF unsigned_less]) simp

lemma not_digit_sep: "\<not> c_isdigit CHR '',''" "\<not> c_isdigit CHR 0x0A"
  by (simp_all add: c_isdigit_def)

lemma conv_type_field:
  "t = ''ASK'' \<or> t = ''BID'' \<Longrightarrow> conv_not_comma_width 15 (skip_ws (t @ CHR '','' # s)) = Match t (CHR '','' # s)"
  by (auto simp: conv_not_comma_width_def skip_ws_def c_isspace_def)

lemma scan_order_text:
  assumes "t = ''ASK'' \<or> t = ''BID''" and "p \<le> 4294967295" and "q \<le> 4294967295"
  shows "scan_order_line (t @ '','' @ dec_digits p @ '','' @ dec_digits q @ [CHR 0x0A]) = Match (t, of_nat p, of_nat q) [CHR 0x0A]"
  using assms conv_type_field [of t "dec_digits p @ CHR '','' # dec_digits q @ [CHR 0x0A]"]
  by (simp add: scan_order_line_def conv_lit_def conv_u_dec not_digit_sep)

lemma parse_order_text:
  assumes "order_fits ord"
  shows "parse_order (order_line ord @ [CHR 0x0A]) = Some (Inr ord)"
proof -
  have t: "o_type ord = 0 \<or> o_type ord = 1" using assms u8_le_1 by (auto simp: order_fits_def)
  have p: "unat (o_price ord) \<le> 65535" using u16_less [of "o_price ord"] by simp
  have q: "unat (o_quantity ord) \<le> 32767" using assms by (simp add: order_fits_def word_le_nat_alt)
  have "scan_order_line (order_line ord @ [CHR 0x0A]) =
      Match (if o_type ord = 0 then ''ASK'' else ''BID'', of_nat (unat (o_price ord)), of_nat (unat (o_quantity ord))) [CHR 0x0A]"
    using scan_order_text [of "if o_type ord = 0 then ''ASK'' else ''BID''" "unat (o_price ord)" "unat (o_quantity ord)"] p q
    by (simp add: order_line_def)
  moreover have "\<not> (of_nat (unat (o_price ord)) :: u32) > 0xFFFF" "\<not> (of_nat (unat (o_quantity ord)) :: u32) > 0x7FFF"
    using p q by (simp_all add: word_less_nat_alt unsigned_ucast_eq take_bit_nat_eq_self)
  moreover have "(ucast (of_nat (unat (o_price ord)) :: u32) :: u16) = o_price ord"
      "(ucast (of_nat (unat (o_quantity ord)) :: u32) :: u16) = o_quantity ord"
    by simp_all
  ultimately show ?thesis using t by (auto simp: parse_order_def)
qed

lemma order_line_short: "order_fits ord \<Longrightarrow> length (order_line ord) + 1 < 256 - 1"
  using dec_digits_length [of "unat (o_price ord)" 5] dec_digits_length [of "unat (o_quantity ord)" 5] u16_less [of "o_price ord"]
  by (simp add: order_line_def order_fits_def word_le_nat_alt)

lemma order_line_no_newline: "\<forall>c \<in> set (order_line ord). \<not> is_newline c"
  using dec_digits_no [OF not_digit_sep(2)] by (auto simp: order_line_def is_newline_def)

lemma order_line_not_skipped: "\<not> skipped_line (order_line ord @ r)"
  by (simp add: skipped_line_def order_line_def)

lemma next_order_text:
  assumes "order_fits ord"
  shows "next_line_order (orders_text (ord # os)) = Some (Inr (Some ord), orders_text os)"
proof -
  have "fgets 256 (order_line ord @ CHR 0x0A # orders_text os) = Some (order_line ord @ [CHR 0x0A], orders_text os)"
    using order_line_short [OF assms] by (intro fgets_line order_line_no_newline) simp
  then show ?thesis
    by (subst next_line_order.simps) (simp add: orders_text_def order_line_not_skipped parse_order_text [OF assms])
qed

lemma next_order_header: "next_line_order (''Type,Price,Quantity'' @ CHR 0x0A # s) = next_line_order s"
proof -
  have "fgets 256 (''Type,Price,Quantity'' @ CHR 0x0A # s) = Some (''Type,Price,Quantity'' @ [CHR 0x0A], s)"
    by (intro fgets_line) (simp_all add: is_newline_def)
  then show ?thesis by (subst next_line_order.simps) (simp add: skipped_line_def)
qed

text \<open>Calling \<open>lane_csv_next_order\<close> \<open>n\<close> times on a lane: the results, in order.\<close>

fun next_orders :: "nat \<Rightarrow> LaneCSVReader \<Rightarrow> nat \<Rightarrow> (int \<times> hft_disp_order option) list option" where
  "next_orders 0 r lane = Some []"
| "next_orders (Suc n) r lane = do {
     (have, ord, r') \<leftarrow> lane_csv_next_order r lane;
     more \<leftarrow> next_orders n r' lane;
     Some ((have, ord) # more) }"

lemma next_orders_text:
  assumes "list_all order_fits os" and "lane < 8" and "length (lane_csv r) = 8" and "length (lane_eof r) = 8"
    and "\<not> lane_eof r ! lane" and "lane_csv r ! lane = Some (whole, rest)"
    and "next_line_order rest = next_line_order (orders_text os)"
  shows "next_orders (length os + 2) r lane = Some (map (\<lambda>ord. (1, Some ord)) os @ [(0, None), (0, None)])"
  using assms
proof (induction os arbitrary: r rest)
  case Nil
  have "next_line_order (orders_text []) = Some (Inr None, [])"
    by (simp add: next_line_order.simps orders_text_def fgets_def)
  then show ?case using Nil.prems
    by (simp add: numeral_2_eq_2 lane_csv_next_order_def HFT_NUM_LANES_def not_le)
next
  case (Cons ord os)
  let ?r = "r\<lparr>lane_csv := (lane_csv r)[lane := Some (whole, orders_text os)]\<rparr>"
  have "next_line_order rest = Some (Inr (Some ord), orders_text os)"
    using Cons.prems(1,7) next_order_text [of ord os] by simp
  then have "lane_csv_next_order r lane = Some (1, Some ord, ?r)"
    using Cons.prems(2,5,6) by (simp add: lane_csv_next_order_def HFT_NUM_LANES_def not_le)
  moreover have "next_orders (length os + 2) ?r lane = Some (map (\<lambda>ord. (1, Some ord)) os @ [(0, None), (0, None)])"
    using Cons.prems by (intro Cons.IH) simp_all
  ultimately have "next_orders (Suc (length os + 2)) r lane = Some ((1, Some ord) # map (\<lambda>ord. (1, Some ord)) os @ [(0, None), (0, None)])"
    by (simp only: next_orders.simps bind.bind_lunit prod.case)
  moreover have "length (ord # os) + 2 = Suc (length os + 2)" by simp
  ultimately show ?case by (simp only: list.map append_Cons)
qed

text \<open>What opening the files leaves in each lane.\<close>

lemma open_lanes_result:
  assumes "open_lanes sys dir fs k r e = (0, r', e')" and "k + length fs = 8" and "length (lane_csv r) = 8" and "length (lane_eof r) = 8"
  shows "length (lane_csv r') = 8 \<and> length (lane_eof r') = 8 \<and>
    (\<forall>i < 8. if i < k then lane_csv r' ! i = lane_csv r ! i \<and> lane_eof r' ! i = lane_eof r ! i
      else \<exists>c. file_system sys (take 511 (dir @ ''/'' @ fs ! (i - k))) = Inr c \<and>
        lane_csv r' ! i = Some (c, c) \<and> \<not> lane_eof r' ! i)"
  using assms
proof (induction fs arbitrary: k r)
  case (Cons f fs)
  let ?path = "take 511 (dir @ ''/'' @ f)"
  obtain c where c: "file_system sys ?path = Inr c"
    using Cons.prems(1) by (auto simp: Let_def ENOENT_def split: sum.splits)
  let ?r = "r\<lparr>lane_csv := (lane_csv r)[k := Some (c, c)], lane_eof := (lane_eof r)[k := False]\<rparr>"
  have "open_lanes sys dir fs (k + 1) ?r e = (0, r', e')" using Cons.prems(1) c by (simp add: Let_def)
  then have IH: "length (lane_csv r') = 8 \<and> length (lane_eof r') = 8 \<and>
    (\<forall>i < 8. if i < k + 1 then lane_csv r' ! i = lane_csv ?r ! i \<and> lane_eof r' ! i = lane_eof ?r ! i
      else \<exists>c. file_system sys (take 511 (dir @ ''/'' @ fs ! (i - (k + 1)))) = Inr c \<and>
        lane_csv r' ! i = Some (c, c) \<and> \<not> lane_eof r' ! i)"
    by (rule Cons.IH) (use Cons.prems(2-4) in simp_all)
  have "if i < k then lane_csv r' ! i = lane_csv r ! i \<and> lane_eof r' ! i = lane_eof r ! i
      else \<exists>c. file_system sys (take 511 (dir @ ''/'' @ (f # fs) ! (i - k))) = Inr c \<and>
        lane_csv r' ! i = Some (c, c) \<and> \<not> lane_eof r' ! i" if i: "i < 8" for i
  proof -
    consider "i < k" | "i = k" | "i > k" by linarith
    then show ?thesis
    proof cases
      case 3
      then have "(f # fs) ! (i - k) = fs ! (i - (k + 1))" by (simp add: nth_Cons')
      then show ?thesis using IH i 3 by auto
    qed (use IH i c Cons.prems(3,4) in \<open>auto\<close>)
  qed
  then show ?case using IH by blast
qed auto

text \<open>
  C23: Round trip of a lane's CSV file: after opening the files, a lane whose file is the header and
  one line per order delivers exactly these orders, in the order of the file, and then reports
  the end of the file, again and again.
\<close>

theorem lane_csv_reads_back:
  assumes "open_all_csvs sys closed_reader dir e = (0, r, e')" and "lane < 8" and "list_all order_fits os"
    and "file_system sys (take 511 (dir @ ''/'' @ lane_file ! lane)) =
      Inr (''Type,Price,Quantity'' @ CHR 0x0A # orders_text os)"
  shows "next_orders (length os + 2) r lane = Some (map (\<lambda>ord. (1, Some ord)) os @ [(0, None), (0, None)])"
proof -
  have o: "open_lanes sys dir lane_file 0 closed_reader e = (0, r, e')" using assms(1) by (simp add: open_all_csvs_def)
  have "length (lane_csv r) = 8 \<and> length (lane_eof r) = 8 \<and>
      (\<exists>c. file_system sys (take 511 (dir @ ''/'' @ lane_file ! lane)) = Inr c \<and> lane_csv r ! lane = Some (c, c) \<and> \<not> lane_eof r ! lane)"
    using open_lanes_result [OF o] assms(2) by (simp add: lane_file_def closed_reader_def HFT_NUM_LANES_def)
  then have "length (lane_csv r) = 8" "length (lane_eof r) = 8" "\<not> lane_eof r ! lane"
      "lane_csv r ! lane = Some (''Type,Price,Quantity'' @ CHR 0x0A # orders_text os, ''Type,Price,Quantity'' @ CHR 0x0A # orders_text os)"
    using assms(4) by (auto simp only: sum.inject)
  then show ?thesis using next_orders_text [OF assms(3,2)] next_order_header by blast
qed

lemma open_lanes_ok: "(\<And>f. \<exists>c. file_system sys f = Inr c) \<Longrightarrow> \<exists>r'. open_lanes sys dir fs k r e = (0, r', e)"
proof (induction fs arbitrary: k r)
  case (Cons f fs)
  obtain c where "file_system sys (take 511 (dir @ ''/'' @ f)) = Inr c" using Cons.prems by blast
  then show ?case using Cons.IH [OF Cons.prems] by (simp add: Let_def)
qed simp

theorem lane_csv_reads_back_witness:
  "\<exists>r. open_all_csvs (sys_on (recording_bus (\<lambda>a. 0)) 0 (\<lambda>f. Inr (''Type,Price,Quantity'' @ CHR 0x0A #
        orders_text [\<lparr>o_type = 1, o_price = 15301, o_quantity = 20\<rparr>]))) closed_reader ''../data''
        \<lparr>m_dev = [], m_ns = 0, m_sigint = None, m_out = []\<rparr> = (0, r, \<lparr>m_dev = [], m_ns = 0, m_sigint = None, m_out = []\<rparr>) \<and>
     next_orders (Suc (Suc (Suc 0))) r 0 = Some [(1, Some \<lparr>o_type = 1, o_price = 15301, o_quantity = 20\<rparr>), (0, None), (0, None)]"
proof -
  let ?os = "[\<lparr>o_type = 1, o_price = 15301, o_quantity = 20\<rparr>]"
  let ?t = "''Type,Price,Quantity'' @ CHR 0x0A # orders_text ?os"
  let ?s = "sys_on (recording_bus (\<lambda>a. 0)) 0 (\<lambda>f. Inr ?t)" and ?m = "\<lparr>m_dev = [], m_ns = 0, m_sigint = None, m_out = []\<rparr>"
  obtain r where r: "open_all_csvs ?s closed_reader ''../data'' ?m = (0, r, ?m)"
    using open_lanes_ok [of ?s "''../data''" lane_file 0 closed_reader ?m] by (auto simp: open_all_csvs_def sys_on_def)
  have "next_orders (length ?os + 2) r 0 = Some (map (\<lambda>ord. (1, Some ord)) ?os @ [(0, None), (0, None)])"
    by (rule lane_csv_reads_back [OF r]) (simp_all add: order_fits_def sys_on_def)
  moreover have "length ?os + 2 = Suc (Suc (Suc 0))" by simp
  ultimately show ?thesis using r by (simp only: list.map append.simps) blast
qed

section \<open>Waits without a timeout\<close>

lemma wait_state_never:
  assumes "wait_state_loop sys want timeout poll abort dl e = Some y"
  shows "timeout < 0 \<and> \<not> abort \<and> (\<forall>e. \<exists>st e'. hft_disp_get_status sys e = (Inr st, e') \<and> st_state st \<noteq> want) \<longrightarrow> False"
proof (rule wait_state_loop.raw_induct [where P = "\<lambda>sys want timeout poll abort dl e y.
      timeout < 0 \<and> \<not> abort \<and> (\<forall>e. \<exists>st e'. hft_disp_get_status sys e = (Inr st, e') \<and> st_state st \<noteq> want) \<longrightarrow> False", OF _ assms],
    rule impI, goal_cases)
  case (1 loop sys want timeout poll abort dl e y)
  obtain st e1 where s: "hft_disp_get_status sys e = (Inr st, e1)" "st_state st \<noteq> want" using 1(3) by blast
  then obtain e3 where "loop sys want timeout poll abort dl e3 = Some y"
    using 1(2,3) by (auto simp: expired_def bind_eq_Some_conv)
  then show False using 1(1,3) by blast
qed

text \<open>
  C29: Ctrl+C during the wait for the WRITE state is lost: while the dispatcher does not enter WRITE,
  the wait without timeout that \<open>main\<close> uses does not return, whether or not SIGINT arrives.
\<close>

theorem wait_write_ignores_sigint:
  assumes "\<forall>d. fst (ioread32 b REG_STATUS d) AND STATUS_STATE_MASK \<noteq> HFT_STATE_WRITE"
  shows "hft_disp_wait_state (sys_on b cost files) HFT_STATE_WRITE (-1) 10 False m = None"
proof -
  have "\<exists>st m'. hft_disp_get_status (sys_on b cost files) m = (Inr st, m') \<and> st_state st \<noteq> HFT_STATE_WRITE" for m
    using assms [THEN spec, of "m_dev m"] by (cases "ioread32 b REG_STATUS (m_dev m)") (simp add: status_on unpack_status_def)
  then have "wait_state_loop (sys_on b cost files) HFT_STATE_WRITE (-1) 10 False 0 m \<noteq> Some y" for y
    using wait_state_never [of "sys_on b cost files" HFT_STATE_WRITE "-1" 10 False 0 m y] by auto
  then show ?thesis by (simp add: hft_disp_wait_state_def start_deadline_def not_Some_eq [symmetric] del: not_Some_eq)
qed

theorem wait_write_ignores_sigint_witness:
  "hft_disp_wait_state (sys_on (recording_bus (\<lambda>a. 0)) 50 (\<lambda>f. Inl 2)) HFT_STATE_WRITE (-1) 10 False
     \<lparr>m_dev = [], m_ns = 0, m_sigint = Some 1000, m_out = []\<rparr> = None"
  by (rule wait_write_ignores_sigint) (simp add: recording_bus_def HFT_STATE_WRITE_def)

section \<open>The round-robin writer\<close>






text \<open>What a lane marked as done has reached: the end of its file.\<close>

definition done_at_end :: "bool list \<Rightarrow> LaneCSVReader \<Rightarrow> bool" where
  "done_at_end lane_done csv \<longleftrightarrow> length lane_done = 8 \<and> length (lane_eof csv) = 8 \<and> (\<forall>l < 8. lane_done ! l \<longrightarrow> lane_eof csv ! l)"

lemma next_line_order_error: "next_line_order rest = Some (Inl err, rest') \<Longrightarrow> err = - EINVAL"
proof (induction rest rule: next_line_order.induct)
  case (1 rest)
  from "1.prems" "1.IH" show ?case
    by (auto simp: next_line_order.simps [of rest] parse_order_def split: option.splits if_splits sum.splits conv.splits)
qed

lemma next_line_order_not_0: "next_line_order rest \<noteq> Some (Inl 0, rest')"
  using next_line_order_error [of rest 0 rest'] by (auto simp: EINVAL_def)

lemma next_order_keeps_end:
  assumes "lane_csv_next_order csv lane = Some (have, ord, csv')" and "done_at_end lane_done csv"
  shows "done_at_end lane_done csv' \<and> (have = 0 \<longrightarrow> done_at_end (lane_done[lane := True]) csv')"
  using assms
  by (auto simp: lane_csv_next_order_def done_at_end_def HFT_NUM_LANES_def EINVAL_def nth_list_update next_line_order_not_0
      split: if_splits option.splits sum.splits)

definition all_full_read :: "'e sys \<Rightarrow> 'e \<Rightarrow> bool" where
  "all_full_read sys e \<longleftrightarrow> (\<exists>e0 st. hft_disp_get_status sys e0 = (Inr st, e) \<and> hft_all_fifos_full_mask (st_full_mask st))"

lemma rr_lanes_result:
  assumes "rr_lanes sys lane_csv_next_order timeout dl lanes st lane_done csv e = Some (r, csv', e')" and "done_at_end lane_done csv"
    and "\<And>e e'. hft_disp_get_status sys e \<noteq> (Inl 0, e')"
  shows "case r of Inl rc \<Rightarrow> rc = 0 \<longrightarrow> all_full_read sys e' | Inr ld \<Rightarrow> done_at_end ld csv'"
  using assms
proof (induction lanes arbitrary: st lane_done csv e)
  case (Cons lane lanes)
  show ?case
  proof (cases "lane_done ! lane \<or> bit (st_full_mask st) lane")
    case True
    then have "rr_lanes sys lane_csv_next_order timeout dl lanes st lane_done csv e = Some (r, csv', e')"
      using Cons.prems(1) by (cases "lane_done ! lane") simp_all
    then show ?thesis by (rule Cons.IH) (fact Cons.prems)+
  next
    case False
    then obtain hv ord csv1 where n: "lane_csv_next_order csv lane = Some (hv, ord, csv1)"
      using Cons.prems(1) by (auto simp: bind_eq_Some_conv)
    note keep = next_order_keeps_end [OF n Cons.prems(2)]
    consider "hv < 0" | "hv = 0" | "hv > 0" by linarith
    then show ?thesis
    proof cases
      case 1
      then show ?thesis using Cons.prems(1) False n by auto
    next
      case 2
      then have "rr_lanes sys lane_csv_next_order timeout dl lanes st (lane_done[lane := True]) csv1 e = Some (r, csv', e')"
        using Cons.prems(1) False n by simp
      then show ?thesis by (rule Cons.IH) (use keep 2 Cons.prems(3) in blast)+
    next
      case 3
      then obtain ord' rc e1 where p: "ord = Some ord'" "hft_disp_push_order_blocking sys (of_nat lane) ord' 2000 200 e = Some (rc, e1)"
        using Cons.prems(1) False n by (auto simp: bind_eq_Some_conv)
      obtain late e2 where l: "expired sys timeout dl e1 = (late, e2)" by fastforce
      obtain s e3 where s: "hft_disp_get_status sys e2 = (s, e3)" by fastforce
      have "(if rc \<noteq> 0 then Some (Inl rc, csv1, e1) else if late then Some (Inl (- ETIMEDOUT), csv1, e2)
          else (case s of Inl rc' \<Rightarrow> Some (Inl rc', csv1, e3)
            | Inr st' \<Rightarrow> if hft_all_fifos_full_mask (st_full_mask st') then Some (Inl 0, csv1, e3)
                else rr_lanes sys lane_csv_next_order timeout dl lanes st' lane_done csv1 e3)) = Some (r, csv', e')"
        using Cons.prems(1) False n p l s 3 by (cases "rc = 0"; cases late; cases s) simp_all
      moreover have "s = Inr st' \<Longrightarrow> hft_all_fifos_full_mask (st_full_mask st') \<Longrightarrow> all_full_read sys e3" for st'
        using s unfolding all_full_read_def by blast
      ultimately show ?thesis
        using Cons.IH [of _ lane_done csv1 e3] keep s wait_codes Cons.prems(3)
        by (cases s) (auto split: if_splits)
    qed
  qed
qed auto

lemma rr_loop_result:
  assumes "rr_loop sys lane_csv_next_order timeout dl lane_done csv e = Some y"
    and status: "\<And>e e'. hft_disp_get_status sys e \<noteq> (Inl 0, e')"
  shows "done_at_end lane_done csv \<and> fst y = 0 \<longrightarrow> (\<forall>l < 8. lane_eof (fst (snd y)) ! l) \<or> all_full_read sys (snd (snd y))"
proof -
  let ?Q = "\<lambda>y. (\<forall>l < 8. lane_eof (fst (snd y)) ! l) \<or> all_full_read sys (snd (snd y))"
  have "sys' = sys \<and> f = lane_csv_next_order \<and> done_at_end ld csv' \<and> fst y = 0 \<longrightarrow> ?Q y"
    if "rr_loop sys' f timeout' dl' ld csv' e = Some y" for sys' f timeout' dl' ld csv' e y
  proof (rule rr_loop.raw_induct [where P = "\<lambda>sys' f timeout dl ld csv' e y. sys' = sys \<and> f = lane_csv_next_order \<and>
        done_at_end ld csv' \<and> fst y = 0 \<longrightarrow> ?Q y", OF _ that], rule impI, goal_cases)
    case IH: (1 loop sys' f timeout dl ld csv' e y)
    obtain s e1 where s: "hft_disp_get_status sys e = (s, e1)" by fastforce
    consider "y = (0, csv', e)" "list_all id ld" | st where "s = Inr st" "hft_all_fifos_full_mask (st_full_mask st)" "y = (0, csv', e1)"
      | r csv1 e2 st where "rr_lanes sys lane_csv_next_order timeout dl [0..<HFT_NUM_LANES] st ld csv' e1 = Some (r, csv1, e2)"
          "(case r of Inl rc \<Rightarrow> Some (rc, csv1, e2) | Inr ld' \<Rightarrow> loop sys lane_csv_next_order timeout dl ld' csv1 e2) = Some y"
      using IH(2,3) s status [of e e1] wait_codes
      by (cases s) (auto simp: errno_defs bind_eq_Some_conv split: if_splits)
    then show ?case
    proof cases
      case 1
      then show ?thesis using IH(3) by (simp add: done_at_end_def list_all_length)
    next
      case 2
      then show ?thesis using s by (auto simp: all_full_read_def)
    next
      case 3
      have "done_at_end ld csv'" using IH(3) by blast
      note r = rr_lanes_result [OF 3(1) this status]
      show ?thesis
      proof (cases r)
        case (Inl rc)
        then show ?thesis using 3(2) r IH(3) by auto
      next
        case (Inr ld')
        then show ?thesis using 3(2) r IH(1) [of sys lane_csv_next_order timeout dl ld' csv1 e2 y] IH(3) by simp
      qed
    qed
  qed
  then show ?thesis using assms(1) by blast
qed

text \<open>
  C24: When the round-robin writer reports success, it is finished: every lane is at the end of its
  file, or the last status read shows that all FIFOs are full.
\<close>

theorem round_robin_success:
  assumes "length (lane_eof csv) = 8"
    and "hft_write_orders_round_robin (sys_on b cost files) lane_csv_next_order csv timeout m = Some (0, csv', m')"
  shows "(\<forall>l < 8. lane_eof csv' ! l) \<or>
    (\<exists>d raw. ioread32 b REG_STATUS d = (raw, m_dev m') \<and> st_full_mask (unpack_status raw) AND 0xFF = 0xFF)"
proof -
  obtain dl e where d: "start_deadline (sys_on b cost files) timeout m = (dl, e)" by fastforce
  have "rr_loop (sys_on b cost files) lane_csv_next_order timeout dl (replicate HFT_NUM_LANES False) csv e = Some (0, csv', m')"
    using assms(2) d by (simp add: hft_write_orders_round_robin_def)
  moreover have "hft_disp_get_status (sys_on b cost files) e0 \<noteq> (Inl 0, e1)" for e0 e1
    by (simp add: status_on split: prod.splits)
  ultimately have "(\<forall>l < 8. lane_eof csv' ! l) \<or> all_full_read (sys_on b cost files) m'"
    using rr_loop_result assms(1) by (fastforce simp: done_at_end_def HFT_NUM_LANES_def)
  moreover have "HFT_ALL_LANES_MASK = 0xFF" by code_simp
  ultimately show ?thesis
    using state_read by (fastforce simp: all_full_read_def hft_all_fifos_full_mask_def)
qed

theorem round_robin_success_witness:
  "hft_write_orders_round_robin (sys_on (recording_bus (\<lambda>a. 0x3FC0001)) 50 (\<lambda>f. Inl 2)) lane_csv_next_order
     closed_reader 30000 \<lparr>m_dev = [], m_ns = 0, m_sigint = None, m_out = []\<rparr> =
     Some (0, closed_reader, \<lparr>m_dev = [], m_ns = 100, m_sigint = None, m_out = []\<rparr>) \<and>
   ((\<forall>l < 8. lane_eof closed_reader ! l) \<or>
    (\<exists>d raw. ioread32 (recording_bus (\<lambda>a. 0x3FC0001)) REG_STATUS d = (raw, []) \<and> st_full_mask (unpack_status raw) AND 0xFF = 0xFF))"
proof
  let ?s = "sys_on (recording_bus (\<lambda>a. 0x3FC0001)) 50 (\<lambda>f. Inl 2)"
  let ?m = "\<lambda>n. \<lparr>m_dev = [], m_ns = n, m_sigint = None, m_out = []\<rparr>"
  have f: "hft_all_fifos_full_mask (st_full_mask (unpack_status 0x3FC0001))" by code_simp
  have d: "start_deadline ?s 30000 (?m 0) = (30000, ?m 50)" by (simp add: start_deadline_def now_ms_def sys_on_def)
  have "hft_disp_get_status ?s (?m 50) = (Inr (unpack_status 0x3FC0001), ?m 100)" by (simp add: status_on recording_bus_def)
  then have "rr_loop ?s lane_csv_next_order 30000 30000 (replicate HFT_NUM_LANES False) closed_reader (?m 50) = Some (0, closed_reader, ?m 100)"
    using f by (subst rr_loop.simps) (simp add: HFT_NUM_LANES_def list_all_iff)
  then show r: "hft_write_orders_round_robin ?s lane_csv_next_order closed_reader 30000 (?m 0) = Some (0, closed_reader, ?m 100)"
    by (simp add: hft_write_orders_round_robin_def d)
  show "(\<forall>l < 8. lane_eof closed_reader ! l) \<or>
    (\<exists>d raw. ioread32 (recording_bus (\<lambda>a. 0x3FC0001)) REG_STATUS d = (raw, []) \<and> st_full_mask (unpack_status raw) AND 0xFF = 0xFF)"
    using round_robin_success [OF _ r] by (simp add: closed_reader_def HFT_NUM_LANES_def)
qed

section \<open>The file of trades\<close>

lemma unat_field: "m = 2 ^ k - 1 \<Longrightarrow> k \<le> 32 \<Longrightarrow> unat (drop_bit n (w :: u32) AND m) = unat w div 2 ^ n mod 2 ^ k"
proof -
  assume "m = 2 ^ k - 1" and k: "k \<le> 32"
  then have "drop_bit n w AND m = take_bit k (drop_bit n w)" by (simp only: take_bit_eq_mask mask_eq_exp_minus_1)
  moreover have "take_bit 32 (unat w) = unat w"
    by (rule take_bit_nat_eq_self) (rule order_less_le_trans [OF unsigned_less], simp)
  ultimately show ?thesis
    using k by (simp only: unsigned_take_bit_eq unsigned_drop_bit_eq take_bit_eq_mod [of k "x :: nat" for x] drop_bit_eq_div [of n "x :: nat" for x]) simp
qed

lemma price_split: "unat (p div 100 :: u32) * 100 + unat (p mod 100) = unat p"
  by (simp add: unat_div unat_mod_distrib)

lemma fmt_0u_2: "unat x < 100 \<Longrightarrow> length (fmt_0u 2 x) = 2"
  using dec_digits_length [of "unat x" 2] by (simp add: fmt_0u_def pad_zero_def fmt_u_def)

text \<open>
  A line of the trades file says what the log entry holds: both words in eight hexadecimal
  digits, the engine in bits 26 to 24 and the quantity in bits 22 to 16 of the second word, and
  the price in its low 16 bits, written as dollars and two digits of cents.
\<close>

theorem dump_line_fields:
  "\<exists>h0 h1 eng q dollars cents ts. dump_line i le = dec_digits i @ '',0x'' @ h0 @ '',0x'' @ h1 @ '','' @ eng @ '','' @ q @ '','' @
      dollars @ ''.'' @ cents @ '','' @ ts @ [CHR 0x0A] \<and>
    hex_val h0 = unat (le_word0 le) \<and> hex_val h1 = unat (le_word1 le) \<and>
    digits_val eng = int (unat (le_word1 le) div 2 ^ 24 mod 8) \<and>
    digits_val q = int (unat (le_word1 le) div 2 ^ 16 mod 128) \<and>
    length cents = 2 \<and> digits_val dollars * 100 + digits_val cents = int (unat (le_word1 le) mod 65536) \<and>
    digits_val ts = int (unat (le_word0 le))"
proof -
  let ?w = "le_word1 le" and ?p = "drop_bit 0 (le_word1 le) AND 0xFFFF"
  have p: "unat ?p = unat ?w mod 65536" using unat_field [of "0xFFFF" 16 0 ?w] by simp
  have e: "unat (drop_bit 24 ?w AND 0x7) = unat ?w div 2 ^ 24 mod 8" using unat_field [of "0x7" 3 24 ?w] by simp
  have q: "unat (drop_bit 16 ?w AND 0x7F) = unat ?w div 2 ^ 16 mod 128" using unat_field [of "0x7F" 7 16 ?w] by simp
  have c: "unat (?p mod 100) < 100" by (simp only: unat_mod_distrib) simp
  have d: "digits_val (fmt_u (?p div 100)) * 100 + digits_val (fmt_0u 2 (?p mod 100)) = int (unat ?w mod 65536)"
    using price_split [of ?p] by (simp only: digits_val_fmt_u digits_val_fmt_0u p [symmetric])
  show ?thesis
    unfolding dump_line_def Let_def
    by (intro exI conjI, rule refl)
      (rule hex_val_fmt_x d fmt_0u_2 [OF c] | simp only: digits_val_fmt_u e q)+
qed










end
