(* ===== verification/Seq_Hw.thy ===== *)
theory Seq_Hw
  imports Prelude
begin

text \<open>
  The platform of the SDRAM calibration firmware under
  \<open>src/hw/soc_system/synthesis/submodules/sequencer\<close>: its configuration
  (\<open>sequencer_defines.pre.h\<close>), the register map and the scan-chain macros
  (\<open>sequencer.pre.h\<close>, \<open>system.pre.h\<close>), and access to registers (\<open>sdram_io.pre.h\<close>).

  The firmware is modelled for the configuration that these files fix: Cyclone V, DDR3, hard PHY,
  one rank, run on the HPS. Code that the preprocessor drops there is not modelled, and neither
  are the debug prints and the TCL report, which are empty macros there. The bodies of
  \<open>write_register\<close> and \<open>read_register\<close> and the base addresses of \<open>sdram.h\<close> are not in the
  repository: they are the fields of the platform \<open>'h plat\<close>, over a hardware state \<open>'h\<close>.
\<close>

section \<open>The configuration\<close>

text \<open>Flags and sizes that \<open>sequencer_defines.pre.h\<close> fixes for this memory interface.\<close>

definition LRDIMM :: bool where "LRDIMM = False"
definition RDIMM :: bool where "RDIMM = False"
definition HARD_PHY :: bool where "HARD_PHY = True"
definition HARD_VFIFO :: bool where "HARD_VFIFO = True"
definition DDRX :: bool where "DDRX = True"
definition ENABLE_SUPER_QUICK_CALIBRATION :: bool where "ENABLE_SUPER_QUICK_CALIBRATION = False"
definition BFM_MODE :: bool where "BFM_MODE = False"

definition RW_MGR_MEM_NUMBER_OF_RANKS :: nat where "RW_MGR_MEM_NUMBER_OF_RANKS = 1"
definition NUM_SHADOW_REGS :: nat where "NUM_SHADOW_REGS = 1"
definition RW_MGR_MEM_DATA_MASK_WIDTH :: nat where "RW_MGR_MEM_DATA_MASK_WIDTH = 4"
definition RW_MGR_TRUE_MEM_DATA_MASK_WIDTH :: nat where "RW_MGR_TRUE_MEM_DATA_MASK_WIDTH = 4"
definition RW_MGR_MEM_IF_READ_DQS_WIDTH :: nat where "RW_MGR_MEM_IF_READ_DQS_WIDTH = 4"
definition RW_MGR_MEM_IF_WRITE_DQS_WIDTH :: nat where "RW_MGR_MEM_IF_WRITE_DQS_WIDTH = 4"
definition RW_MGR_MEM_DQ_PER_READ_DQS :: nat where "RW_MGR_MEM_DQ_PER_READ_DQS = 8"
definition RW_MGR_MEM_DQ_PER_WRITE_DQS :: nat where "RW_MGR_MEM_DQ_PER_WRITE_DQS = 8"
definition RW_MGR_MEM_VIRTUAL_GROUPS_PER_READ_DQS :: nat where "RW_MGR_MEM_VIRTUAL_GROUPS_PER_READ_DQS = 1"
definition RW_MGR_MEM_VIRTUAL_GROUPS_PER_WRITE_DQS :: nat where "RW_MGR_MEM_VIRTUAL_GROUPS_PER_WRITE_DQS = 1"
definition RW_MGR_MEM_DATA_WIDTH :: nat where "RW_MGR_MEM_DATA_WIDTH = 32"
definition RW_MGR_MEM_CHIP_SELECT_WIDTH :: nat where "RW_MGR_MEM_CHIP_SELECT_WIDTH = 1"
definition RW_MGR_MEM_NUMBER_OF_CS_PER_DIMM :: nat where "RW_MGR_MEM_NUMBER_OF_CS_PER_DIMM = 1"
definition RW_MGR_MEM_ODT_WIDTH :: nat where "RW_MGR_MEM_ODT_WIDTH = 1"
definition RW_MGR_MEM_ADDRESS_MIRRORING :: nat where "RW_MGR_MEM_ADDRESS_MIRRORING = 0"
definition READ_VALID_FIFO_SIZE :: nat where "READ_VALID_FIFO_SIZE = 16"
definition CALIB_VFIFO_OFFSET :: nat where "CALIB_VFIFO_OFFSET = 10"
definition IO_DLL_CHAIN_LENGTH :: nat where "IO_DLL_CHAIN_LENGTH = 8"
definition IO_DQS_EN_PHASE_MAX :: nat where "IO_DQS_EN_PHASE_MAX = 7"
definition MAX_LATENCY_COUNT_WIDTH :: nat where "MAX_LATENCY_COUNT_WIDTH = 5"

definition AFI_RATE_RATIO :: u32 where "AFI_RATE_RATIO = 1"
definition AFI_CLK_FREQ :: u32 where "AFI_CLK_FREQ = 401"
definition CALIB_LFIFO_OFFSET :: u32 where "CALIB_LFIFO_OFFSET = 12"
definition IO_DELAY_PER_DCHAIN_TAP :: u32 where "IO_DELAY_PER_DCHAIN_TAP = 25"
definition IO_DELAY_PER_OPA_TAP :: u32 where "IO_DELAY_PER_OPA_TAP = 312"
definition IO_DM_OUT_RESERVE :: u32 where "IO_DM_OUT_RESERVE = 0"
definition IO_DQ_OUT_RESERVE :: u32 where "IO_DQ_OUT_RESERVE = 0"
definition IO_DQS_EN_DELAY_OFFSET :: u32 where "IO_DQS_EN_DELAY_OFFSET = 0"
definition IO_DQS_IN_RESERVE :: u32 where "IO_DQS_IN_RESERVE = 4"
definition IO_DQS_OUT_RESERVE :: u32 where "IO_DQS_OUT_RESERVE = 4"
definition IO_IO_OUT2_DELAY_MAX :: u32 where "IO_IO_OUT2_DELAY_MAX = 0"
definition REG_FILE_INIT_SEQ_SIGNATURE :: u32 where "REG_FILE_INIT_SEQ_SIGNATURE = 0x555504d3"
definition TINIT_CNTR0_VAL :: u32 where "TINIT_CNTR0_VAL = 99"
definition TINIT_CNTR1_VAL :: u32 where "TINIT_CNTR1_VAL = 32"
definition TINIT_CNTR2_VAL :: u32 where "TINIT_CNTR2_VAL = 32"
definition TRESET_CNTR0_VAL :: u32 where "TRESET_CNTR0_VAL = 99"
definition TRESET_CNTR1_VAL :: u32 where "TRESET_CNTR1_VAL = 99"
definition TRESET_CNTR2_VAL :: u32 where "TRESET_CNTR2_VAL = 10"

definition RW_MGR_NUM_DM_PER_WRITE_GROUP :: nat where "RW_MGR_NUM_DM_PER_WRITE_GROUP = RW_MGR_MEM_DATA_MASK_WIDTH div RW_MGR_MEM_IF_WRITE_DQS_WIDTH"
definition NUM_RANKS_PER_SHADOW_REG :: nat where "NUM_RANKS_PER_SHADOW_REG = RW_MGR_MEM_NUMBER_OF_RANKS div NUM_SHADOW_REGS"
definition VFIFO_SIZE :: nat where "VFIFO_SIZE = READ_VALID_FIFO_SIZE"
definition RW_MGR_RANK_ALL :: u32 where "RW_MGR_RANK_ALL = 0x00"
definition RW_MGR_ODT_MODE_OFF :: u32 where "RW_MGR_ODT_MODE_OFF = 0"
definition RW_MGR_ODT_MODE_READ_WRITE :: u32 where "RW_MGR_ODT_MODE_READ_WRITE = 1"
definition NUM_READ_TESTS :: nat where "NUM_READ_TESTS = 7"
definition PASS_ALL_BITS :: bool where "PASS_ALL_BITS = True"
definition PASS_ONE_BIT :: bool where "PASS_ONE_BIT = False"

definition CAL_STAGE_NIL :: u32 where "CAL_STAGE_NIL = 0"
definition CAL_STAGE_VFIFO :: u32 where "CAL_STAGE_VFIFO = 1"
definition CAL_STAGE_WLEVEL :: u32 where "CAL_STAGE_WLEVEL = 2"
definition CAL_STAGE_LFIFO :: u32 where "CAL_STAGE_LFIFO = 3"
definition CAL_STAGE_WRITES :: u32 where "CAL_STAGE_WRITES = 4"
definition CAL_STAGE_FULLTEST :: u32 where "CAL_STAGE_FULLTEST = 5"
definition CAL_STAGE_REFRESH :: u32 where "CAL_STAGE_REFRESH = 6"
definition CAL_STAGE_CAL_SKIPPED :: u32 where "CAL_STAGE_CAL_SKIPPED = 7"
definition CAL_STAGE_CAL_ABORTED :: u32 where "CAL_STAGE_CAL_ABORTED = 8"
definition CAL_STAGE_VFIFO_AFTER_WRITES :: u32 where "CAL_STAGE_VFIFO_AFTER_WRITES = 9"
definition CAL_SUBSTAGE_NIL :: u32 where "CAL_SUBSTAGE_NIL = 0"
definition CAL_SUBSTAGE_GUARANTEED_READ :: u32 where "CAL_SUBSTAGE_GUARANTEED_READ = 1"
definition CAL_SUBSTAGE_DQS_EN_PHASE :: u32 where "CAL_SUBSTAGE_DQS_EN_PHASE = 2"
definition CAL_SUBSTAGE_VFIFO_CENTER :: u32 where "CAL_SUBSTAGE_VFIFO_CENTER = 3"
definition CAL_SUBSTAGE_WORKING_DELAY :: u32 where "CAL_SUBSTAGE_WORKING_DELAY = 1"
definition CAL_SUBSTAGE_LAST_WORKING_DELAY :: u32 where "CAL_SUBSTAGE_LAST_WORKING_DELAY = 2"
definition CAL_SUBSTAGE_WLEVEL_COPY :: u32 where "CAL_SUBSTAGE_WLEVEL_COPY = 3"
definition CAL_SUBSTAGE_WRITES_CENTER :: u32 where "CAL_SUBSTAGE_WRITES_CENTER = 1"
definition CAL_SUBSTAGE_READ_LATENCY :: u32 where "CAL_SUBSTAGE_READ_LATENCY = 1"
definition CAL_SUBSTAGE_REFRESH :: u32 where "CAL_SUBSTAGE_REFRESH = 1"

definition CALIB_SKIP_DELAY_LOOPS :: u16 where "CALIB_SKIP_DELAY_LOOPS = push_bit 0 1"
definition CALIB_SKIP_ALL_BITS_CHK :: u16 where "CALIB_SKIP_ALL_BITS_CHK = push_bit 1 1"
definition CALIB_SKIP_DELAY_SWEEPS :: u16 where "CALIB_SKIP_DELAY_SWEEPS = push_bit 2 1"
definition CALIB_SKIP_VFIFO :: u16 where "CALIB_SKIP_VFIFO = push_bit 3 1"
definition CALIB_SKIP_LFIFO :: u16 where "CALIB_SKIP_LFIFO = push_bit 4 1"
definition CALIB_SKIP_WLEVEL :: u16 where "CALIB_SKIP_WLEVEL = push_bit 5 1"
definition CALIB_SKIP_WRITES :: u16 where "CALIB_SKIP_WRITES = push_bit 6 1"
definition CALIB_SKIP_FULL_TEST :: u16 where "CALIB_SKIP_FULL_TEST = push_bit 7 1"
definition CALIB_SKIP_ALL :: u16 where "CALIB_SKIP_ALL = CALIB_SKIP_VFIFO OR CALIB_SKIP_LFIFO OR CALIB_SKIP_WLEVEL OR CALIB_SKIP_WRITES OR CALIB_SKIP_FULL_TEST"

definition SEQ_TINIT_CNTR0_VAL :: u32 where "SEQ_TINIT_CNTR0_VAL = TINIT_CNTR0_VAL"
definition SEQ_TINIT_CNTR1_VAL :: u32 where "SEQ_TINIT_CNTR1_VAL = TINIT_CNTR1_VAL"
definition SEQ_TINIT_CNTR2_VAL :: u32 where "SEQ_TINIT_CNTR2_VAL = TINIT_CNTR2_VAL"
definition SEQ_TRESET_CNTR0_VAL :: u32 where "SEQ_TRESET_CNTR0_VAL = TRESET_CNTR0_VAL"
definition SEQ_TRESET_CNTR1_VAL :: u32 where "SEQ_TRESET_CNTR1_VAL = TRESET_CNTR1_VAL"
definition SEQ_TRESET_CNTR2_VAL :: u32 where "SEQ_TRESET_CNTR2_VAL = TRESET_CNTR2_VAL"

section \<open>Register addresses\<close>

definition SEQUENCER_SCC_MGR_INST_BASE :: u32 where "SEQUENCER_SCC_MGR_INST_BASE = 0x58000"
definition SEQUENCER_REG_FILE_INST_BASE :: u32 where "SEQUENCER_REG_FILE_INST_BASE = 0x70000"
definition BASE_PHY_MGR :: u32 where "BASE_PHY_MGR = 0x00088000"
definition BASE_RW_MGR :: u32 where "BASE_RW_MGR = 0x00090000"
definition BASE_DATA_MGR :: u32 where "BASE_DATA_MGR = 0x00098000"
definition BASE_SCC_MGR :: u32 where "BASE_SCC_MGR = SEQUENCER_SCC_MGR_INST_BASE"
definition BASE_REG_FILE :: u32 where "BASE_REG_FILE = SEQUENCER_REG_FILE_INST_BASE"
definition BASE_MMR :: u32 where "BASE_MMR = 0x000C0000"

definition RW_MGR_RUN_SINGLE_GROUP :: u32 where "RW_MGR_RUN_SINGLE_GROUP = BASE_RW_MGR"
definition RW_MGR_RUN_ALL_GROUPS :: u32 where "RW_MGR_RUN_ALL_GROUPS = BASE_RW_MGR + 0x0400"
definition RW_MGR_DI_BASE :: u32 where "RW_MGR_DI_BASE = BASE_RW_MGR + 0x0020"
definition RW_MGR_LOAD_CNTR_0 :: u32 where "RW_MGR_LOAD_CNTR_0 = BASE_RW_MGR + 0x0800"
definition RW_MGR_LOAD_CNTR_1 :: u32 where "RW_MGR_LOAD_CNTR_1 = BASE_RW_MGR + 0x0804"
definition RW_MGR_LOAD_CNTR_2 :: u32 where "RW_MGR_LOAD_CNTR_2 = BASE_RW_MGR + 0x0808"
definition RW_MGR_LOAD_CNTR_3 :: u32 where "RW_MGR_LOAD_CNTR_3 = BASE_RW_MGR + 0x080C"
definition RW_MGR_LOAD_JUMP_ADD_0 :: u32 where "RW_MGR_LOAD_JUMP_ADD_0 = BASE_RW_MGR + 0x0C00"
definition RW_MGR_LOAD_JUMP_ADD_1 :: u32 where "RW_MGR_LOAD_JUMP_ADD_1 = BASE_RW_MGR + 0x0C04"
definition RW_MGR_LOAD_JUMP_ADD_2 :: u32 where "RW_MGR_LOAD_JUMP_ADD_2 = BASE_RW_MGR + 0x0C08"
definition RW_MGR_LOAD_JUMP_ADD_3 :: u32 where "RW_MGR_LOAD_JUMP_ADD_3 = BASE_RW_MGR + 0x0C0C"
definition RW_MGR_RESET_READ_DATAPATH :: u32 where "RW_MGR_RESET_READ_DATAPATH = BASE_RW_MGR + 0x1000"
definition RW_MGR_SOFT_RESET :: u32 where "RW_MGR_SOFT_RESET = BASE_RW_MGR + 0x2000"
definition RW_MGR_SET_CS_AND_ODT_MASK :: u32 where "RW_MGR_SET_CS_AND_ODT_MASK = BASE_RW_MGR + 0x1400"
definition RW_MGR_SET_ACTIVE_RANK :: u32 where "RW_MGR_SET_ACTIVE_RANK = BASE_RW_MGR + 0x2400"
definition RW_MGR_LOOPBACK_MODE :: u32 where "RW_MGR_LOOPBACK_MODE = BASE_RW_MGR + 0x0200"
definition RW_MGR_ENABLE_REFRESH :: u32 where "RW_MGR_ENABLE_REFRESH = BASE_RW_MGR + 0x3000"
definition REG_FILE_SIGNATURE :: u32 where "REG_FILE_SIGNATURE = BASE_REG_FILE + 0x0000"
definition REG_FILE_DEBUG_DATA_ADDR :: u32 where "REG_FILE_DEBUG_DATA_ADDR = BASE_REG_FILE + 0x0004"
definition REG_FILE_CUR_STAGE :: u32 where "REG_FILE_CUR_STAGE = BASE_REG_FILE + 0x0008"
definition REG_FILE_FOM :: u32 where "REG_FILE_FOM = BASE_REG_FILE + 0x000C"
definition REG_FILE_FAILING_STAGE :: u32 where "REG_FILE_FAILING_STAGE = BASE_REG_FILE + 0x0010"
definition REG_FILE_DEBUG1 :: u32 where "REG_FILE_DEBUG1 = BASE_REG_FILE + 0x0014"
definition REG_FILE_DEBUG2 :: u32 where "REG_FILE_DEBUG2 = BASE_REG_FILE + 0x0018"
definition REG_FILE_DTAPS_PER_PTAP :: u32 where "REG_FILE_DTAPS_PER_PTAP = BASE_REG_FILE + 0x001C"
definition REG_FILE_TRK_SAMPLE_COUNT :: u32 where "REG_FILE_TRK_SAMPLE_COUNT = BASE_REG_FILE + 0x0020"
definition REG_FILE_TRK_LONGIDLE :: u32 where "REG_FILE_TRK_LONGIDLE = BASE_REG_FILE + 0x0024"
definition REG_FILE_DELAYS :: u32 where "REG_FILE_DELAYS = BASE_REG_FILE + 0x0028"
definition REG_FILE_TRK_RW_MGR_ADDR :: u32 where "REG_FILE_TRK_RW_MGR_ADDR = BASE_REG_FILE + 0x002C"
definition REG_FILE_TRK_READ_DQS_WIDTH :: u32 where "REG_FILE_TRK_READ_DQS_WIDTH = BASE_REG_FILE + 0x0030"
definition REG_FILE_TRK_RFSH :: u32 where "REG_FILE_TRK_RFSH = BASE_REG_FILE + 0x0034"
definition CTRL_CONFIG_REG :: u32 where "CTRL_CONFIG_REG = BASE_MMR + 0x0000"
definition PHY_MGR_PHY_RLAT :: u32 where "PHY_MGR_PHY_RLAT = BASE_PHY_MGR + 0x4000"
definition PHY_MGR_RESET_MEM_STBL :: u32 where "PHY_MGR_RESET_MEM_STBL = BASE_PHY_MGR + 0x4004"
definition PHY_MGR_MUX_SEL :: u32 where "PHY_MGR_MUX_SEL = BASE_PHY_MGR + 0x4008"
definition PHY_MGR_CAL_STATUS :: u32 where "PHY_MGR_CAL_STATUS = BASE_PHY_MGR + 0x400c"
definition PHY_MGR_CAL_DEBUG_INFO :: u32 where "PHY_MGR_CAL_DEBUG_INFO = BASE_PHY_MGR + 0x4010"
definition PHY_MGR_VFIFO_RD_EN_OVRD :: u32 where "PHY_MGR_VFIFO_RD_EN_OVRD = BASE_PHY_MGR + 0x4014"
definition PHY_MGR_AFI_WLAT :: u32 where "PHY_MGR_AFI_WLAT = BASE_PHY_MGR + 0x4018"
definition PHY_MGR_AFI_RLAT :: u32 where "PHY_MGR_AFI_RLAT = BASE_PHY_MGR + 0x401c"
definition PHY_MGR_CMD_INC_VFIFO_FR :: u32 where "PHY_MGR_CMD_INC_VFIFO_FR = BASE_PHY_MGR + 0x0000"
definition PHY_MGR_CMD_INC_VFIFO_HR :: u32 where "PHY_MGR_CMD_INC_VFIFO_HR = BASE_PHY_MGR + 0x0004"
definition PHY_MGR_CMD_INC_VFIFO_HARD_PHY :: u32 where "PHY_MGR_CMD_INC_VFIFO_HARD_PHY = BASE_PHY_MGR + 0x0004"
definition PHY_MGR_CMD_FIFO_RESET :: u32 where "PHY_MGR_CMD_FIFO_RESET = BASE_PHY_MGR + 0x0008"
definition PHY_MGR_CMD_INC_VFIFO_FR_HR :: u32 where "PHY_MGR_CMD_INC_VFIFO_FR_HR = BASE_PHY_MGR + 0x000C"
definition PHY_MGR_CMD_INC_VFIFO_QR :: u32 where "PHY_MGR_CMD_INC_VFIFO_QR = BASE_PHY_MGR + 0x0010"
definition PHY_MGR_MAX_RLAT_WIDTH :: u32 where "PHY_MGR_MAX_RLAT_WIDTH = BASE_PHY_MGR + 0x0000"
definition PHY_MGR_MAX_AFI_WLAT_WIDTH :: u32 where "PHY_MGR_MAX_AFI_WLAT_WIDTH = BASE_PHY_MGR + 0x0004"
definition PHY_MGR_MAX_AFI_RLAT_WIDTH :: u32 where "PHY_MGR_MAX_AFI_RLAT_WIDTH = BASE_PHY_MGR + 0x0008"
definition PHY_MGR_CALIB_SKIP_STEPS :: u32 where "PHY_MGR_CALIB_SKIP_STEPS = BASE_PHY_MGR + 0x000c"
definition PHY_MGR_CALIB_VFIFO_OFFSET :: u32 where "PHY_MGR_CALIB_VFIFO_OFFSET = BASE_PHY_MGR + 0x0010"
definition PHY_MGR_CALIB_LFIFO_OFFSET :: u32 where "PHY_MGR_CALIB_LFIFO_OFFSET = BASE_PHY_MGR + 0x0014"
definition PHY_MGR_RDIMM :: u32 where "PHY_MGR_RDIMM = BASE_PHY_MGR + 0x0018"
definition PHY_MGR_MEM_T_WL :: u32 where "PHY_MGR_MEM_T_WL = BASE_PHY_MGR + 0x001c"
definition PHY_MGR_MEM_T_RL :: u32 where "PHY_MGR_MEM_T_RL = BASE_PHY_MGR + 0x0020"
definition DATA_MGR_DRAM_CFG :: u32 where "DATA_MGR_DRAM_CFG = BASE_DATA_MGR + 0x0000"
definition DATA_MGR_MEM_T_WL :: u32 where "DATA_MGR_MEM_T_WL = BASE_DATA_MGR + 0x0004"
definition DATA_MGR_MEM_T_ADD :: u32 where "DATA_MGR_MEM_T_ADD = BASE_DATA_MGR + 0x0008"
definition DATA_MGR_MEM_T_RL :: u32 where "DATA_MGR_MEM_T_RL = BASE_DATA_MGR + 0x000C"
definition DATA_MGR_MEM_T_RFC :: u32 where "DATA_MGR_MEM_T_RFC = BASE_DATA_MGR + 0x0010"
definition DATA_MGR_MEM_T_REFI :: u32 where "DATA_MGR_MEM_T_REFI = BASE_DATA_MGR + 0x0014"
definition DATA_MGR_MEM_T_WR :: u32 where "DATA_MGR_MEM_T_WR = BASE_DATA_MGR + 0x0018"
definition DATA_MGR_MEM_T_MRD :: u32 where "DATA_MGR_MEM_T_MRD = BASE_DATA_MGR + 0x001C"
definition DATA_MGR_COL_WIDTH :: u32 where "DATA_MGR_COL_WIDTH = BASE_DATA_MGR + 0x0020"
definition DATA_MGR_ROW_WIDTH :: u32 where "DATA_MGR_ROW_WIDTH = BASE_DATA_MGR + 0x0024"
definition DATA_MGR_BANK_WIDTH :: u32 where "DATA_MGR_BANK_WIDTH = BASE_DATA_MGR + 0x0028"
definition DATA_MGR_CS_WIDTH :: u32 where "DATA_MGR_CS_WIDTH = BASE_DATA_MGR + 0x002C"
definition DATA_MGR_ITF_WIDTH :: u32 where "DATA_MGR_ITF_WIDTH = BASE_DATA_MGR + 0x0030"
definition DATA_MGR_DVC_WIDTH :: u32 where "DATA_MGR_DVC_WIDTH = BASE_DATA_MGR + 0x0034"
definition SCC_MGR_GROUP_COUNTER :: u32 where "SCC_MGR_GROUP_COUNTER = BASE_SCC_MGR + 0x0000"
definition SCC_MGR_DQS_IN_DELAY :: u32 where "SCC_MGR_DQS_IN_DELAY = BASE_SCC_MGR + 0x0100"
definition SCC_MGR_DQS_EN_PHASE :: u32 where "SCC_MGR_DQS_EN_PHASE = BASE_SCC_MGR + 0x0200"
definition SCC_MGR_DQS_EN_DELAY :: u32 where "SCC_MGR_DQS_EN_DELAY = BASE_SCC_MGR + 0x0300"
definition SCC_MGR_DQDQS_OUT_PHASE :: u32 where "SCC_MGR_DQDQS_OUT_PHASE = BASE_SCC_MGR + 0x0400"
definition SCC_MGR_OCT_OUT1_DELAY :: u32 where "SCC_MGR_OCT_OUT1_DELAY = BASE_SCC_MGR + 0x0500"
definition SCC_MGR_IO_OUT1_DELAY :: u32 where "SCC_MGR_IO_OUT1_DELAY = BASE_SCC_MGR + 0x0700"
definition SCC_MGR_IO_IN_DELAY :: u32 where "SCC_MGR_IO_IN_DELAY = BASE_SCC_MGR + 0x0900"
definition SCC_MGR_DQS_EN_DELAY_GATE :: u32 where "SCC_MGR_DQS_EN_DELAY_GATE = BASE_SCC_MGR + 0x0600"
definition SCC_MGR_IO_OE_DELAY :: u32 where "SCC_MGR_IO_OE_DELAY = BASE_SCC_MGR + 0x0800"
definition SCC_MGR_HHP_GLOBALS :: u32 where "SCC_MGR_HHP_GLOBALS = BASE_SCC_MGR + 0x0A00"
definition SCC_MGR_HHP_RFILE :: u32 where "SCC_MGR_HHP_RFILE = BASE_SCC_MGR + 0x0B00"
definition SCC_MGR_DQS_ENA :: u32 where "SCC_MGR_DQS_ENA = BASE_SCC_MGR + 0x0E00"
definition SCC_MGR_DQS_IO_ENA :: u32 where "SCC_MGR_DQS_IO_ENA = BASE_SCC_MGR + 0x0E04"
definition SCC_MGR_DQ_ENA :: u32 where "SCC_MGR_DQ_ENA = BASE_SCC_MGR + 0x0E08"
definition SCC_MGR_DM_ENA :: u32 where "SCC_MGR_DM_ENA = BASE_SCC_MGR + 0x0E0C"
definition SCC_MGR_UPD :: u32 where "SCC_MGR_UPD = BASE_SCC_MGR + 0x0E20"
definition SCC_MGR_ACTIVE_RANK :: u32 where "SCC_MGR_ACTIVE_RANK = BASE_SCC_MGR + 0x0E40"
definition SCC_MGR_AFI_CAL_INIT :: u32 where "SCC_MGR_AFI_CAL_INIT = BASE_SCC_MGR + 0x0D00"
definition RW_MGR_INST_ROM_WRITE :: u32 where "RW_MGR_INST_ROM_WRITE = BASE_RW_MGR + 0x1800"
definition RW_MGR_AC_ROM_WRITE :: u32 where "RW_MGR_AC_ROM_WRITE = BASE_RW_MGR + 0x1C00"

definition SCC_MGR_HHP_EXTRAS_OFFSET :: u32 where "SCC_MGR_HHP_EXTRAS_OFFSET = 0"
definition SCC_MGR_HHP_DQSE_MAP_OFFSET :: u32 where "SCC_MGR_HHP_DQSE_MAP_OFFSET = 1"

lemmas base_defs = SEQUENCER_SCC_MGR_INST_BASE_def SEQUENCER_REG_FILE_INST_BASE_def BASE_PHY_MGR_def BASE_RW_MGR_def
  BASE_DATA_MGR_def BASE_SCC_MGR_def BASE_REG_FILE_def BASE_MMR_def
lemmas rw_mgr_defs =
  RW_MGR_RUN_SINGLE_GROUP_def RW_MGR_RUN_ALL_GROUPS_def RW_MGR_DI_BASE_def RW_MGR_LOAD_CNTR_0_def
  RW_MGR_LOAD_CNTR_1_def RW_MGR_LOAD_CNTR_2_def RW_MGR_LOAD_CNTR_3_def RW_MGR_LOAD_JUMP_ADD_0_def
  RW_MGR_LOAD_JUMP_ADD_1_def RW_MGR_LOAD_JUMP_ADD_2_def RW_MGR_LOAD_JUMP_ADD_3_def
  RW_MGR_RESET_READ_DATAPATH_def RW_MGR_SOFT_RESET_def RW_MGR_SET_CS_AND_ODT_MASK_def RW_MGR_SET_ACTIVE_RANK_def
  RW_MGR_LOOPBACK_MODE_def RW_MGR_ENABLE_REFRESH_def RW_MGR_INST_ROM_WRITE_def RW_MGR_AC_ROM_WRITE_def
lemmas reg_file_defs =
  REG_FILE_SIGNATURE_def REG_FILE_DEBUG_DATA_ADDR_def REG_FILE_CUR_STAGE_def REG_FILE_FOM_def
  REG_FILE_FAILING_STAGE_def REG_FILE_DEBUG1_def REG_FILE_DEBUG2_def REG_FILE_DTAPS_PER_PTAP_def
  REG_FILE_TRK_SAMPLE_COUNT_def REG_FILE_TRK_LONGIDLE_def REG_FILE_DELAYS_def REG_FILE_TRK_RW_MGR_ADDR_def
  REG_FILE_TRK_READ_DQS_WIDTH_def REG_FILE_TRK_RFSH_def
lemmas mmr_defs =
  CTRL_CONFIG_REG_def
lemmas phy_mgr_defs =
  PHY_MGR_PHY_RLAT_def PHY_MGR_RESET_MEM_STBL_def PHY_MGR_MUX_SEL_def PHY_MGR_CAL_STATUS_def
  PHY_MGR_CAL_DEBUG_INFO_def PHY_MGR_VFIFO_RD_EN_OVRD_def PHY_MGR_AFI_WLAT_def PHY_MGR_AFI_RLAT_def
  PHY_MGR_CMD_INC_VFIFO_FR_def PHY_MGR_CMD_INC_VFIFO_HR_def PHY_MGR_CMD_INC_VFIFO_HARD_PHY_def
  PHY_MGR_CMD_FIFO_RESET_def PHY_MGR_CMD_INC_VFIFO_FR_HR_def PHY_MGR_CMD_INC_VFIFO_QR_def
  PHY_MGR_MAX_RLAT_WIDTH_def PHY_MGR_MAX_AFI_WLAT_WIDTH_def PHY_MGR_MAX_AFI_RLAT_WIDTH_def
  PHY_MGR_CALIB_SKIP_STEPS_def PHY_MGR_CALIB_VFIFO_OFFSET_def PHY_MGR_CALIB_LFIFO_OFFSET_def PHY_MGR_RDIMM_def
  PHY_MGR_MEM_T_WL_def PHY_MGR_MEM_T_RL_def
lemmas data_mgr_defs =
  DATA_MGR_DRAM_CFG_def DATA_MGR_MEM_T_WL_def DATA_MGR_MEM_T_ADD_def DATA_MGR_MEM_T_RL_def
  DATA_MGR_MEM_T_RFC_def DATA_MGR_MEM_T_REFI_def DATA_MGR_MEM_T_WR_def DATA_MGR_MEM_T_MRD_def
  DATA_MGR_COL_WIDTH_def DATA_MGR_ROW_WIDTH_def DATA_MGR_BANK_WIDTH_def DATA_MGR_CS_WIDTH_def
  DATA_MGR_ITF_WIDTH_def DATA_MGR_DVC_WIDTH_def
lemmas scc_mgr_defs =
  SCC_MGR_GROUP_COUNTER_def SCC_MGR_DQS_IN_DELAY_def SCC_MGR_DQS_EN_PHASE_def SCC_MGR_DQS_EN_DELAY_def
  SCC_MGR_DQDQS_OUT_PHASE_def SCC_MGR_OCT_OUT1_DELAY_def SCC_MGR_IO_OUT1_DELAY_def SCC_MGR_IO_IN_DELAY_def
  SCC_MGR_DQS_EN_DELAY_GATE_def SCC_MGR_IO_OE_DELAY_def SCC_MGR_HHP_GLOBALS_def SCC_MGR_HHP_RFILE_def
  SCC_MGR_DQS_ENA_def SCC_MGR_DQS_IO_ENA_def SCC_MGR_DQ_ENA_def SCC_MGR_DM_ENA_def SCC_MGR_UPD_def
  SCC_MGR_ACTIVE_RANK_def SCC_MGR_AFI_CAL_INIT_def
lemmas size_defs =
  LRDIMM_def RDIMM_def HARD_PHY_def HARD_VFIFO_def DDRX_def ENABLE_SUPER_QUICK_CALIBRATION_def BFM_MODE_def
  RW_MGR_MEM_NUMBER_OF_RANKS_def NUM_SHADOW_REGS_def RW_MGR_MEM_DATA_MASK_WIDTH_def
  RW_MGR_TRUE_MEM_DATA_MASK_WIDTH_def RW_MGR_MEM_IF_READ_DQS_WIDTH_def RW_MGR_MEM_IF_WRITE_DQS_WIDTH_def
  RW_MGR_MEM_DQ_PER_READ_DQS_def RW_MGR_MEM_DQ_PER_WRITE_DQS_def RW_MGR_MEM_VIRTUAL_GROUPS_PER_READ_DQS_def
  RW_MGR_MEM_VIRTUAL_GROUPS_PER_WRITE_DQS_def RW_MGR_MEM_DATA_WIDTH_def RW_MGR_MEM_CHIP_SELECT_WIDTH_def
  RW_MGR_MEM_NUMBER_OF_CS_PER_DIMM_def RW_MGR_MEM_ODT_WIDTH_def RW_MGR_MEM_ADDRESS_MIRRORING_def
  READ_VALID_FIFO_SIZE_def CALIB_VFIFO_OFFSET_def IO_DLL_CHAIN_LENGTH_def IO_DQS_EN_PHASE_MAX_def
  MAX_LATENCY_COUNT_WIDTH_def RW_MGR_NUM_DM_PER_WRITE_GROUP_def NUM_RANKS_PER_SHADOW_REG_def VFIFO_SIZE_def

section \<open>The platform and the state of the firmware\<close>

record 'h plat =
  write_register :: "u32 \<Rightarrow> u32 \<Rightarrow> u32 \<Rightarrow> 'h \<Rightarrow> 'h"
  read_register :: "u32 \<Rightarrow> u32 \<Rightarrow> 'h \<Rightarrow> u32 \<times> 'h"
  HPS_SDR_BASE :: u32
  APB_BASE_SCC_MGR :: u32
  APB_BASE_PHY_MGR :: u32
  APB_BASE_RW_MGR :: u32
  APB_BASE_DATA_MGR :: u32
  APB_BASE_REG_FILE :: u32
  APB_BASE_MMR :: u32

record param_t =
  dm_correct_mask :: u32
  read_correct_mask :: u32
  read_correct_mask_vg :: u32
  write_correct_mask :: u32
  write_correct_mask_vg :: u32
  skip_ranks :: "bool list"
  skip_groups :: u32
  skip_shadow_regs :: "bool list"

record gbl_t =
  phy_debug_mode_flags :: u32
  curr_read_lat :: u32
  curr_write_lat :: u32
  error_substage :: u32
  error_stage :: u32
  error_group :: u32
  fom_in :: u32
  fom_out :: u32
  rw_wl_nop_cycles :: u32

text \<open>The global variables of \<open>sequencer.pre.c\<close> and the hardware.\<close>

record 'h seq =
  gbl :: gbl_t
  param :: param_t
  dyn_calib_steps :: u16
  skip_delay_mask :: u16
  hw :: 'h

section \<open>Register access\<close>

definition MGR_SELECT_MASK :: u32 where "MGR_SELECT_MASK = 0xf8000"

definition AVL_TO_APB :: "'h plat \<Rightarrow> u32 \<Rightarrow> u32" where
  "AVL_TO_APB P a =
     (if a AND MGR_SELECT_MASK = BASE_PHY_MGR then APB_BASE_PHY_MGR P OR (drop_bit (14 - 6) a AND push_bit 6 0x1) OR (a AND 0x3f)
      else if a AND MGR_SELECT_MASK = BASE_RW_MGR then APB_BASE_RW_MGR P OR (a AND 0x1fff)
      else if a AND MGR_SELECT_MASK = BASE_DATA_MGR then APB_BASE_DATA_MGR P OR (a AND 0x7ff)
      else if a AND MGR_SELECT_MASK = BASE_SCC_MGR then APB_BASE_SCC_MGR P OR (a AND 0xfff)
      else if a AND MGR_SELECT_MASK = BASE_REG_FILE then APB_BASE_REG_FILE P OR (a AND 0x7ff)
      else if a AND MGR_SELECT_MASK = BASE_MMR then APB_BASE_MMR P OR (a AND 0xfff)
      else - 1)"

definition IOWR_32DIRECT :: "'h plat \<Rightarrow> u32 \<Rightarrow> u32 \<Rightarrow> u32 \<Rightarrow> 'h seq \<Rightarrow> 'h seq" where
  "IOWR_32DIRECT P base off data s =
     s\<lparr>hw := write_register P (HPS_SDR_BASE P) (AVL_TO_APB P (base + off)) data (hw s)\<rparr>"

definition IORD_32DIRECT :: "'h plat \<Rightarrow> u32 \<Rightarrow> u32 \<Rightarrow> 'h seq \<Rightarrow> u32 \<times> 'h seq" where
  "IORD_32DIRECT P base off s =
     (let (v, h) = read_register P (HPS_SDR_BASE P) (AVL_TO_APB P (base + off)) (hw s) in (v, s\<lparr>hw := h\<rparr>))"

text \<open>
  Statements of a function in their order, a loop over the values of its variable, and a list of
  register writes.
\<close>

definition perform :: "('s \<Rightarrow> 's) list \<Rightarrow> 's \<Rightarrow> 's" where
  "perform fs s = fold (\<lambda>f. f) fs s"

definition for_each :: "'a list \<Rightarrow> ('a \<Rightarrow> 's \<Rightarrow> 's) \<Rightarrow> 's \<Rightarrow> 's" where
  "for_each xs f s = fold f xs s"

definition writes :: "'h plat \<Rightarrow> (u32 \<times> u32 \<times> u32) list \<Rightarrow> 'h seq \<Rightarrow> 'h seq" where
  "writes P ws s = fold (\<lambda>(base, off, data). IOWR_32DIRECT P base off data) ws s"

text \<open>The values of a loop \<open>for (r = 0; r < n; r += k)\<close>.\<close>

definition ranks :: "nat list" where
  "ranks = filter (\<lambda>r. r mod NUM_RANKS_PER_SHADOW_REG = 0) [0..<RW_MGR_MEM_NUMBER_OF_RANKS]"

section \<open>Scan-chain manager macros\<close>

definition WRITE_SCC_DQS_IN_DELAY :: "'h plat \<Rightarrow> u32 \<Rightarrow> u32 \<Rightarrow> 'h seq \<Rightarrow> 'h seq" where
  "WRITE_SCC_DQS_IN_DELAY P grp delay = IOWR_32DIRECT P SCC_MGR_DQS_IN_DELAY (push_bit 2 grp) delay"

definition WRITE_SCC_DQS_EN_DELAY :: "'h plat \<Rightarrow> u32 \<Rightarrow> u32 \<Rightarrow> 'h seq \<Rightarrow> 'h seq" where
  "WRITE_SCC_DQS_EN_DELAY P grp delay = IOWR_32DIRECT P SCC_MGR_DQS_EN_DELAY (push_bit 2 grp) (delay + IO_DQS_EN_DELAY_OFFSET)"

definition WRITE_SCC_DQS_EN_PHASE :: "'h plat \<Rightarrow> u32 \<Rightarrow> u32 \<Rightarrow> 'h seq \<Rightarrow> 'h seq" where
  "WRITE_SCC_DQS_EN_PHASE P grp phase = IOWR_32DIRECT P SCC_MGR_DQS_EN_PHASE (push_bit 2 grp) phase"

definition WRITE_SCC_DQDQS_OUT_PHASE :: "'h plat \<Rightarrow> u32 \<Rightarrow> u32 \<Rightarrow> 'h seq \<Rightarrow> 'h seq" where
  "WRITE_SCC_DQDQS_OUT_PHASE P grp phase = IOWR_32DIRECT P SCC_MGR_DQDQS_OUT_PHASE (push_bit 2 grp) phase"

definition WRITE_SCC_OCT_OUT1_DELAY :: "'h plat \<Rightarrow> u32 \<Rightarrow> u32 \<Rightarrow> 'h seq \<Rightarrow> 'h seq" where
  "WRITE_SCC_OCT_OUT1_DELAY P grp delay = IOWR_32DIRECT P SCC_MGR_OCT_OUT1_DELAY (push_bit 2 grp) delay"

definition WRITE_SCC_DQ_OUT1_DELAY :: "'h plat \<Rightarrow> u32 \<Rightarrow> u32 \<Rightarrow> 'h seq \<Rightarrow> 'h seq" where
  "WRITE_SCC_DQ_OUT1_DELAY P pin delay = IOWR_32DIRECT P SCC_MGR_IO_OUT1_DELAY (push_bit 2 pin) delay"

definition WRITE_SCC_DQ_IN_DELAY :: "'h plat \<Rightarrow> u32 \<Rightarrow> u32 \<Rightarrow> 'h seq \<Rightarrow> 'h seq" where
  "WRITE_SCC_DQ_IN_DELAY P pin delay = IOWR_32DIRECT P SCC_MGR_IO_IN_DELAY (push_bit 2 pin) delay"

definition WRITE_SCC_HHP_EXTRAS :: "'h plat \<Rightarrow> u32 \<Rightarrow> 'h seq \<Rightarrow> 'h seq" where
  "WRITE_SCC_HHP_EXTRAS P val = IOWR_32DIRECT P SCC_MGR_HHP_GLOBALS SCC_MGR_HHP_EXTRAS_OFFSET val"

definition WRITE_SCC_HHP_DQSE_MAP :: "'h plat \<Rightarrow> u32 \<Rightarrow> 'h seq \<Rightarrow> 'h seq" where
  "WRITE_SCC_HHP_DQSE_MAP P val = IOWR_32DIRECT P SCC_MGR_HHP_GLOBALS SCC_MGR_HHP_DQSE_MAP_OFFSET val"

definition WRITE_SCC_DQS_IO_OUT1_DELAY :: "'h plat \<Rightarrow> u32 \<Rightarrow> 'h seq \<Rightarrow> 'h seq" where
  "WRITE_SCC_DQS_IO_OUT1_DELAY P delay = IOWR_32DIRECT P SCC_MGR_IO_OUT1_DELAY (push_bit 2 (of_nat RW_MGR_MEM_DQ_PER_WRITE_DQS)) delay"

definition WRITE_SCC_DQS_IO_IN_DELAY :: "'h plat \<Rightarrow> u32 \<Rightarrow> 'h seq \<Rightarrow> 'h seq" where
  "WRITE_SCC_DQS_IO_IN_DELAY P delay = IOWR_32DIRECT P SCC_MGR_IO_IN_DELAY (push_bit 2 (of_nat RW_MGR_MEM_DQ_PER_WRITE_DQS)) delay"

definition WRITE_SCC_DM_IO_OUT1_DELAY :: "'h plat \<Rightarrow> u32 \<Rightarrow> u32 \<Rightarrow> 'h seq \<Rightarrow> 'h seq" where
  "WRITE_SCC_DM_IO_OUT1_DELAY P pin delay =
     IOWR_32DIRECT P SCC_MGR_IO_OUT1_DELAY (push_bit 2 (of_nat RW_MGR_MEM_DQ_PER_WRITE_DQS + 1 + pin)) delay"

definition WRITE_SCC_DM_IO_IN_DELAY :: "'h plat \<Rightarrow> u32 \<Rightarrow> u32 \<Rightarrow> 'h seq \<Rightarrow> 'h seq" where
  "WRITE_SCC_DM_IO_IN_DELAY P pin delay =
     IOWR_32DIRECT P SCC_MGR_IO_IN_DELAY (push_bit 2 (of_nat RW_MGR_MEM_DQ_PER_WRITE_DQS + 1 + pin)) delay"

text \<open>On the HPS the second output delay and the bypasses do not exist: writing them does nothing, reading gives 0.\<close>

definition WRITE_SCC_OCT_OUT2_DELAY :: "'h plat \<Rightarrow> u32 \<Rightarrow> u32 \<Rightarrow> 'h seq \<Rightarrow> 'h seq" where
  "WRITE_SCC_OCT_OUT2_DELAY P grp delay s = s"

definition WRITE_SCC_DQS_BYPASS :: "'h plat \<Rightarrow> u32 \<Rightarrow> u32 \<Rightarrow> 'h seq \<Rightarrow> 'h seq" where
  "WRITE_SCC_DQS_BYPASS P grp bypass s = s"

definition WRITE_SCC_DQ_OUT2_DELAY :: "'h plat \<Rightarrow> u32 \<Rightarrow> u32 \<Rightarrow> 'h seq \<Rightarrow> 'h seq" where
  "WRITE_SCC_DQ_OUT2_DELAY P pin delay s = s"

definition WRITE_SCC_DQ_BYPASS :: "'h plat \<Rightarrow> u32 \<Rightarrow> u32 \<Rightarrow> 'h seq \<Rightarrow> 'h seq" where
  "WRITE_SCC_DQ_BYPASS P pin bypass s = s"

definition WRITE_SCC_RFIFO_MODE :: "'h plat \<Rightarrow> u32 \<Rightarrow> u32 \<Rightarrow> 'h seq \<Rightarrow> 'h seq" where
  "WRITE_SCC_RFIFO_MODE P pin mode s = s"

definition WRITE_SCC_DQS_IO_OUT2_DELAY :: "'h plat \<Rightarrow> u32 \<Rightarrow> 'h seq \<Rightarrow> 'h seq" where
  "WRITE_SCC_DQS_IO_OUT2_DELAY P delay s = s"

definition WRITE_SCC_DM_IO_OUT2_DELAY :: "'h plat \<Rightarrow> u32 \<Rightarrow> u32 \<Rightarrow> 'h seq \<Rightarrow> 'h seq" where
  "WRITE_SCC_DM_IO_OUT2_DELAY P pin delay s = s"

definition WRITE_SCC_DM_BYPASS :: "'h plat \<Rightarrow> u32 \<Rightarrow> u32 \<Rightarrow> 'h seq \<Rightarrow> 'h seq" where
  "WRITE_SCC_DM_BYPASS P pin bypass s = s"

definition READ_SCC_DQS_IO_OUT1_DELAY :: "'h plat \<Rightarrow> 'h seq \<Rightarrow> u32 \<times> 'h seq" where
  "READ_SCC_DQS_IO_OUT1_DELAY P = IORD_32DIRECT P SCC_MGR_IO_OUT1_DELAY (push_bit 2 (of_nat RW_MGR_MEM_DQ_PER_WRITE_DQS))"

definition READ_SCC_DQ_OUT2_DELAY :: "u32 \<Rightarrow> u32" where "READ_SCC_DQ_OUT2_DELAY pin = 0"
definition READ_SCC_DQS_IO_OUT2_DELAY :: u32 where "READ_SCC_DQS_IO_OUT2_DELAY = 0"
definition READ_SCC_DM_IO_OUT2_DELAY :: "u32 \<Rightarrow> u32" where "READ_SCC_DM_IO_OUT2_DELAY pin = 0"
definition READ_SCC_OCT_OUT2_DELAY :: "u32 \<Rightarrow> u32" where "READ_SCC_OCT_OUT2_DELAY grp = 0"

lemmas scc_macro_defs = WRITE_SCC_DQS_IN_DELAY_def WRITE_SCC_DQS_EN_DELAY_def WRITE_SCC_DQS_EN_PHASE_def
  WRITE_SCC_DQDQS_OUT_PHASE_def WRITE_SCC_OCT_OUT1_DELAY_def WRITE_SCC_DQ_OUT1_DELAY_def WRITE_SCC_DQ_IN_DELAY_def
  WRITE_SCC_HHP_EXTRAS_def WRITE_SCC_HHP_DQSE_MAP_def WRITE_SCC_DQS_IO_OUT1_DELAY_def WRITE_SCC_DQS_IO_IN_DELAY_def
  WRITE_SCC_DM_IO_OUT1_DELAY_def WRITE_SCC_DM_IO_IN_DELAY_def WRITE_SCC_OCT_OUT2_DELAY_def WRITE_SCC_DQS_BYPASS_def
  WRITE_SCC_DQ_OUT2_DELAY_def WRITE_SCC_DQ_BYPASS_def WRITE_SCC_RFIFO_MODE_def WRITE_SCC_DQS_IO_OUT2_DELAY_def
  WRITE_SCC_DM_IO_OUT2_DELAY_def WRITE_SCC_DM_BYPASS_def

section \<open>Lists of writes\<close>

named_theorems trace_simps \<open>functions of the firmware as lists of register writes\<close>

lemma perform_simps [trace_simps]: "perform [] s = s" "perform (f # fs) s = perform fs (f s)"
  by (simp_all add: perform_def)

lemma for_each_simps [trace_simps]: "for_each [] f s = s" "for_each (x # xs) f s = for_each xs f (f x s)"
  by (simp_all add: for_each_def)

lemma writes_Nil: "writes P [] s = s"
  by (simp add: writes_def)

lemma writes_append: "writes P vs (writes P ws s) = writes P (ws @ vs) s"
  by (simp add: writes_def)

lemma IOWR_writes: "IOWR_32DIRECT P base off data s = writes P [(base, off, data)] s"
  by (simp add: writes_def)

lemma for_each_writes:
  "(\<And>x s. x \<in> set xs \<Longrightarrow> f x s = writes P (ws x) s) \<Longrightarrow> for_each xs f s = writes P (concat (map ws xs)) s"
  by (induction xs arbitrary: s) (simp_all add: for_each_simps writes_Nil writes_append)

lemma writes_other [simp]:
  "gbl (writes P ws s) = gbl s" "param (writes P ws s) = param s" "dyn_calib_steps (writes P ws s) = dyn_calib_steps s"
  "skip_delay_mask (writes P ws s) = skip_delay_mask s"
  by (induction ws arbitrary: s) (simp_all add: writes_def IOWR_32DIRECT_def split: prod.splits)

lemma ranks_single: "ranks = [0]"
  by (simp add: ranks_def size_defs)

end
