(* ===== verification/Seq_Scc.thy ===== *)
theory Seq_Scc
  imports Seq_Hw
begin

text \<open>
  The scan-chain functions \<open>scc_mgr_*\<close> of \<open>sequencer.pre.c\<close>, which set and load the delays of the
  memory interface, and the register-file functions next to them. A write to the TCL report is
  empty in this configuration, and so are \<open>select_shadow_regs_for_update\<close> and the shadow
  register of a rank.
\<close>

section \<open>Progress of the calibration\<close>

definition set_failing_group_stage :: "u32 \<Rightarrow> u32 \<Rightarrow> u32 \<Rightarrow> 'h seq \<Rightarrow> 'h seq" where
  "set_failing_group_stage grp stage substage s =
     (if error_stage (gbl s) = CAL_STAGE_NIL
      then s\<lparr>gbl := (gbl s)\<lparr>error_substage := substage, error_stage := stage, error_group := grp\<rparr>\<rparr>
      else s)"

definition reg_file_set_group :: "'h plat \<Rightarrow> u32 \<Rightarrow> 'h seq \<Rightarrow> 'h seq" where
  "reg_file_set_group P set_group s =
     (let (cur_stage_group, s1) = IORD_32DIRECT P REG_FILE_CUR_STAGE 0 s;
          cleared = cur_stage_group AND 0x0000FFFF;
          updated = cleared OR push_bit 16 set_group in
      IOWR_32DIRECT P REG_FILE_CUR_STAGE 0 updated s1)"

definition reg_file_set_stage :: "'h plat \<Rightarrow> u32 \<Rightarrow> 'h seq \<Rightarrow> 'h seq" where
  "reg_file_set_stage P set_stage s =
     (let (cur_stage_group, s1) = IORD_32DIRECT P REG_FILE_CUR_STAGE 0 s;
          cleared = cur_stage_group AND 0xFFFF0000;
          updated = cleared OR (set_stage AND 0x000000FF) in
      IOWR_32DIRECT P REG_FILE_CUR_STAGE 0 updated s1)"

definition reg_file_set_sub_stage :: "'h plat \<Rightarrow> u32 \<Rightarrow> 'h seq \<Rightarrow> 'h seq" where
  "reg_file_set_sub_stage P set_sub_stage s =
     (let (cur_stage_group, s1) = IORD_32DIRECT P REG_FILE_CUR_STAGE 0 s;
          cleared = cur_stage_group AND 0xFFFF00FF;
          updated = cleared OR (push_bit 8 set_sub_stage AND 0x0000FF00) in
      IOWR_32DIRECT P REG_FILE_CUR_STAGE 0 updated s1)"

definition is_write_group_enabled_for_dm :: "u32 \<Rightarrow> u32" where
  "is_write_group_enabled_for_dm write_group = 1"

definition initialize :: "'h plat \<Rightarrow> 'h seq \<Rightarrow> 'h seq" where
  "initialize P = perform [
     IOWR_32DIRECT P PHY_MGR_MUX_SEL 0 0x3,
     IOWR_32DIRECT P PHY_MGR_RESET_MEM_STBL 0 0,
     IOWR_32DIRECT P PHY_MGR_CAL_STATUS 0 0,
     IOWR_32DIRECT P PHY_MGR_CAL_DEBUG_INFO 0 0,
     (\<lambda>s. if dyn_calib_steps s AND CALIB_SKIP_ALL \<noteq> CALIB_SKIP_ALL
       then s\<lparr>param := (param s)\<lparr>
         read_correct_mask_vg := push_bit (RW_MGR_MEM_DQ_PER_READ_DQS div RW_MGR_MEM_VIRTUAL_GROUPS_PER_READ_DQS) 1 - 1,
         write_correct_mask_vg := push_bit (RW_MGR_MEM_DQ_PER_READ_DQS div RW_MGR_MEM_VIRTUAL_GROUPS_PER_READ_DQS) 1 - 1,
         read_correct_mask := push_bit RW_MGR_MEM_DQ_PER_READ_DQS 1 - 1,
         write_correct_mask := push_bit RW_MGR_MEM_DQ_PER_WRITE_DQS 1 - 1,
         dm_correct_mask := push_bit (RW_MGR_MEM_DATA_WIDTH div RW_MGR_MEM_DATA_MASK_WIDTH) 1 - 1\<rparr>\<rparr>
       else s)]"

section \<open>Single settings\<close>

definition select_shadow_regs_for_update :: "u32 \<Rightarrow> u32 \<Rightarrow> u32 \<Rightarrow> 'h seq \<Rightarrow> 'h seq" where
  "select_shadow_regs_for_update rank grp update_scan_chains s = s"

definition scc_mgr_initialize :: "'h plat \<Rightarrow> 'h seq \<Rightarrow> 'h seq" where
  "scc_mgr_initialize P = for_each [0..<16] (\<lambda>i. IOWR_32DIRECT P SCC_MGR_HHP_RFILE (push_bit 2 (of_nat i)) 0)"

definition scc_mgr_set_dqs_bus_in_delay :: "'h plat \<Rightarrow> u32 \<Rightarrow> u32 \<Rightarrow> 'h seq \<Rightarrow> 'h seq" where
  "scc_mgr_set_dqs_bus_in_delay P read_group delay = WRITE_SCC_DQS_IN_DELAY P read_group delay"

definition scc_mgr_set_dqs_io_in_delay :: "'h plat \<Rightarrow> u32 \<Rightarrow> u32 \<Rightarrow> 'h seq \<Rightarrow> 'h seq" where
  "scc_mgr_set_dqs_io_in_delay P write_group delay = WRITE_SCC_DQS_IO_IN_DELAY P delay"

definition scc_mgr_set_dqs_en_phase :: "'h plat \<Rightarrow> u32 \<Rightarrow> u32 \<Rightarrow> 'h seq \<Rightarrow> 'h seq" where
  "scc_mgr_set_dqs_en_phase P read_group phase = WRITE_SCC_DQS_EN_PHASE P read_group phase"

definition scc_mgr_set_dqs_en_phase_all_ranks :: "'h plat \<Rightarrow> u32 \<Rightarrow> u32 \<Rightarrow> 'h seq \<Rightarrow> 'h seq" where
  "scc_mgr_set_dqs_en_phase_all_ranks P read_group phase =
     for_each ranks (\<lambda>r. let update_scan_chains = (if r = 0 then 1 else 0) in perform [
       select_shadow_regs_for_update (of_nat r) read_group update_scan_chains,
       scc_mgr_set_dqs_en_phase P read_group phase,
       (if update_scan_chains \<noteq> 0
        then perform [IOWR_32DIRECT P SCC_MGR_DQS_ENA 0 read_group, IOWR_32DIRECT P SCC_MGR_UPD 0 0] else perform [])])"

definition scc_mgr_set_dqdqs_output_phase :: "'h plat \<Rightarrow> u32 \<Rightarrow> u32 \<Rightarrow> 'h seq \<Rightarrow> 'h seq" where
  "scc_mgr_set_dqdqs_output_phase P write_group phase = WRITE_SCC_DQDQS_OUT_PHASE P write_group phase"

definition scc_mgr_set_dqdqs_output_phase_all_ranks :: "'h plat \<Rightarrow> u32 \<Rightarrow> u32 \<Rightarrow> 'h seq \<Rightarrow> 'h seq" where
  "scc_mgr_set_dqdqs_output_phase_all_ranks P write_group phase =
     for_each ranks (\<lambda>r. let update_scan_chains = (if r = 0 then 1 else 0) in perform [
       select_shadow_regs_for_update (of_nat r) write_group update_scan_chains,
       scc_mgr_set_dqdqs_output_phase P write_group phase,
       (if update_scan_chains \<noteq> 0
        then perform [IOWR_32DIRECT P SCC_MGR_DQS_ENA 0 write_group, IOWR_32DIRECT P SCC_MGR_UPD 0 0] else perform [])])"

definition scc_mgr_set_dqs_en_delay :: "'h plat \<Rightarrow> u32 \<Rightarrow> u32 \<Rightarrow> 'h seq \<Rightarrow> 'h seq" where
  "scc_mgr_set_dqs_en_delay P read_group delay = WRITE_SCC_DQS_EN_DELAY P read_group delay"

definition scc_mgr_set_dqs_en_delay_all_ranks :: "'h plat \<Rightarrow> u32 \<Rightarrow> u32 \<Rightarrow> 'h seq \<Rightarrow> 'h seq" where
  "scc_mgr_set_dqs_en_delay_all_ranks P read_group delay =
     for_each ranks (\<lambda>r. perform [
       select_shadow_regs_for_update (of_nat r) read_group 0,
       scc_mgr_set_dqs_en_delay P read_group delay,
       IOWR_32DIRECT P SCC_MGR_DQS_ENA 0 read_group,
       IOWR_32DIRECT P SCC_MGR_UPD 0 0])"

text \<open>The read groups of a write group, from the bounds of the loops over them.\<close>

definition read_groups :: "u32 \<Rightarrow> u32 list" where
  "read_groups write_group =
     map of_nat [unat (write_group * of_nat RW_MGR_MEM_IF_READ_DQS_WIDTH div of_nat RW_MGR_MEM_IF_WRITE_DQS_WIDTH)..<
       unat ((write_group + 1) * of_nat RW_MGR_MEM_IF_READ_DQS_WIDTH div of_nat RW_MGR_MEM_IF_WRITE_DQS_WIDTH)]"

definition scc_mgr_set_oct_out1_delay :: "'h plat \<Rightarrow> u32 \<Rightarrow> u32 \<Rightarrow> 'h seq \<Rightarrow> 'h seq" where
  "scc_mgr_set_oct_out1_delay P write_group delay =
     for_each (read_groups write_group) (\<lambda>read_group. WRITE_SCC_OCT_OUT1_DELAY P read_group delay)"

definition scc_mgr_set_oct_out2_delay :: "'h plat \<Rightarrow> u32 \<Rightarrow> u32 \<Rightarrow> 'h seq \<Rightarrow> 'h seq" where
  "scc_mgr_set_oct_out2_delay P write_group delay =
     for_each (read_groups write_group) (\<lambda>read_group. WRITE_SCC_OCT_OUT2_DELAY P read_group delay)"

definition scc_mgr_set_dqs_bypass :: "'h plat \<Rightarrow> u32 \<Rightarrow> u32 \<Rightarrow> 'h seq \<Rightarrow> 'h seq" where
  "scc_mgr_set_dqs_bypass P write_group bypass = WRITE_SCC_DQS_BYPASS P write_group bypass"

definition scc_mgr_set_dq_out1_delay :: "'h plat \<Rightarrow> u32 \<Rightarrow> u32 \<Rightarrow> u32 \<Rightarrow> 'h seq \<Rightarrow> 'h seq" where
  "scc_mgr_set_dq_out1_delay P write_group dq_in_group delay = WRITE_SCC_DQ_OUT1_DELAY P dq_in_group delay"

definition scc_mgr_set_dq_out2_delay :: "'h plat \<Rightarrow> u32 \<Rightarrow> u32 \<Rightarrow> u32 \<Rightarrow> 'h seq \<Rightarrow> 'h seq" where
  "scc_mgr_set_dq_out2_delay P write_group dq_in_group delay = WRITE_SCC_DQ_OUT2_DELAY P dq_in_group delay"

definition scc_mgr_set_dq_in_delay :: "'h plat \<Rightarrow> u32 \<Rightarrow> u32 \<Rightarrow> u32 \<Rightarrow> 'h seq \<Rightarrow> 'h seq" where
  "scc_mgr_set_dq_in_delay P write_group dq_in_group delay = WRITE_SCC_DQ_IN_DELAY P dq_in_group delay"

definition scc_mgr_set_dq_bypass :: "'h plat \<Rightarrow> u32 \<Rightarrow> u32 \<Rightarrow> u32 \<Rightarrow> 'h seq \<Rightarrow> 'h seq" where
  "scc_mgr_set_dq_bypass P write_group dq_in_group bypass = WRITE_SCC_DQ_BYPASS P dq_in_group bypass"

definition scc_mgr_set_rfifo_mode :: "'h plat \<Rightarrow> u32 \<Rightarrow> u32 \<Rightarrow> u32 \<Rightarrow> 'h seq \<Rightarrow> 'h seq" where
  "scc_mgr_set_rfifo_mode P write_group dq_in_group mode = WRITE_SCC_RFIFO_MODE P dq_in_group mode"

definition scc_mgr_set_hhp_extras :: "'h plat \<Rightarrow> 'h seq \<Rightarrow> 'h seq" where
  "scc_mgr_set_hhp_extras P =
     WRITE_SCC_HHP_EXTRAS P (push_bit 8 0 OR push_bit 7 0 OR push_bit 5 1 OR push_bit 2 1 OR push_bit 1 1 OR push_bit 0 1)"

definition scc_mgr_set_hhp_dqse_map :: "'h plat \<Rightarrow> 'h seq \<Rightarrow> 'h seq" where
  "scc_mgr_set_hhp_dqse_map P = WRITE_SCC_HHP_DQSE_MAP P 0"

definition scc_mgr_set_dqs_out1_delay :: "'h plat \<Rightarrow> u32 \<Rightarrow> u32 \<Rightarrow> 'h seq \<Rightarrow> 'h seq" where
  "scc_mgr_set_dqs_out1_delay P write_group delay = WRITE_SCC_DQS_IO_OUT1_DELAY P delay"

definition scc_mgr_set_dqs_out2_delay :: "'h plat \<Rightarrow> u32 \<Rightarrow> u32 \<Rightarrow> 'h seq \<Rightarrow> 'h seq" where
  "scc_mgr_set_dqs_out2_delay P write_group delay = WRITE_SCC_DQS_IO_OUT2_DELAY P delay"

definition scc_mgr_set_dm_out1_delay :: "'h plat \<Rightarrow> u32 \<Rightarrow> u32 \<Rightarrow> u32 \<Rightarrow> 'h seq \<Rightarrow> 'h seq" where
  "scc_mgr_set_dm_out1_delay P write_group dm delay = WRITE_SCC_DM_IO_OUT1_DELAY P dm delay"

definition scc_mgr_set_dm_out2_delay :: "'h plat \<Rightarrow> u32 \<Rightarrow> u32 \<Rightarrow> u32 \<Rightarrow> 'h seq \<Rightarrow> 'h seq" where
  "scc_mgr_set_dm_out2_delay P write_group dm delay = WRITE_SCC_DM_IO_OUT2_DELAY P dm delay"

definition scc_mgr_set_dm_in_delay :: "'h plat \<Rightarrow> u32 \<Rightarrow> u32 \<Rightarrow> u32 \<Rightarrow> 'h seq \<Rightarrow> 'h seq" where
  "scc_mgr_set_dm_in_delay P write_group dm delay = WRITE_SCC_DM_IO_IN_DELAY P dm delay"

definition scc_mgr_set_dm_bypass :: "'h plat \<Rightarrow> u32 \<Rightarrow> u32 \<Rightarrow> u32 \<Rightarrow> 'h seq \<Rightarrow> 'h seq" where
  "scc_mgr_set_dm_bypass P write_group dm bypass = WRITE_SCC_DM_BYPASS P dm bypass"

section \<open>Loading settings\<close>

definition scc_mgr_load_dqs :: "'h plat \<Rightarrow> u32 \<Rightarrow> 'h seq \<Rightarrow> 'h seq" where
  "scc_mgr_load_dqs P dqs = IOWR_32DIRECT P SCC_MGR_DQS_ENA 0 dqs"

definition scc_mgr_load_dqs_io :: "'h plat \<Rightarrow> 'h seq \<Rightarrow> 'h seq" where
  "scc_mgr_load_dqs_io P = IOWR_32DIRECT P SCC_MGR_DQS_IO_ENA 0 0"

definition scc_mgr_load_dq :: "'h plat \<Rightarrow> u32 \<Rightarrow> 'h seq \<Rightarrow> 'h seq" where
  "scc_mgr_load_dq P dq_in_group = IOWR_32DIRECT P SCC_MGR_DQ_ENA 0 dq_in_group"

definition scc_mgr_load_dm :: "'h plat \<Rightarrow> u32 \<Rightarrow> 'h seq \<Rightarrow> 'h seq" where
  "scc_mgr_load_dm P dm = IOWR_32DIRECT P SCC_MGR_DM_ENA 0 dm"

definition scc_mgr_load_dqs_for_write_group :: "'h plat \<Rightarrow> u32 \<Rightarrow> 'h seq \<Rightarrow> 'h seq" where
  "scc_mgr_load_dqs_for_write_group P write_group =
     for_each (read_groups write_group) (\<lambda>read_group. IOWR_32DIRECT P SCC_MGR_DQS_ENA 0 read_group)"

section \<open>Groups of settings\<close>

definition scc_mgr_zero_all :: "'h plat \<Rightarrow> 'h seq \<Rightarrow> 'h seq" where
  "scc_mgr_zero_all P =
     for_each ranks (\<lambda>r. perform [
       select_shadow_regs_for_update (of_nat r) 0 1,
       for_each [0..<RW_MGR_MEM_IF_READ_DQS_WIDTH] (\<lambda>i. perform [
         scc_mgr_set_dqs_bus_in_delay P (of_nat i) IO_DQS_IN_RESERVE,
         scc_mgr_set_dqs_en_phase P (of_nat i) 0,
         scc_mgr_set_dqs_en_delay P (of_nat i) 0]),
       for_each [0..<RW_MGR_MEM_IF_WRITE_DQS_WIDTH] (\<lambda>i. perform [
         scc_mgr_set_dqdqs_output_phase P (of_nat i) 0,
         scc_mgr_set_oct_out1_delay P (of_nat i) IO_DQS_OUT_RESERVE]),
       IOWR_32DIRECT P SCC_MGR_DQS_ENA 0 0xff,
       IOWR_32DIRECT P SCC_MGR_UPD 0 0])"

definition scc_set_bypass_mode :: "'h plat \<Rightarrow> u32 \<Rightarrow> u32 \<Rightarrow> 'h seq \<Rightarrow> 'h seq" where
  "scc_set_bypass_mode P write_group mode = perform [
     (if write_group = 0 then scc_mgr_set_hhp_extras P else perform []),
     IOWR_32DIRECT P SCC_MGR_DQ_ENA 0 0xff,
     IOWR_32DIRECT P SCC_MGR_DM_ENA 0 0xff,
     IOWR_32DIRECT P SCC_MGR_DQS_IO_ENA 0 0,
     IOWR_32DIRECT P SCC_MGR_DQS_ENA 0 write_group,
     IOWR_32DIRECT P SCC_MGR_UPD 0 0]"

definition scc_mgr_zero_group :: "'h plat \<Rightarrow> u32 \<Rightarrow> u32 \<Rightarrow> bool \<Rightarrow> 'h seq \<Rightarrow> 'h seq" where
  "scc_mgr_zero_group P write_group test_begin out_only =
     for_each ranks (\<lambda>r. perform [
       select_shadow_regs_for_update (of_nat r) write_group 1,
       for_each [0..<RW_MGR_MEM_DQ_PER_WRITE_DQS] (\<lambda>i. perform [
         scc_mgr_set_dq_out1_delay P write_group (of_nat i) 0,
         scc_mgr_set_dq_out2_delay P write_group (of_nat i) IO_DQ_OUT_RESERVE,
         (if \<not> out_only then scc_mgr_set_dq_in_delay P write_group (of_nat i) 0 else perform [])]),
       IOWR_32DIRECT P SCC_MGR_DQ_ENA 0 0xff,
       for_each [0..<RW_MGR_NUM_DM_PER_WRITE_GROUP] (\<lambda>i. perform [
         (if \<not> out_only then scc_mgr_set_dm_in_delay P write_group (of_nat i) 0 else perform []),
         scc_mgr_set_dm_out1_delay P write_group (of_nat i) 0,
         scc_mgr_set_dm_out2_delay P write_group (of_nat i) IO_DM_OUT_RESERVE]),
       IOWR_32DIRECT P SCC_MGR_DM_ENA 0 0xff,
       (if \<not> out_only then scc_mgr_set_dqs_io_in_delay P write_group 0 else perform []),
       scc_mgr_set_dqs_out1_delay P write_group IO_DQS_OUT_RESERVE,
       scc_mgr_set_oct_out1_delay P write_group IO_DQS_OUT_RESERVE,
       scc_mgr_load_dqs_for_write_group P write_group,
       IOWR_32DIRECT P SCC_MGR_DQS_IO_ENA 0 0,
       IOWR_32DIRECT P SCC_MGR_UPD 0 0])"

definition scc_mgr_apply_group_dq_in_delay :: "'h plat \<Rightarrow> u32 \<Rightarrow> u32 \<Rightarrow> u32 \<Rightarrow> 'h seq \<Rightarrow> 'h seq" where
  "scc_mgr_apply_group_dq_in_delay P write_group group_bgn delay =
     for_each [0..<RW_MGR_MEM_DQ_PER_READ_DQS] (\<lambda>i. let p = group_bgn + of_nat i in perform [
       scc_mgr_set_dq_in_delay P write_group p delay,
       scc_mgr_load_dq P p])"

definition scc_mgr_apply_group_dq_out1_delay :: "'h plat \<Rightarrow> u32 \<Rightarrow> u32 \<Rightarrow> u32 \<Rightarrow> 'h seq \<Rightarrow> 'h seq" where
  "scc_mgr_apply_group_dq_out1_delay P write_group group_bgn delay1 =
     for_each [0..<RW_MGR_MEM_DQ_PER_WRITE_DQS] (\<lambda>i. perform [
       scc_mgr_set_dq_out1_delay P write_group (of_nat i) delay1,
       scc_mgr_load_dq P (of_nat i)])"

definition scc_mgr_apply_group_dq_out2_delay :: "'h plat \<Rightarrow> u32 \<Rightarrow> u32 \<Rightarrow> u32 \<Rightarrow> 'h seq \<Rightarrow> 'h seq" where
  "scc_mgr_apply_group_dq_out2_delay P write_group group_bgn delay2 =
     for_each [0..<RW_MGR_MEM_DQ_PER_WRITE_DQS] (\<lambda>i. perform [
       scc_mgr_set_dq_out2_delay P write_group (of_nat i) delay2,
       scc_mgr_load_dq P (of_nat i)])"

definition scc_mgr_apply_group_dm_out1_delay :: "'h plat \<Rightarrow> u32 \<Rightarrow> u32 \<Rightarrow> 'h seq \<Rightarrow> 'h seq" where
  "scc_mgr_apply_group_dm_out1_delay P write_group delay1 =
     for_each [0..<RW_MGR_NUM_DM_PER_WRITE_GROUP] (\<lambda>i. perform [
       scc_mgr_set_dm_out1_delay P write_group (of_nat i) delay1,
       scc_mgr_load_dm P (of_nat i)])"

definition scc_mgr_apply_group_dqs_io_and_oct_out1 :: "'h plat \<Rightarrow> u32 \<Rightarrow> u32 \<Rightarrow> 'h seq \<Rightarrow> 'h seq" where
  "scc_mgr_apply_group_dqs_io_and_oct_out1 P write_group delay = perform [
     scc_mgr_set_dqs_out1_delay P write_group delay,
     scc_mgr_load_dqs_io P,
     scc_mgr_set_oct_out1_delay P write_group delay,
     scc_mgr_load_dqs_for_write_group P write_group]"

definition scc_mgr_apply_group_dqs_io_and_oct_out2 :: "'h plat \<Rightarrow> u32 \<Rightarrow> u32 \<Rightarrow> 'h seq \<Rightarrow> 'h seq" where
  "scc_mgr_apply_group_dqs_io_and_oct_out2 P write_group delay = perform [
     scc_mgr_set_dqs_out2_delay P write_group delay,
     scc_mgr_load_dqs_io P,
     scc_mgr_set_oct_out2_delay P write_group delay,
     scc_mgr_load_dqs_for_write_group P write_group]"

text \<open>The loops \<open>while (d > delay) { --d; ... }\<close> and \<open>while (d < delay) { ++d; ... }\<close>.\<close>

lemma unat_pred: "delay < d \<Longrightarrow> unat d = Suc (unat (d - 1 :: u32))"
proof -
  assume "delay < d"
  then have "d \<noteq> 0" "0 < unat d" by (auto simp: word_less_nat_alt unat_gt_0)
  then show ?thesis using unat_minus_one [of d] by simp
qed

lemma unat_dec: "delay < d \<Longrightarrow> unat (d - 1) < unat (d :: u32)"
  using unat_pred [of delay d] by simp

lemma unat_inc: "d < delay \<Longrightarrow> unat (d + 1) = Suc (unat (d :: u32))"
proof -
  assume "d < delay"
  then have "unat d < unat delay" by (simp add: word_less_nat_alt)
  moreover have "unat delay < 2 ^ 32" using unsigned_less [of delay] by simp
  ultimately show ?thesis by (simp add: unat_word_ariths)
qed

function step_down :: "(u32 \<Rightarrow> 's \<Rightarrow> 's) \<Rightarrow> u32 \<Rightarrow> u32 \<Rightarrow> 's \<Rightarrow> u32 \<times> 's" where
  "step_down f delay d s = (if d > delay then step_down f delay (d - 1) (f (d - 1) s) else (d, s))"
  by pat_completeness auto
termination
  by (relation "measure (\<lambda>(f, delay, d, s). unat d)") (auto simp: unat_dec)

function step_up :: "(u32 \<Rightarrow> 's \<Rightarrow> 's) \<Rightarrow> u32 \<Rightarrow> u32 \<Rightarrow> 's \<Rightarrow> u32 \<times> 's" where
  "step_up f delay d s = (if d < delay then step_up f delay (d + 1) (f (d + 1) s) else (d, s))"
  by pat_completeness auto
termination
  by (relation "measure (\<lambda>(f, delay, d, s). unat delay - unat d)") (auto simp: unat_inc word_less_nat_alt)

declare step_down.simps [simp del] step_up.simps [simp del]

definition scc_mgr_set_group_dqs_io_and_oct_out1_gradual :: "'h plat \<Rightarrow> u32 \<Rightarrow> u32 \<Rightarrow> 'h seq \<Rightarrow> 'h seq" where
  "scc_mgr_set_group_dqs_io_and_oct_out1_gradual P write_group delay s =
     (let step = (\<lambda>d. perform [scc_mgr_apply_group_dqs_io_and_oct_out1 P write_group d, IOWR_32DIRECT P SCC_MGR_UPD 0 0]);
          (d, s) = READ_SCC_DQS_IO_OUT1_DELAY P s;
          (d, s) = step_down step delay d s;
          (d, s) = step_up step delay d s in s)"

definition scc_mgr_set_group_dqs_io_and_oct_out2_gradual :: "'h plat \<Rightarrow> u32 \<Rightarrow> u32 \<Rightarrow> 'h seq \<Rightarrow> 'h seq" where
  "scc_mgr_set_group_dqs_io_and_oct_out2_gradual P write_group delay s =
     (let step = (\<lambda>d. perform [scc_mgr_apply_group_dqs_io_and_oct_out2 P write_group d, IOWR_32DIRECT P SCC_MGR_UPD 0 0]);
          d = READ_SCC_DQS_IO_OUT2_DELAY;
          (d, s) = step_down step delay d s;
          (d, s) = step_up step delay d s in s)"

definition scc_mgr_apply_group_all_out_delay :: "'h plat \<Rightarrow> u32 \<Rightarrow> u32 \<Rightarrow> u32 \<Rightarrow> 'h seq \<Rightarrow> 'h seq" where
  "scc_mgr_apply_group_all_out_delay P write_group group_bgn delay = perform [
     scc_mgr_apply_group_dq_out1_delay P write_group group_bgn delay,
     scc_mgr_apply_group_dm_out1_delay P write_group delay,
     scc_mgr_apply_group_dqs_io_and_oct_out1 P write_group delay]"

definition scc_mgr_apply_group_all_out_delay_all_ranks :: "'h plat \<Rightarrow> u32 \<Rightarrow> u32 \<Rightarrow> u32 \<Rightarrow> 'h seq \<Rightarrow> 'h seq" where
  "scc_mgr_apply_group_all_out_delay_all_ranks P write_group group_bgn delay =
     for_each ranks (\<lambda>r. perform [
       select_shadow_regs_for_update (of_nat r) write_group 1,
       scc_mgr_apply_group_all_out_delay P write_group group_bgn delay,
       IOWR_32DIRECT P SCC_MGR_UPD 0 0])"

definition scc_mgr_apply_group_all_out_delay_add :: "'h plat \<Rightarrow> u32 \<Rightarrow> u32 \<Rightarrow> u32 \<Rightarrow> 'h seq \<Rightarrow> 'h seq" where
  "scc_mgr_apply_group_all_out_delay_add P write_group group_bgn delay =
     (let clamp = (\<lambda>new_delay. if new_delay > IO_IO_OUT2_DELAY_MAX then IO_IO_OUT2_DELAY_MAX else new_delay) in perform [
       for_each [0..<RW_MGR_MEM_DQ_PER_WRITE_DQS] (\<lambda>i.
         let new_delay = READ_SCC_DQ_OUT2_DELAY (of_nat i) + delay in perform [
           scc_mgr_set_dq_out2_delay P write_group (of_nat i) (clamp new_delay),
           scc_mgr_load_dq P (of_nat i)]),
       for_each [0..<RW_MGR_NUM_DM_PER_WRITE_GROUP] (\<lambda>i.
         let new_delay = READ_SCC_DM_IO_OUT2_DELAY (of_nat i) + delay in perform [
           scc_mgr_set_dm_out2_delay P write_group (of_nat i) (clamp new_delay),
           scc_mgr_load_dm P (of_nat i)]),
       (let new_delay = READ_SCC_DQS_IO_OUT2_DELAY + delay in perform [
         (if new_delay > IO_IO_OUT2_DELAY_MAX
          then scc_mgr_set_dqs_out1_delay P write_group (new_delay - IO_IO_OUT2_DELAY_MAX) else perform []),
         scc_mgr_set_dqs_out2_delay P write_group (clamp new_delay),
         scc_mgr_load_dqs_io P]),
       (let new_delay = READ_SCC_OCT_OUT2_DELAY write_group + delay in perform [
         (if new_delay > IO_IO_OUT2_DELAY_MAX
          then scc_mgr_set_oct_out1_delay P write_group (new_delay - IO_IO_OUT2_DELAY_MAX) else perform []),
         scc_mgr_set_oct_out2_delay P write_group (clamp new_delay),
         scc_mgr_load_dqs_for_write_group P write_group])])"

definition scc_mgr_apply_group_all_out_delay_add_all_ranks :: "'h plat \<Rightarrow> u32 \<Rightarrow> u32 \<Rightarrow> u32 \<Rightarrow> 'h seq \<Rightarrow> 'h seq" where
  "scc_mgr_apply_group_all_out_delay_add_all_ranks P write_group group_bgn delay =
     for_each ranks (\<lambda>r. perform [
       select_shadow_regs_for_update (of_nat r) write_group 1,
       scc_mgr_apply_group_all_out_delay_add P write_group group_bgn delay,
       IOWR_32DIRECT P SCC_MGR_UPD 0 0])"

definition scc_mgr_spread_out2_delay_all_ranks :: "u32 \<Rightarrow> u32 \<Rightarrow> 'h seq \<Rightarrow> 'h seq" where
  "scc_mgr_spread_out2_delay_all_ranks write_group test_bgn s = s"

end
