(* ===== verification/Seq_Rom.thy ===== *)
theory Seq_Rom
  imports Seq_Hw
begin

text \<open>
  The programs of the read/write manager: the instruction ROM and the address/command ROM that
  the generator wrote into \<open>sequencer_auto_inst_init.pre.c\<close> and \<open>sequencer_auto_ac_init.pre.c\<close>,
  the symbols of \<open>sequencer_auto.pre.h\<close> that name their entries, and \<open>hc_initialize_rom_data\<close>,
  which loads both. A leading \<open>__\<close> of a symbol is left out.
\<close>

section \<open>Entry points of the instruction ROM\<close>

definition RW_MGR_READ_B2B_WAIT2 :: u32 where "RW_MGR_READ_B2B_WAIT2 = 0x6B"
definition RW_MGR_LFSR_WR_RD_BANK_0_WAIT :: u32 where "RW_MGR_LFSR_WR_RD_BANK_0_WAIT = 0x32"
definition RW_MGR_REFRESH_ALL :: u32 where "RW_MGR_REFRESH_ALL = 0x14"
definition RW_MGR_ZQCL :: u32 where "RW_MGR_ZQCL = 0x06"
definition RW_MGR_LFSR_WR_RD_BANK_0_NOP :: u32 where "RW_MGR_LFSR_WR_RD_BANK_0_NOP = 0x23"
definition RW_MGR_LFSR_WR_RD_BANK_0_DQS :: u32 where "RW_MGR_LFSR_WR_RD_BANK_0_DQS = 0x24"
definition RW_MGR_ACTIVATE_0_AND_1 :: u32 where "RW_MGR_ACTIVATE_0_AND_1 = 0x0D"
definition RW_MGR_MRS2_MIRR :: u32 where "RW_MGR_MRS2_MIRR = 0x0A"
definition RW_MGR_INIT_RESET_0_CKE_0 :: u32 where "RW_MGR_INIT_RESET_0_CKE_0 = 0x6F"
definition RW_MGR_LFSR_WR_RD_DM_BANK_0_WAIT :: u32 where "RW_MGR_LFSR_WR_RD_DM_BANK_0_WAIT = 0x46"
definition RW_MGR_ACTIVATE_1 :: u32 where "RW_MGR_ACTIVATE_1 = 0x0F"
definition RW_MGR_MRS2 :: u32 where "RW_MGR_MRS2 = 0x04"
definition RW_MGR_LFSR_WR_RD_DM_BANK_0_WL_1 :: u32 where "RW_MGR_LFSR_WR_RD_DM_BANK_0_WL_1 = 0x35"
definition RW_MGR_MRS1 :: u32 where "RW_MGR_MRS1 = 0x03"
definition RW_MGR_IDLE_LOOP1 :: u32 where "RW_MGR_IDLE_LOOP1 = 0x7B"
definition RW_MGR_GUARANTEED_WRITE_WAIT2 :: u32 where "RW_MGR_GUARANTEED_WRITE_WAIT2 = 0x19"
definition RW_MGR_MRS3 :: u32 where "RW_MGR_MRS3 = 0x05"
definition RW_MGR_IDLE_LOOP2 :: u32 where "RW_MGR_IDLE_LOOP2 = 0x7A"
definition RW_MGR_GUARANTEED_WRITE_WAIT1 :: u32 where "RW_MGR_GUARANTEED_WRITE_WAIT1 = 0x1F"
definition RW_MGR_LFSR_WR_RD_BANK_0_DATA :: u32 where "RW_MGR_LFSR_WR_RD_BANK_0_DATA = 0x25"
definition RW_MGR_GUARANTEED_WRITE_WAIT3 :: u32 where "RW_MGR_GUARANTEED_WRITE_WAIT3 = 0x1D"
definition RW_MGR_RDIMM_CMD :: u32 where "RW_MGR_RDIMM_CMD = 0x79"
definition RW_MGR_LFSR_WR_RD_DM_BANK_0_NOP :: u32 where "RW_MGR_LFSR_WR_RD_DM_BANK_0_NOP = 0x37"
definition RW_MGR_GUARANTEED_WRITE_WAIT0 :: u32 where "RW_MGR_GUARANTEED_WRITE_WAIT0 = 0x1B"
definition RW_MGR_LFSR_WR_RD_DM_BANK_0_DATA :: u32 where "RW_MGR_LFSR_WR_RD_DM_BANK_0_DATA = 0x39"
definition RW_MGR_GUARANTEED_READ_CONT :: u32 where "RW_MGR_GUARANTEED_READ_CONT = 0x54"
definition RW_MGR_REFRESH_DELAY :: u32 where "RW_MGR_REFRESH_DELAY = 0x15"
definition RW_MGR_MRS3_MIRR :: u32 where "RW_MGR_MRS3_MIRR = 0x0B"
definition RW_MGR_IDLE :: u32 where "RW_MGR_IDLE = 0x00"
definition RW_MGR_READ_B2B :: u32 where "RW_MGR_READ_B2B = 0x59"
definition RW_MGR_LFSR_WR_RD_DM_BANK_0_DQS :: u32 where "RW_MGR_LFSR_WR_RD_DM_BANK_0_DQS = 0x38"
definition RW_MGR_GUARANTEED_WRITE :: u32 where "RW_MGR_GUARANTEED_WRITE = 0x18"
definition RW_MGR_PRECHARGE_ALL :: u32 where "RW_MGR_PRECHARGE_ALL = 0x12"
definition RW_MGR_SGLE_READ :: u32 where "RW_MGR_SGLE_READ = 0x7D"
definition RW_MGR_MRS0_USER_MIRR :: u32 where "RW_MGR_MRS0_USER_MIRR = 0x0C"
definition RW_MGR_RETURN :: u32 where "RW_MGR_RETURN = 0x01"
definition RW_MGR_LFSR_WR_RD_DM_BANK_0 :: u32 where "RW_MGR_LFSR_WR_RD_DM_BANK_0 = 0x36"
definition RW_MGR_MRS0_USER :: u32 where "RW_MGR_MRS0_USER = 0x07"
definition RW_MGR_GUARANTEED_READ :: u32 where "RW_MGR_GUARANTEED_READ = 0x4C"
definition RW_MGR_MRS0_DLL_RESET_MIRR :: u32 where "RW_MGR_MRS0_DLL_RESET_MIRR = 0x08"
definition RW_MGR_INIT_RESET_1_CKE_0 :: u32 where "RW_MGR_INIT_RESET_1_CKE_0 = 0x74"
definition RW_MGR_ACTIVATE_0_AND_1_WAIT2 :: u32 where "RW_MGR_ACTIVATE_0_AND_1_WAIT2 = 0x10"
definition RW_MGR_LFSR_WR_RD_BANK_0_WL_1 :: u32 where "RW_MGR_LFSR_WR_RD_BANK_0_WL_1 = 0x21"
definition RW_MGR_MRS0_DLL_RESET :: u32 where "RW_MGR_MRS0_DLL_RESET = 0x02"
definition RW_MGR_ACTIVATE_0_AND_1_WAIT1 :: u32 where "RW_MGR_ACTIVATE_0_AND_1_WAIT1 = 0x0E"
definition RW_MGR_LFSR_WR_RD_BANK_0 :: u32 where "RW_MGR_LFSR_WR_RD_BANK_0 = 0x22"
definition RW_MGR_CLEAR_DQS_ENABLE :: u32 where "RW_MGR_CLEAR_DQS_ENABLE = 0x49"
definition RW_MGR_MRS1_MIRR :: u32 where "RW_MGR_MRS1_MIRR = 0x09"
definition RW_MGR_READ_B2B_WAIT1 :: u32 where "RW_MGR_READ_B2B_WAIT1 = 0x61"

lemmas rw_mgr_inst_defs =
  RW_MGR_READ_B2B_WAIT2_def RW_MGR_LFSR_WR_RD_BANK_0_WAIT_def RW_MGR_REFRESH_ALL_def RW_MGR_ZQCL_def
  RW_MGR_LFSR_WR_RD_BANK_0_NOP_def RW_MGR_LFSR_WR_RD_BANK_0_DQS_def RW_MGR_ACTIVATE_0_AND_1_def
  RW_MGR_MRS2_MIRR_def RW_MGR_INIT_RESET_0_CKE_0_def RW_MGR_LFSR_WR_RD_DM_BANK_0_WAIT_def
  RW_MGR_ACTIVATE_1_def RW_MGR_MRS2_def RW_MGR_LFSR_WR_RD_DM_BANK_0_WL_1_def RW_MGR_MRS1_def
  RW_MGR_IDLE_LOOP1_def RW_MGR_GUARANTEED_WRITE_WAIT2_def RW_MGR_MRS3_def RW_MGR_IDLE_LOOP2_def
  RW_MGR_GUARANTEED_WRITE_WAIT1_def RW_MGR_LFSR_WR_RD_BANK_0_DATA_def RW_MGR_GUARANTEED_WRITE_WAIT3_def
  RW_MGR_RDIMM_CMD_def RW_MGR_LFSR_WR_RD_DM_BANK_0_NOP_def RW_MGR_GUARANTEED_WRITE_WAIT0_def
  RW_MGR_LFSR_WR_RD_DM_BANK_0_DATA_def RW_MGR_GUARANTEED_READ_CONT_def RW_MGR_REFRESH_DELAY_def
  RW_MGR_MRS3_MIRR_def RW_MGR_IDLE_def RW_MGR_READ_B2B_def RW_MGR_LFSR_WR_RD_DM_BANK_0_DQS_def
  RW_MGR_GUARANTEED_WRITE_def RW_MGR_PRECHARGE_ALL_def RW_MGR_SGLE_READ_def RW_MGR_MRS0_USER_MIRR_def
  RW_MGR_RETURN_def RW_MGR_LFSR_WR_RD_DM_BANK_0_def RW_MGR_MRS0_USER_def RW_MGR_GUARANTEED_READ_def
  RW_MGR_MRS0_DLL_RESET_MIRR_def RW_MGR_INIT_RESET_1_CKE_0_def RW_MGR_ACTIVATE_0_AND_1_WAIT2_def
  RW_MGR_LFSR_WR_RD_BANK_0_WL_1_def RW_MGR_MRS0_DLL_RESET_def RW_MGR_ACTIVATE_0_AND_1_WAIT1_def
  RW_MGR_LFSR_WR_RD_BANK_0_def RW_MGR_CLEAR_DQS_ENABLE_def RW_MGR_MRS1_MIRR_def RW_MGR_READ_B2B_WAIT1_def

text \<open>The entry points with the contents that the header declares for them, in its order.\<close>

definition inst_contents :: "(u32 \<times> u32) list" where
  "inst_contents = [
    (RW_MGR_READ_B2B_WAIT2, 0x00C680), (RW_MGR_LFSR_WR_RD_BANK_0_WAIT, 0x00A680), (RW_MGR_REFRESH_ALL, 0x000980),
    (RW_MGR_ZQCL, 0x008380), (RW_MGR_LFSR_WR_RD_BANK_0_NOP, 0x00E700), (RW_MGR_LFSR_WR_RD_BANK_0_DQS, 0x000C00),
    (RW_MGR_ACTIVATE_0_AND_1, 0x000800), (RW_MGR_MRS2_MIRR, 0x008580), (RW_MGR_INIT_RESET_0_CKE_0, 0x000000),
    (RW_MGR_LFSR_WR_RD_DM_BANK_0_WAIT, 0x00A680), (RW_MGR_ACTIVATE_1, 0x000880), (RW_MGR_MRS2, 0x008280),
    (RW_MGR_LFSR_WR_RD_DM_BANK_0_WL_1, 0x00CE00), (RW_MGR_MRS1, 0x008200), (RW_MGR_IDLE_LOOP1, 0x00A680),
    (RW_MGR_GUARANTEED_WRITE_WAIT2, 0x00CCE8), (RW_MGR_MRS3, 0x008300), (RW_MGR_IDLE_LOOP2, 0x008680),
    (RW_MGR_GUARANTEED_WRITE_WAIT1, 0x00AC88), (RW_MGR_LFSR_WR_RD_BANK_0_DATA, 0x020CE0),
    (RW_MGR_GUARANTEED_WRITE_WAIT3, 0x00EC88), (RW_MGR_RDIMM_CMD, 0x009180),
    (RW_MGR_LFSR_WR_RD_DM_BANK_0_NOP, 0x00E700), (RW_MGR_GUARANTEED_WRITE_WAIT0, 0x008CE8),
    (RW_MGR_LFSR_WR_RD_DM_BANK_0_DATA, 0x030CE0), (RW_MGR_GUARANTEED_READ_CONT, 0x001168),
    (RW_MGR_REFRESH_DELAY, 0x00A680), (RW_MGR_MRS3_MIRR, 0x008600), (RW_MGR_IDLE, 0x080000),
    (RW_MGR_READ_B2B, 0x040E88), (RW_MGR_LFSR_WR_RD_DM_BANK_0_DQS, 0x000C00), (RW_MGR_GUARANTEED_WRITE, 0x000B68),
    (RW_MGR_PRECHARGE_ALL, 0x000900), (RW_MGR_SGLE_READ, 0x040F08), (RW_MGR_MRS0_USER_MIRR, 0x008400),
    (RW_MGR_RETURN, 0x080680), (RW_MGR_LFSR_WR_RD_DM_BANK_0, 0x00CD80), (RW_MGR_MRS0_USER, 0x008100),
    (RW_MGR_GUARANTEED_READ, 0x001168), (RW_MGR_MRS0_DLL_RESET_MIRR, 0x008480),
    (RW_MGR_INIT_RESET_1_CKE_0, 0x000080), (RW_MGR_ACTIVATE_0_AND_1_WAIT2, 0x00A680),
    (RW_MGR_LFSR_WR_RD_BANK_0_WL_1, 0x00CE00), (RW_MGR_MRS0_DLL_RESET, 0x008180),
    (RW_MGR_ACTIVATE_0_AND_1_WAIT1, 0x008680), (RW_MGR_LFSR_WR_RD_BANK_0, 0x00CD80),
    (RW_MGR_CLEAR_DQS_ENABLE, 0x001158), (RW_MGR_MRS1_MIRR, 0x008500), (RW_MGR_READ_B2B_WAIT1, 0x00A680)]"

text \<open>
  The same for the address/command ROM: the index of each entry, and the content declared for it.
\<close>

definition ac_indices :: "(string \<times> u32) list" where
  "ac_indices = [
    (''mrs1'', 0x04), (''mrs3'', 0x06), (''write_bank_0_col_0_nodata_wl_1'', 0x1C), (''act_1'', 0x11),
    (''write_postdata'', 0x1A), (''act_0'', 0x10), (''des'', 0x0D), (''init_reset_1_cke_0'', 0x01),
    (''write_data'', 0x19), (''init_reset_0_cke_0'', 0x00), (''read_bank_0_1_norden'', 0x22), (''pre_all'', 0x12),
    (''mrs0_user'', 0x02), (''mrs0_dll_reset'', 0x03), (''read_bank_0_0'', 0x1D), (''write_bank_0_col_1'', 0x16),
    (''read_bank_0_1'', 0x1F), (''write_bank_1_col_0'', 0x15), (''write_bank_1_col_1'', 0x17),
    (''write_bank_0_col_0'', 0x14), (''read_bank_1_0'', 0x1E), (''mrs1_mirr'', 0x0A), (''read_bank_1_1'', 0x20),
    (''des_odt_1'', 0x0E), (''mrs0_dll_reset_mirr'', 0x09), (''zqcl'', 0x07), (''write_predata'', 0x18),
    (''mrs0_user_mirr'', 0x08), (''ref'', 0x13), (''nop'', 0x0F), (''rdimm'', 0x23), (''mrs2_mirr'', 0x0B),
    (''write_bank_0_col_0_nodata'', 0x1B), (''read_en'', 0x21), (''mrs3_mirr'', 0x0C), (''mrs2'', 0x05)]"

definition ac_contents :: "(string \<times> u32) list" where
  "ac_contents = [
    (''mrs1'', 0x10090006), (''mrs3'', 0x100B0000), (''write_bank_0_col_0_nodata_wl_1'', 0x18980000),
    (''act_1'', 0x106B0000), (''write_postdata'', 0x38780000), (''act_0'', 0x10680000), (''des'', 0x30780000),
    (''init_reset_1_cke_0'', 0x20780000), (''write_data'', 0x3CF80000), (''init_reset_0_cke_0'', 0x20700000),
    (''read_bank_0_1_norden'', 0x10580008), (''pre_all'', 0x10280400), (''mrs0_user'', 0x10080471),
    (''mrs0_dll_reset'', 0x10080570), (''read_bank_0_0'', 0x13580000), (''write_bank_0_col_1'', 0x1C980008),
    (''read_bank_0_1'', 0x13580008), (''write_bank_1_col_0'', 0x1C9B0000), (''write_bank_1_col_1'', 0x1C9B0008),
    (''write_bank_0_col_0'', 0x1C980000), (''read_bank_1_0'', 0x135B0000), (''mrs1_mirr'', 0x100A0006),
    (''read_bank_1_1'', 0x135B0008), (''des_odt_1'', 0x38780000), (''mrs0_dll_reset_mirr'', 0x100804E8),
    (''zqcl'', 0x10380400), (''write_predata'', 0x38F80000), (''mrs0_user_mirr'', 0x10080469),
    (''ref'', 0x10480000), (''nop'', 0x30780000), (''rdimm'', 0x10780000), (''mrs2_mirr'', 0x10090218),
    (''write_bank_0_col_0_nodata'', 0x18180000), (''read_en'', 0x33780000), (''mrs3_mirr'', 0x100B0000),
    (''mrs2'', 0x100A0218)]"

section \<open>The ROM images\<close>

definition inst_rom_init :: "u32 list" where
  "inst_rom_init = [
    0x80000, 0x80680, 0x8180, 0x8200, 0x8280, 0x8300, 0x8380, 0x8100, 0x8480, 0x8500, 0x8580, 0x8600, 0x8400,
    0x800, 0x8680, 0x880, 0xa680, 0x80680, 0x900, 0x80680, 0x980, 0xa680, 0x8680, 0x80680, 0xb68, 0xcce8, 0xae8,
    0x8ce8, 0xb88, 0xec88, 0xa08, 0xac88, 0x80680, 0xce00, 0xcd80, 0xe700, 0xc00, 0x20ce0, 0x20ce0, 0x20ce0,
    0x20ce0, 0xd00, 0x680, 0x680, 0x680, 0x680, 0x60e80, 0x61080, 0x61080, 0x61080, 0xa680, 0x8680, 0x80680,
    0xce00, 0xcd80, 0xe700, 0xc00, 0x30ce0, 0x30ce0, 0x30ce0, 0x30ce0, 0xd00, 0x680, 0x680, 0x680, 0x680, 0x70e80,
    0x71080, 0x71080, 0x71080, 0xa680, 0x8680, 0x80680, 0x1158, 0x6d8, 0x80680, 0x1168, 0x7e8, 0x7e8, 0x87e8,
    0x40fe8, 0x410e8, 0x410e8, 0x410e8, 0x1168, 0x7e8, 0x7e8, 0xa7e8, 0x80680, 0x40e88, 0x41088, 0x41088, 0x41088,
    0x40f68, 0x410e8, 0x410e8, 0x410e8, 0xa680, 0x40fe8, 0x410e8, 0x410e8, 0x410e8, 0x41008, 0x41088, 0x41088,
    0x41088, 0x1100, 0xc680, 0x8680, 0xe680, 0x80680, 0x0, 0x8000, 0xa000, 0xc000, 0x80000, 0x80, 0x8080, 0xa080,
    0xc080, 0x80080, 0x9180, 0x8680, 0xa680, 0x80680, 0x40f08, 0x80680]"

definition inst_rom_init_size :: nat where "inst_rom_init_size = 127"

definition ac_rom_init :: "u32 list" where
  "ac_rom_init = [
    0x20700000, 0x20780000, 0x10080471, 0x10080570, 0x10090006, 0x100a0218, 0x100b0000, 0x10380400, 0x10080469,
    0x100804e8, 0x100a0006, 0x10090218, 0x100b0000, 0x30780000, 0x38780000, 0x30780000, 0x10680000, 0x106b0000,
    0x10280400, 0x10480000, 0x1c980000, 0x1c9b0000, 0x1c980008, 0x1c9b0008, 0x38f80000, 0x3cf80000, 0x38780000,
    0x18180000, 0x18980000, 0x13580000, 0x135b0000, 0x13580008, 0x135b0008, 0x33780000, 0x10580008, 0x10780000]"

definition ac_rom_init_size :: nat where "ac_rom_init_size = 36"

end
