(* ===== verification/Seq_Rw.thy ===== *)
theory Seq_Rw
  imports Seq_Scc Seq_Rom
begin

text \<open>
  The functions of \<open>sequencer.pre.c\<close> that drive the read/write manager: chip select and
  termination, delay loops, initialisation and handoff of the memory, the read and write tests
  and the read latency. The memory device answers through \<open>read_register\<close> of the platform. A
  truth value that the C code keeps in an \<open>alt_u32\<close> is a \<open>bool\<close>, and a rank is a \<open>nat\<close>.
\<close>

section \<open>Ranks\<close>

definition odt_masks :: "nat \<Rightarrow> u32 \<Rightarrow> u32 \<times> u32" where
  "odt_masks rank odt_mode =
     (if odt_mode = RW_MGR_ODT_MODE_READ_WRITE then
        if LRDIMM then
          if RW_MGR_MEM_CHIP_SELECT_WIDTH div RW_MGR_MEM_NUMBER_OF_CS_PER_DIMM = 1 then
            if RW_MGR_MEM_ODT_WIDTH = 1 then (0x0, 0x1)
            else if RW_MGR_MEM_ODT_WIDTH = 2 then (0x0, 0x3)
            else (0, 0)
          else if RW_MGR_MEM_CHIP_SELECT_WIDTH div RW_MGR_MEM_NUMBER_OF_CS_PER_DIMM = 2 then
            if RW_MGR_MEM_ODT_WIDTH = 2 then (if rank < 2 then 0x2 else 0x1, 0x3)
            else if RW_MGR_MEM_ODT_WIDTH = 4 then (if rank < 2 then 0xC else 0x3, 0xF)
            else (0, 0)
          else (0, 0)
        else if RW_MGR_MEM_NUMBER_OF_RANKS = 1 then (0x0, 0x1)
        else if RW_MGR_MEM_NUMBER_OF_RANKS = 2 then
          if RW_MGR_MEM_NUMBER_OF_CS_PER_DIMM = 1 \<or>
             RDIMM \<and> RW_MGR_MEM_NUMBER_OF_CS_PER_DIMM = 2 \<and> RW_MGR_MEM_CHIP_SELECT_WIDTH = 4
          then (0x3 AND NOT (push_bit rank 1), 0x3)
          else (0x0, 0x3 AND push_bit rank 1)
        else if rank = 0 then (0x4, 0x5)
        else if rank = 1 then (0x8, 0xA)
        else if rank = 2 then (0x1, 0x5)
        else if rank = 3 then (0x2, 0xA)
        else (0, 0)
      else (0x0, 0x0))"

text \<open>The code of the branch for LRDIMM modules is compiled only with them, so it is not here.\<close>

definition set_rank_and_odt_mask :: "'h plat \<Rightarrow> nat \<Rightarrow> u32 \<Rightarrow> 'h seq \<Rightarrow> 'h seq" where
  "set_rank_and_odt_mask P rank odt_mode =
     (let (odt_mask_0, odt_mask_1) = odt_masks rank odt_mode;
          cs = (if RDIMM \<and> RW_MGR_MEM_NUMBER_OF_CS_PER_DIMM = 2 \<and> RW_MGR_MEM_CHIP_SELECT_WIDTH = 4 \<and>
                   RW_MGR_MEM_NUMBER_OF_RANKS = 2
                then 0xFF AND NOT (push_bit (2 * rank) 1)
                else 0xFF AND NOT (push_bit rank 1));
          cs_and_odt_mask = cs OR push_bit 8 (0xFF AND odt_mask_0) OR push_bit 16 (0xFF AND odt_mask_1) in
      IOWR_32DIRECT P RW_MGR_SET_CS_AND_ODT_MASK 0 cs_and_odt_mask)"

text \<open>A loop over ranks that skips the ranks of \<open>skip_ranks\<close>.\<close>

definition for_ranks :: "nat list \<Rightarrow> (nat \<Rightarrow> 'h seq \<Rightarrow> 'h seq) \<Rightarrow> 'h seq \<Rightarrow> 'h seq" where
  "for_ranks rs f = for_each rs (\<lambda>r s. if skip_ranks (param s) ! r then s else f r s)"

section \<open>Delay loops\<close>

definition STATIC_CALIB_STEPS :: u16 where
  "STATIC_CALIB_STEPS = 0 OR CALIB_SKIP_FULL_TEST OR 0"

definition SKIP_DELAY_LOOP_VALUE_OR_ZERO :: "u32 \<Rightarrow> 'h seq \<Rightarrow> u32" where
  "SKIP_DELAY_LOOP_VALUE_OR_ZERO non_skip_value s = non_skip_value AND ucast (skip_delay_mask s)"

definition set_jump_as_return :: "'h plat \<Rightarrow> 'h seq \<Rightarrow> 'h seq" where
  "set_jump_as_return P = perform [
     IOWR_32DIRECT P RW_MGR_LOAD_CNTR_0 0 0xFF,
     IOWR_32DIRECT P RW_MGR_LOAD_JUMP_ADD_0 0 RW_MGR_RETURN]"

text \<open>The counters of a delay loop: \<open>inner\<close>, \<open>outer\<close> and \<open>c_loop\<close>, at their widths.\<close>

definition delay_counters :: "u32 \<Rightarrow> u8 \<times> u8 \<times> u16" where
  "delay_counters afi_clocks =
     (if afi_clocks = 0 then (0, 0, 0)
      else if afi_clocks \<le> 0x100 then (ucast (afi_clocks - 1), 0, 0)
      else if afi_clocks \<le> 0x10000 then (0xff, ucast (drop_bit 8 (afi_clocks - 1)), 0)
      else (0xff, 0xff, ucast (drop_bit 16 (afi_clocks - 1))))"

definition delay_for_n_mem_clocks :: "'h plat \<Rightarrow> u32 \<Rightarrow> 'h seq \<Rightarrow> 'h seq" where
  "delay_for_n_mem_clocks P clocks s =
     (let afi_clocks = (clocks + AFI_RATE_RATIO - 1) div AFI_RATE_RATIO;
          (inner, outer, c_loop) = delay_counters afi_clocks in
      if afi_clocks \<le> 0x100 then perform [
        IOWR_32DIRECT P RW_MGR_LOAD_CNTR_1 0 (SKIP_DELAY_LOOP_VALUE_OR_ZERO (ucast inner) s),
        IOWR_32DIRECT P RW_MGR_LOAD_JUMP_ADD_1 0 RW_MGR_IDLE_LOOP1,
        IOWR_32DIRECT P RW_MGR_RUN_SINGLE_GROUP 0 RW_MGR_IDLE_LOOP1] s
      else perform [
        IOWR_32DIRECT P RW_MGR_LOAD_CNTR_0 0 (SKIP_DELAY_LOOP_VALUE_OR_ZERO (ucast inner) s),
        IOWR_32DIRECT P RW_MGR_LOAD_CNTR_1 0 (SKIP_DELAY_LOOP_VALUE_OR_ZERO (ucast outer) s),
        IOWR_32DIRECT P RW_MGR_LOAD_JUMP_ADD_0 0 RW_MGR_IDLE_LOOP2,
        IOWR_32DIRECT P RW_MGR_LOAD_JUMP_ADD_1 0 RW_MGR_IDLE_LOOP2,
        (if afi_clocks \<le> 0x10000
         then IOWR_32DIRECT P RW_MGR_RUN_SINGLE_GROUP 0 RW_MGR_IDLE_LOOP2
         else (IOWR_32DIRECT P RW_MGR_RUN_SINGLE_GROUP 0 RW_MGR_IDLE_LOOP2 ^^ Suc (unat c_loop)))] s)"

definition delay_for_n_ns :: "'h plat \<Rightarrow> u32 \<Rightarrow> 'h seq \<Rightarrow> 'h seq" where
  "delay_for_n_ns P nanoseconds =
     delay_for_n_mem_clocks P ((1000 * nanoseconds) div (1000000 div AFI_CLK_FREQ) * AFI_RATE_RATIO)"

definition recover_mem_device_after_ck_dqs_violation :: "'h seq \<Rightarrow> 'h seq" where
  "recover_mem_device_after_ck_dqs_violation s = s"

section \<open>Initialisation and handoff of the memory\<close>

definition rw_mgr_rdimm_initialize :: "'h seq \<Rightarrow> 'h seq" where
  "rw_mgr_rdimm_initialize s = s"

text \<open>The three nested counters of a long delay, and the instruction that counts them down.\<close>

definition run_counters :: "'h plat \<Rightarrow> u32 \<Rightarrow> u32 \<Rightarrow> u32 \<Rightarrow> u32 \<Rightarrow> 'h seq \<Rightarrow> 'h seq" where
  "run_counters P cntr0 cntr1 cntr2 inst s = perform [
     IOWR_32DIRECT P RW_MGR_LOAD_CNTR_0 0 (SKIP_DELAY_LOOP_VALUE_OR_ZERO cntr0 s),
     IOWR_32DIRECT P RW_MGR_LOAD_CNTR_1 0 (SKIP_DELAY_LOOP_VALUE_OR_ZERO cntr1 s),
     IOWR_32DIRECT P RW_MGR_LOAD_CNTR_2 0 (SKIP_DELAY_LOOP_VALUE_OR_ZERO cntr2 s),
     IOWR_32DIRECT P RW_MGR_LOAD_JUMP_ADD_0 0 inst,
     IOWR_32DIRECT P RW_MGR_LOAD_JUMP_ADD_1 0 inst,
     IOWR_32DIRECT P RW_MGR_LOAD_JUMP_ADD_2 0 inst,
     IOWR_32DIRECT P RW_MGR_RUN_SINGLE_GROUP 0 inst] s"

definition reset_memory :: "'h plat \<Rightarrow> 'h seq \<Rightarrow> 'h seq" where
  "reset_memory P = perform [
     IOWR_32DIRECT P RW_MGR_SET_CS_AND_ODT_MASK 0 RW_MGR_RANK_ALL,
     run_counters P SEQ_TINIT_CNTR0_VAL SEQ_TINIT_CNTR1_VAL SEQ_TINIT_CNTR2_VAL RW_MGR_INIT_RESET_0_CKE_0,
     IOWR_32DIRECT P PHY_MGR_RESET_MEM_STBL 0 1,
     run_counters P SEQ_TRESET_CNTR0_VAL SEQ_TRESET_CNTR1_VAL SEQ_TRESET_CNTR2_VAL RW_MGR_INIT_RESET_1_CKE_0,
     delay_for_n_mem_clocks P 250,
     rw_mgr_rdimm_initialize]"

definition run_mrs :: "'h plat \<Rightarrow> u32 \<Rightarrow> 'h seq \<Rightarrow> 'h seq" where
  "run_mrs P inst = perform [set_jump_as_return P, IOWR_32DIRECT P RW_MGR_RUN_SINGLE_GROUP 0 inst]"

definition rw_mgr_mem_initialize :: "'h plat \<Rightarrow> 'h seq \<Rightarrow> 'h seq" where
  "rw_mgr_mem_initialize P = perform [
     reset_memory P,
     for_ranks [0..<RW_MGR_MEM_NUMBER_OF_RANKS] (\<lambda>r. perform [
       set_rank_and_odt_mask P r RW_MGR_ODT_MODE_OFF,
       (if odd (drop_bit r RW_MGR_MEM_ADDRESS_MIRRORING) then perform [
          run_mrs P RW_MGR_MRS2_MIRR,
          delay_for_n_mem_clocks P 4,
          run_mrs P RW_MGR_MRS3_MIRR,
          delay_for_n_mem_clocks P 4,
          run_mrs P RW_MGR_MRS1_MIRR,
          delay_for_n_mem_clocks P 4,
          run_mrs P RW_MGR_MRS0_DLL_RESET_MIRR]
        else perform [
          run_mrs P RW_MGR_MRS2,
          delay_for_n_mem_clocks P 4,
          run_mrs P RW_MGR_MRS3,
          delay_for_n_mem_clocks P 4,
          run_mrs P RW_MGR_MRS1,
          run_mrs P RW_MGR_MRS0_DLL_RESET]),
       run_mrs P RW_MGR_ZQCL,
       delay_for_n_mem_clocks P 512])]"

definition rw_mgr_mem_dll_lock_wait :: "'h seq \<Rightarrow> 'h seq" where
  "rw_mgr_mem_dll_lock_wait s = s"

definition rw_mgr_mem_handoff :: "'h plat \<Rightarrow> 'h seq \<Rightarrow> 'h seq" where
  "rw_mgr_mem_handoff P =
     for_ranks [0..<RW_MGR_MEM_NUMBER_OF_RANKS] (\<lambda>r. perform [
       set_rank_and_odt_mask P r RW_MGR_ODT_MODE_OFF,
       IOWR_32DIRECT P RW_MGR_RUN_SINGLE_GROUP 0 RW_MGR_PRECHARGE_ALL,
       (if odd (drop_bit r RW_MGR_MEM_ADDRESS_MIRRORING) then perform [
          run_mrs P RW_MGR_MRS2_MIRR,
          delay_for_n_mem_clocks P 4,
          run_mrs P RW_MGR_MRS3_MIRR,
          delay_for_n_mem_clocks P 4,
          run_mrs P RW_MGR_MRS1_MIRR,
          delay_for_n_mem_clocks P 4,
          run_mrs P RW_MGR_MRS0_USER_MIRR]
        else perform [
          run_mrs P RW_MGR_MRS2,
          delay_for_n_mem_clocks P 4,
          run_mrs P RW_MGR_MRS3,
          delay_for_n_mem_clocks P 4,
          run_mrs P RW_MGR_MRS1,
          delay_for_n_mem_clocks P 4,
          run_mrs P RW_MGR_MRS0_USER])])"

definition mem_precharge_and_activate :: "'h plat \<Rightarrow> 'h seq \<Rightarrow> 'h seq" where
  "mem_precharge_and_activate P =
     for_ranks [0..<RW_MGR_MEM_NUMBER_OF_RANKS] (\<lambda>r. perform [
       set_rank_and_odt_mask P r RW_MGR_ODT_MODE_OFF,
       IOWR_32DIRECT P RW_MGR_RUN_SINGLE_GROUP 0 RW_MGR_PRECHARGE_ALL,
       IOWR_32DIRECT P RW_MGR_LOAD_CNTR_0 0 0x0F,
       IOWR_32DIRECT P RW_MGR_LOAD_JUMP_ADD_0 0 RW_MGR_ACTIVATE_0_AND_1_WAIT1,
       IOWR_32DIRECT P RW_MGR_LOAD_CNTR_1 0 0x0F,
       IOWR_32DIRECT P RW_MGR_LOAD_JUMP_ADD_1 0 RW_MGR_ACTIVATE_0_AND_1_WAIT2,
       IOWR_32DIRECT P RW_MGR_RUN_SINGLE_GROUP 0 RW_MGR_ACTIVATE_0_AND_1])"

end
