(* ===== verification/Seq_Test.thy ===== *)
theory Seq_Test
  imports Seq_Rw
begin

text \<open>
  The read and write tests of \<open>sequencer.pre.c\<close>, the read FIFOs, the calibration of the read
  latency, and the setup of the register file. A test returns whether it passes, the bits that
  passed (\<open>bit_chk\<close>, which the C code returns through a pointer), and the state after it.
\<close>

section \<open>Read and write tests\<close>

definition rank_range :: "nat \<Rightarrow> bool \<Rightarrow> nat list" where
  "rank_range rank_bgn all_ranks =
     [rank_bgn..<(if all_ranks then RW_MGR_MEM_NUMBER_OF_RANKS else rank_bgn + NUM_RANKS_PER_SHADOW_REG)]"

text \<open>
  The loop that the tests share. For each rank that is not skipped: select it, set up the test,
  run it on each virtual group from the last to the first, and keep the bits without error.
\<close>

definition test_ranks ::
  "'h plat \<Rightarrow> nat list \<Rightarrow> nat \<Rightarrow> nat \<Rightarrow> u32 \<Rightarrow> ('h seq \<Rightarrow> 'h seq) \<Rightarrow> (nat \<Rightarrow> 'h seq \<Rightarrow> 'h seq) \<Rightarrow> u32 \<Rightarrow> 'h seq \<Rightarrow> u32 \<times> 'h seq" where
  "test_ranks P rs groups dq_per_group correct_mask_vg setup run bit_chk s =
     fold (\<lambda>r (bit_chk, s).
       if skip_ranks (param s) ! r then (bit_chk, s)
       else
         let s = setup (set_rank_and_odt_mask P r RW_MGR_ODT_MODE_READ_WRITE s);
             (tmp_bit_chk, s) = fold (\<lambda>vg (tmp_bit_chk, s).
               let s = run vg s;
                   (v, s) = IORD_32DIRECT P BASE_RW_MGR 0 s in
               (push_bit dq_per_group tmp_bit_chk OR (correct_mask_vg AND NOT v), s))
             (rev [0..<groups]) (0, s) in
         (bit_chk AND tmp_bit_chk, s)) rs (bit_chk, s)"

definition rw_mgr_mem_calibrate_read_test_patterns ::
  "'h plat \<Rightarrow> nat \<Rightarrow> u32 \<Rightarrow> bool \<Rightarrow> 'h seq \<Rightarrow> bool \<times> u32 \<times> 'h seq" where
  "rw_mgr_mem_calibrate_read_test_patterns P rank_bgn grp all_ranks s =
     (let (bit_chk, s) = test_ranks P (rank_range rank_bgn all_ranks) RW_MGR_MEM_VIRTUAL_GROUPS_PER_READ_DQS
            (RW_MGR_MEM_DQ_PER_READ_DQS div RW_MGR_MEM_VIRTUAL_GROUPS_PER_READ_DQS) (read_correct_mask_vg (param s))
            (perform [
              IOWR_32DIRECT P RW_MGR_LOAD_CNTR_0 0 0x20,
              IOWR_32DIRECT P RW_MGR_LOAD_JUMP_ADD_0 0 RW_MGR_GUARANTEED_READ,
              IOWR_32DIRECT P RW_MGR_LOAD_CNTR_1 0 0x20,
              IOWR_32DIRECT P RW_MGR_LOAD_JUMP_ADD_1 0 RW_MGR_GUARANTEED_READ_CONT])
            (\<lambda>vg. perform [
              IOWR_32DIRECT P PHY_MGR_CMD_FIFO_RESET 0 0,
              IOWR_32DIRECT P RW_MGR_RESET_READ_DATAPATH 0 0,
              IOWR_32DIRECT P RW_MGR_RUN_SINGLE_GROUP
                (push_bit 2 (grp * of_nat RW_MGR_MEM_VIRTUAL_GROUPS_PER_READ_DQS + of_nat vg)) RW_MGR_GUARANTEED_READ])
            (read_correct_mask (param s)) s;
          s = IOWR_32DIRECT P RW_MGR_RUN_SINGLE_GROUP (push_bit 2 grp) RW_MGR_CLEAR_DQS_ENABLE s;
          s = set_rank_and_odt_mask P 0 RW_MGR_ODT_MODE_OFF s in
      (bit_chk = read_correct_mask (param s), bit_chk, s))"

text \<open>The retries of the guaranteed read with other DQS-enable phases.\<close>

fun try_dqs_en_phases :: "'h plat \<Rightarrow> u32 \<Rightarrow> nat list \<Rightarrow> u32 \<Rightarrow> 'h seq \<Rightarrow> bool \<times> u32 \<times> 'h seq" where
  "try_dqs_en_phases P grp [] bit_chk s = (False, bit_chk, s)"
| "try_dqs_en_phases P grp (p # ps) bit_chk s =
     (let s = scc_mgr_set_dqs_en_phase_all_ranks P grp (of_nat p) s;
          (ok, bit_chk, s) = rw_mgr_mem_calibrate_read_test_patterns P 0 grp True s in
      if ok then (True, bit_chk, s) else try_dqs_en_phases P grp ps bit_chk s)"

definition rw_mgr_mem_calibrate_read_test_patterns_all_ranks :: "'h plat \<Rightarrow> u32 \<Rightarrow> 'h seq \<Rightarrow> bool \<times> u32 \<times> 'h seq" where
  "rw_mgr_mem_calibrate_read_test_patterns_all_ranks P grp s =
     (let (ok, bit_chk, s) = rw_mgr_mem_calibrate_read_test_patterns P 0 grp True s in
      if ok then (True, bit_chk, s)
      else try_dqs_en_phases P grp [0..<Suc IO_DQS_EN_PHASE_MAX] bit_chk s)"

definition rw_mgr_mem_calibrate_read_load_patterns :: "'h plat \<Rightarrow> nat \<Rightarrow> bool \<Rightarrow> 'h seq \<Rightarrow> 'h seq" where
  "rw_mgr_mem_calibrate_read_load_patterns P rank_bgn all_ranks = perform [
     for_ranks (rank_range rank_bgn all_ranks) (\<lambda>r. perform [
       set_rank_and_odt_mask P r RW_MGR_ODT_MODE_READ_WRITE,
       IOWR_32DIRECT P RW_MGR_LOAD_CNTR_0 0 0x20,
       IOWR_32DIRECT P RW_MGR_LOAD_JUMP_ADD_0 0 RW_MGR_GUARANTEED_WRITE_WAIT0,
       IOWR_32DIRECT P RW_MGR_LOAD_CNTR_1 0 0x20,
       IOWR_32DIRECT P RW_MGR_LOAD_JUMP_ADD_1 0 RW_MGR_GUARANTEED_WRITE_WAIT1,
       IOWR_32DIRECT P RW_MGR_LOAD_CNTR_2 0 0x04,
       IOWR_32DIRECT P RW_MGR_LOAD_JUMP_ADD_2 0 RW_MGR_GUARANTEED_WRITE_WAIT2,
       IOWR_32DIRECT P RW_MGR_LOAD_CNTR_3 0 0x04,
       IOWR_32DIRECT P RW_MGR_LOAD_JUMP_ADD_3 0 RW_MGR_GUARANTEED_WRITE_WAIT3,
       IOWR_32DIRECT P RW_MGR_RUN_SINGLE_GROUP 0 RW_MGR_GUARANTEED_WRITE]),
     set_rank_and_odt_mask P 0 RW_MGR_ODT_MODE_OFF]"

definition rw_mgr_mem_calibrate_read_load_patterns_all_ranks :: "'h plat \<Rightarrow> 'h seq \<Rightarrow> 'h seq" where
  "rw_mgr_mem_calibrate_read_load_patterns_all_ranks P = rw_mgr_mem_calibrate_read_load_patterns P 0 True"

definition rw_mgr_mem_calibrate_read_test ::
  "'h plat \<Rightarrow> nat \<Rightarrow> u32 \<Rightarrow> bool \<Rightarrow> bool \<Rightarrow> bool \<Rightarrow> 'h seq \<Rightarrow> bool \<times> u32 \<times> 'h seq" where
  "rw_mgr_mem_calibrate_read_test P rank_bgn grp all_correct all_groups all_ranks s =
     (let quick_read_mode = (STATIC_CALIB_STEPS AND CALIB_SKIP_DELAY_SWEEPS \<noteq> 0 \<and> ENABLE_SUPER_QUICK_CALIBRATION \<or> BFM_MODE);
          (bit_chk, s) = test_ranks P (rank_range rank_bgn all_ranks) RW_MGR_MEM_VIRTUAL_GROUPS_PER_READ_DQS
            (RW_MGR_MEM_DQ_PER_READ_DQS div RW_MGR_MEM_VIRTUAL_GROUPS_PER_READ_DQS) (read_correct_mask_vg (param s))
            (perform [
              IOWR_32DIRECT P RW_MGR_LOAD_CNTR_1 0 0x10,
              IOWR_32DIRECT P RW_MGR_LOAD_JUMP_ADD_1 0 RW_MGR_READ_B2B_WAIT1,
              IOWR_32DIRECT P RW_MGR_LOAD_CNTR_2 0 0x10,
              IOWR_32DIRECT P RW_MGR_LOAD_JUMP_ADD_2 0 RW_MGR_READ_B2B_WAIT2,
              IOWR_32DIRECT P RW_MGR_LOAD_CNTR_0 0 (if quick_read_mode then 0x1 else if all_groups then 0x06 else 0x32),
              IOWR_32DIRECT P RW_MGR_LOAD_JUMP_ADD_0 0 RW_MGR_READ_B2B,
              IOWR_32DIRECT P RW_MGR_LOAD_CNTR_3 0
                (if all_groups then of_nat (RW_MGR_MEM_IF_READ_DQS_WIDTH * RW_MGR_MEM_VIRTUAL_GROUPS_PER_READ_DQS - 1) else 0x0),
              IOWR_32DIRECT P RW_MGR_LOAD_JUMP_ADD_3 0 RW_MGR_READ_B2B])
            (\<lambda>vg. perform [
              IOWR_32DIRECT P PHY_MGR_CMD_FIFO_RESET 0 0,
              IOWR_32DIRECT P RW_MGR_RESET_READ_DATAPATH 0 0,
              IOWR_32DIRECT P (if all_groups then RW_MGR_RUN_ALL_GROUPS else RW_MGR_RUN_SINGLE_GROUP)
                (push_bit 2 (grp * of_nat RW_MGR_MEM_VIRTUAL_GROUPS_PER_READ_DQS + of_nat vg)) RW_MGR_READ_B2B])
            (read_correct_mask (param s)) s;
          s = IOWR_32DIRECT P RW_MGR_RUN_SINGLE_GROUP (push_bit 2 grp) RW_MGR_CLEAR_DQS_ENABLE s;
          s = set_rank_and_odt_mask P 0 RW_MGR_ODT_MODE_OFF s in
      (if all_correct then bit_chk = read_correct_mask (param s) else bit_chk \<noteq> 0x00, bit_chk, s))"

fun read_test_tries :: "'h plat \<Rightarrow> u32 \<Rightarrow> bool \<Rightarrow> bool \<Rightarrow> nat \<Rightarrow> u32 \<Rightarrow> 'h seq \<Rightarrow> bool \<times> u32 \<times> 'h seq" where
  "read_test_tries P grp all_correct all_groups 0 bit_chk s = (True, bit_chk, s)"
| "read_test_tries P grp all_correct all_groups (Suc n) bit_chk s =
     (let (one_test_success, bit_chk, s) = rw_mgr_mem_calibrate_read_test P 0 grp all_correct all_groups True s in
      if \<not> one_test_success then (False, bit_chk, s)
      else read_test_tries P grp all_correct all_groups n bit_chk s)"

definition rw_mgr_mem_calibrate_read_test_all_ranks ::
  "'h plat \<Rightarrow> u32 \<Rightarrow> nat \<Rightarrow> bool \<Rightarrow> bool \<Rightarrow> u32 \<Rightarrow> 'h seq \<Rightarrow> bool \<times> u32 \<times> 'h seq" where
  "rw_mgr_mem_calibrate_read_test_all_ranks P grp num_tries all_correct all_groups bit_chk s =
     read_test_tries P grp all_correct all_groups (if num_tries = 0 then 1 else num_tries) bit_chk s"

text \<open>
  \<open>rw_wl_nop_cycles == -1\<close> compares an unsigned number, so the branch is the one of \<open>0xFFFFFFFF\<close>.
\<close>

definition rw_mgr_mem_calibrate_write_test_issue :: "'h plat \<Rightarrow> u32 \<Rightarrow> bool \<Rightarrow> 'h seq \<Rightarrow> 'h seq" where
  "rw_mgr_mem_calibrate_write_test_issue P grp test_dm s =
     (let quick_write_mode = (STATIC_CALIB_STEPS AND CALIB_SKIP_WRITES \<noteq> 0 \<and> ENABLE_SUPER_QUICK_CALIBRATION \<or> BFM_MODE);
          nop_cycles = rw_wl_nop_cycles (gbl s);
          mcc_instruction =
            (if nop_cycles = - 1 then if test_dm then RW_MGR_LFSR_WR_RD_DM_BANK_0_WL_1 else RW_MGR_LFSR_WR_RD_BANK_0_WL_1
             else if test_dm then RW_MGR_LFSR_WR_RD_DM_BANK_0 else RW_MGR_LFSR_WR_RD_BANK_0) in
      perform [
        (if nop_cycles = - 1 then perform [
           IOWR_32DIRECT P RW_MGR_LOAD_CNTR_2 0 0xFF,
           IOWR_32DIRECT P RW_MGR_LOAD_JUMP_ADD_2 0
             (if test_dm then RW_MGR_LFSR_WR_RD_DM_BANK_0_DATA else RW_MGR_LFSR_WR_RD_BANK_0_DATA),
           IOWR_32DIRECT P RW_MGR_LOAD_JUMP_ADD_3 0
             (if test_dm then RW_MGR_LFSR_WR_RD_DM_BANK_0_NOP else RW_MGR_LFSR_WR_RD_BANK_0_NOP)]
         else if nop_cycles = 0 then perform [
           IOWR_32DIRECT P RW_MGR_LOAD_CNTR_2 0 0xFF,
           IOWR_32DIRECT P RW_MGR_LOAD_JUMP_ADD_2 0
             (if test_dm then RW_MGR_LFSR_WR_RD_DM_BANK_0_DQS else RW_MGR_LFSR_WR_RD_BANK_0_DQS)]
         else perform [
           IOWR_32DIRECT P RW_MGR_LOAD_CNTR_2 0 0x0,
           IOWR_32DIRECT P RW_MGR_LOAD_JUMP_ADD_2 0 0x0,
           IOWR_32DIRECT P RW_MGR_LOAD_CNTR_3 0 (nop_cycles - 1),
           IOWR_32DIRECT P RW_MGR_LOAD_JUMP_ADD_3 0
             (if test_dm then RW_MGR_LFSR_WR_RD_DM_BANK_0_NOP else RW_MGR_LFSR_WR_RD_BANK_0_NOP)]),
        IOWR_32DIRECT P RW_MGR_RESET_READ_DATAPATH 0 0,
        IOWR_32DIRECT P RW_MGR_LOAD_CNTR_0 0 (if quick_write_mode then 0x08 else 0x40),
        IOWR_32DIRECT P RW_MGR_LOAD_JUMP_ADD_0 0 mcc_instruction,
        IOWR_32DIRECT P RW_MGR_LOAD_CNTR_1 0 0x30,
        IOWR_32DIRECT P RW_MGR_LOAD_JUMP_ADD_1 0
          (if test_dm then RW_MGR_LFSR_WR_RD_DM_BANK_0_WAIT else RW_MGR_LFSR_WR_RD_BANK_0_WAIT),
        IOWR_32DIRECT P RW_MGR_RUN_SINGLE_GROUP (push_bit 2 grp) mcc_instruction] s)"

definition rw_mgr_mem_calibrate_write_test ::
  "'h plat \<Rightarrow> nat \<Rightarrow> u32 \<Rightarrow> bool \<Rightarrow> bool \<Rightarrow> bool \<Rightarrow> 'h seq \<Rightarrow> bool \<times> u32 \<times> 'h seq" where
  "rw_mgr_mem_calibrate_write_test P rank_bgn write_group use_dm all_correct all_ranks s =
     (let (bit_chk, s) = test_ranks P (rank_range rank_bgn all_ranks) RW_MGR_MEM_VIRTUAL_GROUPS_PER_WRITE_DQS
            (RW_MGR_MEM_DQ_PER_WRITE_DQS div RW_MGR_MEM_VIRTUAL_GROUPS_PER_WRITE_DQS) (write_correct_mask_vg (param s))
            (perform [])
            (\<lambda>vg. perform [
              IOWR_32DIRECT P PHY_MGR_CMD_FIFO_RESET 0 0,
              rw_mgr_mem_calibrate_write_test_issue P
                (write_group * of_nat RW_MGR_MEM_VIRTUAL_GROUPS_PER_WRITE_DQS + of_nat vg) use_dm])
            (write_correct_mask (param s)) s;
          s = set_rank_and_odt_mask P 0 RW_MGR_ODT_MODE_OFF s in
      (if all_correct then bit_chk = write_correct_mask (param s) else bit_chk \<noteq> 0x00, bit_chk, s))"

definition rw_mgr_mem_calibrate_write_test_all_ranks :: "'h plat \<Rightarrow> u32 \<Rightarrow> bool \<Rightarrow> bool \<Rightarrow> 'h seq \<Rightarrow> bool \<times> u32 \<times> 'h seq" where
  "rw_mgr_mem_calibrate_write_test_all_ranks P write_group use_dm all_correct =
     rw_mgr_mem_calibrate_write_test P 0 write_group use_dm all_correct True"

section \<open>Read FIFOs\<close>

definition HALF_RATE_MODE :: bool where "HALF_RATE_MODE = False"
definition QUARTER_RATE_MODE :: bool where "QUARTER_RATE_MODE = False"

definition rw_mgr_incr_vfifo :: "'h plat \<Rightarrow> u32 \<Rightarrow> u32 \<Rightarrow> 'h seq \<Rightarrow> u32 \<times> 'h seq" where
  "rw_mgr_incr_vfifo P grp v s =
     (let reg =
            (if HARD_PHY then PHY_MGR_CMD_INC_VFIFO_HARD_PHY
             else if QUARTER_RATE_MODE \<and> \<not> HARD_VFIFO then
               if v AND 3 = 3 then PHY_MGR_CMD_INC_VFIFO_QR
               else if v AND 2 = 2 then PHY_MGR_CMD_INC_VFIFO_FR_HR
               else if v AND 1 = 1 then PHY_MGR_CMD_INC_VFIFO_HR
               else PHY_MGR_CMD_INC_VFIFO_FR
             else if HARD_VFIFO then PHY_MGR_CMD_INC_VFIFO_FR
             else if \<not> HALF_RATE_MODE \<or> v AND 1 = 1 then PHY_MGR_CMD_INC_VFIFO_HR
             else PHY_MGR_CMD_INC_VFIFO_FR) in
      (v + 1, IOWR_32DIRECT P reg 0 grp s))"

definition rw_mgr_incr_vfifo_all :: "'h plat \<Rightarrow> u32 \<Rightarrow> u32 \<Rightarrow> 'h seq \<Rightarrow> u32 \<times> 'h seq" where
  "rw_mgr_incr_vfifo_all P grp v = rw_mgr_incr_vfifo P grp v"

definition rw_mgr_decr_vfifo :: "'h plat \<Rightarrow> u32 \<Rightarrow> u32 \<Rightarrow> 'h seq \<Rightarrow> u32 \<times> 'h seq" where
  "rw_mgr_decr_vfifo P grp v s =
     ((\<lambda>(v, s). rw_mgr_incr_vfifo P grp v s) ^^ (VFIFO_SIZE - 1)) (v, s)"

section \<open>Latencies\<close>

definition MEM_T_WL_ADD :: u32 where "MEM_T_WL_ADD = DATA_MGR_MEM_T_WL"
definition MEM_T_RL_ADD :: u32 where "MEM_T_RL_ADD = DATA_MGR_MEM_T_RL"

definition set_read_lat :: "u32 \<Rightarrow> 'h seq \<Rightarrow> 'h seq" where
  "set_read_lat lat s = s\<lparr>gbl := (gbl s)\<lparr>curr_read_lat := lat\<rparr>\<rparr>"

definition write_read_lat :: "'h plat \<Rightarrow> 'h seq \<Rightarrow> 'h seq" where
  "write_read_lat P s = IOWR_32DIRECT P PHY_MGR_PHY_RLAT 0 (curr_read_lat (gbl s)) s"

text \<open>
  \<open>nop_cycles_of\<close>, \<open>max_latency\<close> and \<open>burst_latencies\<close> are the three case distinctions of
  \<open>mem_config\<close> on the rate: the idle cycles before a write, the greatest read latency, and the
  write latency and first read latency for bursts of 8.
\<close>

definition nop_cycles_of :: "u32 \<Rightarrow> u32" where
  "nop_cycles_of wlat =
     (if QUARTER_RATE_MODE then (wlat + 6) div 4 - 1
      else if HALF_RATE_MODE then if wlat mod 2 \<noteq> 0 then (wlat - 1) div 2 - 1 else wlat div 2 - 1
      else wlat - 2)"

definition max_latency :: u32 where
  "max_latency =
     (if QUARTER_RATE_MODE then push_bit MAX_LATENCY_COUNT_WIDTH 1 div 4 - 1
      else if HALF_RATE_MODE then push_bit MAX_LATENCY_COUNT_WIDTH 1 div 2 - 1
      else push_bit MAX_LATENCY_COUNT_WIDTH 1 div 1 - 1)"

definition burst_latencies :: "u32 \<Rightarrow> u32 \<Rightarrow> u32 \<times> u32" where
  "burst_latencies wlat rlat =
     (if QUARTER_RATE_MODE then ((wlat + 5) div 4 + 1, (rlat + 1) div 4 + 8)
      else if HALF_RATE_MODE then ((wlat - 1) div 2 + 1, (rlat + 1) div 2 + 8)
      else (wlat + 1, rlat + 16))"

definition mem_config :: "'h plat \<Rightarrow> 'h seq \<Rightarrow> 'h seq" where
  "mem_config P s =
     (let (wl, s) = IORD_32DIRECT P MEM_T_WL_ADD 0 s;
          (add, s) = IORD_32DIRECT P DATA_MGR_MEM_T_ADD 0 s;
          wlat = wl + add + 1;
          (rlat, s) = IORD_32DIRECT P MEM_T_RL_ADD 0 s;
          s = s\<lparr>gbl := (gbl s)\<lparr>rw_wl_nop_cycles := nop_cycles_of wlat\<rparr>\<rparr>;
          (wlat, read_lat) = burst_latencies wlat rlat;
          s = set_read_lat (if read_lat > max_latency then max_latency else read_lat) s;
          s = write_read_lat P s;
          s = s\<lparr>gbl := (gbl s)\<lparr>curr_write_lat := wlat\<rparr>\<rparr>;
          s = IOWR_32DIRECT P PHY_MGR_AFI_WLAT 0 (wlat - 2) s in
      mem_precharge_and_activate P s)"

text \<open>The phase \<open>1.25 * IO_DLL_CHAIN_LENGTH - 2\<close> is exact, since the length is a multiple of 4.\<close>

definition mem_skip_calibrate :: "'h plat \<Rightarrow> 'h seq \<Rightarrow> 'h seq" where
  "mem_skip_calibrate P = perform [
     for_each ranks (\<lambda>r. perform [
       select_shadow_regs_for_update (of_nat r) 0 1,
       for_each [0..<RW_MGR_MEM_IF_READ_DQS_WIDTH] (\<lambda>i. perform [
         scc_mgr_set_dqs_en_phase P (of_nat i) 0,
         scc_mgr_set_dqdqs_output_phase P (of_nat i) (of_nat (5 * IO_DLL_CHAIN_LENGTH div 4 - 2))]),
       IOWR_32DIRECT P SCC_MGR_DQS_ENA 0 0xff,
       IOWR_32DIRECT P SCC_MGR_DQS_IO_ENA 0 0xff,
       for_each [0..<RW_MGR_MEM_IF_WRITE_DQS_WIDTH] (\<lambda>i. perform [
         IOWR_32DIRECT P SCC_MGR_GROUP_COUNTER 0 (of_nat i),
         IOWR_32DIRECT P SCC_MGR_DQ_ENA 0 0xff,
         IOWR_32DIRECT P SCC_MGR_DM_ENA 0 0xff]),
       IOWR_32DIRECT P SCC_MGR_UPD 0 0]),
     for_each [0..<RW_MGR_MEM_IF_READ_DQS_WIDTH] (\<lambda>i. perform [
       scc_mgr_set_dqs_bus_in_delay P (of_nat i) 10,
       scc_mgr_load_dqs P (of_nat i)]),
     IOWR_32DIRECT P SCC_MGR_UPD 0 0,
     for_each [0..<CALIB_VFIFO_OFFSET] (\<lambda>j.
       IOWR_32DIRECT P (if HARD_PHY then PHY_MGR_CMD_INC_VFIFO_HARD_PHY else PHY_MGR_CMD_INC_VFIFO_FR) 0 0xff),
     IOWR_32DIRECT P PHY_MGR_CMD_FIFO_RESET 0 0,
     set_read_lat CALIB_LFIFO_OFFSET,
     write_read_lat P]"

section \<open>Setup of the register file\<close>

definition initialize_reg_file :: "'h plat \<Rightarrow> 'h seq \<Rightarrow> 'h seq" where
  "initialize_reg_file P = perform [
     IOWR_32DIRECT P REG_FILE_SIGNATURE 0 REG_FILE_INIT_SEQ_SIGNATURE,
     IOWR_32DIRECT P REG_FILE_DEBUG_DATA_ADDR 0 0,
     IOWR_32DIRECT P REG_FILE_CUR_STAGE 0 0,
     IOWR_32DIRECT P REG_FILE_FOM 0 0,
     IOWR_32DIRECT P REG_FILE_FAILING_STAGE 0 0,
     IOWR_32DIRECT P REG_FILE_DEBUG1 0 0,
     IOWR_32DIRECT P REG_FILE_DEBUG2 0 0]"

text \<open>
  The setters, offsets and widths of the PHY control registers are macros of \<open>sdram.h\<close>, which is
  not in the repository.
\<close>

record phyctrl =
  PHYCTRL_0_ACDELAYEN_SET :: "u32 \<Rightarrow> u32"
  PHYCTRL_0_DQDELAYEN_SET :: "u32 \<Rightarrow> u32"
  PHYCTRL_0_DQSDELAYEN_SET :: "u32 \<Rightarrow> u32"
  PHYCTRL_0_DQSLOGICDELAYEN_SET :: "u32 \<Rightarrow> u32"
  PHYCTRL_0_RESETDELAYEN_SET :: "u32 \<Rightarrow> u32"
  PHYCTRL_0_LPDDRDIS_SET :: "u32 \<Rightarrow> u32"
  PHYCTRL_0_ADDLATSEL_SET :: "u32 \<Rightarrow> u32"
  PHYCTRL_0_SAMPLECOUNT_19_0_SET :: "u32 \<Rightarrow> u32"
  PHYCTRL_1_SAMPLECOUNT_31_20_SET :: "u32 \<Rightarrow> u32"
  PHYCTRL_1_LONGIDLESAMPLECOUNT_19_0_SET :: "u32 \<Rightarrow> u32"
  PHYCTRL_2_LONGIDLESAMPLECOUNT_31_20_SET :: "u32 \<Rightarrow> u32"
  PHYCTRL_0_OFFSET :: u32
  PHYCTRL_1_OFFSET :: u32
  PHYCTRL_2_OFFSET :: u32
  PHYCTRL_0_SAMPLECOUNT_19_0_WIDTH :: nat
  PHYCTRL_1_LONGIDLESAMPLECOUNT_19_0_WIDTH :: nat

definition initialize_hps_phy :: "'h plat \<Rightarrow> phyctrl \<Rightarrow> 'h seq \<Rightarrow> 'h seq" where
  "initialize_hps_phy P C =
     (let trk_sample_count = 7500;
          trk_long_idle_sample_count = push_bit 16 10 OR 100 in perform [
       IOWR_32DIRECT P BASE_MMR (PHYCTRL_0_OFFSET C)
         (0 OR PHYCTRL_0_ACDELAYEN_SET C 2 OR PHYCTRL_0_DQDELAYEN_SET C 1 OR PHYCTRL_0_DQSDELAYEN_SET C 1
          OR PHYCTRL_0_DQSLOGICDELAYEN_SET C 1 OR PHYCTRL_0_RESETDELAYEN_SET C 0 OR PHYCTRL_0_LPDDRDIS_SET C 1
          OR PHYCTRL_0_ADDLATSEL_SET C 0 OR PHYCTRL_0_SAMPLECOUNT_19_0_SET C trk_sample_count),
       IOWR_32DIRECT P BASE_MMR (PHYCTRL_1_OFFSET C)
         (0 OR PHYCTRL_1_SAMPLECOUNT_31_20_SET C (drop_bit (PHYCTRL_0_SAMPLECOUNT_19_0_WIDTH C) trk_sample_count)
          OR PHYCTRL_1_LONGIDLESAMPLECOUNT_19_0_SET C trk_long_idle_sample_count),
       IOWR_32DIRECT P BASE_MMR (PHYCTRL_2_OFFSET C)
         (0 OR PHYCTRL_2_LONGIDLESAMPLECOUNT_31_20_SET C
            (drop_bit (PHYCTRL_1_LONGIDLESAMPLECOUNT_19_0_WIDTH C) trk_long_idle_sample_count))])"

text \<open>The loop that counts the delay taps of a phase tap.\<close>

function count_taps :: "u32 \<Rightarrow> u32 \<Rightarrow> u32" where
  "count_taps dtaps_per_ptap tmp_delay =
     (if tmp_delay < IO_DELAY_PER_OPA_TAP
      then count_taps (dtaps_per_ptap + 1) (tmp_delay + IO_DELAY_PER_DCHAIN_TAP) else dtaps_per_ptap)"
  by pat_completeness auto
termination
proof (relation "measure (\<lambda>(taps, tmp_delay). 312 - unat tmp_delay)", goal_cases)
  case (2 taps tmp_delay)
  then have "unat tmp_delay < 312"
    by (simp add: IO_DELAY_PER_OPA_TAP_def word_less_nat_alt)
  then show ?case by (simp add: IO_DELAY_PER_DCHAIN_TAP_def unat_word_ariths)
qed simp

declare count_taps.simps [simp del]

definition concatenate :: "u32 \<Rightarrow> (nat \<times> u32) list \<Rightarrow> u32" where
  "concatenate x parts = fold (\<lambda>(shift, y) acc. push_bit shift acc XOR y) parts x"

definition initialize_tracking :: "'h plat \<Rightarrow> 'h seq \<Rightarrow> 'h seq" where
  "initialize_tracking P =
     (let dtaps_per_ptap = count_taps 0 0 - 1;
          concatenated_longidle = concatenate 0 [(0, 10), (16, 100)];
          concatenated_delays = concatenate 0 [(0, 243), (8, 14), (8, 10), (8, 4)];
          concatenated_rw_addr = concatenate 0
            [(0, RW_MGR_IDLE), (8, RW_MGR_ACTIVATE_1), (8, RW_MGR_SGLE_READ), (8, RW_MGR_PRECHARGE_ALL)];
          concatenated_refresh = concatenate 0 [(0, RW_MGR_REFRESH_ALL), (24, 1000)] in perform [
       IOWR_32DIRECT P REG_FILE_DTAPS_PER_PTAP 0 dtaps_per_ptap,
       IOWR_32DIRECT P REG_FILE_TRK_SAMPLE_COUNT 0 7500,
       IOWR_32DIRECT P REG_FILE_TRK_LONGIDLE 0 concatenated_longidle,
       IOWR_32DIRECT P REG_FILE_DELAYS 0 concatenated_delays,
       IOWR_32DIRECT P REG_FILE_TRK_RW_MGR_ADDR 0 concatenated_rw_addr,
       IOWR_32DIRECT P REG_FILE_TRK_READ_DQS_WIDTH 0 (of_nat RW_MGR_MEM_IF_READ_DQS_WIDTH),
       IOWR_32DIRECT P REG_FILE_TRK_RFSH 0 concatenated_refresh])"

definition hc_initialize_rom_data :: "'h plat \<Rightarrow> 'h seq \<Rightarrow> 'h seq" where
  "hc_initialize_rom_data P = perform [
     for_each [0..<inst_rom_init_size] (\<lambda>i.
       IOWR_32DIRECT P RW_MGR_INST_ROM_WRITE (push_bit 2 (of_nat i)) (inst_rom_init ! i)),
     for_each [0..<ac_rom_init_size] (\<lambda>i.
       IOWR_32DIRECT P RW_MGR_AC_ROM_WRITE (push_bit 2 (of_nat i)) (ac_rom_init ! i))]"

end
