(* ===== verification/Seq_Lfifo.thy ===== *)
theory Seq_Lfifo
  imports Seq_Test
begin

text \<open>
  Functions of the firmware that change the hardware only, and the calibration of the read latency
  (\<open>rw_mgr_mem_calibrate_lfifo\<close>), whose loop ends because the read test is such a function.
\<close>

section \<open>Functions that change the hardware only\<close>

definition hw_only :: "('h seq \<Rightarrow> 'h seq) \<Rightarrow> bool" where
  "hw_only f \<longleftrightarrow> (\<forall>s. f s = s\<lparr>hw := hw (f s)\<rparr>)"

named_theorems hw_only_intros \<open>functions that change the hardware only\<close>

lemma hw_onlyI: "(\<And>s. \<exists>h. f s = s\<lparr>hw := h\<rparr>) \<Longrightarrow> hw_only f"
  unfolding hw_only_def by (metis seq.select_convs(5) seq.surjective seq.update_convs(5))

lemma hw_onlyE: "hw_only f \<Longrightarrow> \<exists>h. f s = s\<lparr>hw := h\<rparr>"
  unfolding hw_only_def by blast

lemma hw_onlyD:
  assumes "hw_only f"
  shows "gbl (f s) = gbl s" "param (f s) = param s" "dyn_calib_steps (f s) = dyn_calib_steps s"
    "skip_delay_mask (f s) = skip_delay_mask s"
proof -
  have "f s = s\<lparr>hw := hw (f s)\<rparr>" using assms by (simp add: hw_only_def)
  from arg_cong [OF this, of gbl] arg_cong [OF this, of param] arg_cong [OF this, of dyn_calib_steps]
    arg_cong [OF this, of skip_delay_mask]
  show "gbl (f s) = gbl s" "param (f s) = param s" "dyn_calib_steps (f s) = dyn_calib_steps s"
    "skip_delay_mask (f s) = skip_delay_mask s" by simp_all
qed

lemma hw_only_id [hw_only_intros]: "hw_only (\<lambda>s. s)" "hw_only (perform [])"
  by (auto simp: hw_only_def perform_def)

lemma hw_only_comp: "hw_only f \<Longrightarrow> hw_only g \<Longrightarrow> hw_only (\<lambda>s. g (f s))"
proof (rule hw_onlyI)
  fix s assume f: "hw_only f" and g: "hw_only g"
  obtain h where "f s = s\<lparr>hw := h\<rparr>" using hw_onlyE [OF f] by blast
  moreover obtain h' where "g (f s) = (f s)\<lparr>hw := h'\<rparr>" using hw_onlyE [OF g] by blast
  ultimately have "g (f s) = s\<lparr>hw := h'\<rparr>" by simp
  then show "\<exists>h. g (f s) = s\<lparr>hw := h\<rparr>" by blast
qed

lemma hw_only_IOWR [hw_only_intros]: "hw_only (IOWR_32DIRECT P base off data)"
  by (rule hw_onlyI) (auto simp: IOWR_32DIRECT_def)

lemma hw_only_IORD [hw_only_intros]: "hw_only (\<lambda>s. snd (IORD_32DIRECT P base off s))"
  by (rule hw_onlyI) (auto simp: IORD_32DIRECT_def split: prod.splits)

lemma hw_only_perform [hw_only_intros]: "hw_only f \<Longrightarrow> hw_only (perform fs) \<Longrightarrow> hw_only (perform (f # fs))"
  using hw_only_comp [of f "perform fs"] by (simp add: hw_only_def perform_simps)

lemma hw_only_for_each [hw_only_intros]: "(\<And>x. hw_only (f x)) \<Longrightarrow> hw_only (for_each xs f)"
proof (induction xs)
  case Nil
  then show ?case by (simp add: hw_only_def for_each_simps)
next
  case (Cons x xs)
  then show ?case using hw_only_comp [of "f x" "for_each xs f"] by (simp add: hw_only_def for_each_simps)
qed

lemma hw_only_cond [hw_only_intros]: "(\<And>s. b s \<Longrightarrow> hw_only f) \<Longrightarrow> hw_only g \<Longrightarrow> hw_only (\<lambda>s. if b s then f s else g s)"
  by (auto simp: hw_only_def)

lemma hw_only_for_ranks [hw_only_intros]: "(\<And>r. hw_only (f r)) \<Longrightarrow> hw_only (for_ranks rs f)"
  unfolding for_ranks_def by (intro hw_only_intros)

lemma hw_only_set_rank [hw_only_intros]: "hw_only (set_rank_and_odt_mask P r mode)"
  unfolding set_rank_and_odt_mask_def Let_def by (simp add: hw_only_intros split: prod.split)

text \<open>A loop that accumulates a value and changes the hardware only.\<close>

lemma hw_only_fold:
  assumes "\<And>x a. hw_only (\<lambda>s. snd (f x (a, s)))"
  shows "hw_only (\<lambda>s. snd (fold f xs (a, s)))"
proof (rule hw_onlyI)
  fix s
  show "\<exists>h. snd (fold f xs (a, s)) = s\<lparr>hw := h\<rparr>"
  proof (induction xs arbitrary: a s)
    case Nil
    show ?case by (rule exI [of _ "hw s"]) simp
  next
    case (Cons x xs)
    obtain a' s' where f: "f x (a, s) = (a', s')" by force
    obtain h where s': "s' = s\<lparr>hw := h\<rparr>"
      using hw_onlyE [OF assms [of x a], of s] f by auto
    obtain h' where "snd (fold f xs (a', s')) = s'\<lparr>hw := h'\<rparr>" using Cons by blast
    then show ?case using f s' by auto
  qed
qed

lemma hw_only_test_ranks':
  assumes "hw_only setup" "\<And>vg. hw_only (run vg)"
  shows "hw_only (\<lambda>s. snd (test_ranks P rs n k m setup run chk s))"
  unfolding test_ranks_def
proof (rule hw_only_fold)
  fix r a
  let ?group = "\<lambda>vg (t, s). let s = run vg s; (v, s) = IORD_32DIRECT P BASE_RW_MGR 0 s in
    (push_bit k t OR (m AND NOT v), s)"
  have group: "hw_only (\<lambda>s. snd (fold ?group (rev [0..<n]) (0, s)))"
    by (rule hw_only_fold)
      (use hw_only_comp [OF assms(2) hw_only_IORD] in \<open>simp add: Let_def split_beta\<close>)
  have "hw_only (\<lambda>s. snd (fold ?group (rev [0..<n]) (0, setup (set_rank_and_odt_mask P r RW_MGR_ODT_MODE_READ_WRITE s))))"
    by (rule hw_only_comp [OF hw_only_comp [OF hw_only_set_rank assms(1)] group])
  then have "hw_only (\<lambda>s. if skip_ranks (param s) ! r then s
      else snd (fold ?group (rev [0..<n]) (0, setup (set_rank_and_odt_mask P r RW_MGR_ODT_MODE_READ_WRITE s))))"
    by (rule hw_only_cond [OF hw_only_id(1)])
  then show "hw_only (\<lambda>s. snd ((\<lambda>(bit_chk, s). if skip_ranks (param s) ! r then (bit_chk, s)
      else let s = setup (set_rank_and_odt_mask P r RW_MGR_ODT_MODE_READ_WRITE s);
             (tmp_bit_chk, s) = fold ?group (rev [0..<n]) (0, s) in
         (bit_chk AND tmp_bit_chk, s)) (a, s)))"
    by (simp add: Let_def split_beta if_distrib [of snd] cong: if_cong)
qed

lemma hw_only_test_ranks [hw_only_intros]:
  assumes "hw_only setup" "\<And>vg. hw_only (run vg)"
  shows "hw_only (\<lambda>s. snd (test_ranks P rs n k (m s) setup run (chk s) s))"
  using hw_only_test_ranks' [OF assms] by (simp add: hw_only_def)

lemma hw_only_read_test [hw_only_intros]:
  "hw_only (\<lambda>s. snd (snd (rw_mgr_mem_calibrate_read_test P r g c all_groups a s)))"
proof -
  note steps = hw_only_comp [OF hw_only_comp [OF _ hw_only_IOWR] hw_only_set_rank]
  show ?thesis
    unfolding rw_mgr_mem_calibrate_read_test_def Let_def split_beta snd_conv
    by (rule steps) (intro hw_only_intros)
qed

lemma hw_only_read_test_tries: "hw_only (\<lambda>s. snd (snd (read_test_tries P g c ag n chk s)))"
proof (rule hw_onlyI)
  fix s
  show "\<exists>h. snd (snd (read_test_tries P g c ag n chk s)) = s\<lparr>hw := h\<rparr>"
  proof (induction n arbitrary: chk s)
    case 0
    show ?case by (rule exI [of _ "hw s"]) simp
  next
    case (Suc n)
    obtain ok chk' s' where t: "rw_mgr_mem_calibrate_read_test P 0 g c ag True s = (ok, chk', s')"
      by (metis prod_cases3)
    obtain h where s': "s' = s\<lparr>hw := h\<rparr>"
      using hw_onlyE [OF hw_only_read_test [of P 0 g c ag True], of s] t by auto
    obtain h' where "snd (snd (read_test_tries P g c ag n chk' s')) = s'\<lparr>hw := h'\<rparr>"
      using Suc by blast
    then show ?case using t s' by auto
  qed
qed

lemma hw_only_read_test_all_ranks [hw_only_intros]:
  "hw_only (\<lambda>s. snd (snd (rw_mgr_mem_calibrate_read_test_all_ranks P g n c ag chk s)))"
  unfolding rw_mgr_mem_calibrate_read_test_all_ranks_def by (rule hw_only_read_test_tries)

section \<open>Calibration of the read latency\<close>

text \<open>One read test of all groups at the current read latency.\<close>

definition lfifo_test :: "'h plat \<Rightarrow> 'h seq \<Rightarrow> bool \<times> 'h seq" where
  "lfifo_test P s =
     (let (ok, bit_chk, s) = rw_mgr_mem_calibrate_read_test_all_ranks P 0 NUM_READ_TESTS PASS_ALL_BITS True 0 (write_read_lat P s) in
      (ok, s))"

lemma hw_only_lfifo_test: "hw_only (\<lambda>s. snd (lfifo_test P s))"
proof -
  have "hw_only (write_read_lat P)"
    by (rule hw_onlyI) (auto simp: write_read_lat_def IOWR_32DIRECT_def)
  from hw_only_comp [OF this hw_only_read_test_all_ranks [of P 0 NUM_READ_TESTS PASS_ALL_BITS True 0]]
  show ?thesis by (simp add: lfifo_test_def split_beta Let_def)
qed

lemma gbl_lfifo_test: "gbl (snd (lfifo_test P s)) = gbl s"
  by (rule hw_onlyD(1) [OF hw_only_lfifo_test])

function lfifo_loop :: "'h plat \<Rightarrow> bool \<Rightarrow> 'h seq \<Rightarrow> bool \<times> 'h seq" where
  "lfifo_loop P found_one s =
     (if \<not> fst (lfifo_test P s) then (found_one, snd (lfifo_test P s))
      else let s = snd (lfifo_test P s);
               s = set_read_lat (curr_read_lat (gbl s) - 1) s in
        if curr_read_lat (gbl s) > 0 then lfifo_loop P True s else (True, s))"
  by pat_completeness auto
termination
proof (relation "measure (\<lambda>(P, found_one, s). unat (curr_read_lat (gbl s) - 1))", goal_cases)
  case (2 P found_one s s1 s2)
  then have "s2 = set_read_lat (curr_read_lat (gbl s) - 1) s1" "0 < curr_read_lat (gbl s2)"
    by (simp_all add: gbl_lfifo_test)
  then have "curr_read_lat (gbl s2) = curr_read_lat (gbl s) - 1" "0 < curr_read_lat (gbl s) - 1"
    by (simp_all add: set_read_lat_def)
  then show ?case using unat_dec [of 0 "curr_read_lat (gbl s) - 1"] by simp
qed simp

declare lfifo_loop.simps [simp del]

definition rw_mgr_mem_calibrate_lfifo :: "'h plat \<Rightarrow> 'h seq \<Rightarrow> bool \<times> 'h seq" where
  "rw_mgr_mem_calibrate_lfifo P s =
     (let s = reg_file_set_stage P CAL_STAGE_LFIFO s;
          s = reg_file_set_sub_stage P CAL_SUBSTAGE_READ_LATENCY s;
          s = rw_mgr_mem_calibrate_read_load_patterns_all_ranks P s;
          (found_one, s) = lfifo_loop P False s;
          s = IOWR_32DIRECT P PHY_MGR_CMD_FIFO_RESET 0 0 s in
      if found_one then (True, write_read_lat P (set_read_lat (curr_read_lat (gbl s) + 2) s))
      else (False, set_failing_group_stage 0xff CAL_STAGE_LFIFO CAL_SUBSTAGE_READ_LATENCY s))"

end
