(* ===== verification/Seq_Platform.thy ===== *)
theory Seq_Platform
  imports Seq_Hw
begin

text \<open>
  Two concrete platforms, on which the properties of the firmware are evaluated: \<open>reg_plat\<close>, whose
  registers all store what is written, with the addresses of the Cyclone V SDRAM controller, and
  \<open>lat_plat\<close>, a memory whose read tests pass only at the read latencies of a set.
\<close>

definition reg_plat :: "(u32 \<Rightarrow> u32) plat" where
  "reg_plat = \<lparr>write_register = (\<lambda>base a d h. h(a := d)), read_register = (\<lambda>base a h. (h a, h)),
     HPS_SDR_BASE = 0xFFC20000, APB_BASE_SCC_MGR = 0x0000, APB_BASE_PHY_MGR = 0x1000, APB_BASE_RW_MGR = 0x2000,
     APB_BASE_DATA_MGR = 0x4000, APB_BASE_REG_FILE = 0x4800, APB_BASE_MMR = 0x5000\<rparr>"

text \<open>The register of the read latency, \<open>PHY_MGR_PHY_RLAT\<close>, has the APB address \<open>0x1040\<close>.\<close>

definition lat_plat :: "u32 set \<Rightarrow> u32 plat" where
  "lat_plat good = \<lparr>write_register = (\<lambda>base a d h. if a = 0x1040 then d else h),
     read_register = (\<lambda>base a h. (if h \<in> good then 0 else 0xFFFFFFFF, h)),
     HPS_SDR_BASE = 0xFFC20000, APB_BASE_SCC_MGR = 0x0000, APB_BASE_PHY_MGR = 0x1000, APB_BASE_RW_MGR = 0x2000,
     APB_BASE_DATA_MGR = 0x4000, APB_BASE_REG_FILE = 0x4800, APB_BASE_MMR = 0x5000\<rparr>"

text \<open>A state of the firmware with the given read latency, one rank, and delay loops enabled.\<close>

definition some_gbl :: "u32 \<Rightarrow> gbl_t" where
  "some_gbl lat = \<lparr>phy_debug_mode_flags = 0, curr_read_lat = lat, curr_write_lat = 0, error_substage = 0, error_stage = 0,
     error_group = 0xff, fom_in = 0, fom_out = 0, rw_wl_nop_cycles = 6\<rparr>"

definition some_param :: param_t where
  "some_param = \<lparr>dm_correct_mask = 0xff, read_correct_mask = 0xff, read_correct_mask_vg = 0xff, write_correct_mask = 0xff,
     write_correct_mask_vg = 0xff, skip_ranks = [False], skip_groups = 0, skip_shadow_regs = [False]\<rparr>"

definition some_seq :: "u32 \<Rightarrow> 'h \<Rightarrow> 'h seq" where
  "some_seq lat h = \<lparr>gbl = some_gbl lat, param = some_param, dyn_calib_steps = 0x80, skip_delay_mask = 0xff, hw = h\<rparr>"

lemma some_seq_simps [simp]:
  "gbl (some_seq lat h) = some_gbl lat" "skip_delay_mask (some_seq lat h) = 0xff" "hw (some_seq lat h) = h"
  "curr_read_lat (some_gbl lat) = lat"
  by (simp_all add: some_seq_def some_gbl_def)

end
