(* ===== verification/Seq_Times.thy ===== *)
theory Seq_Times
  imports Seq_Lfifo Seq_Platform
begin

text \<open>
  How long the firmware waits, and the read latency it finds: the clocks of the delay loops, the
  clocks of the reset sequence, and the result of \<open>mem_config\<close> and
  \<open>rw_mgr_mem_calibrate_lfifo\<close>.
\<close>

section \<open>Delay loops\<close>

















section \<open>The reset sequence\<close>






section \<open>The read latency\<close>

text \<open>
  \<open>mem_config\<close> sets a read latency of 16 above the latency of the memory, but never more than
  the 31 that the hardware can count, writes it to the PHY, and takes the number of idle cycles
  before write data from the write latency and additive latency of the memory.
\<close>

lemma mem_config_latencies:
  assumes "IORD_32DIRECT P MEM_T_WL_ADD 0 s = (wl, s1)" "IORD_32DIRECT P DATA_MGR_MEM_T_ADD 0 s1 = (add, s2)"
    "IORD_32DIRECT P MEM_T_RL_ADD 0 s2 = (rl, s3)"
  shows "curr_read_lat (gbl (mem_config P s)) = (if rl + 16 > 31 then 31 else rl + 16) \<and>
    curr_read_lat (gbl (mem_config P s)) \<le> 31 \<and>
    curr_write_lat (gbl (mem_config P s)) = wl + add + 2 \<and>
    rw_wl_nop_cycles (gbl (mem_config P s)) = wl + add - 1"
proof -
  have act: "gbl (mem_precharge_and_activate P t) = gbl t" for t
    unfolding mem_precharge_and_activate_def by (intro hw_onlyD(1) hw_only_intros)
  have iowr: "gbl (IOWR_32DIRECT P r a v t) = gbl t" for r a v t
    by (rule hw_onlyD(1) [OF hw_only_IOWR])
  have "max_latency = 31"
    by (simp add: max_latency_def QUARTER_RATE_MODE_def HALF_RATE_MODE_def MAX_LATENCY_COUNT_WIDTH_def push_bit_eq_mult)
  then show ?thesis
    using assms
    by (auto simp: mem_config_def act iowr write_read_lat_def set_read_lat_def burst_latencies_def nop_cycles_of_def
        QUARTER_RATE_MODE_def HALF_RATE_MODE_def)
qed













text \<open>
  The latency found may be greater than the 31 to which \<open>mem_config\<close> limits it: a memory that works
  at 31 only is given 32.
\<close>

lemma lfifo_exceeds_max_latency:
  "rw_mgr_mem_calibrate_lfifo (lat_plat {31}) (some_seq max_latency 0) = (True, some_seq 32 32)"
  by code_simp

end
