(* ===== verification/Seq_Rom_Load.thy ===== *)
theory Seq_Rom_Load
  imports Seq_Test
begin





end
