(* ===== verification/Seq_Dqs.thy ===== *)
theory Seq_Dqs
  imports Seq_Lfifo
begin

text \<open>
  The search for the DQS-enable window of a read group,
  \<open>rw_mgr_mem_calibrate_vfifo_find_dqs_en_phase\<close>. Each loop of the C function is a function here,
  with the loop variables that later code uses as results. \<open>max_working_cnt\<close> only reaches the TCL
  report and is left out.
\<close>

definition IO_DELAY_PER_DQS_EN_DCHAIN_TAP :: u32 where "IO_DELAY_PER_DQS_EN_DCHAIN_TAP = 25"
definition IO_DQS_EN_DELAY_MAX :: nat where "IO_DQS_EN_DELAY_MAX = 31"

text \<open>A read test of one group that asks for one passing bit.\<close>

definition dqs_test :: "'h plat \<Rightarrow> u32 \<Rightarrow> nat \<Rightarrow> 'h seq \<Rightarrow> bool \<times> 'h seq" where
  "dqs_test P grp num_tries s =
     (let (ok, bit_chk, s) = rw_mgr_mem_calibrate_read_test_all_ranks P grp num_tries PASS_ONE_BIT False 0 s in (ok, s))"

text \<open>Step 0: the delay taps of a phase tap.\<close>

function count_dqs_en_taps :: "u32 \<Rightarrow> u32 \<Rightarrow> u32" where
  "count_dqs_en_taps dtaps_per_ptap tmp_delay =
     (if tmp_delay < IO_DELAY_PER_OPA_TAP
      then count_dqs_en_taps (dtaps_per_ptap + 1) (tmp_delay + IO_DELAY_PER_DQS_EN_DCHAIN_TAP) else dtaps_per_ptap)"
  by pat_completeness auto
termination
proof (relation "measure (\<lambda>(taps, tmp_delay). 312 - unat tmp_delay)", goal_cases)
  case (2 taps tmp_delay)
  then have "unat tmp_delay < 312"
    by (simp add: IO_DELAY_PER_OPA_TAP_def word_less_nat_alt)
  then show ?case by (simp add: IO_DELAY_PER_DQS_EN_DCHAIN_TAP_def unat_word_ariths)
qed simp

declare count_dqs_en_taps.simps [simp del]

text \<open>
  Step 1: push the FIFO until the second failing read. The number counts the iterations left, from
  \<open>VFIFO_SIZE\<close> at \<open>v = 0\<close>.
\<close>

fun push_until_failing :: "'h plat \<Rightarrow> u32 \<Rightarrow> nat \<Rightarrow> nat \<Rightarrow> u32 \<Rightarrow> 'h seq \<Rightarrow> u32 \<times> 'h seq" where
  "push_until_failing P grp 0 fail_cnt v s = (v, s)"
| "push_until_failing P grp (Suc n) fail_cnt v s =
     (let (test_status, s) = dqs_test P grp 5 s;
          fail_cnt = (if test_status then fail_cnt else fail_cnt + 1) in
      if \<not> test_status \<and> fail_cnt = 2 then (v, s)
      else let (v, s) = rw_mgr_incr_vfifo P grp v s in push_until_failing P grp n fail_cnt v s)"

text \<open>Step 2: the first working phase, by phase taps, FIFO positions and delay taps.\<close>

fun first_phase :: "'h plat \<Rightarrow> u32 \<Rightarrow> nat list \<Rightarrow> u32 \<Rightarrow> 'h seq \<Rightarrow> nat option \<times> u32 \<times> 'h seq" where
  "first_phase P grp [] work_bgn s = (None, work_bgn, s)"
| "first_phase P grp (p # ps) work_bgn s =
     (if p = 0 then first_phase P grp ps (work_bgn + IO_DELAY_PER_OPA_TAP) s
      else
        let s = scc_mgr_set_dqs_en_phase_all_ranks P grp (of_nat p) s;
            (test_status, s) = dqs_test P grp 5 s in
        if test_status then (Some p, work_bgn, s)
        else first_phase P grp ps (work_bgn + IO_DELAY_PER_OPA_TAP) s)"

fun first_vfifo ::
  "'h plat \<Rightarrow> u32 \<Rightarrow> nat list \<Rightarrow> u32 \<Rightarrow> u32 \<Rightarrow> 'h seq \<Rightarrow> (nat \<times> nat) option \<times> u32 \<times> u32 \<times> 'h seq" where
  "first_vfifo P grp [] v work_bgn s = (None, v, work_bgn, s)"
| "first_vfifo P grp (i # is) v work_bgn s =
     (case first_phase P grp [0..<Suc IO_DQS_EN_PHASE_MAX] work_bgn s of
        (Some p, work_bgn, s) \<Rightarrow> (Some (i, p), v, work_bgn, s)
      | (None, work_bgn, s) \<Rightarrow>
          let (v, s) = rw_mgr_incr_vfifo P grp v s in first_vfifo P grp is v work_bgn s)"

fun first_dtap ::
  "'h plat \<Rightarrow> u32 \<Rightarrow> nat list \<Rightarrow> u32 \<Rightarrow> u32 \<Rightarrow> 'h seq \<Rightarrow> (nat \<times> nat \<times> nat \<times> u32) option \<times> u32 \<times> 'h seq" where
  "first_dtap P grp [] tmp_delay v s = (None, v, s)"
| "first_dtap P grp (d # ds) tmp_delay v s =
     (let s = scc_mgr_set_dqs_en_delay_all_ranks P grp (of_nat d) s in
      case first_vfifo P grp [0..<VFIFO_SIZE] v tmp_delay s of
        (Some (i, p), v, work_bgn, s) \<Rightarrow> (Some (d, i, p, work_bgn), v, s)
      | (None, v, work_bgn, s) \<Rightarrow> first_dtap P grp ds (tmp_delay + IO_DELAY_PER_DQS_EN_DCHAIN_TAP) v s)"

text \<open>Step 3a: back off by one phase and increase delay taps.\<close>

fun back_search :: "'h plat \<Rightarrow> u32 \<Rightarrow> nat list \<Rightarrow> u32 \<Rightarrow> u32 \<Rightarrow> 'h seq \<Rightarrow> u32 \<times> 'h seq" where
  "back_search P grp [] tmp_delay work_bgn s = (work_bgn, s)"
| "back_search P grp (d # ds) tmp_delay work_bgn s =
     (if \<not> tmp_delay < work_bgn then (work_bgn, s)
      else
        let s = scc_mgr_set_dqs_en_delay_all_ranks P grp (of_nat d) s;
            (ok, s) = dqs_test P grp 5 s in
        if ok then (tmp_delay, s)
        else back_search P grp ds (tmp_delay + IO_DELAY_PER_DQS_EN_DCHAIN_TAP) work_bgn s)"

definition back_off :: "'h plat \<Rightarrow> u32 \<Rightarrow> nat \<Rightarrow> u32 \<Rightarrow> u32 \<Rightarrow> 'h seq \<Rightarrow> nat \<times> u32 \<times> u32 \<times> 'h seq" where
  "back_off P grp p v work_bgn s =
     (let (p, v, s) = (if p = 0 then let (v, s) = rw_mgr_decr_vfifo P grp v s in (IO_DQS_EN_PHASE_MAX, v, s) else (p - 1, v, s));
          tmp_delay = work_bgn - IO_DELAY_PER_OPA_TAP;
          (p, tmp_delay) = (if p = 0 then (1, work_bgn) else (p, tmp_delay));
          s = scc_mgr_set_dqs_en_phase_all_ranks P grp (of_nat p) s;
          (work_bgn, s) = back_search P grp [0..<Suc IO_DQS_EN_DELAY_MAX] tmp_delay work_bgn s;
          (p, v, s) = (if p + 1 > IO_DQS_EN_PHASE_MAX then let (v, s) = rw_mgr_incr_vfifo P grp v s in (0, v, s) else (p + 1, v, s));
          s = scc_mgr_set_dqs_en_delay_all_ranks P grp 0 s in
      (p, v, work_bgn, s))"

text \<open>Step 4a: go forward from the working phase to a non-working one.\<close>

fun end_phase :: "'h plat \<Rightarrow> u32 \<Rightarrow> nat list \<Rightarrow> nat \<Rightarrow> u32 \<Rightarrow> u32 \<Rightarrow> 'h seq \<Rightarrow> nat option \<times> nat \<times> u32 \<times> u32 \<times> 'h seq" where
  "end_phase P grp [] j work_bgn work_end s = (None, j, work_bgn, work_end, s)"
| "end_phase P grp (p # ps) j work_bgn work_end s =
     (if p = 0 then end_phase P grp ps (j + 1) work_bgn (work_end + IO_DELAY_PER_OPA_TAP) s
      else
        let s = scc_mgr_set_dqs_en_phase_all_ranks P grp (of_nat p) s;
            (test_status, s) = dqs_test P grp 5 s in
        if \<not> test_status \<and> j + 1 = 1
        then end_phase P grp ps (j + 1) work_end (work_end + IO_DELAY_PER_OPA_TAP) s
        else if \<not> test_status then (Some p, j + 1, work_bgn, work_end, s)
        else end_phase P grp ps (j + 1) work_bgn (work_end + IO_DELAY_PER_OPA_TAP) s)"

fun end_vfifo ::
  "'h plat \<Rightarrow> u32 \<Rightarrow> nat list \<Rightarrow> nat \<Rightarrow> nat \<Rightarrow> u32 \<Rightarrow> u32 \<Rightarrow> u32 \<Rightarrow> 'h seq \<Rightarrow> (nat \<times> u32 \<times> u32) option \<times> u32 \<times> 'h seq" where
  "end_vfifo P grp [] p j v work_bgn work_end s = (None, v, s)"
| "end_vfifo P grp (i # is) p j v work_bgn work_end s =
     (case end_phase P grp [p..<Suc IO_DQS_EN_PHASE_MAX] j work_bgn work_end s of
        (Some p, j, work_bgn, work_end, s) \<Rightarrow> (Some (p, work_bgn, work_end), v, s)
      | (None, j, work_bgn, work_end, s) \<Rightarrow>
          let (v, s) = rw_mgr_incr_vfifo P grp v s in end_vfifo P grp is 0 j v work_bgn work_end s)"

definition go_forward ::
  "'h plat \<Rightarrow> u32 \<Rightarrow> nat \<Rightarrow> nat \<Rightarrow> u32 \<Rightarrow> u32 \<Rightarrow> u32 \<Rightarrow> 'h seq \<Rightarrow> (nat \<times> u32 \<times> u32) option \<times> u32 \<times> 'h seq" where
  "go_forward P grp i p v work_bgn work_end s =
     (let (p, v, s) = (if p + 1 > IO_DQS_EN_PHASE_MAX then let (v, s) = rw_mgr_incr_vfifo P grp v s in (0, v, s) else (p + 1, v, s)) in
      end_vfifo P grp [i..<VFIFO_SIZE + 1] p 0 v work_bgn (work_end + IO_DELAY_PER_OPA_TAP) s)"

text \<open>Step 5a: back off one phase from the last one.\<close>

definition back_from_end :: "'h plat \<Rightarrow> u32 \<Rightarrow> nat \<Rightarrow> u32 \<Rightarrow> u32 \<Rightarrow> 'h seq \<Rightarrow> nat \<times> u32 \<times> u32 \<times> 'h seq" where
  "back_from_end P grp p v work_end s =
     (let (p, work_end) = (if p = 1 then (0, work_end - IO_DELAY_PER_OPA_TAP) else (p, work_end));
          (p, v, s) = (if p = 0 then let (v, s) = rw_mgr_decr_vfifo P grp v s in (IO_DQS_EN_PHASE_MAX, v, s) else (p - 1, v, s));
          work_end = work_end - IO_DELAY_PER_OPA_TAP;
          s = scc_mgr_set_dqs_en_phase_all_ranks P grp (of_nat p) s in
      (p, v, work_end, s))"

text \<open>The delay taps up to the failing edge; \<open>d\<close> is past the last one if no read fails.\<close>

fun edge_dtap :: "'h plat \<Rightarrow> u32 \<Rightarrow> nat list \<Rightarrow> u32 \<Rightarrow> 'h seq \<Rightarrow> nat \<times> u32 \<times> 'h seq" where
  "edge_dtap P grp [] work_end s = (Suc IO_DQS_EN_DELAY_MAX, work_end, s)"
| "edge_dtap P grp (d # ds) work_end s =
     (let s = scc_mgr_set_dqs_en_delay_all_ranks P grp (of_nat d) s;
          (ok, s) = dqs_test P grp 5 s in
      if \<not> ok then (d, work_end, s)
      else edge_dtap P grp ds (work_end + IO_DELAY_PER_DQS_EN_DCHAIN_TAP) s)"

text \<open>The delay taps of a phase tap as measured for tracking.\<close>

fun dtap_until :: "'h plat \<Rightarrow> u32 \<Rightarrow> bool \<Rightarrow> nat list \<Rightarrow> 'h seq \<Rightarrow> nat option \<times> 'h seq" where
  "dtap_until P grp wanted [] s = (None, s)"
| "dtap_until P grp wanted (d # ds) s =
     (let s = scc_mgr_set_dqs_en_delay_all_ranks P grp (of_nat d) s;
          (ok, s) = dqs_test P grp 1 s in
      if ok = wanted then (Some d, s) else dtap_until P grp wanted ds s)"

definition measure_dtaps :: "'h plat \<Rightarrow> u32 \<Rightarrow> nat \<Rightarrow> nat \<Rightarrow> u32 \<Rightarrow> u32 \<Rightarrow> 'h seq \<Rightarrow> u32 \<times> 'h seq" where
  "measure_dtaps P grp p d v dtaps_per_ptap s =
     (let (p, v, s) = (if p = 0 \<or> p = 1 then let (v, s) = rw_mgr_decr_vfifo P grp v s in (IO_DQS_EN_PHASE_MAX, v, s) else (p - 1, v, s));
          s = scc_mgr_set_dqs_en_phase_all_ranks P grp (of_nat p) s;
          (dtaps_per_ptap, s) =
            (case dtap_until P grp True [d..<Suc IO_DQS_EN_DELAY_MAX] s of
               (None, s) \<Rightarrow> (dtaps_per_ptap, s)
             | (Some d1, s) \<Rightarrow>
                 (case dtap_until P grp False [d1 + 1..<Suc IO_DQS_EN_DELAY_MAX] s of
                    (None, s) \<Rightarrow> (dtaps_per_ptap, s)
                  | (Some d2, s) \<Rightarrow> (of_nat d2 - of_nat d, s)));
          s = IOWR_32DIRECT P REG_FILE_DTAPS_PER_PTAP 0 dtaps_per_ptap s in
      (v, s))"

text \<open>
  Step 6: the centre of the window as a phase and a delay. \<open>vfifo_delay\<close> is the delay of all phases,
  by which the middle is reduced; \<open>mid_phase\<close> and \<open>mid_dtap\<close> are the loops that only count.
\<close>

definition vfifo_delay :: u32 where
  "vfifo_delay = fold (\<lambda>p tmp_delay. tmp_delay + IO_DELAY_PER_OPA_TAP) [0..<Suc IO_DQS_EN_PHASE_MAX] 0"

lemma vfifo_delay_value: "vfifo_delay = 2496"
  by (simp add: vfifo_delay_def IO_DQS_EN_PHASE_MAX_def IO_DELAY_PER_OPA_TAP_def upt_rec)

function reduce_mid :: "u32 \<Rightarrow> u32" where
  "reduce_mid work_mid = (if work_mid > vfifo_delay then reduce_mid (work_mid - vfifo_delay) else work_mid)"
  by pat_completeness auto
termination
proof (relation "measure unat", goal_cases)
  case (2 work_mid)
  then show ?case
    using unat_sub [of vfifo_delay work_mid] by (simp add: vfifo_delay_value word_less_nat_alt word_le_nat_alt)
qed simp

declare reduce_mid.simps [simp del]

fun mid_phase :: "nat list \<Rightarrow> u32 \<Rightarrow> u32 \<Rightarrow> nat \<times> u32" where
  "mid_phase [] tmp_delay work_mid = (Suc IO_DQS_EN_PHASE_MAX, tmp_delay)"
| "mid_phase (p # ps) tmp_delay work_mid =
     (if tmp_delay < work_mid then mid_phase ps (tmp_delay + IO_DELAY_PER_OPA_TAP) work_mid else (p, tmp_delay))"

fun mid_dtap :: "nat list \<Rightarrow> u32 \<Rightarrow> u32 \<Rightarrow> nat" where
  "mid_dtap [] tmp_delay work_mid = Suc IO_DQS_EN_DELAY_MAX"
| "mid_dtap (d # ds) tmp_delay work_mid =
     (if tmp_delay < work_mid then mid_dtap ds (tmp_delay + IO_DELAY_PER_DQS_EN_DCHAIN_TAP) work_mid else d)"

definition window_centre :: "u32 \<Rightarrow> u32 \<Rightarrow> nat \<times> nat" where
  "window_centre work_bgn work_end =
     (let work_mid = reduce_mid ((work_bgn + work_end) div 2);
          (p, tmp_delay) = mid_phase [0..<Suc IO_DQS_EN_PHASE_MAX] 0 work_mid;
          d = mid_dtap [0..<Suc IO_DQS_EN_DELAY_MAX] (tmp_delay - IO_DELAY_PER_OPA_TAP) work_mid in
      if p = 1 then (2, 0) else (p, d))"

fun push_until_passing :: "'h plat \<Rightarrow> u32 \<Rightarrow> nat \<Rightarrow> u32 \<Rightarrow> 'h seq \<Rightarrow> bool \<times> 'h seq" where
  "push_until_passing P grp 0 v s = (False, s)"
| "push_until_passing P grp (Suc n) v s =
     (let (ok, s) = dqs_test P grp 1 s in
      if ok then (True, s)
      else let (v, s) = rw_mgr_incr_vfifo P grp v s in push_until_passing P grp n v s)"

definition centre_window :: "'h plat \<Rightarrow> u32 \<Rightarrow> u32 \<Rightarrow> nat \<Rightarrow> nat \<Rightarrow> u32 \<Rightarrow> u32 \<Rightarrow> u32 \<Rightarrow> 'h seq \<Rightarrow> bool \<times> 'h seq" where
  "centre_window P grp dtaps_per_ptap p d v work_bgn work_end s =
     (let (d, work_end, s) = edge_dtap P grp [d..<Suc IO_DQS_EN_DELAY_MAX] work_end s;
          work_end = (if d \<noteq> 0 then work_end - IO_DELAY_PER_DQS_EN_DCHAIN_TAP else work_end) in
      if \<not> work_end \<ge> work_bgn then (False, s)
      else
        let (v, s) = measure_dtaps P grp p d v dtaps_per_ptap s;
            (p, d) = window_centre work_bgn work_end;
            s = scc_mgr_set_dqs_en_phase_all_ranks P grp (of_nat p - 1) s;
            s = scc_mgr_set_dqs_en_delay_all_ranks P grp (of_nat d) s in
        push_until_passing P grp VFIFO_SIZE v s)"

definition rw_mgr_mem_calibrate_vfifo_find_dqs_en_phase :: "'h plat \<Rightarrow> u32 \<Rightarrow> 'h seq \<Rightarrow> bool \<times> 'h seq" where
  "rw_mgr_mem_calibrate_vfifo_find_dqs_en_phase P grp s =
     (let s = reg_file_set_sub_stage P CAL_SUBSTAGE_VFIFO_CENTER s;
          s = scc_mgr_set_dqs_en_delay_all_ranks P grp 0 s;
          s = scc_mgr_set_dqs_en_phase_all_ranks P grp 1 s;
          dtaps_per_ptap = count_dqs_en_taps 0 0 - 1;
          (v, s) = push_until_failing P grp VFIFO_SIZE 0 0 s in
      if v \<ge> of_nat VFIFO_SIZE then (False, s)
      else
        case first_dtap P grp [0..<Suc (unat dtaps_per_ptap)] 0 v s of
          (None, v, s) \<Rightarrow> (False, s)
        | (Some (d, i, p, work_bgn), v, s) \<Rightarrow>
            if d = 0 then
              let work_end = work_bgn;
                  (p, v, work_bgn, s) = back_off P grp p v work_bgn s in
              case go_forward P grp i p v work_bgn work_end s of
                (None, v, s) \<Rightarrow> (False, s)
              | (Some (p, work_bgn, work_end), v, s) \<Rightarrow>
                  let (p, v, work_end, s) = back_from_end P grp p v work_end s in
                  centre_window P grp dtaps_per_ptap p 0 v work_bgn work_end s
            else centre_window P grp dtaps_per_ptap p d v work_bgn work_bgn s)"

text \<open>The search with spread input delays of the DQ pins, which are reset after it.\<close>

definition IO_IO_IN_DELAY_MAX :: nat where "IO_IO_IN_DELAY_MAX = 31"

definition rw_mgr_mem_calibrate_vfifo_find_dqs_en_phase_sweep_dq_in_delay ::
  "'h plat \<Rightarrow> u32 \<Rightarrow> u32 \<Rightarrow> u32 \<Rightarrow> 'h seq \<Rightarrow> bool \<times> 'h seq" where
  "rw_mgr_mem_calibrate_vfifo_find_dqs_en_phase_sweep_dq_in_delay P write_group read_group test_bgn s =
     (let delay_step = IO_IO_IN_DELAY_MAX div (RW_MGR_MEM_DQ_PER_READ_DQS - 1);
          spread = (\<lambda>delay. for_each ranks (\<lambda>r. perform [
            select_shadow_regs_for_update (of_nat r) write_group 1,
            for_each [0..<RW_MGR_MEM_DQ_PER_READ_DQS] (\<lambda>i. perform [
              scc_mgr_set_dq_in_delay P write_group (test_bgn + of_nat i) (of_nat (delay i)),
              scc_mgr_load_dq P (test_bgn + of_nat i)]),
            IOWR_32DIRECT P SCC_MGR_UPD 0 0]));
          s = spread (\<lambda>i. i * delay_step) s;
          (found, s) = rw_mgr_mem_calibrate_vfifo_find_dqs_en_phase P read_group s;
          s = spread (\<lambda>i. 0) s in
      (found, s))"

end
