(* ===== verification/Seq_Centre.thy ===== *)
theory Seq_Centre
  imports Seq_Dqs "HOL-Library.While_Combinator" "HOL-Library.Signed_Division" "HOL-Library.Monad_Syntax"
begin

text \<open>
  The per-bit deskew of reads and writes: \<open>rw_mgr_mem_calibrate_vfifo_center\<close> and
  \<open>rw_mgr_mem_calibrate_writes_center\<close>. An \<open>alt_32\<close> is a word that is compared and divided as a signed
  number. The edges of a bit are a pair, left and right. A loop whose bound depends on a register
  may never end, so it is a \<open>while_option\<close>, and \<open>None\<close> is a function that does not return. The
  option \<open>IO_SHIFT_DQS_EN_WHEN_SHIFT_DQS\<close> is 0 in the configuration, so its branches are left out.
\<close>

section \<open>Signed numbers and edges\<close>

definition IO_DQS_IN_DELAY_MAX :: u32 where "IO_DQS_IN_DELAY_MAX = 31"
definition IO_IO_OUT1_DELAY_MAX :: nat where "IO_IO_OUT1_DELAY_MAX = 31"

definition READ_SCC_DQS_IN_DELAY :: "'h plat \<Rightarrow> u32 \<Rightarrow> 'h seq \<Rightarrow> u32 \<times> 'h seq" where
  "READ_SCC_DQS_IN_DELAY P grp = IORD_32DIRECT P SCC_MGR_DQS_IN_DELAY (push_bit 2 grp)"

definition READ_SCC_DQ_IN_DELAY :: "'h plat \<Rightarrow> u32 \<Rightarrow> 'h seq \<Rightarrow> u32 \<times> 'h seq" where
  "READ_SCC_DQ_IN_DELAY P pin = IORD_32DIRECT P SCC_MGR_IO_IN_DELAY (push_bit 2 pin)"

definition READ_SCC_DQ_OUT1_DELAY :: "'h plat \<Rightarrow> u32 \<Rightarrow> 'h seq \<Rightarrow> u32 \<times> 'h seq" where
  "READ_SCC_DQ_OUT1_DELAY P pin = IORD_32DIRECT P SCC_MGR_IO_OUT1_DELAY (push_bit 2 pin)"

definition signed_div :: "u32 \<Rightarrow> int \<Rightarrow> u32" where
  "signed_div x n = word_of_int (sint x sdiv n)"

type_synonym edges = "(u32 \<times> u32) list"

text \<open>What a test at the delay \<open>d\<close> tells about one bit, in the search for left edges and for right edges.\<close>

definition left_step :: "u32 \<Rightarrow> u32 \<Rightarrow> bool \<Rightarrow> u32 \<times> u32 \<Rightarrow> u32 \<times> u32" where
  "left_step illegal d pass = (\<lambda>(left, right).
     if pass then (d, right)
     else if left = illegal then (left, - (d + 1)) else (left, right))"

definition right_step :: "u32 \<Rightarrow> u32 \<Rightarrow> bool \<Rightarrow> u32 \<times> u32 \<Rightarrow> u32 \<times> u32" where
  "right_step illegal d pass = (\<lambda>(left, right).
     if pass then (left, d)
     else if d \<noteq> 0 then if right = illegal then (- (d + 1), right) else (left, right)
     else if right = illegal \<and> left \<noteq> illegal then (left, - 1)
     else if right = illegal then (- (d + 1), right) else (left, right))"

definition step_edges :: "(bool \<Rightarrow> u32 \<times> u32 \<Rightarrow> u32 \<times> u32) \<Rightarrow> u32 \<Rightarrow> edges \<Rightarrow> edges" where
  "step_edges f bit_chk es = map (\<lambda>i. f (bit bit_chk i) (es ! i)) [0..<length es]"

definition drop_right :: "u32 \<Rightarrow> u32 \<times> u32 \<Rightarrow> u32 \<times> u32" where
  "drop_right illegal = (\<lambda>(left, right). if left = illegal \<and> right \<noteq> illegal then (left, illegal) else (left, right))"

text \<open>The bits whose edges have a property, the last bit first shifted in.\<close>

definition edge_mask :: "(u32 \<times> u32 \<Rightarrow> bool) \<Rightarrow> edges \<Rightarrow> u32" where
  "edge_mask f es = fold (\<lambda>e m. push_bit 1 m OR (if f e then 1 else 0)) (rev es) 0"

definition mid_of :: "u32 \<times> u32 \<Rightarrow> u32" where
  "mid_of = (\<lambda>(left, right). left - right)"

text \<open>The bit with the least middle, the first one if there are several.\<close>

definition min_mid :: "edges \<Rightarrow> u32 \<times> nat" where
  "min_mid es = fold (\<lambda>i (mid_min, min_index).
     if sint (mid_of (es ! i)) < sint mid_min then (mid_of (es ! i), i) else (mid_min, min_index))
     [1..<length es] (mid_of (es ! 0), 0)"

definition half_mid :: "u32 \<Rightarrow> u32" where
  "half_mid mid_min = signed_div (if sint mid_min > 0 then mid_min + 1 else mid_min) 2"

text \<open>
  The shift of a pin, limited so that its delay stays in range. The delay is read from the pin \<open>p\<close>,
  except that the upper limit reads the pin \<open>i\<close>.
\<close>

definition limit_shift ::
  "(u32 \<Rightarrow> 'h seq \<Rightarrow> u32 \<times> 'h seq) \<Rightarrow> u32 \<Rightarrow> u32 \<Rightarrow> u32 \<Rightarrow> u32 \<Rightarrow> 'h seq \<Rightarrow> u32 \<times> 'h seq" where
  "limit_shift read_delay p i max_delay shift_dq s =
     (let (x, s) = read_delay p s in
      if sint (shift_dq + x) > sint max_delay then let (y, s) = read_delay i s in (max_delay - y, s)
      else
        let (x, s) = read_delay p s in
        if sint (shift_dq + x) < 0 then let (y, s) = read_delay p s in (- y, s) else (shift_dq, s))"

definition signed_min :: "u32 \<Rightarrow> u32 \<Rightarrow> u32" where
  "signed_min x y = (if sint x < sint y then x else y)"

section \<open>Reads\<close>

text \<open>The test of the read deskew: by a read test, or by a write test after writes are calibrated.\<close>

definition centre_test :: "'h plat \<Rightarrow> nat \<Rightarrow> u32 \<Rightarrow> u32 \<Rightarrow> bool \<Rightarrow> 'h seq \<Rightarrow> bool \<times> u32 \<times> 'h seq" where
  "centre_test P rank_bgn write_group read_group use_read_test s =
     (if use_read_test then
        let (ok, bit_chk, s) = rw_mgr_mem_calibrate_read_test P rank_bgn read_group PASS_ONE_BIT False False s in
        (\<not> ok, bit_chk, s)
      else
        let (ok, bit_chk, s) = rw_mgr_mem_calibrate_write_test P rank_bgn write_group False PASS_ONE_BIT False s;
            bit_chk = drop_bit (RW_MGR_MEM_DQ_PER_READ_DQS * unat (read_group -
              write_group * of_nat RW_MGR_MEM_IF_READ_DQS_WIDTH div of_nat RW_MGR_MEM_IF_WRITE_DQS_WIDTH)) bit_chk in
        (bit_chk = 0, bit_chk, s))"

abbreviation in_illegal :: u32 where
  "in_illegal \<equiv> of_nat IO_IO_IN_DELAY_MAX + 1"

fun read_left_edges ::
  "'h plat \<Rightarrow> nat \<Rightarrow> u32 \<Rightarrow> u32 \<Rightarrow> u32 \<Rightarrow> bool \<Rightarrow> nat list \<Rightarrow> u32 \<Rightarrow> edges \<Rightarrow> 'h seq \<Rightarrow> edges \<times> 'h seq" where
  "read_left_edges P rank_bgn write_group read_group test_bgn use_read_test [] sticky es s = (es, s)"
| "read_left_edges P rank_bgn write_group read_group test_bgn use_read_test (d # ds) sticky es s =
     (let s = scc_mgr_apply_group_dq_in_delay P write_group test_bgn (of_nat d) s;
          s = IOWR_32DIRECT P SCC_MGR_UPD 0 0 s;
          (stop, bit_chk, s) = centre_test P rank_bgn write_group read_group use_read_test s;
          sticky = sticky OR bit_chk in
      if stop \<and> sticky = read_correct_mask (param s) then (es, s)
      else read_left_edges P rank_bgn write_group read_group test_bgn use_read_test ds sticky
        (step_edges (left_step in_illegal (of_nat d)) bit_chk es) s)"

definition read_right_edges ::
  "'h plat \<Rightarrow> nat \<Rightarrow> u32 \<Rightarrow> u32 \<Rightarrow> bool \<Rightarrow> u32 \<Rightarrow> u32 \<Rightarrow> edges \<Rightarrow> 'h seq \<Rightarrow> (edges \<times> 'h seq) option" where
  "read_right_edges P rank_bgn write_group read_group use_read_test start_dqs sticky es s =
     map_option (\<lambda>(d, stop, sticky, es, s). (es, s))
       (while_option (\<lambda>(d, stop, sticky, es, s). \<not> stop \<and> d \<le> IO_DQS_IN_DELAY_MAX - start_dqs)
         (\<lambda>(d, stop, sticky, es, s).
           let s = scc_mgr_set_dqs_bus_in_delay P read_group (d + start_dqs) s;
               s = scc_mgr_load_dqs P read_group s;
               s = IOWR_32DIRECT P SCC_MGR_UPD 0 0 s;
               (stop, bit_chk, s) = centre_test P rank_bgn write_group read_group use_read_test s;
               sticky = sticky OR bit_chk in
           if stop \<and> sticky = read_correct_mask (param s) then (d, True, sticky, es, s)
           else (d + 1, False, sticky, step_edges (right_step in_illegal d) bit_chk es, s))
         (0, False, sticky, es, s))"

text \<open>The loop that moves the DQ pins and finds the margins.\<close>

definition centre_read_pins ::
  "'h plat \<Rightarrow> u32 \<Rightarrow> u32 \<Rightarrow> edges \<Rightarrow> nat \<Rightarrow> u32 \<Rightarrow> u32 \<Rightarrow> 'h seq \<Rightarrow> u32 \<times> u32 \<times> 'h seq" where
  "centre_read_pins P write_group test_bgn es min_index orig_mid_min mid_min s =
     fold (\<lambda>i (dq_margin, dqs_margin, s).
       let p = test_bgn + of_nat i;
           shift_dq = signed_div (mid_of (es ! i) - mid_of (es ! min_index)) 2 + (orig_mid_min - mid_min);
           (shift_dq, s) = limit_shift (READ_SCC_DQ_IN_DELAY P) p (of_nat i) (of_nat IO_IO_IN_DELAY_MAX) shift_dq s;
           (x, s) = READ_SCC_DQ_IN_DELAY P p s;
           s = scc_mgr_set_dq_in_delay P write_group p (x + shift_dq) s;
           s = scc_mgr_load_dq P p s in
       (signed_min (fst (es ! i) - shift_dq + (- mid_min)) dq_margin,
        signed_min (snd (es ! i) + shift_dq - (- mid_min)) dqs_margin, s))
     [0..<RW_MGR_MEM_DQ_PER_READ_DQS] (in_illegal, in_illegal, s)"

definition limit_dqs :: "u32 \<Rightarrow> u32" where
  "limit_dqs new_dqs =
     (if sint new_dqs > sint IO_DQS_IN_DELAY_MAX then IO_DQS_IN_DELAY_MAX else if sint new_dqs < 0 then 0 else new_dqs)"

definition rw_mgr_mem_calibrate_vfifo_center ::
  "'h plat \<Rightarrow> nat \<Rightarrow> u32 \<Rightarrow> u32 \<Rightarrow> u32 \<Rightarrow> bool \<Rightarrow> bool \<Rightarrow> 'h seq \<Rightarrow> (bool \<times> 'h seq) option" where
  "rw_mgr_mem_calibrate_vfifo_center P rank_bgn write_group read_group test_bgn use_read_test update_fom s =
     (let (start_dqs, s) = READ_SCC_DQS_IN_DELAY P read_group s;
          (es, s) = read_left_edges P rank_bgn write_group read_group test_bgn use_read_test [0..<Suc IO_IO_IN_DELAY_MAX] 0
            (replicate RW_MGR_MEM_DQ_PER_READ_DQS (in_illegal, in_illegal)) s;
          s = scc_mgr_apply_group_dq_in_delay P write_group test_bgn 0 s;
          es = map (drop_right in_illegal) es;
          sticky = edge_mask (\<lambda>(left, right). left \<noteq> in_illegal \<and> right \<noteq> in_illegal) es in
      do {
        (es, s) \<leftarrow> read_right_edges P rank_bgn write_group read_group use_read_test start_dqs sticky es s;
        case find (\<lambda>i. fst (es ! i) = in_illegal \<or> snd (es ! i) = in_illegal) [0..<RW_MGR_MEM_DQ_PER_READ_DQS] of
          Some i \<Rightarrow>
            let s = scc_mgr_set_dqs_bus_in_delay P read_group start_dqs s;
                s = scc_mgr_load_dqs P read_group s;
                s = IOWR_32DIRECT P SCC_MGR_UPD 0 0 s in
            Some (False, set_failing_group_stage (read_group * of_nat RW_MGR_MEM_DQ_PER_READ_DQS + of_nat i)
              (if use_read_test then CAL_STAGE_VFIFO else CAL_STAGE_VFIFO_AFTER_WRITES) CAL_SUBSTAGE_VFIFO_CENTER s)
        | None \<Rightarrow>
            let (mid_min, min_index) = min_mid es;
                orig_mid_min = half_mid mid_min;
                new_dqs = limit_dqs (start_dqs - orig_mid_min);
                mid_min = start_dqs - new_dqs;
                new_dqs = start_dqs - mid_min;
                (dq_margin, dqs_margin, s) = centre_read_pins P write_group test_bgn es min_index orig_mid_min mid_min s;
                s = scc_mgr_set_dqs_bus_in_delay P read_group new_dqs s;
                s = scc_mgr_load_dqs P read_group s;
                s = (if update_fom
                     then s\<lparr>gbl := (gbl s)\<lparr>fom_in := fom_in (gbl s) + signed_div (dq_margin + dqs_margin)
                       (int (RW_MGR_MEM_IF_READ_DQS_WIDTH div RW_MGR_MEM_IF_WRITE_DQS_WIDTH))\<rparr>\<rparr> else s);
                s = IOWR_32DIRECT P SCC_MGR_UPD 0 0 s in
            Some (sint dq_margin \<ge> 0 \<and> sint dqs_margin \<ge> 0, s) })"

section \<open>Writes\<close>

abbreviation out_illegal :: u32 where
  "out_illegal \<equiv> of_nat IO_IO_OUT1_DELAY_MAX + 1"

fun write_left_edges ::
  "'h plat \<Rightarrow> nat \<Rightarrow> u32 \<Rightarrow> u32 \<Rightarrow> nat list \<Rightarrow> u32 \<Rightarrow> edges \<Rightarrow> 'h seq \<Rightarrow> edges \<times> 'h seq" where
  "write_left_edges P rank_bgn write_group test_bgn [] sticky es s = (es, s)"
| "write_left_edges P rank_bgn write_group test_bgn (d # ds) sticky es s =
     (let s = scc_mgr_apply_group_dq_out1_delay P write_group test_bgn (of_nat d) s;
          s = IOWR_32DIRECT P SCC_MGR_UPD 0 0 s;
          (ok, bit_chk, s) = rw_mgr_mem_calibrate_write_test P rank_bgn write_group False PASS_ONE_BIT False s;
          sticky = sticky OR bit_chk in
      if \<not> ok \<and> sticky = write_correct_mask (param s) then (es, s)
      else write_left_edges P rank_bgn write_group test_bgn ds sticky
        (step_edges (left_step out_illegal (of_nat d)) bit_chk es) s)"

text \<open>A bit whose first test on the right fails although it passed on the left is marginal.\<close>

definition mark_marginal :: "u32 \<times> u32 \<Rightarrow> u32 \<times> u32" where
  "mark_marginal = (\<lambda>(left, right). if right = out_illegal \<and> left \<noteq> out_illegal then (left, - 1) else (left, right))"

definition write_right_edges ::
  "'h plat \<Rightarrow> nat \<Rightarrow> u32 \<Rightarrow> u32 \<Rightarrow> u32 \<Rightarrow> edges \<Rightarrow> 'h seq \<Rightarrow> (edges \<times> 'h seq) option" where
  "write_right_edges P rank_bgn write_group start_dqs sticky es s =
     map_option (\<lambda>(d, stop, sticky, es, s). (es, s))
       (while_option (\<lambda>(d, stop, sticky, es, s). \<not> stop \<and> sint d \<le> sint (of_nat IO_IO_OUT1_DELAY_MAX - start_dqs))
         (\<lambda>(d, stop, sticky, es, s).
           let s = scc_mgr_apply_group_dqs_io_and_oct_out1 P write_group (d + start_dqs) s;
               s = IOWR_32DIRECT P SCC_MGR_UPD 0 0 s;
               (ok, bit_chk, s) = rw_mgr_mem_calibrate_write_test P rank_bgn write_group False PASS_ONE_BIT False s;
               s = (if \<not> ok then recover_mem_device_after_ck_dqs_violation s else s);
               sticky = sticky OR bit_chk in
           if \<not> ok \<and> sticky = write_correct_mask (param s)
           then (d, True, sticky, if d = 0 then map mark_marginal es else es, s)
           else (d + 1, False, sticky, step_edges (right_step out_illegal d) bit_chk es, s))
         (0, False, sticky, es, s))"

definition centre_write_pins ::
  "'h plat \<Rightarrow> u32 \<Rightarrow> edges \<Rightarrow> nat \<Rightarrow> u32 \<Rightarrow> u32 \<Rightarrow> 'h seq \<Rightarrow> u32 \<times> u32 \<times> 'h seq" where
  "centre_write_pins P write_group es min_index orig_mid_min mid_min s =
     fold (\<lambda>i (dq_margin, dqs_margin, s).
       let shift_dq = signed_div (mid_of (es ! i) - mid_of (es ! min_index)) 2 + (orig_mid_min - mid_min);
           (shift_dq, s) = limit_shift (READ_SCC_DQ_OUT1_DELAY P) (of_nat i) (of_nat i) (of_nat IO_IO_OUT1_DELAY_MAX) shift_dq s;
           (x, s) = READ_SCC_DQ_OUT1_DELAY P (of_nat i) s;
           s = scc_mgr_set_dq_out1_delay P write_group (of_nat i) (x + shift_dq) s;
           s = scc_mgr_load_dq P (of_nat i) s in
       (signed_min (fst (es ! i) - shift_dq + (- mid_min)) dq_margin,
        signed_min (snd (es ! i) + shift_dq - (- mid_min)) dqs_margin, s))
     [0..<RW_MGR_MEM_DQ_PER_WRITE_DQS] (out_illegal, out_illegal, s)"

text \<open>The search for the widest window of DM, first by delays of DM and then by delays of DQS.\<close>

record dm_window =
  bgn_curr :: u32
  end_curr :: u32
  bgn_best :: u32
  end_best :: u32
  win_best :: u32

definition no_window :: dm_window where
  "no_window = \<lparr>bgn_curr = out_illegal, end_curr = out_illegal, bgn_best = out_illegal, end_best = out_illegal, win_best = 0\<rparr>"

definition dm_pass :: "u32 \<Rightarrow> dm_window \<Rightarrow> dm_window" where
  "dm_pass x w =
     (let w = w\<lparr>end_curr := x\<rparr>;
          w = (if bgn_curr w = out_illegal then w\<lparr>bgn_curr := x\<rparr> else w) in
      if sint (end_curr w - bgn_curr w + 1) > sint (win_best w)
      then w\<lparr>win_best := end_curr w - bgn_curr w + 1, bgn_best := bgn_curr w, end_best := end_curr w\<rparr> else w)"

definition dm_fail :: "dm_window \<Rightarrow> dm_window" where
  "dm_fail w = w\<lparr>bgn_curr := out_illegal, end_curr := out_illegal\<rparr>"

definition dm_test :: "'h plat \<Rightarrow> nat \<Rightarrow> u32 \<Rightarrow> 'h seq \<Rightarrow> bool \<times> 'h seq" where
  "dm_test P rank_bgn write_group s =
     (let (ok, bit_chk, s) = rw_mgr_mem_calibrate_write_test P rank_bgn write_group True PASS_ALL_BITS False s in (ok, s))"

definition dm_by_dm :: "'h plat \<Rightarrow> nat \<Rightarrow> u32 \<Rightarrow> 'h seq \<Rightarrow> dm_window \<times> 'h seq" where
  "dm_by_dm P rank_bgn write_group s =
     fold (\<lambda>d (w, s).
       let s = scc_mgr_apply_group_dm_out1_delay P write_group (of_nat d) s;
           s = IOWR_32DIRECT P SCC_MGR_UPD 0 0 s;
           (ok, s) = dm_test P rank_bgn write_group s in
       (if ok then dm_pass (- of_nat d) w else dm_fail w, s))
     (rev [0..<Suc IO_IO_OUT1_DELAY_MAX]) (no_window, s)"

definition dm_by_dqs :: "'h plat \<Rightarrow> nat \<Rightarrow> u32 \<Rightarrow> u32 \<Rightarrow> dm_window \<Rightarrow> 'h seq \<Rightarrow> (dm_window \<times> 'h seq) option" where
  "dm_by_dqs P rank_bgn write_group new_dqs w s =
     map_option (\<lambda>(d, stop, w, s). (w, s))
       (while_option (\<lambda>(d, stop, w, s). \<not> stop \<and> sint d \<le> sint (of_nat IO_IO_OUT1_DELAY_MAX - new_dqs))
         (\<lambda>(d, stop, w, s).
           let s = scc_mgr_apply_group_dqs_io_and_oct_out1 P write_group (d + new_dqs) s;
               s = IOWR_32DIRECT P SCC_MGR_UPD 0 0 s;
               (ok, s) = dm_test P rank_bgn write_group s in
           if ok then (d + 1, False, dm_pass d w, s)
           else
             let s = recover_mem_device_after_ck_dqs_violation s in
             if sint (win_best w - 1) > sint (of_nat IO_IO_OUT1_DELAY_MAX - new_dqs - d) then (d, True, dm_fail w, s)
             else (d + 1, False, dm_fail w, s))
         (0, False, w, s))"

definition centre_dm :: "'h plat \<Rightarrow> nat \<Rightarrow> u32 \<Rightarrow> u32 \<Rightarrow> 'h seq \<Rightarrow> (u32 \<times> 'h seq) option" where
  "centre_dm P rank_bgn write_group new_dqs s =
     (let (w, s) = dm_by_dm P rank_bgn write_group s;
          s = scc_mgr_apply_group_dm_out1_delay P write_group 0 s;
          w = (if end_curr w \<noteq> 0 then dm_fail w else w) in
      do {
        (w, s) \<leftarrow> dm_by_dqs P rank_bgn write_group new_dqs w s;
        let left = - 1 * bgn_best w;
        let right = end_best w;
        let s = scc_mgr_apply_group_dqs_io_and_oct_out1 P write_group new_dqs s;
        let mid = signed_div (left - right) 2;
        let mid = (if sint mid < 0 then 0 else mid);
        let dm_margin = (if win_best w = 0 then - 1 else left - mid);
        let s = scc_mgr_apply_group_dm_out1_delay P write_group mid s;
        let s = IOWR_32DIRECT P SCC_MGR_UPD 0 0 s;
        Some (dm_margin, s) })"

definition rw_mgr_mem_calibrate_writes_center ::
  "'h plat \<Rightarrow> nat \<Rightarrow> u32 \<Rightarrow> u32 \<Rightarrow> 'h seq \<Rightarrow> (bool \<times> 'h seq) option" where
  "rw_mgr_mem_calibrate_writes_center P rank_bgn write_group test_bgn s =
     (let (start_dqs, s) = READ_SCC_DQS_IO_OUT1_DELAY P s;
          (es, s) = write_left_edges P rank_bgn write_group test_bgn [0..<Suc IO_IO_OUT1_DELAY_MAX] 0
            (replicate RW_MGR_MEM_DQ_PER_WRITE_DQS (out_illegal, out_illegal)) s;
          s = scc_mgr_apply_group_dq_out1_delay P write_group test_bgn 0 s;
          es = map (drop_right out_illegal) es;
          sticky = edge_mask (\<lambda>(left, right). left \<noteq> out_illegal) es in
      do {
        (es, s) \<leftarrow> write_right_edges P rank_bgn write_group start_dqs sticky es s;
        case find (\<lambda>i. fst (es ! i) = out_illegal \<or> snd (es ! i) = out_illegal) [0..<RW_MGR_MEM_DQ_PER_WRITE_DQS] of
          Some i \<Rightarrow> Some (False, set_failing_group_stage (test_bgn + of_nat i) CAL_STAGE_WRITES CAL_SUBSTAGE_WRITES_CENTER s)
        | None \<Rightarrow> do {
            let (mid_min, min_index) = min_mid es;
            let orig_mid_min = half_mid mid_min;
            let new_dqs = start_dqs;
            let (dq_margin, dqs_margin, s) = centre_write_pins P write_group es min_index orig_mid_min 0 s;
            let s = scc_mgr_apply_group_dqs_io_and_oct_out1 P write_group new_dqs s;
            let s = IOWR_32DIRECT P SCC_MGR_UPD 0 0 s;
            (dm_margin, s) \<leftarrow> centre_dm P rank_bgn write_group new_dqs s;
            let s = s\<lparr>gbl := (gbl s)\<lparr>fom_out := fom_out (gbl s) + (dq_margin + dqs_margin)\<rparr>\<rparr>;
            let s = IOWR_32DIRECT P SCC_MGR_UPD 0 0 s;
            Some (sint dq_margin \<ge> 0 \<and> sint dqs_margin \<ge> 0 \<and> sint dm_margin \<ge> 0, s) } })"

definition rw_mgr_mem_calibrate_writes :: "'h plat \<Rightarrow> nat \<Rightarrow> u32 \<Rightarrow> u32 \<Rightarrow> 'h seq \<Rightarrow> (bool \<times> 'h seq) option" where
  "rw_mgr_mem_calibrate_writes P rank_bgn g test_bgn s =
     (let s = reg_file_set_stage P CAL_STAGE_WRITES s;
          s = reg_file_set_sub_stage P CAL_SUBSTAGE_WRITES_CENTER s;
          s = reg_file_set_group P g s in
      do {
        (ok, s) \<leftarrow> rw_mgr_mem_calibrate_writes_center P rank_bgn g test_bgn s;
        Some (if ok then (True, s) else (False, set_failing_group_stage g CAL_STAGE_WRITES CAL_SUBSTAGE_WRITES_CENTER s)) })"

end
