(* ===== verification/Seq_Wlevel.thy ===== *)
theory Seq_Wlevel
  imports Seq_Centre
begin

text \<open>
  Write levelling, \<open>rw_mgr_mem_calibrate_wlevel\<close>: the phase and the delay of the outputs of a group are
  set to the middle of the window in which writes work. The first search has a bound that is read
  from a register, so it is a \<open>while_option\<close>. For other devices \<open>num_additional_fr_cycles\<close> may be set;
  here it stays 0.
\<close>

definition IO_DQDQS_OUT_PHASE_MAX :: nat where "IO_DQDQS_OUT_PHASE_MAX = 0"

definition wlevel_phase_max :: nat where
  "wlevel_phase_max = (let num_additional_fr_cycles = 0 in IO_DQDQS_OUT_PHASE_MAX + num_additional_fr_cycles * IO_DLL_CHAIN_LENGTH)"

definition wlevel_test :: "'h plat \<Rightarrow> u32 \<Rightarrow> 'h seq \<Rightarrow> bool \<times> 'h seq" where
  "wlevel_test P g s =
     (let (ok, bit_chk, s) = rw_mgr_mem_calibrate_write_test_all_ranks P g False PASS_ONE_BIT s in (ok, s))"

section \<open>The beginning of the window\<close>

text \<open>The loop over the phases; the result is whether a write passed, the phase after the loop and \<open>work_bgn\<close>.\<close>

fun begin_phase :: "'h plat \<Rightarrow> u32 \<Rightarrow> nat list \<Rightarrow> nat \<Rightarrow> u32 \<Rightarrow> 'h seq \<Rightarrow> (bool \<times> nat \<times> u32) \<times> 'h seq" where
  "begin_phase P g [] p_end work_bgn s = ((False, p_end, work_bgn), s)"
| "begin_phase P g (p # ps) p_end work_bgn s =
     (let s = scc_mgr_set_dqdqs_output_phase_all_ranks P g (of_nat p) s;
          (ok, s) = wlevel_test P g s in
      if ok then ((True, p, work_bgn), s) else begin_phase P g ps (p + 1) (work_bgn + IO_DELAY_PER_OPA_TAP) s)"

definition wlevel_begin :: "'h plat \<Rightarrow> u32 \<Rightarrow> u32 \<Rightarrow> u32 \<Rightarrow> 'h seq \<Rightarrow> ((u32 \<times> nat \<times> u32) \<times> 'h seq) option" where
  "wlevel_begin P g test_bgn dtaps_per_ptap s =
     map_option (\<lambda>(d, found_begin, tmp_delay, p, work_bgn, s). ((d, p, work_bgn), s))
       (while_option (\<lambda>(d, found_begin, tmp_delay, p, work_bgn, s). \<not> found_begin \<and> d \<le> dtaps_per_ptap)
         (\<lambda>(d, found_begin, tmp_delay, p, work_bgn, s).
           let s = scc_mgr_apply_group_all_out_delay_all_ranks P g test_bgn d s;
               ((found, p, work_bgn), s) = begin_phase P g [0..<Suc wlevel_phase_max] 0 tmp_delay s in
           if found then (d, True, tmp_delay, p, work_bgn, s)
           else (d + 1, False, tmp_delay + IO_DELAY_PER_DCHAIN_TAP, p, work_bgn, s))
         (0, False, 0, 0, 0, s))"

section \<open>The end of the window\<close>

fun back_delay :: "'h plat \<Rightarrow> u32 \<Rightarrow> u32 \<Rightarrow> nat list \<Rightarrow> u32 \<Rightarrow> u32 \<Rightarrow> 'h seq \<Rightarrow> u32 \<times> 'h seq" where
  "back_delay P g test_bgn [] tmp_delay work_bgn s = (work_bgn, s)"
| "back_delay P g test_bgn (d # ds) tmp_delay work_bgn s =
     (if tmp_delay < work_bgn then
        let s = scc_mgr_apply_group_all_out_delay_all_ranks P g test_bgn (of_nat d) s;
            (ok, s) = wlevel_test P g s in
        if ok then (tmp_delay, s) else back_delay P g test_bgn ds (tmp_delay + IO_DELAY_PER_DCHAIN_TAP) work_bgn s
      else (work_bgn, s))"

fun end_phases :: "'h plat \<Rightarrow> u32 \<Rightarrow> nat list \<Rightarrow> nat \<Rightarrow> u32 \<Rightarrow> 'h seq \<Rightarrow> (nat \<times> u32) \<times> 'h seq" where
  "end_phases P g [] p_end work_end s = ((p_end, work_end), s)"
| "end_phases P g (p # ps) p_end work_end s =
     (let s = scc_mgr_set_dqdqs_output_phase_all_ranks P g (of_nat p) s;
          (ok, s) = wlevel_test P g s in
      if \<not> ok then ((p, work_end), s) else end_phases P g ps (p + 1) (work_end + IO_DELAY_PER_OPA_TAP) s)"

text \<open>Steps 2 to 5: the delay from which the end is searched, and the bounds of the window so far.\<close>

definition wlevel_edge :: "'h plat \<Rightarrow> u32 \<Rightarrow> u32 \<Rightarrow> u32 \<Rightarrow> nat \<Rightarrow> u32 \<Rightarrow> 'h seq \<Rightarrow> (u32 \<times> u32 \<times> u32) \<times> 'h seq" where
  "wlevel_edge P g test_bgn d p work_bgn s =
     (if d = 0 then
        let work_end = work_bgn + IO_DELAY_PER_OPA_TAP;
            (work_bgn, s) =
              (if p > 0 then
                 let s = scc_mgr_set_dqdqs_output_phase_all_ranks P g (of_nat (p - 1)) s;
                     (work_bgn, s) = back_delay P g test_bgn [0..<Suc IO_IO_OUT1_DELAY_MAX] (work_bgn - IO_DELAY_PER_OPA_TAP) work_bgn s in
                 (work_bgn, scc_mgr_apply_group_all_out_delay_all_ranks P g test_bgn 0 s)
               else (work_bgn, s));
            ((p, work_end), s) = end_phases P g [p + 1..<Suc wlevel_phase_max] (p + 1) work_end s;
            s = scc_mgr_set_dqdqs_output_phase_all_ranks P g (of_nat (p - 1)) s in
        ((0, work_bgn, work_end - IO_DELAY_PER_OPA_TAP), s)
      else ((d, work_bgn, work_bgn), s))"

fun end_delay :: "'h plat \<Rightarrow> u32 \<Rightarrow> u32 \<Rightarrow> nat list \<Rightarrow> u32 \<Rightarrow> 'h seq \<Rightarrow> u32 \<times> 'h seq" where
  "end_delay P g test_bgn [] work_end s = (work_end, s)"
| "end_delay P g test_bgn (d # ds) work_end s =
     (let s = scc_mgr_apply_group_all_out_delay_all_ranks P g test_bgn (of_nat d) s;
          (ok, s) = wlevel_test P g s in
      if \<not> ok then (work_end, s) else end_delay P g test_bgn ds (work_end + IO_DELAY_PER_DCHAIN_TAP) s)"

section \<open>The middle\<close>

text \<open>A loop that adds a step to a delay at most \<open>n\<close> times, as long as it is below \<open>work_mid\<close>.\<close>

fun steps_below :: "u32 \<Rightarrow> u32 \<Rightarrow> nat \<Rightarrow> nat \<Rightarrow> u32 \<Rightarrow> nat \<times> u32" where
  "steps_below step work_mid 0 k tmp_delay = (k, tmp_delay)"
| "steps_below step work_mid (Suc n) k tmp_delay =
     (if tmp_delay < work_mid then steps_below step work_mid n (k + 1) (tmp_delay + step) else (k, tmp_delay))"

function lower_phase :: "nat \<Rightarrow> u32 \<Rightarrow> nat \<times> u32" where
  "lower_phase p tmp_delay =
     (if p > IO_DQDQS_OUT_PHASE_MAX then lower_phase (p - 1) (tmp_delay - IO_DELAY_PER_OPA_TAP) else (p, tmp_delay))"
  by pat_completeness auto
termination by (relation "measure fst") auto

declare lower_phase.simps [simp del]

definition wlevel_centre :: "u32 \<Rightarrow> u32 \<Rightarrow> nat \<times> nat" where
  "wlevel_centre work_bgn work_end =
     (let work_mid = (work_bgn + work_end) div 2;
          (p, tmp_delay) = steps_below IO_DELAY_PER_OPA_TAP work_mid (Suc wlevel_phase_max) 0 0;
          (p, tmp_delay) = (if tmp_delay > work_mid then (p - 1, tmp_delay - IO_DELAY_PER_OPA_TAP) else (p, tmp_delay));
          (p, tmp_delay) = lower_phase p tmp_delay;
          (d, tmp_delay) = steps_below IO_DELAY_PER_DCHAIN_TAP work_mid (Suc IO_IO_OUT1_DELAY_MAX) 0 tmp_delay in
      (p, if tmp_delay > work_mid then d - 1 else d))"

definition rw_mgr_mem_calibrate_wlevel :: "'h plat \<Rightarrow> u32 \<Rightarrow> u32 \<Rightarrow> 'h seq \<Rightarrow> (bool \<times> 'h seq) option" where
  "rw_mgr_mem_calibrate_wlevel P g test_bgn s =
     (let s = reg_file_set_stage P CAL_STAGE_WLEVEL s;
          s = reg_file_set_sub_stage P CAL_SUBSTAGE_WORKING_DELAY s;
          (dtaps_per_ptap, s) = IORD_32DIRECT P REG_FILE_DTAPS_PER_PTAP 0 s;
          s = reg_file_set_group P g s;
          s = scc_mgr_spread_out2_delay_all_ranks g test_bgn s in
      do {
        ((d, p, work_bgn), s) \<leftarrow> wlevel_begin P g test_bgn dtaps_per_ptap s;
        if p > wlevel_phase_max
        then Some (False, set_failing_group_stage g CAL_STAGE_WLEVEL CAL_SUBSTAGE_WORKING_DELAY s)
        else
          let s = reg_file_set_sub_stage P CAL_SUBSTAGE_LAST_WORKING_DELAY s;
              ((d, work_bgn, work_end), s) = wlevel_edge P g test_bgn d p work_bgn s;
              (work_end, s) = end_delay P g test_bgn [unat d..<Suc IO_IO_OUT1_DELAY_MAX] work_end s;
              s = scc_mgr_zero_group P g test_bgn True s;
              work_end = work_end - IO_DELAY_PER_DCHAIN_TAP in
          if work_end \<ge> work_bgn then
            let (p, d) = wlevel_centre work_bgn work_end;
                s = scc_mgr_set_dqdqs_output_phase_all_ranks P g (of_nat p) s;
                s = scc_mgr_apply_group_all_out_delay_add_all_ranks P g test_bgn (of_nat d) s in
            Some (True, s)
          else Some (False, set_failing_group_stage g CAL_STAGE_WLEVEL CAL_SUBSTAGE_LAST_WORKING_DELAY s) })"

end
