(* ===== verification/Seq_Calibrate.thy ===== *)
theory Seq_Calibrate
  imports Seq_Wlevel
begin

text \<open>
  The stages of calibration and the entry points of the firmware: \<open>rw_mgr_mem_calibrate_vfifo\<close>,
  \<open>rw_mgr_mem_calibrate_vfifo_end\<close>, \<open>mem_calibrate\<close>, \<open>run_mem_calibrate\<close> and \<open>sdram_calibration\<close>. The call
  of write levelling in \<open>mem_calibrate\<close> is under a condition that is false for Cyclone V. An early return of \<open>mem_calibrate\<close> is the outcome \<open>Return_0\<close> of the code that it stands in.
\<close>

section \<open>Read calibration of a group\<close>

definition RLDRAMII :: bool where "RLDRAMII = False"
definition ARRIAV :: bool where "ARRIAV = False"
definition CYCLONEV :: bool where "CYCLONEV = True"
definition PHY_DEBUG_IN_DEBUG_MODE :: u32 where "PHY_DEBUG_IN_DEBUG_MODE = 0x00000001"
definition PHY_DEBUG_ENABLE_CAL_RPT :: u32 where "PHY_DEBUG_ENABLE_CAL_RPT = 0x00000002"
definition PHY_DEBUG_SWEEP_ALL_GROUPS :: u32 where "PHY_DEBUG_SWEEP_ALL_GROUPS = 0x00000008"
definition PHY_DEBUG_DISABLE_GUARANTEED_READ :: u32 where "PHY_DEBUG_DISABLE_GUARANTEED_READ = 0x00000010"
definition NUM_CALIB_REPEAT :: nat where "NUM_CALIB_REPEAT = 1"
definition RW_MGR_NUM_DQS_PER_WRITE_GROUP :: nat where
  "RW_MGR_NUM_DQS_PER_WRITE_GROUP = RW_MGR_MEM_IF_READ_DQS_WIDTH div RW_MGR_MEM_IF_WRITE_DQS_WIDTH"
definition PHY_MGR_CAL_RESET :: u32 where "PHY_MGR_CAL_RESET = 0"
definition PHY_MGR_CAL_SUCCESS :: u32 where "PHY_MGR_CAL_SUCCESS = 1"
definition PHY_MGR_CAL_FAIL :: u32 where "PHY_MGR_CAL_FAIL = 2"

text \<open>The ranks that start a shadow register set, with the index of the set.\<close>

definition shadow_ranks :: "(nat \<times> nat) list" where
  "shadow_ranks = zip ranks [0..<length ranks]"

fun centre_ranks ::
  "'h plat \<Rightarrow> u32 \<Rightarrow> u32 \<Rightarrow> u32 \<Rightarrow> u32 \<Rightarrow> (nat \<times> nat) list \<Rightarrow> bool \<Rightarrow> u32 \<Rightarrow> 'h seq \<Rightarrow> ((bool \<times> u32) \<times> 'h seq) option" where
  "centre_ranks P write_group read_group test_bgn orig_start_dqs [] grp_calibrated failed_substage s =
     Some ((grp_calibrated, failed_substage), s)"
| "centre_ranks P write_group read_group test_bgn orig_start_dqs ((rank_bgn, sr) # rs) grp_calibrated failed_substage s =
     (if skip_shadow_regs (param s) ! sr
      then centre_ranks P write_group read_group test_bgn orig_start_dqs rs grp_calibrated failed_substage s
      else do {
        let s = select_shadow_regs_for_update (of_nat rank_bgn) read_group 1 s;
        let s = WRITE_SCC_DQS_IN_DELAY P read_group orig_start_dqs s;
        let s = scc_mgr_load_dqs P read_group s;
        let s = IOWR_32DIRECT P SCC_MGR_UPD 0 0 s;
        (ok, s) \<leftarrow> rw_mgr_mem_calibrate_vfifo_center P rank_bgn write_group read_group test_bgn True False s;
        if ok then centre_ranks P write_group read_group test_bgn orig_start_dqs rs grp_calibrated failed_substage s
        else centre_ranks P write_group read_group test_bgn orig_start_dqs rs False CAL_SUBSTAGE_VFIFO_CENTER s })"

text \<open>The loop over the DQS input delays.\<close>

fun try_dqs_in ::
  "'h plat \<Rightarrow> u32 \<Rightarrow> u32 \<Rightarrow> u32 \<Rightarrow> u32 \<Rightarrow> nat list \<Rightarrow> u32 \<Rightarrow> 'h seq \<Rightarrow> ((bool \<times> u32) \<times> 'h seq) option" where
  "try_dqs_in P write_group read_group test_bgn orig_start_dqs [] failed_substage s = Some ((False, failed_substage), s)"
| "try_dqs_in P write_group read_group test_bgn orig_start_dqs (dqs_in_dtaps # ds) failed_substage s =
     (let s = for_each shadow_ranks (\<lambda>(rank_bgn, sr) s. if skip_shadow_regs (param s) ! sr then s else perform [
            select_shadow_regs_for_update (of_nat rank_bgn) read_group 1,
            WRITE_SCC_DQS_IN_DELAY P read_group (of_nat dqs_in_dtaps),
            scc_mgr_load_dqs P read_group,
            IOWR_32DIRECT P SCC_MGR_UPD 0 0] s) s;
          (found, s) = rw_mgr_mem_calibrate_vfifo_find_dqs_en_phase_sweep_dq_in_delay P write_group read_group test_bgn s in
      do {
        ((grp_calibrated, failed_substage), s) \<leftarrow>
          (if found then centre_ranks P write_group read_group test_bgn orig_start_dqs shadow_ranks True failed_substage s
           else Some ((False, CAL_SUBSTAGE_DQS_EN_PHASE), s));
        if grp_calibrated then Some ((True, failed_substage), s)
        else try_dqs_in P write_group read_group test_bgn orig_start_dqs ds failed_substage s })"

text \<open>The loop over the output phases, which a failed guaranteed read ends.\<close>

fun try_phases ::
  "'h plat \<Rightarrow> u32 \<Rightarrow> u32 \<Rightarrow> u32 \<Rightarrow> nat \<Rightarrow> nat list \<Rightarrow> u32 \<Rightarrow> 'h seq \<Rightarrow> ((bool \<times> u32) \<times> 'h seq) option" where
  "try_phases P write_group read_group test_bgn d [] failed_substage s = Some ((False, failed_substage), s)"
| "try_phases P write_group read_group test_bgn d (p # ps) failed_substage s =
     (let s = (if DDRX then scc_mgr_set_dqdqs_output_phase_all_ranks P read_group (of_nat p) s else s);
          s = (if d \<noteq> 0 \<or> p \<noteq> 0 then recover_mem_device_after_ck_dqs_violation s else s);
          s = rw_mgr_mem_calibrate_read_load_patterns_all_ranks P s;
          (guaranteed, s) =
            (if phy_debug_mode_flags (gbl s) AND PHY_DEBUG_DISABLE_GUARANTEED_READ = 0
             then let (ok, bit_chk, s) = rw_mgr_mem_calibrate_read_test_patterns_all_ranks P read_group s in (ok, s)
             else (True, s)) in
      if \<not> guaranteed then Some ((False, failed_substage), s)
      else
        let (orig_start_dqs, s) = READ_SCC_DQS_IN_DELAY P read_group s in
        do {
          ((grp_calibrated, failed_substage), s) \<leftarrow>
            try_dqs_in P write_group read_group test_bgn orig_start_dqs [unat orig_start_dqs..<Suc (unat IO_DQS_IN_DELAY_MAX)]
              failed_substage s;
          if grp_calibrated then Some ((True, failed_substage), s)
          else try_phases P write_group read_group test_bgn d ps failed_substage s })"

text \<open>The loop over the output delays; the delay after the loop is a result.\<close>

fun try_out_delays ::
  "'h plat \<Rightarrow> u32 \<Rightarrow> u32 \<Rightarrow> u32 \<Rightarrow> u32 \<Rightarrow> nat list \<Rightarrow> nat \<Rightarrow> u32 \<Rightarrow> 'h seq \<Rightarrow> ((bool \<times> nat \<times> u32) \<times> 'h seq) option" where
  "try_out_delays P write_group read_group test_bgn write_test_bgn [] d_end failed_substage s =
     Some ((False, d_end, failed_substage), s)"
| "try_out_delays P write_group read_group test_bgn write_test_bgn (d # ds) d_end failed_substage s =
     (let s = (if DDRX \<and> d > 0 then scc_mgr_apply_group_all_out_delay_add_all_ranks P write_group write_test_bgn (of_nat d) s else s) in
      do {
        ((grp_calibrated, failed_substage), s) \<leftarrow>
          try_phases P write_group read_group test_bgn d [0..<Suc IO_DQDQS_OUT_PHASE_MAX] failed_substage s;
        if grp_calibrated then Some ((True, d + 2, failed_substage), s)
        else try_out_delays P write_group read_group test_bgn write_test_bgn ds (d + 2) failed_substage s })"

definition rw_mgr_mem_calibrate_vfifo :: "'h plat \<Rightarrow> u32 \<Rightarrow> u32 \<Rightarrow> 'h seq \<Rightarrow> (bool \<times> 'h seq) option" where
  "rw_mgr_mem_calibrate_vfifo P read_group test_bgn s =
     (let s = reg_file_set_stage P CAL_STAGE_VFIFO s;
          (write_group, write_test_bgn) =
            (if DDRX then (read_group, test_bgn)
             else (read_group div of_nat (RW_MGR_MEM_IF_READ_DQS_WIDTH div RW_MGR_MEM_IF_WRITE_DQS_WIDTH),
               read_group * of_nat RW_MGR_MEM_DQ_PER_READ_DQS));
          dtaps_per_ptap = count_dqs_en_taps 0 0 - 1;
          s = reg_file_set_group P read_group s;
          s = reg_file_set_sub_stage P CAL_SUBSTAGE_GUARANTEED_READ s in
      do {
        ((grp_calibrated, d, failed_substage), s) \<leftarrow>
          try_out_delays P write_group read_group test_bgn write_test_bgn (filter even [0..<Suc (unat dtaps_per_ptap)]) 0
            CAL_SUBSTAGE_GUARANTEED_READ s;
        Some (if \<not> grp_calibrated then (False, set_failing_group_stage write_group CAL_STAGE_VFIFO failed_substage s)
          else (True, if DDRX \<and> d > 2 then scc_mgr_zero_group P write_group write_test_bgn True s else s)) })"

fun end_ranks :: "'h plat \<Rightarrow> u32 \<Rightarrow> u32 \<Rightarrow> u32 \<Rightarrow> (nat \<times> nat) list \<Rightarrow> bool \<Rightarrow> 'h seq \<Rightarrow> (bool \<times> 'h seq) option" where
  "end_ranks P write_group read_group test_bgn [] grp_calibrated s = Some (grp_calibrated, s)"
| "end_ranks P write_group read_group test_bgn ((rank_bgn, sr) # rs) grp_calibrated s =
     (if skip_shadow_regs (param s) ! sr then end_ranks P write_group read_group test_bgn rs grp_calibrated s
      else do {
        let s = select_shadow_regs_for_update (of_nat rank_bgn) read_group 1 s;
        (ok, s) \<leftarrow> rw_mgr_mem_calibrate_vfifo_center P rank_bgn write_group read_group test_bgn False True s;
        end_ranks P write_group read_group test_bgn rs (grp_calibrated \<and> ok) s })"

definition rw_mgr_mem_calibrate_vfifo_end :: "'h plat \<Rightarrow> u32 \<Rightarrow> u32 \<Rightarrow> 'h seq \<Rightarrow> (bool \<times> 'h seq) option" where
  "rw_mgr_mem_calibrate_vfifo_end P read_group test_bgn s =
     (let s = reg_file_set_stage P CAL_STAGE_VFIFO_AFTER_WRITES s;
          s = reg_file_set_sub_stage P CAL_SUBSTAGE_VFIFO_CENTER s;
          write_group = (if DDRX then read_group
            else read_group div of_nat (RW_MGR_MEM_IF_READ_DQS_WIDTH div RW_MGR_MEM_IF_WRITE_DQS_WIDTH));
          s = reg_file_set_group P read_group s in
      do {
        (grp_calibrated, s) \<leftarrow> end_ranks P write_group read_group test_bgn shadow_ranks True s;
        Some (if \<not> grp_calibrated
          then (False, set_failing_group_stage write_group CAL_STAGE_VFIFO_AFTER_WRITES CAL_SUBSTAGE_VFIFO_CENTER s)
          else (True, s)) })"

section \<open>Calibration of all groups\<close>

datatype 'a outcome = Return_0 | Continue 'a

text \<open>The read groups of a write group with the first pin of each.\<close>

definition read_group_tests :: "u32 \<Rightarrow> (u32 \<times> u32) list" where
  "read_group_tests write_group =
     zip (read_groups write_group) (map (\<lambda>k. of_nat (k * RW_MGR_MEM_DQ_PER_READ_DQS)) [0..<length (read_groups write_group)])"

text \<open>A stage on the read groups of a write group, up to the first that fails; the result is \<open>group_failed\<close>.\<close>

fun read_stage :: "(u32 \<Rightarrow> u32 \<Rightarrow> 'h seq \<Rightarrow> (bool \<times> 'h seq) option) \<Rightarrow> (u32 \<times> u32) list \<Rightarrow> 'h seq \<Rightarrow> (bool \<times> 'h seq) option" where
  "read_stage f [] s = Some (False, s)"
| "read_stage f ((read_group, read_test_bgn) # gs) s =
     do { (ok, s) \<leftarrow> f read_group read_test_bgn s; if ok then read_stage f gs s else Some (True, s) }"

definition stops :: "'h seq \<Rightarrow> bool" where
  "stops s \<longleftrightarrow> phy_debug_mode_flags (gbl s) AND PHY_DEBUG_SWEEP_ALL_GROUPS = 0"

fun write_stage ::
  "'h plat \<Rightarrow> u32 \<Rightarrow> u32 \<Rightarrow> (nat \<times> nat) list \<Rightarrow> bool \<Rightarrow> 'h seq \<Rightarrow> (bool outcome \<times> 'h seq) option" where
  "write_stage P write_group write_test_bgn [] group_failed s = Some (Continue group_failed, s)"
| "write_stage P write_group write_test_bgn ((rank_bgn, sr) # rs) group_failed s =
     (if STATIC_CALIB_STEPS AND CALIB_SKIP_WRITES = 0 \<and> STATIC_CALIB_STEPS AND CALIB_SKIP_DELAY_SWEEPS = 0 \<and>
         \<not> skip_shadow_regs (param s) ! sr
      then do {
        let s = select_shadow_regs_for_update (of_nat rank_bgn) write_group 1 s;
        (ok, s) \<leftarrow> rw_mgr_mem_calibrate_writes P rank_bgn write_group write_test_bgn s;
        if \<not> ok \<and> stops s then Some (Return_0, s)
        else write_stage P write_group write_test_bgn rs (group_failed \<or> \<not> ok) s }
      else write_stage P write_group write_test_bgn rs group_failed s)"

text \<open>One write group: the reads, write levelling, the writes, and the reads again. The result is whether it failed.\<close>

definition calibrate_group :: "'h plat \<Rightarrow> u32 \<Rightarrow> u32 \<Rightarrow> 'h seq \<Rightarrow> (bool outcome \<times> 'h seq) option" where
  "calibrate_group P write_group write_test_bgn s =
     (let s = IOWR_32DIRECT P SCC_MGR_GROUP_COUNTER 0 write_group s;
          s = scc_mgr_zero_group P write_group write_test_bgn False s in
      do {
        (failed, s) \<leftarrow> (if STATIC_CALIB_STEPS AND CALIB_SKIP_VFIFO = 0
          then read_stage (rw_mgr_mem_calibrate_vfifo P) (read_group_tests write_group) s else Some (False, s));
        if failed then Some (if stops s then (Return_0, s) else (Continue True, s))
        else do {
          (ok, s) \<leftarrow> (if (DDRX \<or> RLDRAMII) \<and> \<not> (ARRIAV \<or> CYCLONEV) \<and> STATIC_CALIB_STEPS AND CALIB_SKIP_WLEVEL = 0
            then rw_mgr_mem_calibrate_wlevel P write_group write_test_bgn s else Some (True, s));
          if \<not> ok then Some (if stops s then (Return_0, s) else (Continue True, s))
          else do {
            (res, s) \<leftarrow> write_stage P write_group write_test_bgn shadow_ranks False s;
            case res of
              Return_0 \<Rightarrow> Some (Return_0, s)
            | Continue failed \<Rightarrow>
                if failed then Some (Continue True, s)
                else do {
                  (failed, s) \<leftarrow> (if STATIC_CALIB_STEPS AND CALIB_SKIP_WRITES = 0
                    then read_stage (rw_mgr_mem_calibrate_vfifo_end P) (read_group_tests write_group) s else Some (False, s));
                  Some (if failed \<and> stops s then (Return_0, s) else (Continue failed, s)) } } } })"

fun calibrate_groups :: "'h plat \<Rightarrow> nat list \<Rightarrow> u32 \<Rightarrow> nat \<Rightarrow> 'h seq \<Rightarrow> (nat outcome \<times> 'h seq) option" where
  "calibrate_groups P [] run_groups failing_groups s = Some (Continue failing_groups, s)"
| "calibrate_groups P (g # gs) run_groups failing_groups s =
     (let current_run = run_groups AND (push_bit RW_MGR_NUM_DQS_PER_WRITE_GROUP 1 - 1);
          run_groups = drop_bit RW_MGR_NUM_DQS_PER_WRITE_GROUP run_groups in
      if current_run = 0 then calibrate_groups P gs run_groups failing_groups s
      else do {
        (res, s) \<leftarrow> calibrate_group P (of_nat g) (of_nat (g * RW_MGR_MEM_DQ_PER_WRITE_DQS)) s;
        case res of
          Return_0 \<Rightarrow> Some (Return_0, s)
        | Continue failed \<Rightarrow> calibrate_groups P gs run_groups (if failed then failing_groups + 1 else failing_groups) s })"

text \<open>The repetitions of the calibration; the result is false for a return with 0.\<close>

fun calibrate_repeat :: "'h plat \<Rightarrow> nat \<Rightarrow> nat \<Rightarrow> 'h seq \<Rightarrow> (bool \<times> 'h seq) option" where
  "calibrate_repeat P 0 failing_groups s = Some (True, s)"
| "calibrate_repeat P (Suc n) failing_groups s =
     do {
       let s = scc_mgr_zero_all P s;
       (res, s) \<leftarrow> calibrate_groups P [0..<RW_MGR_MEM_IF_WRITE_DQS_WIDTH] (NOT (skip_groups (param s))) failing_groups s;
       case res of
         Return_0 \<Rightarrow> Some (False, s)
       | Continue failing_groups \<Rightarrow>
           if failing_groups \<noteq> 0 then Some (False, s)
           else
             let (ok, s) = (if STATIC_CALIB_STEPS AND CALIB_SKIP_LFIFO = 0 \<and> skip_groups (param s) = 0
               then rw_mgr_mem_calibrate_lfifo P s else (True, s)) in
             if ok then calibrate_repeat P n failing_groups s else Some (False, s) }"

definition mem_calibrate :: "'h plat \<Rightarrow> 'h seq \<Rightarrow> (bool \<times> 'h seq) option" where
  "mem_calibrate P s =
     (let s = s\<lparr>gbl := (gbl s)\<lparr>error_substage := CAL_SUBSTAGE_NIL, error_stage := CAL_STAGE_NIL, error_group := 0xff,
            fom_in := 0, fom_out := 0\<rparr>\<rparr>;
          s = mem_config P s;
          s = for_each [0..<RW_MGR_MEM_IF_READ_DQS_WIDTH] (\<lambda>i. perform [
            IOWR_32DIRECT P SCC_MGR_GROUP_COUNTER 0 (of_nat i),
            scc_set_bypass_mode P (of_nat i) (if HARD_PHY then 0x1 else 0x0)]) s in
      do {
        (ok, s) \<leftarrow> (if dyn_calib_steps s AND CALIB_SKIP_ALL = CALIB_SKIP_ALL then Some (True, mem_skip_calibrate P s)
          else calibrate_repeat P NUM_CALIB_REPEAT 0 s);
        Some (if ok then (True, IOWR_32DIRECT P SCC_MGR_UPD 0 0 s) else (False, s)) })"

section \<open>Entry points\<close>

definition report_result :: "'h plat \<Rightarrow> bool \<Rightarrow> 'h seq \<Rightarrow> 'h seq" where
  "report_result P pass s =
     (if pass then
        let limit = (\<lambda>x. if x > 0xff then 0xff else x);
            s = s\<lparr>gbl := (gbl s)\<lparr>fom_in := limit (fom_in (gbl s) div 2), fom_out := limit (fom_out (gbl s) div 2)\<rparr>\<rparr>;
            debug_info = fom_in (gbl s) OR push_bit 8 (fom_out (gbl s)) in
        perform [
          IOWR_32DIRECT P REG_FILE_FOM 0 debug_info,
          IOWR_32DIRECT P PHY_MGR_CAL_DEBUG_INFO 0 debug_info,
          IOWR_32DIRECT P PHY_MGR_CAL_STATUS 0 PHY_MGR_CAL_SUCCESS] s
      else
        let debug_info = error_stage (gbl s) OR push_bit 8 (error_substage (gbl s)) OR push_bit 16 (error_group (gbl s)) in
        perform [
          IOWR_32DIRECT P REG_FILE_FAILING_STAGE 0 debug_info,
          IOWR_32DIRECT P PHY_MGR_CAL_DEBUG_INFO 0 debug_info,
          IOWR_32DIRECT P PHY_MGR_CAL_STATUS 0 PHY_MGR_CAL_FAIL,
          IOWR_32DIRECT P REG_FILE_FAILING_STAGE 0 debug_info] s)"

definition run_mem_calibrate :: "'h plat \<Rightarrow> 'h seq \<Rightarrow> (bool \<times> 'h seq) option" where
  "run_mem_calibrate P s =
     (let s = IOWR_32DIRECT P PHY_MGR_CAL_STATUS 0 PHY_MGR_CAL_RESET s;
          (ctrlcfg, s) = IORD_32DIRECT P CTRL_CONFIG_REG 0 s;
          s = IOWR_32DIRECT P CTRL_CONFIG_REG 0 (ctrlcfg AND 0xFFBFFFFF) s;
          s = initialize P s;
          s = rw_mgr_mem_initialize P s in
      do {
        (pass, s) \<leftarrow> mem_calibrate P s;
        let s = mem_precharge_and_activate P s;
        let s = IOWR_32DIRECT P PHY_MGR_CMD_FIFO_RESET 0 0 s;
        let s = (if phy_debug_mode_flags (gbl s) AND PHY_DEBUG_IN_DEBUG_MODE = 0
          then IOWR_32DIRECT P PHY_MGR_MUX_SEL 0 0x2 (rw_mgr_mem_handoff P s) else s);
        let s = IOWR_32DIRECT P CTRL_CONFIG_REG 0 ctrlcfg s;
        Some (pass, report_result P pass s) })"

definition user_init_cal_req :: "'h plat \<Rightarrow> 'h seq \<Rightarrow> 'h seq option" where
  "user_init_cal_req P s =
     (let (scc_afi_reg, s) = IORD_32DIRECT P SCC_MGR_AFI_CAL_INIT 0 s in
      if scc_afi_reg = 1 \<or> scc_afi_reg = 16 then Some (perform [
        initialize P,
        rw_mgr_mem_initialize P,
        rw_mgr_mem_handoff P,
        IOWR_32DIRECT P PHY_MGR_MUX_SEL 0 0,
        IOWR_32DIRECT P PHY_MGR_CAL_STATUS 0 PHY_MGR_CAL_SUCCESS] s)
      else if scc_afi_reg = 2 \<or> scc_afi_reg = 32 then do { (pass, s) \<leftarrow> run_mem_calibrate P s; Some s }
      else Some s)"

definition sdram_calibration :: "'h plat \<Rightarrow> phyctrl \<Rightarrow> 'h seq \<Rightarrow> (bool \<times> 'h seq) option" where
  "sdram_calibration P C s =
     (let s = s\<lparr>gbl := (gbl s)\<lparr>phy_debug_mode_flags := 0 OR PHY_DEBUG_ENABLE_CAL_RPT\<rparr>\<rparr>;
          s = initialize_reg_file P s;
          s = initialize_hps_phy P C s;
          s = scc_mgr_initialize P s;
          s = initialize_tracking P s;
          s = s\<lparr>param := (param s)\<lparr>skip_ranks := replicate RW_MGR_MEM_NUMBER_OF_RANKS False,
            skip_shadow_regs := replicate NUM_SHADOW_REGS False, skip_groups := 0\<rparr>\<rparr>;
          s = hc_initialize_rom_data P s;
          s = reg_file_set_stage P CAL_STAGE_NIL s;
          s = reg_file_set_group P 0 s;
          s = s\<lparr>dyn_calib_steps := STATIC_CALIB_STEPS\<rparr>;
          s = s\<lparr>skip_delay_mask := (if dyn_calib_steps s AND CALIB_SKIP_DELAY_LOOPS = 0 then 0xff else 0x0)\<rparr> in
      run_mem_calibrate P s)"

definition rw_mgr_mem_calibrate_full_test :: "'h plat \<Rightarrow> u32 \<Rightarrow> bool \<Rightarrow> 'h seq \<Rightarrow> bool \<times> u32 \<times> 'h seq" where
  "rw_mgr_mem_calibrate_full_test P bit_chk test_dm s =
     (let (run_groups, success, bit_chk, s) = fold (\<lambda>g (run_groups, success, bit_chk, s).
        let (success, bit_chk, s) =
          (if run_groups AND (push_bit RW_MGR_NUM_DQS_PER_WRITE_GROUP 1 - 1) \<noteq> 0
           then rw_mgr_mem_calibrate_write_test_all_ranks P (of_nat g) test_dm PASS_ALL_BITS s
           else (success, bit_chk, s)) in
        (drop_bit RW_MGR_NUM_DQS_PER_WRITE_GROUP run_groups, success, bit_chk, s))
        [0..<RW_MGR_MEM_IF_READ_DQS_WIDTH] (NOT (skip_groups (param s)), False, bit_chk, s) in
      (success, bit_chk, s))"

end
