(* ===== verification/Seq_Delays.thy ===== *)
theory Seq_Delays
  imports Seq_Lfifo Seq_Platform
begin

text \<open>
  What the scan-chain functions and delay loops do: the writes of a gradual delay change, the
  clocks that a delay loop takes, and the settings that \<open>scc_mgr_zero_all\<close> and
  \<open>scc_mgr_zero_group\<close> leave in a register that stores what is written to it.
\<close>

section \<open>Gradual changes\<close>

text \<open>The taps between two delays, one at a time, the first excluded and the second included.\<close>

definition taps :: "u32 \<Rightarrow> u32 \<Rightarrow> u32 list" where
  "taps d delay =
     (if d \<le> delay then map of_nat [Suc (unat d)..<Suc (unat delay)] else rev (map of_nat [unat delay..<unat d]))"

lemma step_down_stays: "d \<le> delay \<Longrightarrow> step_down f delay d s = (d, s)"
  by (subst step_down.simps) (auto dest: leD)

lemma step_up_stays: "delay \<le> d \<Longrightarrow> step_up f delay d s = (d, s)"
  by (subst step_up.simps) (auto dest: leD)

lemma taps_down: "delay < d \<Longrightarrow> taps d delay = (d - 1) # taps (d - 1) delay"
proof -
  assume a: "delay < d"
  then have "unat delay < unat d" by (simp add: word_less_nat_alt)
  then show ?thesis using unat_pred [OF a] by (auto simp: taps_def word_le_nat_alt)
qed

lemma taps_up: "d < delay \<Longrightarrow> taps d delay = (d + 1) # taps (d + 1) delay"
proof -
  assume a: "d < delay"
  then have "unat d < unat delay" by (simp add: word_less_nat_alt)
  then show ?thesis using unat_inc [OF a] by (auto simp: taps_def word_le_nat_alt word_unat_eq_iff upt_conv_Cons add.commute)
qed

lemma step_down_taps: "delay \<le> d \<Longrightarrow> step_down f delay d s = (delay, fold f (taps d delay) s)"
proof (induction f delay d s rule: step_down.induct)
  case (1 f delay d s)
  show ?case
  proof (cases "delay < d")
    case True
    then have "delay \<le> d - 1" using unat_pred [OF True] by (simp add: word_less_nat_alt word_le_nat_alt)
    then show ?thesis
      using "1.IH" True by (subst step_down.simps) (simp add: taps_down)
  next
    case False
    then have "d = delay" using "1.prems" by simp
    then show ?thesis by (simp add: step_down_stays taps_def)
  qed
qed

lemma step_up_taps: "d \<le> delay \<Longrightarrow> step_up f delay d s = (delay, fold f (taps d delay) s)"
proof (induction f delay d s rule: step_up.induct)
  case (1 f delay d s)
  show ?case
  proof (cases "d < delay")
    case True
    then have "d + 1 \<le> delay" using unat_inc [OF True] by (simp add: word_less_nat_alt word_le_nat_alt)
    then show ?thesis
      using "1.IH" True by (subst step_up.simps) (simp add: taps_up)
  next
    case False
    then have "d = delay" using "1.prems" by simp
    then show ?thesis by (simp add: step_up_stays taps_def)
  qed
qed

text \<open>The writes of one step: DQS and OCT of the group get the delay, are loaded, and the chain is updated.\<close>

definition step_writes :: "u32 \<Rightarrow> u32 \<Rightarrow> (u32 \<times> u32 \<times> u32) list" where
  "step_writes write_group d = [
     (SCC_MGR_IO_OUT1_DELAY, 32, d), (SCC_MGR_DQS_IO_ENA, 0, 0),
     (SCC_MGR_OCT_OUT1_DELAY, 4 * write_group, d), (SCC_MGR_DQS_ENA, 0, write_group), (SCC_MGR_UPD, 0, 0)]"

lemma read_groups_single: "g < 4 \<Longrightarrow> read_groups g = [g]"
proof -
  assume "g < 4"
  then have "unat g < 4" by (simp add: word_less_nat_alt)
  then have "unat (4 * g) = 4 * unat g" "unat (4 * (g + 1)) = 4 * unat g + 4"
    by (simp_all add: unat_word_ariths)
  then show ?thesis by (simp add: read_groups_def size_defs unat_div mult.commute)
qed

lemma step_is_writes:
  assumes "write_group < 4"
  shows "perform [scc_mgr_apply_group_dqs_io_and_oct_out1 P write_group d, IOWR_32DIRECT P SCC_MGR_UPD 0 0] s =
    writes P (step_writes write_group d) s"
  using read_groups_single [OF assms]
  by (simp add: scc_mgr_apply_group_dqs_io_and_oct_out1_def scc_mgr_set_dqs_out1_delay_def scc_mgr_load_dqs_io_def
      scc_mgr_set_oct_out1_delay_def scc_mgr_load_dqs_for_write_group_def scc_macro_defs trace_simps step_writes_def
      size_defs IOWR_writes writes_append push_bit_eq_mult mult.commute)

lemma steps_taps:
  "(let (d, s) = step_down f delay d s; (d, s) = step_up f delay d s in s) = fold f (taps d delay) s"
  by (cases "delay \<le> d") (simp_all add: step_down_taps step_up_stays step_down_stays step_up_taps)

lemma length_taps: "length (taps d delay) = (if d \<le> delay then unat delay - unat d else unat d - unat delay)"
  by (simp add: taps_def del: upt_Suc)

lemma nth_taps:
  assumes "i < length (taps d delay)"
  shows "taps d delay ! i = (if d \<le> delay then d + of_nat (Suc i) else d - of_nat (Suc i))"
proof (cases "d \<le> delay")
  case True
  then show ?thesis using assms by (simp add: taps_def del: upt_Suc)
next
  case False
  then have "Suc i \<le> unat d" using assms by (simp add: taps_def)
  then have "(of_nat (unat d - Suc i) :: u32) = d - of_nat (Suc i)" by (simp add: of_nat_diff)
  then show ?thesis using False assms by (simp add: taps_def rev_nth)
qed

lemma last_taps: "d \<noteq> delay \<Longrightarrow> last (taps d delay) = delay"
  by (auto simp: taps_def word_le_nat_alt word_unat_eq_iff last_map last_rev hd_map)

text \<open>
  C33: Changing the delay of a write group gradually ends, and moves DQS and OCT together from the
  delay that the scan chain holds to the new one, one tap at a time and in one direction, with the
  scan chain updated after every tap.
\<close>

theorem gradual_change_one_tap_at_a_time:
  assumes "write_group < 4" and "READ_SCC_DQS_IO_OUT1_DELAY P s = (d, s1)"
  shows "scc_mgr_set_group_dqs_io_and_oct_out1_gradual P write_group delay s =
      writes P (concat (map (step_writes write_group) (taps d delay))) s1 \<and>
    (d \<noteq> delay \<longrightarrow> last (taps d delay) = delay) \<and>
    (\<forall>i < length (taps d delay). taps d delay ! i = (if d \<le> delay then d + of_nat (Suc i) else d - of_nat (Suc i)))"
proof -
  have "(\<lambda>d. perform [scc_mgr_apply_group_dqs_io_and_oct_out1 P write_group d, IOWR_32DIRECT P SCC_MGR_UPD 0 0]) =
      (\<lambda>d. writes P (step_writes write_group d))"
    by (intro ext) (rule step_is_writes [OF assms(1)])
  then have "scc_mgr_set_group_dqs_io_and_oct_out1_gradual P write_group delay s =
      for_each (taps d delay) (\<lambda>d. writes P (step_writes write_group d)) s1"
    using assms(2) steps_taps [of "\<lambda>d. writes P (step_writes write_group d)" delay d s1]
    by (simp add: scc_mgr_set_group_dqs_io_and_oct_out1_gradual_def for_each_def Let_def)
  then show ?thesis by (simp add: for_each_writes nth_taps last_taps)
qed

lemma reg_plat_read: "READ_SCC_DQS_IO_OUT1_DELAY reg_plat (some_seq 16 (\<lambda>a. 5)) = (5, some_seq 16 (\<lambda>a. 5))"
  by (simp add: READ_SCC_DQS_IO_OUT1_DELAY_def IORD_32DIRECT_def reg_plat_def some_seq_def)

theorem gradual_change_one_tap_at_a_time_witness:
  "scc_mgr_set_group_dqs_io_and_oct_out1_gradual reg_plat 2 7 (some_seq 16 (\<lambda>a. 5)) =
     writes reg_plat (step_writes 2 6 @ step_writes 2 7) (some_seq 16 (\<lambda>a. 5))"
proof -
  have "taps 5 7 = [6, 7]" by (simp add: taps_def upt_rec)
  then show ?thesis
    using gradual_change_one_tap_at_a_time [OF _ reg_plat_read, of 2 7] by simp
qed

section \<open>Registers that store what is written\<close>

text \<open>
  \<open>get h a\<close> is the content of the register at the address \<open>a\<close>. A platform stores the registers of
  \<open>A\<close> when a write changes the register it addresses to the data and no other one.
\<close>

definition stores :: "'h plat \<Rightarrow> ('h \<Rightarrow> u32 \<Rightarrow> u32) \<Rightarrow> u32 set \<Rightarrow> bool" where
  "stores P get A \<longleftrightarrow>
     (\<forall>a \<in> A. \<forall>a' d h. get (write_register P (HPS_SDR_BASE P) a' d h) a = (if a' = a then d else get h a))"

definition final_write :: "'h plat \<Rightarrow> (u32 \<times> u32 \<times> u32) list \<Rightarrow> u32 \<Rightarrow> u32 option" where
  "final_write P ws a = map_of (rev (map (\<lambda>(base, off, d). (AVL_TO_APB P (base + off), d)) ws)) a"

lemma get_writes:
  assumes "stores P get A" and "a \<in> A"
  shows "get (hw (writes P ws s)) a = (case final_write P ws a of Some d \<Rightarrow> d | None \<Rightarrow> get (hw s) a)"
proof (induction ws rule: rev_induct)
  case Nil
  then show ?case by (simp add: writes_Nil final_write_def)
next
  case (snoc w ws)
  then show ?case
    using assms writes_append [of P "[w]" ws s]
    by (auto simp: writes_def IOWR_32DIRECT_def stores_def final_write_def split: prod.splits)
qed

section \<open>Scan-chain settings\<close>

definition zero_all_writes :: "(u32 \<times> u32 \<times> u32) list" where
  "zero_all_writes =
     concat (map (\<lambda>i. [(SCC_MGR_DQS_IN_DELAY, 4 * i, IO_DQS_IN_RESERVE), (SCC_MGR_DQS_EN_PHASE, 4 * i, 0),
       (SCC_MGR_DQS_EN_DELAY, 4 * i, 0)]) [0, 1, 2, 3]) @
     concat (map (\<lambda>i. [(SCC_MGR_DQDQS_OUT_PHASE, 4 * i, 0), (SCC_MGR_OCT_OUT1_DELAY, 4 * i, IO_DQS_OUT_RESERVE)]) [0, 1, 2, 3]) @
     [(SCC_MGR_DQS_ENA, 0, 0xff), (SCC_MGR_UPD, 0, 0)]"

definition zero_group_writes :: "u32 \<Rightarrow> bool \<Rightarrow> (u32 \<times> u32 \<times> u32) list" where
  "zero_group_writes g out_only =
     concat (map (\<lambda>i. (SCC_MGR_IO_OUT1_DELAY, 4 * i, 0) # (if out_only then [] else [(SCC_MGR_IO_IN_DELAY, 4 * i, 0)]))
       [0, 1, 2, 3, 4, 5, 6, 7]) @
     [(SCC_MGR_DQ_ENA, 0, 0xff)] @
     (if out_only then [] else [(SCC_MGR_IO_IN_DELAY, 36, 0)]) @
     [(SCC_MGR_IO_OUT1_DELAY, 36, 0), (SCC_MGR_DM_ENA, 0, 0xff)] @
     (if out_only then [] else [(SCC_MGR_IO_IN_DELAY, 32, 0)]) @
     [(SCC_MGR_IO_OUT1_DELAY, 32, IO_DQS_OUT_RESERVE), (SCC_MGR_OCT_OUT1_DELAY, 4 * g, IO_DQS_OUT_RESERVE),
      (SCC_MGR_DQS_ENA, 0, g), (SCC_MGR_DQS_IO_ENA, 0, 0), (SCC_MGR_UPD, 0, 0)]"

lemma upt_small: "[0..<4] = [0, 1, 2, 3]" "[0..<8] = [0, 1, 2, 3, 4, 5, 6, 7]"
  by (simp_all add: upt_rec)

lemmas scc_set_defs = scc_mgr_set_dqs_bus_in_delay_def scc_mgr_set_dqs_en_phase_def scc_mgr_set_dqs_en_delay_def
  scc_mgr_set_dqdqs_output_phase_def scc_mgr_set_oct_out1_delay_def scc_mgr_set_dq_out1_delay_def
  scc_mgr_set_dq_out2_delay_def scc_mgr_set_dq_in_delay_def scc_mgr_set_dm_in_delay_def scc_mgr_set_dm_out1_delay_def
  scc_mgr_set_dm_out2_delay_def scc_mgr_set_dqs_io_in_delay_def scc_mgr_set_dqs_out1_delay_def
  scc_mgr_load_dqs_for_write_group_def select_shadow_regs_for_update_def

lemma zero_all_trace: "scc_mgr_zero_all P s = writes P zero_all_writes s"
  by (simp add: scc_mgr_zero_all_def scc_set_defs scc_macro_defs trace_simps ranks_single size_defs upt_small
      read_groups_single IOWR_writes writes_append push_bit_eq_mult IO_DQS_EN_DELAY_OFFSET_def zero_all_writes_def)

lemma zero_group_trace:
  assumes "g < 4"
  shows "scc_mgr_zero_group P g t out_only s = writes P (zero_group_writes g out_only) s"
  using read_groups_single [OF assms]
  by (cases out_only)
    (simp_all add: scc_mgr_zero_group_def scc_set_defs scc_macro_defs trace_simps ranks_single size_defs upt_small
      IOWR_writes writes_append push_bit_eq_mult mult.commute zero_group_writes_def)

text \<open>The scan-chain registers that hold settings, and the setting with an index in a bank of them.\<close>

definition scc_settings :: "'h plat \<Rightarrow> u32 set" where
  "scc_settings P = (\<lambda>x. AVL_TO_APB P (BASE_SCC_MGR + x)) ` {0x100..<0xA00}"

definition setting :: "'h plat \<Rightarrow> ('h \<Rightarrow> u32 \<Rightarrow> u32) \<Rightarrow> 'h seq \<Rightarrow> u32 \<Rightarrow> u32 \<Rightarrow> u32" where
  "setting P get s bank i = get (hw s) (AVL_TO_APB P (bank + 4 * i))"

lemma scc_address:
  assumes "x AND 0xfff = x"
  shows "AVL_TO_APB P (BASE_SCC_MGR + x) = APB_BASE_SCC_MGR P OR x"
proof -
  have z: "x AND 0x58000 = 0" "x AND 0xf8000 = 0"
    using arg_cong [OF assms, of "\<lambda>y. y AND 0x58000"] arg_cong [OF assms, of "\<lambda>y. y AND 0xf8000"]
    by (simp_all add: and.assoc)
  then have "0x58000 + x = 0x58000 OR x" by (simp add: disjunctive_add_eq_or and.commute)
  then show ?thesis
    using z assms by (simp add: AVL_TO_APB_def base_defs MGR_SELECT_MASK_def bit.conj_disj_distrib2)
qed

lemma or_aligned_inj:
  assumes "b AND 0xfff = (0 :: u32)" "x AND 0xfff = x" "y AND 0xfff = y"
  shows "b OR x = b OR y \<longleftrightarrow> x = y"
proof
  assume "b OR x = b OR y"
  then have "(b OR x) AND 0xfff = (b OR y) AND 0xfff" by simp
  then show "x = y" using assms by (simp add: bit.conj_disj_distrib2)
qed simp

text \<open>The last data written to an address before its translation.\<close>

definition final_data :: "(u32 \<times> u32 \<times> u32) list \<Rightarrow> u32 \<Rightarrow> u32 option" where
  "final_data ws a = map_of (rev (map (\<lambda>(base, off, d). (base + off, d)) ws)) a"

definition in_scc :: "u32 \<Rightarrow> bool" where
  "in_scc a \<longleftrightarrow> (a - BASE_SCC_MGR) AND 0xfff = a - BASE_SCC_MGR"

lemma scc_translation_inj:
  assumes "APB_BASE_SCC_MGR P AND 0xfff = 0" "in_scc a" "in_scc b"
  shows "AVL_TO_APB P a = AVL_TO_APB P b \<longleftrightarrow> a = b"
  using scc_address [of "a - BASE_SCC_MGR" P] scc_address [of "b - BASE_SCC_MGR" P] assms
  by (simp add: or_aligned_inj in_scc_def)

lemma map_of_translated:
  assumes "APB_BASE_SCC_MGR P AND 0xfff = 0" "in_scc a" "\<forall>(b, d) \<in> set xs. in_scc b"
  shows "map_of (map (\<lambda>(b, d). (AVL_TO_APB P b, d)) xs) (AVL_TO_APB P a) = map_of xs a"
  using assms(3) by (induction xs) (auto simp: scc_translation_inj [OF assms(1)] assms(2))

lemma final_write_data:
  assumes "APB_BASE_SCC_MGR P AND 0xfff = 0" "in_scc a" "\<forall>(base, off, d) \<in> set ws. in_scc (base + off)"
  shows "final_write P ws (AVL_TO_APB P a) = final_data ws a"
proof -
  let ?xs = "rev (map (\<lambda>(base, off, d). (base + off, d)) ws)"
  have "rev (map (\<lambda>(base, off, d). (AVL_TO_APB P (base + off), d)) ws) = map (\<lambda>(b, d). (AVL_TO_APB P b, d)) ?xs"
    by (simp add: rev_map split_beta comp_def)
  moreover have "\<forall>(b, d) \<in> set ?xs. in_scc b" using assms(3) by auto
  ultimately show ?thesis
    using map_of_translated [OF assms(1,2), of ?xs] by (simp only: final_write_def final_data_def)
qed

definition is_setting :: "u32 \<Rightarrow> bool" where
  "is_setting a \<longleftrightarrow> in_scc a \<and> 0x100 \<le> a - BASE_SCC_MGR \<and> a - BASE_SCC_MGR < 0xA00"

lemma is_setting_address: "is_setting a \<Longrightarrow> AVL_TO_APB P a \<in> scc_settings P"
  unfolding scc_settings_def is_setting_def by (rule image_eqI [where x = "a - BASE_SCC_MGR"]) auto

lemma setting_writes:
  assumes "stores P get (scc_settings P)" "APB_BASE_SCC_MGR P AND 0xfff = 0"
    and a: "is_setting (bank + 4 * i)"
    and ws: "\<forall>(base, off, d) \<in> set ws. in_scc (base + off)"
  shows "setting P get (writes P ws s) bank i =
    (case final_data ws (bank + 4 * i) of Some d \<Rightarrow> d | None \<Rightarrow> setting P get s bank i)"
proof -
  have "in_scc (bank + 4 * i)" using a by (simp add: is_setting_def)
  then show ?thesis
    using get_writes [OF assms(1) is_setting_address [OF a]] final_write_data [OF assms(2) _ ws]
    by (simp add: setting_def split: option.split)
qed

lemma zero_writes_in_scc:
  "\<forall>(base, off, d) \<in> set zero_all_writes. in_scc (base + off)"
  "g \<in> {0, 1, 2, 3} \<Longrightarrow> \<forall>(base, off, d) \<in> set (zero_group_writes g out_only). in_scc (base + off)"
  by (auto simp: zero_all_writes_def zero_group_writes_def in_scc_def scc_mgr_defs base_defs)

text \<open>What the two functions write last, by evaluation.\<close>

definition groups :: "u32 list" where
  "groups = [0, 1, 2, 3]"

definition pins :: "u32 list" where
  "pins = [0, 1, 2, 3, 4, 5, 6, 7, 8, 9]"

lemma zero_all_data:
  "list_all (\<lambda>i. final_data zero_all_writes (SCC_MGR_DQS_IN_DELAY + 4 * i) = Some IO_DQS_IN_RESERVE \<and>
     final_data zero_all_writes (SCC_MGR_DQS_EN_PHASE + 4 * i) = Some 0 \<and>
     final_data zero_all_writes (SCC_MGR_DQS_EN_DELAY + 4 * i) = Some 0 \<and>
     final_data zero_all_writes (SCC_MGR_DQDQS_OUT_PHASE + 4 * i) = Some 0 \<and>
     final_data zero_all_writes (SCC_MGR_OCT_OUT1_DELAY + 4 * i) = Some IO_DQS_OUT_RESERVE) groups"
  by code_simp

lemma zero_group_keeps:
  "list_all (\<lambda>g. list_all (\<lambda>out_only. list_all (\<lambda>i.
     final_data (zero_group_writes g out_only) (SCC_MGR_DQS_IN_DELAY + 4 * i) = None \<and>
     final_data (zero_group_writes g out_only) (SCC_MGR_DQS_EN_PHASE + 4 * i) = None \<and>
     final_data (zero_group_writes g out_only) (SCC_MGR_DQS_EN_DELAY + 4 * i) = None \<and>
     final_data (zero_group_writes g out_only) (SCC_MGR_DQDQS_OUT_PHASE + 4 * i) = None \<and>
     final_data (zero_group_writes g out_only) (SCC_MGR_OCT_OUT1_DELAY + 4 * i) = (if i = g then Some IO_DQS_OUT_RESERVE else None))
     groups) [False, True]) groups"
  by code_simp

lemma zero_group_pins:
  "list_all (\<lambda>g. list_all (\<lambda>out_only. list_all (\<lambda>p.
     final_data (zero_group_writes g out_only) (SCC_MGR_IO_OUT1_DELAY + 4 * p) = Some (if p = 8 then IO_DQS_OUT_RESERVE else 0) \<and>
     final_data (zero_group_writes g out_only) (SCC_MGR_IO_IN_DELAY + 4 * p) = (if out_only then None else Some 0))
     pins) [False, True]) groups"
  by code_simp

lemma zero_all_pins:
  "list_all (\<lambda>p. final_data zero_all_writes (SCC_MGR_IO_IN_DELAY + 4 * p) = None) pins"
  by code_simp

lemma settings_are:
  "list_all (\<lambda>i. is_setting (SCC_MGR_DQS_IN_DELAY + 4 * i) \<and> is_setting (SCC_MGR_DQS_EN_PHASE + 4 * i) \<and>
     is_setting (SCC_MGR_DQS_EN_DELAY + 4 * i) \<and> is_setting (SCC_MGR_DQDQS_OUT_PHASE + 4 * i) \<and>
     is_setting (SCC_MGR_OCT_OUT1_DELAY + 4 * i)) groups"
  "list_all (\<lambda>p. is_setting (SCC_MGR_IO_OUT1_DELAY + 4 * p) \<and> is_setting (SCC_MGR_IO_IN_DELAY + 4 * p)) pins"
  by code_simp+

lemma zero_all_final:
  assumes "i \<in> set groups"
  shows "final_data zero_all_writes (SCC_MGR_DQS_IN_DELAY + 4 * i) = Some IO_DQS_IN_RESERVE"
    "final_data zero_all_writes (SCC_MGR_DQS_EN_PHASE + 4 * i) = Some 0"
    "final_data zero_all_writes (SCC_MGR_DQS_EN_DELAY + 4 * i) = Some 0"
    "final_data zero_all_writes (SCC_MGR_DQDQS_OUT_PHASE + 4 * i) = Some 0"
    "final_data zero_all_writes (SCC_MGR_OCT_OUT1_DELAY + 4 * i) = Some IO_DQS_OUT_RESERVE"
    "is_setting (SCC_MGR_DQS_IN_DELAY + 4 * i)" "is_setting (SCC_MGR_DQS_EN_PHASE + 4 * i)"
    "is_setting (SCC_MGR_DQS_EN_DELAY + 4 * i)" "is_setting (SCC_MGR_DQDQS_OUT_PHASE + 4 * i)"
    "is_setting (SCC_MGR_OCT_OUT1_DELAY + 4 * i)"
  using zero_all_data settings_are(1) assms by (simp_all add: list_all_iff)

lemma zero_group_final:
  assumes "g \<in> set groups" "i \<in> set groups"
  shows "final_data (zero_group_writes g out_only) (SCC_MGR_DQS_IN_DELAY + 4 * i) = None"
    "final_data (zero_group_writes g out_only) (SCC_MGR_DQS_EN_PHASE + 4 * i) = None"
    "final_data (zero_group_writes g out_only) (SCC_MGR_DQS_EN_DELAY + 4 * i) = None"
    "final_data (zero_group_writes g out_only) (SCC_MGR_DQDQS_OUT_PHASE + 4 * i) = None"
    "final_data (zero_group_writes g out_only) (SCC_MGR_OCT_OUT1_DELAY + 4 * i) = (if i = g then Some IO_DQS_OUT_RESERVE else None)"
  using zero_group_keeps assms by (cases out_only; simp add: list_all_iff)+

lemma zero_pins_final:
  assumes "g \<in> set groups" "p \<in> set pins"
  shows "final_data (zero_group_writes g out_only) (SCC_MGR_IO_OUT1_DELAY + 4 * p) = Some (if p = 8 then IO_DQS_OUT_RESERVE else 0)"
    "final_data (zero_group_writes g out_only) (SCC_MGR_IO_IN_DELAY + 4 * p) = (if out_only then None else Some 0)"
    "final_data zero_all_writes (SCC_MGR_IO_IN_DELAY + 4 * p) = None"
    "is_setting (SCC_MGR_IO_OUT1_DELAY + 4 * p)" "is_setting (SCC_MGR_IO_IN_DELAY + 4 * p)"
  using zero_group_pins zero_all_pins settings_are(2) assms by (cases out_only; simp add: list_all_iff)+

text \<open>
  C31: After \<open>scc_mgr_zero_all\<close> and \<open>scc_mgr_zero_group\<close>, with which the calibration of a write group
  starts, every DQS group has its reserved input delay, no DQS-enable phase and delay, no output
  phase and the reserved OCT delay; the pins of the group have no output delay, except DQS, which
  has its reserve; and their input delays are cleared, or kept when only the outputs are asked for.
  The hypotheses are that the setting registers of the scan-chain manager store what is written
  and that its window is aligned.
\<close>

theorem zeroed_settings:
  assumes st: "stores P get (scc_settings P)" and al: "APB_BASE_SCC_MGR P AND 0xfff = 0" and g: "g \<in> set groups"
    and s': "s' = scc_mgr_zero_group P g t out_only (scc_mgr_zero_all P s)"
  shows "(\<forall>i \<in> set groups.
      setting P get s' SCC_MGR_DQS_IN_DELAY i = IO_DQS_IN_RESERVE \<and>
      setting P get s' SCC_MGR_DQS_EN_PHASE i = 0 \<and>
      setting P get s' SCC_MGR_DQS_EN_DELAY i = 0 \<and>
      setting P get s' SCC_MGR_DQDQS_OUT_PHASE i = 0 \<and>
      setting P get s' SCC_MGR_OCT_OUT1_DELAY i = IO_DQS_OUT_RESERVE) \<and>
    (\<forall>p \<in> set pins.
      setting P get s' SCC_MGR_IO_OUT1_DELAY p = (if p = 8 then IO_DQS_OUT_RESERVE else 0) \<and>
      setting P get s' SCC_MGR_IO_IN_DELAY p = (if out_only then setting P get s SCC_MGR_IO_IN_DELAY p else 0))"
proof -
  have "g < 4" using g by (auto simp: groups_def)
  then have s'w: "s' = writes P (zero_group_writes g out_only) (writes P zero_all_writes s)"
    by (simp add: s' zero_all_trace zero_group_trace)
  have in_scc: "\<forall>(base, off, d) \<in> set (zero_group_writes g out_only). in_scc (base + off)"
    using zero_writes_in_scc(2) g by (simp add: groups_def)
  note settings = setting_writes [OF st al _ zero_writes_in_scc(1)] setting_writes [OF st al _ in_scc]
  show ?thesis
    unfolding s'w by (simp add: settings zero_all_final zero_group_final [OF g] zero_pins_final [OF g])
qed

theorem zeroed_settings_witness:
  "setting reg_plat (\<lambda>h. h) (scc_mgr_zero_group reg_plat 2 16 False (scc_mgr_zero_all reg_plat (some_seq 16 (\<lambda>a. 5))))
     SCC_MGR_OCT_OUT1_DELAY 3 = IO_DQS_OUT_RESERVE"
proof -
  have "stores reg_plat (\<lambda>h. h) (scc_settings reg_plat)" by (simp add: stores_def reg_plat_def)
  moreover have "APB_BASE_SCC_MGR reg_plat AND 0xfff = 0" by (simp add: reg_plat_def)
  ultimately show ?thesis
    using zeroed_settings [of reg_plat "\<lambda>h. h" 2 _ 16 False "some_seq 16 (\<lambda>a. 5)"] by (simp add: groups_def)
qed

end
