(* ===== verification/Seq_Settings.thy ===== *)
theory Seq_Settings
  imports Seq_Calibrate Seq_Delays
begin

text \<open>
  The contract between the firmware and the delay registers of the memory interface. A platform
  keeps an invariant of the hardware as long as every setting that is written is at most the greatest one of
  its register bank; the firmware keeps to that. Functions of the firmware that change the hardware
  only are \<open>safe\<close>; those that also return a value meet a \<open>spec\<close>.
\<close>

section \<open>Ranges of the settings\<close>

text \<open>The greatest setting of the register with an address, if it holds a delay or a phase.\<close>

definition setting_max :: "u32 \<Rightarrow> u32 option" where
  "setting_max a =
     (let x = a AND 0xfff in
      if a AND MGR_SELECT_MASK \<noteq> BASE_SCC_MGR \<or> x < 0x100 then None
      else if x < 0x200 then Some IO_DQS_IN_DELAY_MAX
      else if x < 0x300 then Some (of_nat IO_DQS_EN_PHASE_MAX)
      else if x < 0x400 then Some (of_nat IO_DQS_EN_DELAY_MAX)
      else if x < 0x500 then Some (of_nat IO_DQDQS_OUT_PHASE_MAX)
      else if x < 0x600 then Some (of_nat IO_IO_OUT1_DELAY_MAX)
      else if x < 0x700 then None
      else if x < 0x800 then Some (of_nat IO_IO_OUT1_DELAY_MAX)
      else if x < 0x900 then None
      else if x < 0xA00 then Some (of_nat IO_IO_IN_DELAY_MAX)
      else None)"

definition in_range :: "u32 \<Rightarrow> u32 \<Rightarrow> bool" where
  "in_range a d \<longleftrightarrow> (\<forall>m. setting_max a = Some m \<longrightarrow> d \<le> m)"

lemmas max_defs = IO_DQS_IN_DELAY_MAX_def IO_DQS_EN_PHASE_MAX_def IO_DQS_EN_DELAY_MAX_def IO_DQDQS_OUT_PHASE_MAX_def
  IO_IO_OUT1_DELAY_MAX_def IO_IO_IN_DELAY_MAX_def

lemmas address_defs = rw_mgr_defs reg_file_defs mmr_defs phy_mgr_defs data_mgr_defs scc_mgr_defs base_defs

named_theorems in_range_intros \<open>writes that are in range\<close>

lemma in_range_0 [in_range_intros]: "in_range a 0"
  by (simp add: in_range_def)

lemma in_rangeI [in_range_intros]: "setting_max a = None \<Longrightarrow> in_range a d"
  by (simp add: in_range_def)

lemma in_range_max: "setting_max a = Some m \<Longrightarrow> d \<le> m \<Longrightarrow> in_range a d"
  by (simp add: in_range_def)

lemma group_cases: "(g :: u32) < 4 \<Longrightarrow> g \<in> set [0, 1, 2, 3]"
proof -
  assume "g < 4"
  then have "unat g < 4" by (simp add: word_less_nat_alt)
  then have "unat g = 0 \<or> unat g = 1 \<or> unat g = 2 \<or> unat g = 3" by arith
  then have "g = 0 \<or> g = 1 \<or> g = 2 \<or> g = 3" by (simp add: unsigned_word_eqI word_unat_eq_iff)
  then show ?thesis by auto
qed

lemma small_of_nat [simp]: "n < 4 \<Longrightarrow> (of_nat n :: u32) < 4" "n < 8 \<Longrightarrow> (of_nat n :: u32) \<le> 7" "n < 32 \<Longrightarrow> (of_nat n :: u32) \<le> 31"
  by (simp_all add: word_less_nat_alt word_le_nat_alt unsigned_of_nat take_bit_nat_eq_self)

lemma max_of_groups:
  "list_all (\<lambda>g. setting_max (SCC_MGR_DQS_IN_DELAY + push_bit 2 g) = Some 31 \<and>
     setting_max (SCC_MGR_DQS_EN_PHASE + push_bit 2 g) = Some 7 \<and>
     setting_max (SCC_MGR_DQS_EN_DELAY + push_bit 2 g) = Some 31 \<and>
     setting_max (SCC_MGR_DQDQS_OUT_PHASE + push_bit 2 g) = Some 0 \<and>
     setting_max (SCC_MGR_OCT_OUT1_DELAY + push_bit 2 g) = Some 31 \<and>
     setting_max (RW_MGR_RUN_SINGLE_GROUP + push_bit 2 g) = None \<and>
     setting_max (RW_MGR_RUN_ALL_GROUPS + push_bit 2 g) = None) [0, 1, 2, 3]"
  by code_simp

lemma max_of_pins:
  "list_all (\<lambda>i. setting_max (SCC_MGR_IO_OUT1_DELAY + push_bit 2 (of_nat i)) = Some 31 \<and>
     setting_max (SCC_MGR_IO_IN_DELAY + push_bit 2 (of_nat i)) = Some 31) [0..<10]"
  by code_simp

lemma max_scc [simp]:
  assumes "(g :: u32) < 4"
  shows "setting_max (SCC_MGR_DQS_IN_DELAY + push_bit 2 g) = Some 31"
    "setting_max (SCC_MGR_DQS_EN_PHASE + push_bit 2 g) = Some 7"
    "setting_max (SCC_MGR_DQS_EN_DELAY + push_bit 2 g) = Some 31"
    "setting_max (SCC_MGR_DQDQS_OUT_PHASE + push_bit 2 g) = Some 0"
    "setting_max (SCC_MGR_OCT_OUT1_DELAY + push_bit 2 g) = Some 31"
    "setting_max (RW_MGR_RUN_SINGLE_GROUP + push_bit 2 g) = None"
    "setting_max (RW_MGR_RUN_ALL_GROUPS + push_bit 2 g) = None"
  using max_of_groups group_cases [OF assms] unfolding list_all_iff by blast+

lemma max_pins [simp]:
  assumes "i < 10"
  shows "setting_max (SCC_MGR_IO_OUT1_DELAY + push_bit 2 (of_nat i)) = Some 31"
    "setting_max (SCC_MGR_IO_IN_DELAY + push_bit 2 (of_nat i)) = Some 31"
  using max_of_pins assms unfolding list_all_iff by auto

lemma no_setting [simp]:
  "setting_max RW_MGR_RUN_SINGLE_GROUP = None" "setting_max RW_MGR_LOAD_CNTR_0 = None" "setting_max RW_MGR_LOAD_CNTR_1 = None"
  "setting_max RW_MGR_LOAD_CNTR_2 = None" "setting_max RW_MGR_LOAD_CNTR_3 = None" "setting_max RW_MGR_LOAD_JUMP_ADD_0 = None"
  "setting_max RW_MGR_LOAD_JUMP_ADD_1 = None" "setting_max RW_MGR_LOAD_JUMP_ADD_2 = None" "setting_max RW_MGR_LOAD_JUMP_ADD_3 = None"
  "setting_max RW_MGR_SET_CS_AND_ODT_MASK = None" "setting_max RW_MGR_RESET_READ_DATAPATH = None"
  "setting_max PHY_MGR_PHY_RLAT = None" "setting_max PHY_MGR_RESET_MEM_STBL = None" "setting_max PHY_MGR_MUX_SEL = None"
  "setting_max PHY_MGR_CAL_STATUS = None" "setting_max PHY_MGR_CAL_DEBUG_INFO = None" "setting_max PHY_MGR_AFI_WLAT = None"
  "setting_max PHY_MGR_CMD_FIFO_RESET = None" "setting_max PHY_MGR_CMD_INC_VFIFO_HARD_PHY = None"
  "setting_max REG_FILE_SIGNATURE = None" "setting_max REG_FILE_CUR_STAGE = None" "setting_max REG_FILE_FOM = None"
  "setting_max REG_FILE_FAILING_STAGE = None" "setting_max REG_FILE_DTAPS_PER_PTAP = None"
  "setting_max REG_FILE_TRK_SAMPLE_COUNT = None" "setting_max REG_FILE_TRK_LONGIDLE = None" "setting_max REG_FILE_DELAYS = None"
  "setting_max REG_FILE_TRK_RW_MGR_ADDR = None" "setting_max REG_FILE_TRK_READ_DQS_WIDTH = None" "setting_max REG_FILE_TRK_RFSH = None"
  "setting_max CTRL_CONFIG_REG = None" "setting_max SCC_MGR_GROUP_COUNTER = None" "setting_max SCC_MGR_DQS_ENA = None"
  "setting_max SCC_MGR_DQS_IO_ENA = None" "setting_max SCC_MGR_DQ_ENA = None" "setting_max SCC_MGR_DM_ENA = None"
  "setting_max SCC_MGR_UPD = None" "setting_max SCC_MGR_HHP_GLOBALS = None"
  by code_simp+

section \<open>The contract\<close>

definition bus_write :: "'h plat \<Rightarrow> u32 \<Rightarrow> u32 \<Rightarrow> 'h \<Rightarrow> 'h" where
  "bus_write P a d h = write_register P (HPS_SDR_BASE P) (AVL_TO_APB P a) d h"

definition bus_read :: "'h plat \<Rightarrow> u32 \<Rightarrow> 'h \<Rightarrow> u32 \<times> 'h" where
  "bus_read P a h = read_register P (HPS_SDR_BASE P) (AVL_TO_APB P a) h"

text \<open>
  Writes in range and reads keep the invariant. Reading a setting gives a value in range, and
  the same value as before when only settings have been read since.
\<close>

definition delay_registers :: "'h plat \<Rightarrow> ('h \<Rightarrow> bool) \<Rightarrow> bool" where
  "delay_registers P I \<longleftrightarrow>
     (\<forall>a d h. I h \<longrightarrow> in_range a d \<longrightarrow> I (bus_write P a d h)) \<and>
     (\<forall>a h. I h \<longrightarrow> I (snd (bus_read P a h)) \<and> in_range a (fst (bus_read P a h))) \<and>
     (\<forall>a b h. setting_max a \<noteq> None \<longrightarrow> setting_max b \<noteq> None \<longrightarrow>
        fst (bus_read P a (snd (bus_read P b h))) = fst (bus_read P a h))"

section \<open>Functions that keep to the contract\<close>

definition safe :: "('h \<Rightarrow> bool) \<Rightarrow> ('h seq \<Rightarrow> 'h seq) \<Rightarrow> bool" where
  "safe I f \<longleftrightarrow> (\<forall>s. I (hw s) \<longrightarrow> (\<exists>h. f s = s\<lparr>hw := h\<rparr> \<and> I h))"

definition spec :: "('h \<Rightarrow> bool) \<Rightarrow> ('h seq \<Rightarrow> 'a \<times> 'h seq) \<Rightarrow> ('a \<Rightarrow> bool) \<Rightarrow> bool" where
  "spec I f R \<longleftrightarrow> (\<forall>s. I (hw s) \<longrightarrow> (\<exists>a h. f s = (a, s\<lparr>hw := h\<rparr>) \<and> I h \<and> R a))"

text \<open>The tests return two values.\<close>

definition spec2 :: "('h \<Rightarrow> bool) \<Rightarrow> ('h seq \<Rightarrow> 'a \<times> 'b \<times> 'h seq) \<Rightarrow> bool" where
  "spec2 I f \<longleftrightarrow> spec I (\<lambda>s. case f s of (a, b, s) \<Rightarrow> ((a, b), s)) (\<lambda>x. True)"

named_theorems safe_intros \<open>functions that keep to the contract\<close>

lemma safeE: "safe I f \<Longrightarrow> I (hw s) \<Longrightarrow> (\<And>h. f s = s\<lparr>hw := h\<rparr> \<Longrightarrow> I h \<Longrightarrow> thesis) \<Longrightarrow> thesis"
  unfolding safe_def by blast

lemma specE: "spec I f R \<Longrightarrow> I (hw s) \<Longrightarrow> (\<And>a h. f s = (a, s\<lparr>hw := h\<rparr>) \<Longrightarrow> I h \<Longrightarrow> R a \<Longrightarrow> thesis) \<Longrightarrow> thesis"
  unfolding spec_def by blast

lemma safe_at:
  assumes "safe I f" "I h"
  obtains h' where "f (s\<lparr>hw := h\<rparr>) = s\<lparr>hw := h'\<rparr>" "I h'"
  using safeE [OF assms(1), of "s\<lparr>hw := h\<rparr>"] assms(2) by auto

lemma spec_at:
  assumes "spec I f R" "I h"
  obtains a h' where "f (s\<lparr>hw := h\<rparr>) = (a, s\<lparr>hw := h'\<rparr>)" "I h'" "R a"
  using specE [OF assms(1), of "s\<lparr>hw := h\<rparr>"] assms(2) by auto

lemma spec_weaken: "spec I f R \<Longrightarrow> (\<And>a. R a \<Longrightarrow> R' a) \<Longrightarrow> spec I f R'"
  unfolding spec_def by blast

lemma safe_id [safe_intros]: "safe I (\<lambda>s. s)"
  unfolding safe_def by (metis seq.surjective seq.update_convs(5))

lemma safe_comp:
  assumes f: "safe I f" and g: "safe I g"
  shows "safe I (\<lambda>s. g (f s))"
  unfolding safe_def
proof (intro allI impI)
  fix s :: "'a seq" assume "I (hw s)"
  then obtain h where "f s = s\<lparr>hw := h\<rparr>" "I h" using safeE [OF f] by blast
  then show "\<exists>h. g (f s) = s\<lparr>hw := h\<rparr> \<and> I h" using safeE [OF g, of "s\<lparr>hw := h\<rparr>"] by fastforce
qed

lemma safe_perform [safe_intros]: "safe I (perform [])" "safe I f \<Longrightarrow> safe I (perform fs) \<Longrightarrow> safe I (perform (f # fs))"
  using safe_id [of I] safe_comp [of I f "perform fs"] by (simp_all add: perform_simps safe_def)

lemma safe_for_each [safe_intros]: "(\<And>x. x \<in> set xs \<Longrightarrow> safe I (f x)) \<Longrightarrow> safe I (for_each xs f)"
proof (induction xs)
  case Nil
  then show ?case using safe_id [of I] by (simp add: for_each_simps safe_def)
next
  case (Cons x xs)
  then show ?case using safe_comp [of I "f x" "for_each xs f"] by (simp add: for_each_simps safe_def)
qed

text \<open>A function whose steps use the state that it starts in.\<close>

lemma safe_steps: "(\<And>s. f s = perform (fs s) s) \<Longrightarrow> (\<And>s. safe I (perform (fs s))) \<Longrightarrow> safe I f"
  unfolding safe_def by simp

lemma safe_if [safe_intros]: "(b \<Longrightarrow> safe I f) \<Longrightarrow> (\<not> b \<Longrightarrow> safe I g) \<Longrightarrow> safe I (if b then f else g)"
  by simp

lemma safe_cond: "safe I f \<Longrightarrow> safe I g \<Longrightarrow> safe I (\<lambda>s. if b s then f s else g s)"
  unfolding safe_def by auto

lemma safe_funpow [safe_intros]: "safe I f \<Longrightarrow> safe I (f ^^ n)"
proof (induction n)
  case 0
  then show ?case using safe_id [of I] by (simp add: id_def)
next
  case (Suc n)
  then show ?case using safe_comp [of I "f ^^ n" f] by (simp add: comp_def)
qed

lemma safe_for_ranks [safe_intros]: "(\<And>r. r \<in> set rs \<Longrightarrow> safe I (f r)) \<Longrightarrow> safe I (for_ranks rs f)"
  unfolding for_ranks_def by (intro safe_for_each safe_cond safe_id)

lemma spec_return: "R a \<Longrightarrow> spec I (\<lambda>s. (a, s)) R"
  unfolding spec_def by (metis seq.surjective seq.update_convs(5))

lemma spec_after:
  assumes f: "safe I f" and g: "spec I g R"
  shows "spec I (\<lambda>s. g (f s)) R"
  unfolding spec_def
proof (intro allI impI)
  fix s :: "'a seq" assume "I (hw s)"
  then obtain h where "f s = s\<lparr>hw := h\<rparr>" "I h" using safeE [OF f] by blast
  then show "\<exists>a h. g (f s) = (a, s\<lparr>hw := h\<rparr>) \<and> I h \<and> R a" using specE [OF g, of "s\<lparr>hw := h\<rparr>"] by fastforce
qed

lemma spec_bind:
  assumes f: "spec I f R" and g: "\<And>a. R a \<Longrightarrow> spec I (g a) R'"
  shows "spec I (\<lambda>s. case f s of (a, s) \<Rightarrow> g a s) R'"
  unfolding spec_def [of I "\<lambda>s. case f s of (a, s) \<Rightarrow> g a s"]
proof (intro allI impI)
  fix s :: "'a seq" assume "I (hw s)"
  then obtain a h where "f s = (a, s\<lparr>hw := h\<rparr>)" "I h" "R a" using specE [OF f] by blast
  moreover from this obtain b h' where "g a (s\<lparr>hw := h\<rparr>) = (b, s\<lparr>hw := h'\<rparr>)" "I h'" "R' b"
    using specE [OF g [of a], of "s\<lparr>hw := h\<rparr>"] by auto
  ultimately show "\<exists>a h. (case f s of (a, s) \<Rightarrow> g a s) = (a, s\<lparr>hw := h\<rparr>) \<and> I h \<and> R' a" by auto
qed

lemma spec_then:
  assumes f: "spec I f R" and g: "\<And>a. R a \<Longrightarrow> safe I (g a)"
  shows "safe I (\<lambda>s. case f s of (a, s) \<Rightarrow> g a s)"
  unfolding safe_def [of I "\<lambda>s. case f s of (a, s) \<Rightarrow> g a s"]
proof (intro allI impI)
  fix s :: "'a seq" assume "I (hw s)"
  then obtain a h where "f s = (a, s\<lparr>hw := h\<rparr>)" "I h" "R a" using specE [OF f] by blast
  then show "\<exists>h. (case f s of (a, s) \<Rightarrow> g a s) = s\<lparr>hw := h\<rparr> \<and> I h"
    using safeE [OF g [of a], of "s\<lparr>hw := h\<rparr>"] by fastforce
qed

text \<open>The same rules for the bindings of the model.\<close>

lemma spec_let: "spec I f R \<Longrightarrow> (\<And>a. R a \<Longrightarrow> spec I (g a) R') \<Longrightarrow> spec I (\<lambda>s. let (a, s) = f s in g a s) R'"
  by (simp add: Let_def spec_bind)

lemma spec_lets [safe_intros]:
  "spec I f (\<lambda>a. True) \<Longrightarrow> (\<And>a. spec I (g a) R) \<Longrightarrow> spec I (\<lambda>s. let (a, s) = f s in g a s) R"
  "safe I f0 \<Longrightarrow> spec I g0 R \<Longrightarrow> spec I (\<lambda>s. let s = f0 s in g0 s) R"
  "spec I (g1 x) R \<Longrightarrow> spec I (\<lambda>s. let y = x in g1 y s) R"
  by (simp_all add: Let_def spec_bind spec_after)

lemma spec2_let [safe_intros]:
  "spec2 I f \<Longrightarrow> (\<And>a b. spec I (g a b) R') \<Longrightarrow> spec I (\<lambda>s. let (a, b, s) = f s in g a b s) R'"
  using spec_bind [of I "\<lambda>s. case f s of (a, b, s) \<Rightarrow> ((a, b), s)" "\<lambda>x. True" "\<lambda>x. g (fst x) (snd x)" R']
  unfolding spec2_def by (simp add: split_beta Let_def)

lemma spec_cond [safe_intros]: "(b \<Longrightarrow> spec I f R) \<Longrightarrow> (\<not> b \<Longrightarrow> spec I g R) \<Longrightarrow> spec I (\<lambda>s. if b then f s else g s) R"
  by (cases b) simp_all

lemma spec_fold:
  assumes "\<And>x a. x \<in> set xs \<Longrightarrow> R a \<Longrightarrow> spec I (\<lambda>s. f x (a, s)) R" "R a"
  shows "spec I (\<lambda>s. fold f xs (a, s)) R"
  using assms
proof (induction xs arbitrary: a)
  case Nil
  then show ?case by (simp add: spec_return)
next
  case (Cons x xs)
  have "spec I (\<lambda>s. case f x (a, s) of (a, s) \<Rightarrow> fold f xs (a, s)) R"
    by (rule spec_bind [of _ _ R]) (use Cons in \<open>auto intro!: Cons.IH\<close>)
  then show ?case by simp
qed

lemma spec2_return: "spec2 I (\<lambda>s. (p s, q, s))"
  using spec_return [of "\<lambda>x. True" _ I] unfolding spec2_def spec_def by simp

lemma spec2_lets [safe_intros]:
  "spec I f (\<lambda>a. True) \<Longrightarrow> (\<And>a. spec2 I (g a)) \<Longrightarrow> spec2 I (\<lambda>s. let (a, s) = f s in g a s)"
  "safe I f0 \<Longrightarrow> spec2 I g0 \<Longrightarrow> spec2 I (\<lambda>s. let s = f0 s in g0 s)"
  using spec_bind [of I f "\<lambda>x. True" "\<lambda>a s. case g a s of (a, b, s) \<Rightarrow> ((a, b), s)"]
    spec_after [of I f0 "\<lambda>s. case g0 s of (a, b, s) \<Rightarrow> ((a, b), s)"]
  unfolding spec2_def by (auto simp: Let_def split_beta)

lemma spec2_bind:
  "spec2 I f \<Longrightarrow> (\<And>a b. spec2 I (g a b)) \<Longrightarrow> spec2 I (\<lambda>s. let (a, b, s) = f s in g a b s)"
  using spec2_let [of I f "\<lambda>a b s. case g a b s of (a, b, s) \<Rightarrow> ((a, b), s)"]
  unfolding spec2_def by (auto simp: Let_def split_beta)

lemma spec2_cond: "spec2 I f \<Longrightarrow> spec2 I g \<Longrightarrow> spec2 I (\<lambda>s. if b then f s else g s)"
  by (cases b) simp_all

end
