(* ===== verification/Seq_Keeps.thy ===== *)
theory Seq_Keeps
  imports Seq_Settings
begin

text \<open>
  The functions below the calibration stages keep to the contract on the delay registers: scan
  chains, initialisation, read and write tests, read FIFOs.
\<close>

text \<open>
  Tests and commands of the memory: a platform keeps an invariant when registers that are not
  settings are written, and when registers are read.
\<close>

locale test_contract =
  fixes P :: "'h plat" and I :: "'h \<Rightarrow> bool"
  assumes others: "I h \<Longrightarrow> setting_max a = None \<Longrightarrow> I (bus_write P a d h)"
    and reads: "I h \<Longrightarrow> I (snd (bus_read P a h))"
begin

lemma safe_other: "setting_max (base + off) = None \<Longrightarrow> safe I (IOWR_32DIRECT P base off d)"
  using others unfolding safe_def IOWR_32DIRECT_def bus_write_def by blast

lemma spec_IORD_any [safe_intros]: "spec I (IORD_32DIRECT P base off) (\<lambda>v. True)"
  unfolding spec_def
proof (intro allI impI)
  fix s :: "'h seq" assume "I (hw s)"
  then have "I (snd (bus_read P (base + off) (hw s)))" by (rule reads)
  then show "\<exists>v h. IORD_32DIRECT P base off s = (v, s\<lparr>hw := h\<rparr>) \<and> I h \<and> True"
    by (auto simp: IORD_32DIRECT_def bus_read_def split: prod.splits)
qed

lemma safe_nothing [safe_intros]:
  "safe I (select_shadow_regs_for_update r g u)" "safe I (scc_mgr_set_dq_out2_delay P g p d)"
  "safe I (scc_mgr_set_dm_out2_delay P g p d)" "safe I (scc_mgr_set_dqs_out2_delay P g d)"
  "safe I recover_mem_device_after_ck_dqs_violation" "safe I rw_mgr_rdimm_initialize"
  by (auto simp: safe_def select_shadow_regs_for_update_def scc_mgr_set_dq_out2_delay_def WRITE_SCC_DQ_OUT2_DELAY_def
      scc_mgr_set_dm_out2_delay_def WRITE_SCC_DM_IO_OUT2_DELAY_def scc_mgr_set_dqs_out2_delay_def WRITE_SCC_DQS_IO_OUT2_DELAY_def
      recover_mem_device_after_ck_dqs_violation_def rw_mgr_rdimm_initialize_def intro!: exI [of _ "hw _"])

lemma safe_load [safe_intros]:
  "safe I (scc_mgr_load_dqs P g)" "safe I (scc_mgr_load_dqs_io P)" "safe I (scc_mgr_load_dq P i)" "safe I (scc_mgr_load_dm P i)"
  "safe I (scc_mgr_load_dqs_for_write_group P g)"
  unfolding scc_mgr_load_dqs_def scc_mgr_load_dqs_io_def scc_mgr_load_dq_def scc_mgr_load_dm_def
    scc_mgr_load_dqs_for_write_group_def
  by (intro safe_intros safe_other; simp)+

section \<open>Register file, memory and tests\<close>

lemma safe_reg_file [safe_intros]:
  "safe I (reg_file_set_group P g)" "safe I (reg_file_set_stage P x)" "safe I (reg_file_set_sub_stage P x)"
  unfolding reg_file_set_group_def reg_file_set_stage_def reg_file_set_sub_stage_def Let_def
  by (rule spec_then [OF spec_IORD_any], rule safe_other, simp)+

lemma safe_set_rank [safe_intros]: "safe I (set_rank_and_odt_mask P r mode)"
  unfolding set_rank_and_odt_mask_def Let_def
  by (simp add: safe_intros safe_other split: prod.split)

lemma safe_delay [safe_intros]: "safe I (delay_for_n_mem_clocks P n)"
proof (cases "(n + AFI_RATE_RATIO - 1) div AFI_RATE_RATIO \<le> 0x100")
  case True
  show ?thesis
    by (rule safe_steps, simp add: delay_for_n_mem_clocks_def True split_beta Let_def) (intro safe_intros safe_other; simp)
next
  case False
  show ?thesis
    by (rule safe_steps, simp only: delay_for_n_mem_clocks_def False if_False split_beta Let_def)
      (intro safe_intros safe_other; simp)
qed

lemma safe_run_counters [safe_intros]: "safe I (run_counters P c0 c1 c2 inst)"
  by (rule safe_steps, rule run_counters_def) (intro safe_intros safe_other; simp)

lemma safe_run_mrs [safe_intros]: "safe I (set_jump_as_return P)" "safe I (run_mrs P inst)"
  unfolding run_mrs_def set_jump_as_return_def by (intro safe_intros safe_other; simp)+

lemma safe_memory [safe_intros]:
  "safe I (rw_mgr_mem_initialize P)" "safe I (rw_mgr_mem_handoff P)" "safe I (mem_precharge_and_activate P)"
  "safe I (rw_mgr_mem_calibrate_read_load_patterns_all_ranks P)"
  unfolding rw_mgr_mem_initialize_def reset_memory_def rw_mgr_mem_handoff_def mem_precharge_and_activate_def
    rw_mgr_mem_calibrate_read_load_patterns_all_ranks_def rw_mgr_mem_calibrate_read_load_patterns_def
  by (intro safe_intros safe_other; simp)+

lemma spec_test_ranks:
  assumes "safe I setup" "\<And>vg. vg < n \<Longrightarrow> safe I (run vg)"
  shows "spec I (\<lambda>s. test_ranks P rs n k m setup run chk s) (\<lambda>x. True)"
  unfolding test_ranks_def
proof (rule spec_fold)
  fix r a
  let ?group = "\<lambda>vg (t, s). let s = run vg s; (v, s) = IORD_32DIRECT P BASE_RW_MGR 0 s in
    (push_bit k t OR (m AND NOT v), s)"
  have group: "spec I (\<lambda>s. fold ?group (rev [0..<n]) (t, s)) (\<lambda>x. True)" for t
  proof (rule spec_fold)
    fix vg t assume "vg \<in> set (rev [0..<n])"
    then have "safe I (run vg)" using assms(2) by simp
    then show "spec I (\<lambda>s. ?group vg (t, s)) (\<lambda>x. True)"
      unfolding prod.case by (intro safe_intros spec_return TrueI)
  qed simp
  have "spec I (\<lambda>s. let s = setup (set_rank_and_odt_mask P r RW_MGR_ODT_MODE_READ_WRITE s);
      (t, s) = fold ?group (rev [0..<n]) (0, s) in (a AND t, s)) (\<lambda>x. True)"
    by (intro safe_intros group spec_return safe_comp [OF safe_set_rank assms(1)]) simp
  then show "spec I (\<lambda>s. (\<lambda>(bit_chk, s). if skip_ranks (param s) ! r then (bit_chk, s)
      else let s = setup (set_rank_and_odt_mask P r RW_MGR_ODT_MODE_READ_WRITE s);
             (tmp_bit_chk, s) = fold ?group (rev [0..<n]) (0, s) in
         (bit_chk AND tmp_bit_chk, s)) (a, s)) (\<lambda>x. True)"
    using spec_return [of "\<lambda>x. True" a I] unfolding spec_def by auto
qed simp

lemma spec_test_masks:
  assumes "safe I setup" "\<And>vg. vg < n \<Longrightarrow> safe I (run vg)"
  shows "spec I (\<lambda>s. test_ranks P rs n k (m s) setup run (chk s) s) (\<lambda>x. True)"
proof -
  have "spec I (\<lambda>s. test_ranks P rs n k m setup run chk s) (\<lambda>x. True)" for m chk
    using assms by (rule spec_test_ranks)
  then show ?thesis unfolding spec_def by blast
qed

lemma spec2_read_test [safe_intros]:
  assumes "g < 4"
  shows "spec2 I (rw_mgr_mem_calibrate_read_test P r g c all_groups a)"
  using assms unfolding rw_mgr_mem_calibrate_read_test_def Let_def [of "_ \<or> _"]
  by (intro spec2_lets spec2_return spec_test_masks safe_intros safe_other; simp add: size_defs)

lemma spec2_patterns [safe_intros]:
  assumes "g < 4"
  shows "spec2 I (rw_mgr_mem_calibrate_read_test_patterns P r g a)"
  using assms unfolding rw_mgr_mem_calibrate_read_test_patterns_def
  by (intro spec2_lets spec2_return spec_test_masks safe_intros safe_other; simp add: size_defs)

lemma safe_write_test_issue [safe_intros]: "g < 4 \<Longrightarrow> safe I (rw_mgr_mem_calibrate_write_test_issue P g test_dm)"
  by (rule safe_steps, simp only: rw_mgr_mem_calibrate_write_test_issue_def Let_def)
    (intro safe_intros safe_other; simp)

lemma spec2_write_test [safe_intros]:
  assumes "g < 4"
  shows "spec2 I (rw_mgr_mem_calibrate_write_test P r g dm c a)"
  using assms unfolding rw_mgr_mem_calibrate_write_test_def
  by (intro spec2_lets spec2_return spec_test_masks safe_intros safe_other; simp add: size_defs)


lemma spec2_read_test_tries: "g < 4 \<Longrightarrow> spec2 I (read_test_tries P g c ag n chk)"
proof (induction n arbitrary: chk)
  case 0
  then show ?case using spec2_return [of I "\<lambda>s. True" chk] unfolding spec2_def by simp
next
  case (Suc n)
  have "spec2 I (\<lambda>s. let (ok, chk, s) = rw_mgr_mem_calibrate_read_test P 0 g c ag True s in
      if \<not> ok then (False, chk, s) else read_test_tries P g c ag n chk s)"
    using Suc by (intro spec2_bind spec2_read_test spec2_cond spec2_return)
  then show ?case unfolding spec2_def by simp
qed

lemma spec_dqs_test [safe_intros]: "g < 4 \<Longrightarrow> spec I (dqs_test P g n) (\<lambda>ok. True)"
  unfolding dqs_test_def rw_mgr_mem_calibrate_read_test_all_ranks_def
  by (intro spec2_let spec2_read_test_tries spec_return TrueI)

lemma spec_incr_vfifo [safe_intros]: "spec I (rw_mgr_incr_vfifo P g v) (\<lambda>v'. v' = v + 1)"
  using safe_other [of PHY_MGR_CMD_INC_VFIFO_HARD_PHY 0 g]
  by (simp add: spec_def safe_def rw_mgr_incr_vfifo_def size_defs)

lemma spec_decr_vfifo [safe_intros]: "spec I (rw_mgr_decr_vfifo P g v) (\<lambda>v'. True)"
proof -
  have "spec I (\<lambda>s. ((\<lambda>(v, s). rw_mgr_incr_vfifo P g v s) ^^ n) (v, s)) (\<lambda>v'. True)" for n
  proof (induction n)
    case 0
    show ?case by (simp add: spec_return)
  next
    case (Suc n)
    from spec_bind [OF Suc, of "rw_mgr_incr_vfifo P g" "\<lambda>v'. True"]
    show ?case using spec_weaken [OF spec_incr_vfifo] by (simp add: split_beta)
  qed
  then show ?thesis unfolding rw_mgr_decr_vfifo_def by blast
qed

end

text \<open>The calibration as a whole also writes settings, in range.\<close>

locale delay_contract =
  fixes P :: "'h plat" and I :: "'h \<Rightarrow> bool"
  assumes regs: "delay_registers P I"

sublocale delay_contract \<subseteq> test_contract
  by unfold_locales (use regs in \<open>auto simp: delay_registers_def in_range_def\<close>)

context delay_contract
begin

section \<open>Register access\<close>

lemma safe_IOWR [safe_intros]: "in_range (base + off) d \<Longrightarrow> safe I (IOWR_32DIRECT P base off d)"
  using regs unfolding safe_def delay_registers_def IOWR_32DIRECT_def bus_write_def by blast

lemma spec_IORD: "spec I (IORD_32DIRECT P base off) (in_range (base + off))"
  unfolding spec_def
proof (intro allI impI)
  fix s :: "'h seq" assume "I (hw s)"
  then have "I (snd (bus_read P (base + off) (hw s)))" "in_range (base + off) (fst (bus_read P (base + off) (hw s)))"
    using regs unfolding delay_registers_def by blast+
  moreover have "IORD_32DIRECT P base off s =
      (fst (bus_read P (base + off) (hw s)), s\<lparr>hw := snd (bus_read P (base + off) (hw s))\<rparr>)"
    by (simp add: IORD_32DIRECT_def bus_read_def split: prod.split)
  ultimately show "\<exists>a h. IORD_32DIRECT P base off s = (a, s\<lparr>hw := h\<rparr>) \<and> I h \<and> in_range (base + off) a" by blast
qed

lemma spec_IORD_setting: "setting_max (base + off) = Some m \<Longrightarrow> spec I (IORD_32DIRECT P base off) (\<lambda>v. v \<le> m)"
  by (rule spec_weaken [OF spec_IORD]) (simp add: in_range_def)

section \<open>Scan chains\<close>

lemma safe_set_group [safe_intros]:
  assumes "g < 4"
  shows "d \<le> 31 \<Longrightarrow> safe I (WRITE_SCC_DQS_IN_DELAY P g d)"
    "d \<le> 31 \<Longrightarrow> safe I (scc_mgr_set_dqs_bus_in_delay P g d)"
    "d \<le> 7 \<Longrightarrow> safe I (scc_mgr_set_dqs_en_phase P g d)"
    "d \<le> 31 \<Longrightarrow> safe I (scc_mgr_set_dqs_en_delay P g d)"
    "safe I (scc_mgr_set_dqdqs_output_phase P g 0)"
    "d \<le> 31 \<Longrightarrow> safe I (WRITE_SCC_OCT_OUT1_DELAY P g d)"
  using assms unfolding scc_mgr_set_dqs_bus_in_delay_def scc_mgr_set_dqs_en_phase_def scc_mgr_set_dqs_en_delay_def
    scc_mgr_set_dqdqs_output_phase_def WRITE_SCC_DQS_IN_DELAY_def WRITE_SCC_DQS_EN_PHASE_def WRITE_SCC_DQS_EN_DELAY_def
    WRITE_SCC_DQDQS_OUT_PHASE_def WRITE_SCC_OCT_OUT1_DELAY_def IO_DQS_EN_DELAY_OFFSET_def
  by (auto intro!: safe_IOWR intro: in_range_max)

lemma safe_set_pin [safe_intros]:
  assumes "i < 8" "d \<le> 31"
  shows "safe I (scc_mgr_set_dq_out1_delay P g (of_nat i) d)" "safe I (scc_mgr_set_dq_in_delay P g (of_nat i) d)"
  using assms unfolding scc_mgr_set_dq_out1_delay_def scc_mgr_set_dq_in_delay_def WRITE_SCC_DQ_OUT1_DELAY_def
    WRITE_SCC_DQ_IN_DELAY_def
  by (auto intro!: safe_IOWR intro: in_range_max)

lemma safe_set_strobe [safe_intros]:
  assumes "d \<le> 31"
  shows "safe I (scc_mgr_set_dqs_out1_delay P g d)" "safe I (scc_mgr_set_dqs_io_in_delay P g d)"
    "i = 0 \<Longrightarrow> safe I (scc_mgr_set_dm_out1_delay P g i d)" "i = 0 \<Longrightarrow> safe I (scc_mgr_set_dm_in_delay P g i d)"
  using assms max_pins [of 8] max_pins [of 9] unfolding scc_mgr_set_dqs_out1_delay_def scc_mgr_set_dqs_io_in_delay_def
    scc_mgr_set_dm_out1_delay_def scc_mgr_set_dm_in_delay_def WRITE_SCC_DQS_IO_OUT1_DELAY_def
    WRITE_SCC_DQS_IO_IN_DELAY_def WRITE_SCC_DM_IO_OUT1_DELAY_def WRITE_SCC_DM_IO_IN_DELAY_def
    RW_MGR_MEM_DQ_PER_WRITE_DQS_def
  by (auto intro!: safe_IOWR intro: in_range_max)

lemma safe_oct [safe_intros]:
  assumes "g < 4"
  shows "d \<le> 31 \<Longrightarrow> safe I (scc_mgr_set_oct_out1_delay P g d)" "safe I (scc_mgr_set_oct_out2_delay P g d)"
  using read_groups_single [OF assms] assms safe_id [of I] unfolding scc_mgr_set_oct_out1_delay_def scc_mgr_set_oct_out2_delay_def
  by (auto intro!: safe_intros simp: WRITE_SCC_OCT_OUT2_DELAY_def [abs_def])

lemma safe_phase_all_ranks [safe_intros]:
  assumes "g < 4"
  shows "p \<le> 7 \<Longrightarrow> safe I (scc_mgr_set_dqs_en_phase_all_ranks P g p)"
    "d \<le> 31 \<Longrightarrow> safe I (scc_mgr_set_dqs_en_delay_all_ranks P g d)"
    "safe I (scc_mgr_set_dqdqs_output_phase_all_ranks P g 0)"
  using assms unfolding scc_mgr_set_dqs_en_phase_all_ranks_def scc_mgr_set_dqs_en_delay_all_ranks_def
    scc_mgr_set_dqdqs_output_phase_all_ranks_def Let_def
  by (intro safe_intros in_range_intros; simp)+

lemma safe_zero_all [safe_intros]: "safe I (scc_mgr_zero_all P)"
  unfolding scc_mgr_zero_all_def size_defs
  by (intro safe_intros in_range_intros; simp add: IO_DQS_IN_RESERVE_def IO_DQS_OUT_RESERVE_def)

lemma safe_zero_group [safe_intros]:
  assumes "g < 4"
  shows "safe I (scc_mgr_zero_group P g t out_only)"
  using assms unfolding scc_mgr_zero_group_def size_defs
  by (intro safe_intros in_range_intros; simp add: IO_DQS_OUT_RESERVE_def)

lemma safe_apply_group [safe_intros]:
  "d \<le> 31 \<Longrightarrow> safe I (scc_mgr_apply_group_dq_in_delay P g 0 d)"
  "d \<le> 31 \<Longrightarrow> safe I (scc_mgr_apply_group_dq_out1_delay P g t d)"
  "d \<le> 31 \<Longrightarrow> safe I (scc_mgr_apply_group_dm_out1_delay P g d)"
  "g < 4 \<Longrightarrow> d \<le> 31 \<Longrightarrow> safe I (scc_mgr_apply_group_dqs_io_and_oct_out1 P g d)"
  unfolding scc_mgr_apply_group_dq_in_delay_def scc_mgr_apply_group_dq_out1_delay_def
    scc_mgr_apply_group_dm_out1_delay_def scc_mgr_apply_group_dqs_io_and_oct_out1_def Let_def size_defs
  by (simp_all, (intro safe_intros in_range_intros; auto intro!: safe_intros)+)

lemma safe_add_out_delay [safe_intros]:
  assumes "g < 4" "d \<le> 31"
  shows "safe I (scc_mgr_apply_group_all_out_delay_add_all_ranks P g t d)"
  using assms unfolding scc_mgr_apply_group_all_out_delay_add_all_ranks_def scc_mgr_apply_group_all_out_delay_add_def Let_def
    READ_SCC_DQS_IO_OUT2_DELAY_def READ_SCC_OCT_OUT2_DELAY_def IO_IO_OUT2_DELAY_MAX_def
  by (intro safe_intros in_range_intros; simp)

lemma spec2_try_phases: "g < 4 \<Longrightarrow> set ps \<subseteq> {..7} \<Longrightarrow> spec2 I (try_dqs_en_phases P g ps chk)"
proof (induction ps arbitrary: chk)
  case Nil
  then show ?case using spec2_return [of I "\<lambda>s. False" chk] unfolding spec2_def by simp
next
  case (Cons p ps)
  have "spec2 I (\<lambda>s. let s = scc_mgr_set_dqs_en_phase_all_ranks P g (of_nat p) s;
      (ok, chk, s) = rw_mgr_mem_calibrate_read_test_patterns P 0 g True s in
      if ok then (True, chk, s) else try_dqs_en_phases P g ps chk s)"
    using Cons by (intro spec2_lets spec2_bind safe_intros spec2_cond spec2_return) auto
  then show ?case unfolding spec2_def by simp
qed

lemma spec2_patterns_all_ranks [safe_intros]: "g < 4 \<Longrightarrow> spec2 I (rw_mgr_mem_calibrate_read_test_patterns_all_ranks P g)"
  unfolding rw_mgr_mem_calibrate_read_test_patterns_all_ranks_def
  by (intro spec2_bind spec2_patterns spec2_cond spec2_return spec2_try_phases) (auto simp: size_defs)

end

end
