(* ===== verification/Seq_Window.thy ===== *)
theory Seq_Window
  imports Seq_Keeps
begin

text \<open>
  The search for the DQS-enable window: the centre that it computes, and that the search keeps to the
  contract on the delay registers.
\<close>

section \<open>The centre of the window\<close>

lemmas tap_defs = IO_DELAY_PER_OPA_TAP_def IO_DELAY_PER_DQS_EN_DCHAIN_TAP_def

lemma dqs_en_taps: "count_dqs_en_taps 0 0 = 13"
  by code_simp

lemma reduce_mid_mod: "0 < x \<Longrightarrow> unat (reduce_mid x) = (unat x - 1) mod 2496 + 1"
proof (induction x rule: reduce_mid.induct)
  case (1 x)
  have "0 < unat x" using "1.prems" by (simp add: word_less_nat_alt)
  show ?case
  proof (cases "x > vfifo_delay")
    case True
    then have gt: "2496 < unat x" by (simp add: vfifo_delay_value word_less_nat_alt)
    then have diff: "unat (x - vfifo_delay) = unat x - 2496"
      using unat_sub [of vfifo_delay x] by (simp add: vfifo_delay_value word_le_nat_alt)
    then have "0 < x - vfifo_delay" using gt by (simp add: word_less_nat_alt)
    then have "unat (reduce_mid x) = (unat x - 2496 - 1) mod 2496 + 1"
      using "1.IH" True diff by (subst reduce_mid.simps) simp
    also have "(unat x - 2496 - 1) mod 2496 = (unat x - 1) mod 2496"
      using gt mod_if [of "unat x - 1" 2496] by (simp add: le_mod_geq)
    finally show ?thesis .
  next
    case False
    then have "unat x \<le> 2496" by (simp add: vfifo_delay_value word_less_nat_alt)
    then show ?thesis using False \<open>0 < unat x\<close> by (subst reduce_mid.simps) simp
  qed
qed

lemma mid_phase_upto:
  assumes "unat tmp = 312 * k" "k \<le> 8" "unat m \<le> 2496" "mid_phase [k..<8] tmp m = (p, t)" "k = 0 \<or> 312 * (k - 1) < unat m"
  shows "k \<le> p \<and> p \<le> 8 \<and> unat t = 312 * p \<and> unat m \<le> 312 * p \<and> (p = 0 \<or> 312 * (p - 1) < unat m)"
  using assms
proof (induction "8 - k" arbitrary: k tmp)
  case 0
  then show ?case by (auto simp: IO_DQS_EN_PHASE_MAX_def)
next
  case (Suc n)
  then have k: "[k..<8] = k # [Suc k..<8]" "n = 8 - Suc k" by (simp_all add: upt_rec)
  show ?case
  proof (cases "tmp < m")
    case True
    have "unat (tmp + 312) = 312 * Suc k" using Suc.prems(1,2) by (simp add: unat_word_ariths)
    moreover have "mid_phase [Suc k..<8] (tmp + 312) m = (p, t)" using Suc.prems k True by (simp add: tap_defs)
    moreover have "312 * (Suc k - 1) < unat m" using True Suc.prems(1) by (simp add: word_less_nat_alt)
    ultimately show ?thesis using Suc.hyps(1) [OF k(2), of "tmp + 312"] Suc.hyps(2) Suc.prems(3) by auto
  next
    case False
    then show ?thesis using Suc.prems k by (auto simp: word_less_nat_alt)
  qed
qed

lemma mid_dtap_upto:
  assumes "unat tmp < unat m" "unat m \<le> unat tmp + 25 * j" "unat m \<le> 2496" "k + j \<le> 31"
  shows "\<exists>d. mid_dtap [k..<32] tmp m = d \<and> k < d \<and> d \<le> k + j \<and>
    unat m \<le> unat tmp + 25 * (d - k) \<and> unat tmp + 25 * (d - k) < unat m + 25"
  using assms
proof (induction j arbitrary: k tmp)
  case (Suc j)
  have k: "[k..<32] = k # [Suc k..<32]" "[Suc k..<32] = Suc k # [Suc (Suc k)..<32]"
    using Suc.prems(4) by (simp_all add: upt_rec)
  have t: "unat (tmp + 25) = unat tmp + 25" using Suc.prems(1,3) by (simp add: unat_word_ariths)
  show ?case
  proof (cases "tmp + 25 < m")
    case True
    then have "\<exists>d. mid_dtap [Suc k..<32] (tmp + 25) m = d \<and> Suc k < d \<and> d \<le> Suc k + j \<and>
        unat m \<le> unat (tmp + 25) + 25 * (d - Suc k) \<and> unat (tmp + 25) + 25 * (d - Suc k) < unat m + 25"
      using Suc.prems t by (intro Suc.IH) (simp_all add: word_less_nat_alt)
    then show ?thesis using Suc.prems(1) k(1) t by (auto simp: tap_defs word_less_nat_alt)
  next
    case False
    then show ?thesis using Suc.prems(1) k t by (auto simp: tap_defs word_less_nat_alt)
  qed
qed simp

lemma window_centre_facts:
  assumes "unat work_bgn + unat work_end < 2 ^ 32" "2 \<le> unat work_bgn + unat work_end"
    and mid: "mid = ((unat work_bgn + unat work_end) div 2 - 1) mod 2496 + 1"
    and centre: "window_centre work_bgn work_end = (p, d)"
  shows "2 \<le> p \<and> p \<le> 8 \<and> d \<le> 13 \<and>
    (if mid \<le> 312 then p = 2 \<and> d = 0 else mid \<le> 312 * (p - 1) + 25 * d \<and> 312 * (p - 1) + 25 * d < mid + 25)"
proof -
  let ?m = "reduce_mid ((work_bgn + work_end) div 2)"
  have half: "unat ((work_bgn + work_end) div 2) = (unat work_bgn + unat work_end) div 2"
    using assms(1) by (simp add: unat_div unat_word_ariths)
  then have "0 < (work_bgn + work_end) div 2" using assms(2) by (simp add: word_less_nat_alt)
  then have m: "unat ?m = mid" using reduce_mid_mod half mid by simp
  then have m_le: "0 < unat ?m" "unat ?m \<le> 2496" using mid by (auto simp: mod_less_divisor Suc_leI)
  obtain q t where q: "mid_phase [0..<8] 0 ?m = (q, t)" by force
  then have phase: "q \<le> 8" "unat t = 312 * q" "unat ?m \<le> 312 * q" "q = 0 \<or> 312 * (q - 1) < unat ?m"
    using mid_phase_upto [of 0 0 ?m q t] m_le by auto
  then have "0 < q" using m_le by (cases q) auto
  then have t: "unat (t - 312) = 312 * (q - 1)"
    using phase(2) unat_sub [of 312 t] by (cases q) (auto simp: word_le_nat_alt)
  obtain e where e: "mid_dtap [0..<32] (t - 312) ?m = e" "0 < e" "e \<le> 13"
      "unat ?m \<le> 312 * (q - 1) + 25 * e" "312 * (q - 1) + 25 * e < unat ?m + 25"
    using mid_dtap_upto [of "t - 312" ?m 13 0] phase \<open>0 < q\<close> t m_le by auto
  have "(p, d) = (if q = 1 then (2, 0) else (q, e))"
    using centre q e(1) by (auto simp: window_centre_def Let_def size_defs max_defs tap_defs split: if_splits)
  then show ?thesis
    using phase \<open>0 < q\<close> e m by (auto split: if_splits)
qed

lemma window_centre_bounds:
  assumes "unat work_bgn + unat work_end < 2 ^ 32" "2 \<le> unat work_bgn + unat work_end" "window_centre work_bgn work_end = (p, d)"
  shows "2 \<le> p" "p \<le> 8" "d \<le> 13"
  using window_centre_facts [OF assms(1,2) refl assms(3)] by simp_all

text \<open>
  C37: The centre of a DQS-enable window is set by a phase from 1 to 7 and at most 13 delay taps. The
  delay they give is the middle of the window, reduced by whole turns of the eight phases, rounded
  up to a delay tap, except for a middle in phase 0, which the hard PHY cannot set, for which it
  is one phase. The function returns the phase plus one.
\<close>

theorem window_centre_close:
  assumes "unat work_bgn + unat work_end < 2 ^ 32" "2 \<le> unat work_bgn + unat work_end"
    and mid: "mid = ((unat work_bgn + unat work_end) div 2 - 1) mod 2496 + 1"
    and centre: "window_centre work_bgn work_end = (p, d)"
  shows "2 \<le> p \<and> p \<le> 8 \<and> d \<le> 13 \<and>
    (if mid \<le> 312 then p = 2 \<and> d = 0 else mid \<le> 312 * (p - 1) + 25 * d \<and> 312 * (p - 1) + 25 * d < mid + 25)"
  using window_centre_facts [OF assms] .

theorem window_centre_close_witness:
  "window_centre 624 2400 = (5, 11) \<and> (1512 :: nat) \<le> 312 * (5 - 1) + 25 * 11 \<and> 312 * (5 - 1) + 25 * 11 < (1512 :: nat) + 25"
proof -
  have "window_centre 624 2400 = (5, 11)" by code_simp
  then show ?thesis using window_centre_close [of 624 2400 1512 5 11] by simp
qed

section \<open>The search\<close>

context delay_contract
begin

lemma phase_test:
  assumes "g < 4" "p \<le> 7" "I (hw s)"
  obtains ok h where "dqs_test P g n (scc_mgr_set_dqs_en_phase_all_ranks P g (of_nat p) s) = (ok, s\<lparr>hw := h\<rparr>)" "I h"
proof -
  have "spec I (\<lambda>s. dqs_test P g n (scc_mgr_set_dqs_en_phase_all_ranks P g (of_nat p) s)) (\<lambda>ok. True)"
    using assms by (intro spec_after [OF safe_phase_all_ranks(1) spec_dqs_test]) simp_all
  then show ?thesis using assms(3) that by (rule specE)
qed

lemma delay_test:
  assumes "g < 4" "d \<le> 31" "I (hw s)"
  obtains ok h where "dqs_test P g n (scc_mgr_set_dqs_en_delay_all_ranks P g (of_nat d) s) = (ok, s\<lparr>hw := h\<rparr>)" "I h"
proof -
  have "spec I (\<lambda>s. dqs_test P g n (scc_mgr_set_dqs_en_delay_all_ranks P g (of_nat d) s)) (\<lambda>ok. True)"
    using assms by (intro spec_after [OF safe_phase_all_ranks(2) spec_dqs_test]) simp_all
  then show ?thesis using assms(3) that by (rule specE)
qed

lemma incr_vfifo:
  assumes "I (hw s)"
  obtains h where "rw_mgr_incr_vfifo P g v s = (v + 1, s\<lparr>hw := h\<rparr>)" "I h"
  by (rule specE [OF spec_incr_vfifo assms, of g v]) (simp add: that)

lemma decr_vfifo:
  assumes "I (hw s)"
  obtains v' h where "rw_mgr_decr_vfifo P g v s = (v', s\<lparr>hw := h\<rparr>)" "I h"
  by (rule specE [OF spec_decr_vfifo assms, of g v]) (rule that)

lemma spec_push_until_failing: "g < 4 \<Longrightarrow> spec I (push_until_failing P g n c v) (\<lambda>v'. True)"
proof (induction n arbitrary: c v)
  case 0
  then show ?case using spec_return [of "\<lambda>v'. True" v I] by (simp add: spec_def)
next
  case (Suc n)
  have "spec I (\<lambda>s. push_until_failing P g (Suc n) c v s) (\<lambda>v'. True)"
    using Suc unfolding push_until_failing.simps
    by (intro safe_intros spec_return TrueI spec_weaken [OF spec_incr_vfifo] Suc.IH)
  then show ?case by simp
qed

lemma first_phase_keeps:
  assumes "g < 4" "k \<le> 8" "unat w + 312 * (8 - k) < 2 ^ 32" "I (hw s)"
  shows "\<exists>r w' h. first_phase P g [k..<8] w s = (r, w', s\<lparr>hw := h\<rparr>) \<and> I h \<and>
    (\<forall>p. r = Some p \<longrightarrow> 0 < p \<and> k \<le> p \<and> p \<le> 7 \<and> unat w' = unat w + 312 * (p - k)) \<and> (r = None \<longrightarrow> unat w' = unat w + 312 * (8 - k))"
  using assms
proof (induction "8 - k" arbitrary: k w s)
  case 0
  then show ?case by (auto intro!: exI [of _ "hw s"])
next
  case (Suc n)
  then have k: "[k..<8] = k # [Suc k..<8]" "n = 8 - Suc k" "k < 8" by (simp_all add: upt_rec)
  have w: "unat (w + 312) = unat w + 312" using Suc.prems(3) k(3) by (simp add: unat_word_ariths)
  then have "unat (w + 312) + 312 * (8 - Suc k) < 2 ^ 32" using Suc.prems(3) k(3) by simp
  note IH = Suc.hyps(1) [OF k(2) Suc.prems(1) _ this]
  have step: "\<exists>r w' h. first_phase P g [Suc k..<8] (w + 312) t = (r, w', t\<lparr>hw := h\<rparr>) \<and> I h \<and>
      (\<forall>p. r = Some p \<longrightarrow> 0 < p \<and> k \<le> p \<and> p \<le> 7 \<and> unat w' = unat w + 312 * (p - k)) \<and> (r = None \<longrightarrow> unat w' = unat w + 312 * (8 - k))" if t: "I (hw t)" for t
  proof -
    obtain r w' h where "first_phase P g [Suc k..<8] (w + 312) t = (r, w', t\<lparr>hw := h\<rparr>)" "I h"
      "\<forall>p. r = Some p \<longrightarrow> 0 < p \<and> Suc k \<le> p \<and> p \<le> 7 \<and> unat w' = unat w + 312 + 312 * (p - Suc k)" "r = None \<longrightarrow> unat w' = unat w + 312 + 312 * (8 - Suc k)"
      using IH [OF Suc_leI [OF k(3)] t] unfolding w by blast
    then show ?thesis using k(3) by (cases r) auto
  qed
  show ?case
  proof (cases "k = 0")
    case True
    then show ?thesis using step [OF Suc.prems(4)] k(1) by (simp add: tap_defs)
  next
    case False
    obtain ok h where "dqs_test P g 5 (scc_mgr_set_dqs_en_phase_all_ranks P g (of_nat k) s) = (ok, s\<lparr>hw := h\<rparr>)" "I h"
      using phase_test [OF Suc.prems(1) _ Suc.prems(4), of k 5] k(3) by auto
    then show ?thesis
      using False step [of "s\<lparr>hw := h\<rparr>"] k(1,3) by (auto simp: tap_defs)
  qed
qed

text \<open>
  What the search knows about the window: \<open>work_bgn\<close> is at least one phase tap, and the numbers are far
  from the end of their range.
\<close>

lemma first_vfifo_keeps:
  assumes "g < 4" "unat w + 2496 * length is < 2 ^ 32" "I (hw s)"
  shows "\<exists>r v' w' h. first_vfifo P g is v w s = (r, v', w', s\<lparr>hw := h\<rparr>) \<and> I h \<and>
    (\<forall>i p. r = Some (i, p) \<longrightarrow> i \<in> set is \<and> 0 < p \<and> p \<le> 7 \<and> 312 * p \<le> unat w' \<and> unat w' \<le> unat w + 2496 * length is)"
  using assms
proof (induction "is" arbitrary: v w s)
  case Nil
  then show ?case by (auto intro!: exI [of _ "hw s"])
next
  case (Cons i "is")
  obtain r w1 h where fp: "first_phase P g [0..<8] w s = (r, w1, s\<lparr>hw := h\<rparr>)" "I h"
    "\<forall>p. r = Some p \<longrightarrow> 0 < p \<and> p \<le> 7 \<and> unat w1 = unat w + 312 * p" "r = None \<longrightarrow> unat w1 = unat w + 2496"
    using first_phase_keeps [of g 0 w s] Cons.prems by auto
  show ?case
  proof (cases r)
    case None
    obtain h1 where incr: "rw_mgr_incr_vfifo P g v (s\<lparr>hw := h\<rparr>) = (v + 1, s\<lparr>hw := h1\<rparr>)" "I h1"
      using incr_vfifo [of "s\<lparr>hw := h\<rparr>" g v] fp(2) by auto
    have w1: "unat w1 = unat w + 2496" using fp(4) None by simp
    then obtain r' v' w' h' where "first_vfifo P g is (v + 1) w1 (s\<lparr>hw := h1\<rparr>) = (r', v', w', s\<lparr>hw := h'\<rparr>)" "I h'"
      "\<forall>i p. r' = Some (i, p) \<longrightarrow> i \<in> set is \<and> 0 < p \<and> p \<le> 7 \<and> 312 * p \<le> unat w' \<and> unat w' \<le> unat w1 + 2496 * length is"
      using Cons.IH [of w1 "s\<lparr>hw := h1\<rparr>" "v + 1"] Cons.prems incr(2) by auto
    then show ?thesis
      using fp(1) None incr w1 by (auto simp: IO_DQS_EN_PHASE_MAX_def split: option.splits)
  next
    case (Some p)
    then show ?thesis
      using fp by (auto simp: IO_DQS_EN_PHASE_MAX_def)
  qed
qed

lemma first_dtap_keeps:
  assumes "g < 4" "set ds \<subseteq> {..12}" "unat t + 25 * length ds \<le> 325" "I (hw s)"
  shows "\<exists>r v' h. first_dtap P g ds t v s = (r, v', s\<lparr>hw := h\<rparr>) \<and> I h \<and>
    (\<forall>d i p w. r = Some (d, i, p, w) \<longrightarrow> d \<le> 12 \<and> i < 16 \<and> 0 < p \<and> p \<le> 7 \<and> 312 * p \<le> unat w \<and> unat w \<le> 50000)"
  using assms
proof (induction ds arbitrary: t v s)
  case Nil
  then show ?case by (auto intro!: exI [of _ "hw s"])
next
  case (Cons d ds)
  have "safe I (scc_mgr_set_dqs_en_delay_all_ranks P g (of_nat d))" using Cons.prems by (intro safe_intros) auto
  then obtain h where set: "scc_mgr_set_dqs_en_delay_all_ranks P g (of_nat d) s = s\<lparr>hw := h\<rparr>" "I h"
    using Cons.prems(4) by (rule safeE)
  obtain r v1 w1 h1 where fv: "first_vfifo P g [0..<16] v t (s\<lparr>hw := h\<rparr>) = (r, v1, w1, s\<lparr>hw := h1\<rparr>)" "I h1"
    "\<forall>i p. r = Some (i, p) \<longrightarrow> i \<in> set [0..<16] \<and> 0 < p \<and> p \<le> 7 \<and> 312 * p \<le> unat w1 \<and> unat w1 \<le> unat t + 2496 * 16"
    using first_vfifo_keeps [of g t "[0..<16]" "s\<lparr>hw := h\<rparr>" v] Cons.prems set(2) by auto
  show ?case
  proof (cases r)
    case None
    have t: "unat (t + 25) = unat t + 25" using Cons.prems(3) by (simp add: unat_word_ariths)
    obtain r' v' h' where "first_dtap P g ds (t + 25) v1 (s\<lparr>hw := h1\<rparr>) = (r', v', s\<lparr>hw := h'\<rparr>)" "I h'"
      "\<forall>d i p w. r' = Some (d, i, p, w) \<longrightarrow> d \<le> 12 \<and> i < 16 \<and> 0 < p \<and> p \<le> 7 \<and> 312 * p \<le> unat w \<and> unat w \<le> 50000"
      using Cons.IH [of "t + 25" "s\<lparr>hw := h1\<rparr>" v1] Cons.prems fv(2) t by auto
    then show ?thesis using set fv(1) None by (auto simp: size_defs tap_defs)
  next
    case (Some ip)
    then show ?thesis using set fv Cons.prems by (cases ip) (auto simp: size_defs)
  qed
qed

lemma back_search_keeps:
  assumes "g < 4" "set ds \<subseteq> {..31}" "unat w \<le> 50000" "312 \<le> unat t" "312 \<le> unat w" "I (hw s)"
  shows "\<exists>w' h. back_search P g ds t w s = (w', s\<lparr>hw := h\<rparr>) \<and> I h \<and> 312 \<le> unat w' \<and> unat w' \<le> unat w"
  using assms
proof (induction ds arbitrary: t s)
  case Nil
  then show ?case by (auto intro!: exI [of _ "hw s"])
next
  case (Cons d ds)
  show ?case
  proof (cases "t < w")
    case True
    obtain ok h where test: "dqs_test P g 5 (scc_mgr_set_dqs_en_delay_all_ranks P g (of_nat d) s) = (ok, s\<lparr>hw := h\<rparr>)" "I h"
      using delay_test [of g d s 5] Cons.prems by auto
    have "unat (t + 25) = unat t + 25" using True Cons.prems(3) by (simp add: unat_word_ariths word_less_nat_alt)
    then have "\<exists>w' h'. back_search P g ds (t + 25) w (s\<lparr>hw := h\<rparr>) = (w', s\<lparr>hw := h'\<rparr>) \<and> I h' \<and> 312 \<le> unat w' \<and> unat w' \<le> unat w"
      using Cons.IH [of "t + 25" "s\<lparr>hw := h\<rparr>"] Cons.prems test(2) by auto
    then show ?thesis using test True Cons.prems by (auto simp: tap_defs word_less_nat_alt)
  next
    case False
    then show ?thesis using Cons.prems by (auto intro!: exI [of _ "hw s"])
  qed
qed

lemma back_off_keeps:
  assumes "g < 4" "0 < p" "p \<le> 7" "312 * p \<le> unat w" "unat w \<le> 50000" "I (hw s)"
  shows "\<exists>p' v' w' h. back_off P g p v w s = (p', v', w', s\<lparr>hw := h\<rparr>) \<and> I h \<and> p' \<le> 7 \<and> 312 \<le> unat w' \<and> unat w' \<le> unat w"
proof -
  let ?q = "if p = 1 then 1 else p - 1"
  let ?t = "if p = 1 then w else w - 312"
  have "312 \<le> unat w" using assms(2,4) by (cases p) auto
  then have w: "unat (w - 312) = unat w - 312" using unat_sub [of 312 w] by (simp add: word_le_nat_alt)
  have q: "?q \<le> 7" "312 \<le> unat ?t" using assms(2-4) w by auto
  have "safe I (scc_mgr_set_dqs_en_phase_all_ranks P g (of_nat ?q))" using assms(1) q(1) by (intro safe_intros) auto
  then obtain h1 where h1: "scc_mgr_set_dqs_en_phase_all_ranks P g (of_nat ?q) s = s\<lparr>hw := h1\<rparr>" "I h1"
    using assms(6) by (rule safeE)
  obtain w' h2 where h2: "back_search P g [0..<32] ?t w (s\<lparr>hw := h1\<rparr>) = (w', s\<lparr>hw := h2\<rparr>)" "I h2" "312 \<le> unat w'" "unat w' \<le> unat w"
    using back_search_keeps [OF assms(1) _ assms(5) q(2) \<open>312 \<le> unat w\<close>, of "[0..<32]" "s\<lparr>hw := h1\<rparr>"] h1(2)
    by (auto simp: subset_iff)
  obtain h3 where h3: "rw_mgr_incr_vfifo P g v (s\<lparr>hw := h2\<rparr>) = (v + 1, s\<lparr>hw := h3\<rparr>)" "I h3"
    using incr_vfifo [of "s\<lparr>hw := h2\<rparr>" g v] h2(2) by auto
  have zero: "safe I (scc_mgr_set_dqs_en_delay_all_ranks P g 0)" using assms(1) by (intro safe_intros) auto
  obtain h4 where h4: "scc_mgr_set_dqs_en_delay_all_ranks P g 0 (s\<lparr>hw := h2\<rparr>) = s\<lparr>hw := h4\<rparr>" "I h4"
    using safeE [OF zero, of "s\<lparr>hw := h2\<rparr>"] h2(2) by auto
  obtain h5 where h5: "scc_mgr_set_dqs_en_delay_all_ranks P g 0 (s\<lparr>hw := h3\<rparr>) = s\<lparr>hw := h5\<rparr>" "I h5"
    using safeE [OF zero, of "s\<lparr>hw := h3\<rparr>"] h3(2) by auto
  show ?thesis
    using assms(2,3) h1 h2 h3 h4 h5
    by (cases "p = 1") (auto simp: back_off_def Let_def size_defs max_defs tap_defs split: if_splits)
qed

lemma end_phase_keeps:
  assumes "g < 4" "k \<le> 8" "312 \<le> unat b" "unat b \<le> 200000" "624 \<le> unat e" "unat e + 312 * (8 - k) \<le> 200000" "I (hw s)"
  shows "\<exists>r j' b' e' h. end_phase P g [k..<8] j b e s = (r, j', b', e', s\<lparr>hw := h\<rparr>) \<and> I h \<and>
    312 \<le> unat b' \<and> unat b' \<le> 200000 \<and> 624 \<le> unat e' \<and> unat e' \<le> unat e + 312 * (8 - k) \<and> (\<forall>p. r = Some p \<longrightarrow> 0 < p \<and> p \<le> 7)"
  using assms
proof (induction "8 - k" arbitrary: k j b e s)
  case 0
  then show ?case by (auto intro!: exI [of _ "hw s"])
next
  case (Suc n)
  then have k: "[k..<8] = k # [Suc k..<8]" "n = 8 - Suc k" "k < 8" by (simp_all add: upt_rec)
  have e: "unat (e + 312) = unat e + 312" using Suc.prems(6) k(3) by (simp add: unat_word_ariths)
  have step: "\<exists>r j' b' e' h. end_phase P g [Suc k..<8] (j + 1) b1 (e + 312) t = (r, j', b', e', t\<lparr>hw := h\<rparr>) \<and> I h \<and>
      312 \<le> unat b' \<and> unat b' \<le> 200000 \<and> 624 \<le> unat e' \<and> unat e' \<le> unat e + 312 * (8 - k) \<and> (\<forall>p. r = Some p \<longrightarrow> 0 < p \<and> p \<le> 7)"
    if "I (hw t)" "312 \<le> unat b1" "unat b1 \<le> 200000" for t b1
  proof -
    have e1: "624 \<le> unat (e + 312)" "unat (e + 312) + 312 * (8 - Suc k) \<le> 200000"
      using e Suc.prems(5,6) k(3) by simp_all
    have "unat (e + 312) + 312 * (8 - Suc k) = unat e + 312 * (8 - k)" using e k(3) by simp
    then show ?thesis
      using Suc.hyps(1) [OF k(2) Suc.prems(1) Suc_leI [OF k(3)] that(2,3) e1 that(1), of "j + 1"] by simp
  qed
  show ?case
  proof (cases "k = 0")
    case True
    then show ?thesis using step [OF Suc.prems(7,3,4)] k(1) by (simp add: tap_defs)
  next
    case False
    obtain ok h where test: "dqs_test P g 5 (scc_mgr_set_dqs_en_phase_all_ranks P g (of_nat k) s) = (ok, s\<lparr>hw := h\<rparr>)" "I h"
      using phase_test [OF Suc.prems(1) _ Suc.prems(7), of k 5] k(3) by auto
    consider "ok" | "\<not> ok" "j = 0" | "\<not> ok" "j \<noteq> 0" by blast
    then show ?thesis
    proof cases
      case 1
      then show ?thesis using False test step [of "s\<lparr>hw := h\<rparr>" b] k(1) Suc.prems(3,4) by (simp add: tap_defs)
    next
      case 2
      have "312 \<le> unat e" "unat e \<le> 200000" using Suc.prems(5,6) by simp_all
      then show ?thesis using 2 False test step [of "s\<lparr>hw := h\<rparr>" e] k(1) by (simp add: tap_defs)
    next
      case 3
      then show ?thesis using False test k(1,3) Suc.prems(3-6) by auto
    qed
  qed
qed

lemma end_vfifo_keeps:
  assumes "g < 4" "k \<le> 8" "312 \<le> unat b" "unat b \<le> 200000" "624 \<le> unat e" "unat e + 2496 * length is \<le> 200000" "I (hw s)"
  shows "\<exists>r v' h. end_vfifo P g is k j v b e s = (r, v', s\<lparr>hw := h\<rparr>) \<and> I h \<and>
    (\<forall>p b' e'. r = Some (p, b', e') \<longrightarrow> 0 < p \<and> p \<le> 7 \<and> 312 \<le> unat b' \<and> unat b' \<le> 200000 \<and> 624 \<le> unat e' \<and> unat e' \<le> 200000)"
  using assms
proof (induction "is" arbitrary: k j v b e s)
  case Nil
  then show ?case by (auto intro!: exI [of _ "hw s"])
next
  case (Cons i "is")
  obtain r j' b' e' h where ep: "end_phase P g [k..<8] j b e s = (r, j', b', e', s\<lparr>hw := h\<rparr>)" "I h" "312 \<le> unat b'"
    "unat b' \<le> 200000" "624 \<le> unat e'" "unat e' \<le> unat e + 312 * (8 - k)" "\<forall>p. r = Some p \<longrightarrow> 0 < p \<and> p \<le> 7"
    using end_phase_keeps [OF Cons.prems(1-5) _ Cons.prems(7), of j] Cons.prems(6) by fastforce
  show ?case
  proof (cases r)
    case None
    obtain h1 where incr: "rw_mgr_incr_vfifo P g v (s\<lparr>hw := h\<rparr>) = (v + 1, s\<lparr>hw := h1\<rparr>)" "I h1"
      using incr_vfifo [of "s\<lparr>hw := h\<rparr>" g v] ep(2) by auto
    have "unat e' + 2496 * length is \<le> 200000" using ep(6) Cons.prems(6) by simp
    then show ?thesis
      using Cons.IH [of 0 b' e' "s\<lparr>hw := h1\<rparr>" j' "v + 1"] Cons.prems(1) ep None incr by (auto simp: size_defs)
  next
    case (Some p)
    then show ?thesis using ep Cons.prems(6) by (auto simp: size_defs)
  qed
qed

lemma back_from_end_keeps:
  assumes "g < 4" "0 < p" "p \<le> 7" "624 \<le> unat e" "unat e \<le> 200000" "I (hw s)"
  shows "\<exists>p' v' e' h. back_from_end P g p v e s = (p', v', e', s\<lparr>hw := h\<rparr>) \<and> I h \<and> p' \<le> 7 \<and> unat e' \<le> 200000"
proof -
  have e: "unat (e - 312) = unat e - 312" "unat (e - 624) = unat e - 624"
    using assms(4) unat_sub [of 312 e] unat_sub [of 624 e] by (simp_all add: word_le_nat_alt)
  obtain v1 h1 where h1: "rw_mgr_decr_vfifo P g v s = (v1, s\<lparr>hw := h1\<rparr>)" "I h1"
    using decr_vfifo [OF assms(6), of g v] by blast
  have set: "safe I (scc_mgr_set_dqs_en_phase_all_ranks P g (of_nat q))" if "q \<le> 7" for q
    using assms(1) that by (intro safe_intros) auto
  obtain h2 where h2: "scc_mgr_set_dqs_en_phase_all_ranks P g (of_nat 7) (s\<lparr>hw := h1\<rparr>) = s\<lparr>hw := h2\<rparr>" "I h2"
    using safeE [OF set, of 7 "s\<lparr>hw := h1\<rparr>"] h1(2) by auto
  obtain h3 where h3: "scc_mgr_set_dqs_en_phase_all_ranks P g (of_nat (p - 1)) s = s\<lparr>hw := h3\<rparr>" "I h3"
    by (rule safeE [OF set assms(6), of "p - 1"]) (use assms(3) in auto)
  show ?thesis
    using assms(2-5) e h1 h2 h3 by (cases "p = 1") (auto simp: back_from_end_def Let_def size_defs tap_defs)
qed

lemma edge_dtap_keeps:
  assumes "g < 4" "k \<le> 32" "unat e + 25 * (32 - k) \<le> 300000" "I (hw s)"
  shows "\<exists>d e' h. edge_dtap P g [k..<32] e s = (d, e', s\<lparr>hw := h\<rparr>) \<and> I h \<and> k \<le> d \<and> d \<le> 32 \<and> unat e' = unat e + 25 * (d - k)"
  using assms
proof (induction "32 - k" arbitrary: k e s)
  case 0
  then show ?case by (auto simp: IO_DQS_EN_DELAY_MAX_def intro!: exI [of _ "hw s"])
next
  case (Suc n)
  then have k: "[k..<32] = k # [Suc k..<32]" "n = 32 - Suc k" "k < 32" by (simp_all add: upt_rec)
  obtain ok h where test: "dqs_test P g 5 (scc_mgr_set_dqs_en_delay_all_ranks P g (of_nat k) s) = (ok, s\<lparr>hw := h\<rparr>)" "I h"
    using delay_test [OF Suc.prems(1) _ Suc.prems(4), of k 5] k(3) by auto
  have e: "unat (e + 25) = unat e + 25" using Suc.prems(3) k(3) by (simp add: unat_word_ariths)
  then have "unat (e + 25) + 25 * (32 - Suc k) \<le> 300000" using Suc.prems(3) k(3) by simp
  from Suc.hyps(1) [OF k(2) Suc.prems(1) Suc_leI [OF k(3)] this, of "s\<lparr>hw := h\<rparr>"] test(2)
  obtain d e' h' where "edge_dtap P g [Suc k..<32] (e + 25) (s\<lparr>hw := h\<rparr>) = (d, e', s\<lparr>hw := h'\<rparr>)" "I h'" "Suc k \<le> d" "d \<le> 32"
    "unat e' = unat e + 25 + 25 * (d - Suc k)" using e by auto
  then show ?case using test k by (cases ok) (auto simp: tap_defs)
qed

lemma dtap_until_keeps:
  assumes "g < 4" "set ds \<subseteq> {..31}" "I (hw s)"
  shows "\<exists>r h. dtap_until P g wanted ds s = (r, s\<lparr>hw := h\<rparr>) \<and> I h \<and> (\<forall>d. r = Some d \<longrightarrow> d \<in> set ds)"
  using assms
proof (induction ds arbitrary: s)
  case Nil
  then show ?case by (auto intro!: exI [of _ "hw s"])
next
  case (Cons d ds)
  obtain ok h where test: "dqs_test P g 1 (scc_mgr_set_dqs_en_delay_all_ranks P g (of_nat d) s) = (ok, s\<lparr>hw := h\<rparr>)" "I h"
    using delay_test [of g d s 1] Cons.prems by auto
  then show ?case using Cons.IH [of "s\<lparr>hw := h\<rparr>"] Cons.prems(1,2) by auto
qed

lemma measure_dtaps_keeps:
  assumes "g < 4" "p \<le> 7" "I (hw s)"
  shows "\<exists>v' h. measure_dtaps P g p d v dt s = (v', s\<lparr>hw := h\<rparr>) \<and> I h"
proof -
  let ?earlier = "if p = 0 \<or> p = 1 then let (v, s) = rw_mgr_decr_vfifo P g v s in (IO_DQS_EN_PHASE_MAX, v, s) else (p - 1, v, s)"
  obtain q v1 h1 where h1: "?earlier = (q, v1, s\<lparr>hw := h1\<rparr>)" "I h1" "q \<le> 7"
  proof (cases "p = 0 \<or> p = 1")
    case True
    then show ?thesis using decr_vfifo [OF assms(3), of g v] that by (auto simp: IO_DQS_EN_PHASE_MAX_def)
  next
    case False
    then show ?thesis using that [of "p - 1" v "hw s"] assms(2,3) by auto
  qed
  have "safe I (scc_mgr_set_dqs_en_phase_all_ranks P g (of_nat q))" using assms(1) h1(3) by (intro safe_intros) auto
  then obtain h2 where h2: "scc_mgr_set_dqs_en_phase_all_ranks P g (of_nat q) (s\<lparr>hw := h1\<rparr>) = s\<lparr>hw := h2\<rparr>" "I h2"
    using h1(2) by (rule safe_at)
  obtain r h3 where h3: "dtap_until P g True [d..<32] (s\<lparr>hw := h2\<rparr>) = (r, s\<lparr>hw := h3\<rparr>)" "I h3"
    using dtap_until_keeps [of g "[d..<32]" "s\<lparr>hw := h2\<rparr>" True] assms(1) h2(2) by (auto simp: subset_iff)
  obtain r' h4 where h4: "dtap_until P g False [the r + 1..<32] (s\<lparr>hw := h3\<rparr>) = (r', s\<lparr>hw := h4\<rparr>)" "I h4"
    using dtap_until_keeps [of g "[the r + 1..<32]" "s\<lparr>hw := h3\<rparr>" False] assms(1) h3(2) by (auto simp: subset_iff)
  have wr: "safe I (IOWR_32DIRECT P REG_FILE_DTAPS_PER_PTAP 0 x)" for x by (intro safe_intros in_range_intros) simp
  have find: "measure_dtaps P g p d v dt s =
      (let (x, s) = (case r of None \<Rightarrow> (dt, s\<lparr>hw := h3\<rparr>)
         | Some d1 \<Rightarrow> (case r' of None \<Rightarrow> (dt, s\<lparr>hw := h4\<rparr>) | Some d2 \<Rightarrow> (of_nat d2 - of_nat d, s\<lparr>hw := h4\<rparr>))) in
       (v1, IOWR_32DIRECT P REG_FILE_DTAPS_PER_PTAP 0 x s))"
    unfolding measure_dtaps_def h1(1)
    using h2(1) h3(1) h4(1) by (auto simp: IO_DQS_EN_DELAY_MAX_def Let_def split: option.split)
  obtain x h0 where "(case r of None \<Rightarrow> (dt, s\<lparr>hw := h3\<rparr>)
      | Some d1 \<Rightarrow> (case r' of None \<Rightarrow> (dt, s\<lparr>hw := h4\<rparr>) | Some d2 \<Rightarrow> (of_nat d2 - of_nat d, s\<lparr>hw := h4\<rparr>))) = (x, s\<lparr>hw := h0\<rparr>)" "I h0"
    using h3(2) h4(2) by (cases r; cases r') auto
  moreover from this obtain h5 where "IOWR_32DIRECT P REG_FILE_DTAPS_PER_PTAP 0 x (s\<lparr>hw := h0\<rparr>) = s\<lparr>hw := h5\<rparr>" "I h5"
    using safe_at [OF wr] by blast
  ultimately show ?thesis unfolding find by auto
qed

lemma spec_push_until_passing: "g < 4 \<Longrightarrow> spec I (push_until_passing P g n v) (\<lambda>ok. True)"
proof (induction n arbitrary: v)
  case 0
  then show ?case using spec_return [of "\<lambda>v'. True" False I] by (simp add: spec_def)
next
  case (Suc n)
  have "spec I (\<lambda>s. push_until_passing P g (Suc n) v s) (\<lambda>ok. True)"
    using Suc unfolding push_until_passing.simps
    by (intro safe_intros spec_return TrueI spec_weaken [OF spec_incr_vfifo] Suc.IH)
  then show ?case by simp
qed

lemma centre_window_keeps:
  assumes "g < 4" "p \<le> 7" "d \<le> 31" "312 \<le> unat b" "unat b \<le> 200000" "unat e \<le> 200000" "0 < d \<longrightarrow> 25 \<le> unat e" "I (hw s)"
  shows "\<exists>ok h. centre_window P g dt p d v b e s = (ok, s\<lparr>hw := h\<rparr>) \<and> I h"
proof -
  obtain d' e' h1 where h1: "edge_dtap P g [d..<32] e s = (d', e', s\<lparr>hw := h1\<rparr>)" "I h1" "d \<le> d'" "d' \<le> 32"
    "unat e' = unat e + 25 * (d' - d)"
    using edge_dtap_keeps [OF assms(1) _ _ assms(8), of d e] assms(3,6) by fastforce
  let ?e = "if d' \<noteq> 0 then e' - 25 else e'"
  have "0 < d' \<Longrightarrow> 25 \<le> unat e'" using h1(3,5) assms(7) by (cases "d' = d") auto
  then have "unat ?e \<le> unat e'" using unat_sub [of 25 e'] by (auto simp: word_le_nat_alt)
  then have e: "unat ?e \<le> 201000" using h1(4,5) assms(6) by simp
  show ?thesis
  proof (cases "b \<le> ?e")
    case False
    then show ?thesis using h1 by (auto simp: centre_window_def max_defs tap_defs Let_def)
  next
    case True
    obtain v' h2 where h2: "measure_dtaps P g p d' v dt (s\<lparr>hw := h1\<rparr>) = (v', s\<lparr>hw := h2\<rparr>)" "I h2"
      using measure_dtaps_keeps [OF assms(1,2), of "s\<lparr>hw := h1\<rparr>" d' v dt] h1(2) by auto
    obtain q c where q: "window_centre b ?e = (q, c)" by force
    have bounds: "2 \<le> q" "q \<le> 8" "c \<le> 13"
      using window_centre_bounds [OF _ _ q] e assms(4,5) by auto
    have "spec I (\<lambda>s. let s = scc_mgr_set_dqs_en_phase_all_ranks P g (of_nat q - 1) s;
        s = scc_mgr_set_dqs_en_delay_all_ranks P g (of_nat c) s in push_until_passing P g VFIFO_SIZE v' s) (\<lambda>ok. True)"
    proof (intro safe_intros spec_push_until_passing assms(1))
      show "of_nat q - 1 \<le> (7 :: u32)" using bounds small_of_nat(2) [of "q - 1"] by (simp add: of_nat_diff)
      show "of_nat c \<le> (31 :: u32)" using bounds by simp
    qed
    from specE [OF this, of "s\<lparr>hw := h2\<rparr>"] h2(2)
    obtain ok h3 where "(let s = scc_mgr_set_dqs_en_phase_all_ranks P g (of_nat q - 1) (s\<lparr>hw := h2\<rparr>);
        s = scc_mgr_set_dqs_en_delay_all_ranks P g (of_nat c) s in push_until_passing P g VFIFO_SIZE v' s) = (ok, s\<lparr>hw := h3\<rparr>)" "I h3"
      by auto
    then show ?thesis using True h1(1) h2(1) q by (auto simp: centre_window_def max_defs tap_defs Let_def)
  qed
qed

lemma go_forward_keeps:
  assumes "g < 4" "i < 16" "p \<le> 7" "312 \<le> unat b" "unat b \<le> 50000" "312 \<le> unat e" "unat e \<le> 50000" "I (hw s)"
  shows "\<exists>r v' h. go_forward P g i p v b e s = (r, v', s\<lparr>hw := h\<rparr>) \<and> I h \<and>
    (\<forall>p b' e'. r = Some (p, b', e') \<longrightarrow> 0 < p \<and> p \<le> 7 \<and> 312 \<le> unat b' \<and> unat b' \<le> 200000 \<and> 624 \<le> unat e' \<and> unat e' \<le> 200000)"
proof -
  have e: "unat (e + 312) = unat e + 312" using assms(7) by (simp add: unat_word_ariths)
  have "2496 * length [i..<17] \<le> 2496 * 17" by simp
  then have len: "unat (e + 312) + 2496 * length [i..<17] \<le> 200000" unfolding e using assms(7) by linarith
  have ev: "\<exists>r v' h'. end_vfifo P g [i..<17] q 0 v0 b (e + 312) (s\<lparr>hw := h\<rparr>) = (r, v', s\<lparr>hw := h'\<rparr>) \<and> I h' \<and>
    (\<forall>p b' e'. r = Some (p, b', e') \<longrightarrow> 0 < p \<and> p \<le> 7 \<and> 312 \<le> unat b' \<and> unat b' \<le> 200000 \<and> 624 \<le> unat e' \<and> unat e' \<le> 200000)"
    if "q \<le> 8" "I h" for q v0 h
    using end_vfifo_keeps [OF assms(1) that(1) assms(4) _ _ len, of "s\<lparr>hw := h\<rparr>" 0 v0] assms(5,6) e that(2) by simp
  show ?thesis
  proof (cases "p = 7")
    case True
    obtain h1 where "rw_mgr_incr_vfifo P g v s = (v + 1, s\<lparr>hw := h1\<rparr>)" "I h1" using incr_vfifo [OF assms(8)] by blast
    then show ?thesis using True ev [of 0 h1 "v + 1"] by (simp add: go_forward_def size_defs tap_defs)
  next
    case False
    then show ?thesis using ev [of "p + 1" "hw s" v] assms(3,8) by (simp add: go_forward_def size_defs tap_defs)
  qed
qed

lemma phase_window_keeps:
  assumes "g < 4" "i < 16" "0 < p" "p \<le> 7" "312 * p \<le> unat w" "unat w \<le> 50000" "I (hw s)"
  shows "\<exists>ok h. (let (p, v, b, s) = back_off P g p v w s in
      case go_forward P g i p v b w s of
        (None, v, s) \<Rightarrow> (False, s)
      | (Some (p, b, e), v, s) \<Rightarrow> let (p, v, e, s) = back_from_end P g p v e s in centre_window P g dt p 0 v b e s) =
      (ok, s\<lparr>hw := h\<rparr>) \<and> I h"
proof -
  obtain p1 v1 b1 h1 where h1: "back_off P g p v w s = (p1, v1, b1, s\<lparr>hw := h1\<rparr>)" "I h1" "p1 \<le> 7" "312 \<le> unat b1" "unat b1 \<le> unat w"
    using back_off_keeps [OF assms(1,3,4,5,6,7), of v] by blast
  obtain r v2 h2 where h2: "go_forward P g i p1 v1 b1 w (s\<lparr>hw := h1\<rparr>) = (r, v2, s\<lparr>hw := h2\<rparr>)" "I h2"
    "\<forall>p b e. r = Some (p, b, e) \<longrightarrow> 0 < p \<and> p \<le> 7 \<and> 312 \<le> unat b \<and> unat b \<le> 200000 \<and> 624 \<le> unat e \<and> unat e \<le> 200000"
    using go_forward_keeps [OF assms(1,2) h1(3,4), of w "s\<lparr>hw := h1\<rparr>" v1] h1 assms(6) by auto
  show ?thesis
  proof (cases r)
    case None
    then show ?thesis using h1(1) h2 by auto
  next
    case (Some x)
    then obtain p2 b2 e2 where r: "r = Some (p2, b2, e2)" by (cases x) auto
    then obtain p3 v3 e3 h3 where h3: "back_from_end P g p2 v2 e2 (s\<lparr>hw := h2\<rparr>) = (p3, v3, e3, s\<lparr>hw := h3\<rparr>)" "I h3" "p3 \<le> 7" "unat e3 \<le> 200000"
      using back_from_end_keeps [OF assms(1), of p2 e2 "s\<lparr>hw := h2\<rparr>" v2] h2(2,3) by auto
    obtain ok h4 where "centre_window P g dt p3 0 v3 b2 e3 (s\<lparr>hw := h3\<rparr>) = (ok, s\<lparr>hw := h4\<rparr>)" "I h4"
      using centre_window_keeps [OF assms(1) h3(3), of 0 b2 e3 "s\<lparr>hw := h3\<rparr>" dt v3] h2(3) h3 r by auto
    then show ?thesis using h1(1) h2(1) h3(1) r by auto
  qed
qed

lemma spec_find_dqs_en_phase [safe_intros]:
  assumes g: "g < 4"
  shows "spec I (rw_mgr_mem_calibrate_vfifo_find_dqs_en_phase P g) (\<lambda>ok. True)"
  unfolding spec_def
proof (intro allI impI)
  fix s :: "'h seq" assume s: "I (hw s)"
  let ?start = "\<lambda>s. let s = reg_file_set_sub_stage P CAL_SUBSTAGE_VFIFO_CENTER s;
      s = scc_mgr_set_dqs_en_delay_all_ranks P g 0 s;
      s = scc_mgr_set_dqs_en_phase_all_ranks P g 1 s in push_until_failing P g VFIFO_SIZE 0 0 s"
  have "spec I ?start (\<lambda>v. True)" using g by (intro safe_intros spec_push_until_failing) auto
  then obtain v h1 where h1: "?start s = (v, s\<lparr>hw := h1\<rparr>)" "I h1" using s by (rule specE)
  obtain r v1 h2 where h2: "first_dtap P g [0..<13] 0 v (s\<lparr>hw := h1\<rparr>) = (r, v1, s\<lparr>hw := h2\<rparr>)" "I h2"
    "\<forall>d i p w. r = Some (d, i, p, w) \<longrightarrow> d \<le> 12 \<and> i < 16 \<and> 0 < p \<and> p \<le> 7 \<and> 312 * p \<le> unat w \<and> unat w \<le> 50000"
    using first_dtap_keeps [OF g, of "[0..<13]" 0 "s\<lparr>hw := h1\<rparr>" v] h1(2) by (auto simp: subset_iff)
  have search: "rw_mgr_mem_calibrate_vfifo_find_dqs_en_phase P g s =
     (if v \<ge> of_nat VFIFO_SIZE then (False, s\<lparr>hw := h1\<rparr>)
      else case r of None \<Rightarrow> (False, s\<lparr>hw := h2\<rparr>)
      | Some (d, i, p, w) \<Rightarrow>
          if d = 0 then
            let (p, v, b, s) = back_off P g p v1 w (s\<lparr>hw := h2\<rparr>) in
            case go_forward P g i p v b w s of
              (None, v, s) \<Rightarrow> (False, s)
            | (Some (p, b, e), v, s) \<Rightarrow> let (p, v, e, s) = back_from_end P g p v e s in centre_window P g 12 p 0 v b e s
          else centre_window P g 12 p d v1 w w (s\<lparr>hw := h2\<rparr>))"
    using h1(1) h2(1) unfolding rw_mgr_mem_calibrate_vfifo_find_dqs_en_phase_def
    by (simp add: dqs_en_taps Let_def split: option.split)
  show "\<exists>a h. rw_mgr_mem_calibrate_vfifo_find_dqs_en_phase P g s = (a, s\<lparr>hw := h\<rparr>) \<and> I h \<and> True"
  proof (cases r)
    case None
    then show ?thesis using h1(2) h2(2) unfolding search by auto
  next
    case (Some x)
    then obtain d i p w where r: "r = Some (d, i, p, w)" by (cases x) auto
    then have w: "d \<le> 12" "i < 16" "0 < p" "p \<le> 7" "312 * p \<le> unat w" "unat w \<le> 50000" using h2(3) by auto
    then have "312 \<le> unat w" by (cases p) auto
    then have narrow: "\<exists>ok h. centre_window P g 12 p d v1 w w (s\<lparr>hw := h2\<rparr>) = (ok, s\<lparr>hw := h\<rparr>) \<and> I h"
      using centre_window_keeps [OF g w(4), of d w w "s\<lparr>hw := h2\<rparr>" 12 v1] w h2(2) by simp
    show ?thesis
      using h1(2) narrow phase_window_keeps [OF g w(2-6), of "s\<lparr>hw := h2\<rparr>" v1 12] h2(2) unfolding search r
      by (cases "v \<ge> of_nat VFIFO_SIZE"; cases "d = 0") auto
  qed
qed

lemma spec_sweep [safe_intros]:
  assumes "g < 4"
  shows "spec I (rw_mgr_mem_calibrate_vfifo_find_dqs_en_phase_sweep_dq_in_delay P wg g 0) (\<lambda>ok. True)"
proof -
  have spread: "safe I (for_each ranks (\<lambda>r. perform [select_shadow_regs_for_update (of_nat r) wg 1,
      for_each [0..<RW_MGR_MEM_DQ_PER_READ_DQS] (\<lambda>i. perform [scc_mgr_set_dq_in_delay P wg (0 + of_nat i) (of_nat (delay i)),
        scc_mgr_load_dq P (0 + of_nat i)]), IOWR_32DIRECT P SCC_MGR_UPD 0 0]))" if "\<And>i. i < 8 \<Longrightarrow> delay i < 32" for delay
    unfolding add_0 using that by (intro safe_intros in_range_intros) (auto simp: size_defs)
  show ?thesis
    unfolding rw_mgr_mem_calibrate_vfifo_find_dqs_en_phase_sweep_dq_in_delay_def
    using assms by (intro safe_intros spread spec_return) (auto simp: size_defs max_defs)
qed

end

end
