(* ===== verification/Seq_Returns.thy ===== *)
theory Seq_Returns
  imports Seq_Window
begin

text \<open>
  Functions of the firmware that may not return or that record a failure: what it means that they
  return, keep the invariant of the hardware and keep the first failure that is recorded, with the
  rules for composing them.
\<close>

section \<open>Loops and signed numbers\<close>

lemma while_option_total:
  assumes "\<And>x. Q x \<Longrightarrow> b x \<Longrightarrow> Q (c x) \<and> f (c x) < (f x :: nat)" "Q x"
  shows "\<exists>y. while_option b c x = Some y \<and> Q y"
proof -
  obtain y where y: "while_option b c x = Some y"
    using measure_while_option_Some [of Q b c f x] assms by blast
  then have "Q y" using while_option_rule [of Q b c x y] assms by blast
  then show ?thesis using y by blast
qed

lemma word_in_range:
  fixes x :: u32
  assumes "0 \<le> sint x" "sint x \<le> 31"
  shows "x \<le> 31"
proof -
  have "uint x = take_bit 32 (sint x)" using uint_sint [of x] by simp
  then have "uint x = sint x" using assms by (simp add: take_bit_int_eq_self)
  then show ?thesis using assms by (simp add: word_le_def)
qed

lemma sint_small:
  fixes x :: u32
  assumes "x \<le> 32"
  shows "sint x = uint x"
proof -
  have "0 \<le> uint x" "uint x \<le> 32" using assms by (simp_all add: word_le_def)
  then have "signed_take_bit 31 (uint x) = uint x"
    by (intro signed_take_bit_int_eq_self) (rule order_trans [of _ 0], simp_all)
  then show ?thesis by (simp add: sint_uint)
qed

lemma limit_dqs_in_range: "limit_dqs x \<le> 31"
  by (auto simp: limit_dqs_def max_defs not_less intro: word_in_range)

text \<open>The shift that the limits of a delay allow.\<close>

lemma limited_shift:
  assumes "x \<le> 31"
  shows "x + (if sint (shift + x) > sint (31 :: u32) then 31 - x else if sint (shift + x) < 0 then - x else shift) \<le> (31 :: u32)"
  by (auto simp: add.commute not_less intro: word_in_range)

lemma spec2_fold:
  assumes "\<And>x a b. x \<in> set xs \<Longrightarrow> spec2 I (\<lambda>s. f x (a, b, s))"
  shows "spec2 I (\<lambda>s. fold f xs (a, b, s))"
  using assms
proof (induction xs arbitrary: a b)
  case Nil
  show ?case using spec2_return [of I "\<lambda>s. a" b] by simp
next
  case (Cons x xs)
  have "spec2 I (\<lambda>s. let (a, b, s) = f x (a, b, s) in fold f xs (a, b, s))"
    by (rule spec2_bind) (use Cons in auto)
  then show ?case by simp
qed

lemma inc_delay:
  assumes "d \<le> 31 - start" "start \<le> (31 :: u32)"
  shows "unat (d + 1) = Suc (unat d)" "unat d \<le> 31" "d + start \<le> 31"
proof -
  have start: "unat start \<le> 31" "unat (31 - start) = 31 - unat start"
    using assms(2) unat_sub [of start 31] by (simp_all add: word_le_nat_alt)
  then have d: "unat d \<le> 31 - unat start" using assms(1) by (simp add: word_le_nat_alt)
  then show "unat (d + 1) = Suc (unat d)" "unat d \<le> 31" by (simp_all add: unat_word_ariths)
  have "unat (d + start) = unat d + unat start" using d start by (simp add: unat_word_ariths)
  then show "d + start \<le> 31" using d start by (simp add: word_le_nat_alt)
qed

text \<open>
  A search by delays from \<open>start\<close> up to 31 that counts on or stops with every step ends.
\<close>

lemma delay_loop:
  fixes start :: u32
  assumes start: "start \<le> 31"
    and step: "\<And>d y. d + start \<le> 31 \<Longrightarrow> d \<le> 31 \<Longrightarrow> K y \<Longrightarrow>
      \<exists>y'. K y' \<and> (body (d, False, y) = (d, True, y') \<or> body (d, False, y) = (d + 1, False, y'))"
    and cond: "\<And>d stop y. d \<le> 32 \<Longrightarrow> cond (d, stop, y) \<longleftrightarrow> \<not> stop \<and> d \<le> 31 - start"
    and y: "K y"
  shows "\<exists>d stop y'. while_option cond body (0, False, y) = Some (d, stop, y') \<and> K y'"
proof -
  let ?Q = "\<lambda>(d, stop, y). d \<le> 32 \<and> K y"
  let ?f = "\<lambda>(d :: u32, stop, y). 33 - unat d + (if stop then 0 else 1)"
  have "?Q (body x) \<and> ?f (body x) < ?f x" if Q: "?Q x" and c: "cond x" for x
  proof -
    obtain d y where x: "x = (d, False, y)" "d \<le> 31 - start" "K y"
      using Q c cond by (cases x) auto
    note d = inc_delay [OF x(2) start]
    have "d \<le> 31" using d(2) by (simp add: word_le_nat_alt)
    then show ?thesis using step [OF d(3) _ x(3)] d(1,2) unfolding x(1) by (auto simp: word_le_nat_alt)
  qed
  from while_option_total [of ?Q cond body ?f, OF this, of "(0, False, y)"]
  show ?thesis using y by fastforce
qed

text \<open>Small signed numbers.\<close>

lemma sint_of_small: "-64 \<le> k \<Longrightarrow> k \<le> 64 \<Longrightarrow> sint (word_of_int k :: u32) = k"
  by (simp add: signed_of_int signed_take_bit_int_eq_self)

section \<open>Functions that may record a failure\<close>

text \<open>The failure that a state records, and the stages that may record one.\<close>

definition failure :: "gbl_t \<Rightarrow> u32 \<times> u32 \<times> u32" where
  "failure g = (error_stage g, error_substage g, error_group g)"

definition failing_stages :: "u32 set" where
  "failing_stages = {CAL_STAGE_VFIFO, CAL_STAGE_WRITES, CAL_STAGE_VFIFO_AFTER_WRITES, CAL_STAGE_LFIFO}"

lemmas stage_defs = CAL_STAGE_NIL_def CAL_STAGE_VFIFO_def CAL_STAGE_WRITES_def CAL_STAGE_VFIFO_AFTER_WRITES_def CAL_STAGE_LFIFO_def

text \<open>Calibration keeps its parameters and the first failure that it records.\<close>

definition progress :: "'h seq \<Rightarrow> 'h seq \<Rightarrow> bool" where
  "progress s s' \<longleftrightarrow> param s' = param s \<and> dyn_calib_steps s' = dyn_calib_steps s \<and> skip_delay_mask s' = skip_delay_mask s \<and>
     phy_debug_mode_flags (gbl s') = phy_debug_mode_flags (gbl s) \<and>
     (if error_stage (gbl s) = CAL_STAGE_NIL then error_stage (gbl s') \<in> insert CAL_STAGE_NIL failing_stages
      else failure (gbl s') = failure (gbl s))"

lemma progress_refl: "progress s s"
  by (simp add: progress_def)

lemma progress_hw [simp]: "progress s (s\<lparr>hw := h\<rparr>)" "progress (s\<lparr>hw := h\<rparr>) s' \<longleftrightarrow> progress s s'"
  by (simp_all add: progress_def)

lemma progress_trans: "progress s s1 \<Longrightarrow> progress s1 s2 \<Longrightarrow> progress s s2"
  by (auto simp: progress_def failure_def split: if_splits)

lemma progress_fail: "stage \<in> failing_stages \<Longrightarrow> progress s (set_failing_group_stage grp stage substage s)"
  by (simp add: progress_def set_failing_group_stage_def)

lemma set_failing_records: "stage \<in> failing_stages \<Longrightarrow> error_stage (gbl (set_failing_group_stage grp stage substage s)) \<noteq> CAL_STAGE_NIL"
  by (auto simp: set_failing_group_stage_def failing_stages_def stage_defs)

lemma hw_set_failing [simp]: "hw (set_failing_group_stage grp stage substage s) = hw s"
  by (simp add: set_failing_group_stage_def)

text \<open>A function that returns, from a condition on the global variables to one on its result and them.\<close>

definition returns ::
  "('h \<Rightarrow> bool) \<Rightarrow> (gbl_t \<Rightarrow> bool) \<Rightarrow> ('h seq \<Rightarrow> ('a \<times> 'h seq) option) \<Rightarrow> ('a \<Rightarrow> gbl_t \<Rightarrow> bool) \<Rightarrow> bool" where
  "returns I Q f R \<longleftrightarrow>
     (\<forall>s. I (hw s) \<longrightarrow> Q (gbl s) \<longrightarrow> (\<exists>a s'. f s = Some (a, s') \<and> I (hw s') \<and> progress s s' \<and> R a (gbl s')))"

definition returns2 ::
  "('h \<Rightarrow> bool) \<Rightarrow> (gbl_t \<Rightarrow> bool) \<Rightarrow> ('h seq \<Rightarrow> ('a \<times> 'b \<times> 'h seq) option) \<Rightarrow> ('a \<Rightarrow> 'b \<Rightarrow> gbl_t \<Rightarrow> bool) \<Rightarrow> bool" where
  "returns2 I Q f R \<longleftrightarrow> returns I Q (\<lambda>s. map_option (\<lambda>(a, b, s). ((a, b), s)) (f s)) (\<lambda>(a, b). R a b)"

named_theorems returns_intros \<open>functions that return\<close>

lemma returnsE:
  assumes "returns I Q f R" "I (hw s)" "Q (gbl s)"
  obtains a s' where "f s = Some (a, s')" "I (hw s')" "progress s s'" "R a (gbl s')"
  using assms unfolding returns_def by blast

lemma returns_weaken:
  assumes "returns I Q f R" "\<And>g. Q' g \<Longrightarrow> Q g" "\<And>a g. R a g \<Longrightarrow> R' a g"
  shows "returns I Q' f R'"
  using assms unfolding returns_def by blast

lemma returns_Some [returns_intros]: "(\<And>g. Q g \<Longrightarrow> R a g) \<Longrightarrow> returns I Q (\<lambda>s. Some (a, s)) R"
  unfolding returns_def by (simp add: progress_refl)

lemma returns_fail:
  assumes "stage \<in> failing_stages" "\<And>g. error_stage g \<noteq> CAL_STAGE_NIL \<Longrightarrow> R a g"
  shows "returns I Q (\<lambda>s. Some (a, set_failing_group_stage grp stage substage s)) R"
  by (auto simp: returns_def intro!: progress_fail [OF assms(1)] assms(2) set_failing_records [OF assms(1)])

lemma returns_after [returns_intros]:
  assumes f: "safe I f" and g: "returns I Q g R"
  shows "returns I Q (\<lambda>s. let s = f s in g s) R"
  unfolding returns_def
proof (intro allI impI)
  fix s :: "'a seq" assume "I (hw s)" "Q (gbl s)"
  then obtain h where h: "f s = s\<lparr>hw := h\<rparr>" "I h" using safeE [OF f] by blast
  then show "\<exists>a s'. (let s = f s in g s) = Some (a, s') \<and> I (hw s') \<and> progress s s' \<and> R a (gbl s')"
    using returnsE [OF g, of "s\<lparr>hw := h\<rparr>"] \<open>Q (gbl s)\<close> by fastforce
qed

lemma returns_spec:
  assumes f: "spec I f S" and g: "\<And>a. S a \<Longrightarrow> returns I Q (g a) R"
  shows "returns I Q (\<lambda>s. let (a, s) = f s in g a s) R"
  unfolding returns_def
proof (intro allI impI)
  fix s :: "'a seq" assume "I (hw s)" "Q (gbl s)"
  then obtain a h where h: "f s = (a, s\<lparr>hw := h\<rparr>)" "I h" "S a" using specE [OF f] by blast
  then show "\<exists>a s'. (let (a, s) = f s in g a s) = Some (a, s') \<and> I (hw s') \<and> progress s s' \<and> R a (gbl s')"
    using returnsE [OF g, of a "s\<lparr>hw := h\<rparr>"] \<open>Q (gbl s)\<close> by fastforce
qed

lemma returns_bind:
  assumes f: "returns I Q f S" and g: "\<And>a. returns I (S a) (g a) R"
  shows "returns I Q (\<lambda>s. do { (a, s) \<leftarrow> f s; g a s }) R"
  unfolding returns_def
proof (intro allI impI)
  fix s :: "'a seq" assume "I (hw s)" "Q (gbl s)"
  then obtain a s1 where f1: "f s = Some (a, s1)" "I (hw s1)" "progress s s1" "S a (gbl s1)" by (rule returnsE [OF f])
  obtain b s2 where "g a s1 = Some (b, s2)" "I (hw s2)" "progress s1 s2" "R b (gbl s2)"
    using f1(2,4) by (rule returnsE [OF g])
  then show "\<exists>a s'. do { (a, s) \<leftarrow> f s; g a s } = Some (a, s') \<and> I (hw s') \<and> progress s s' \<and> R a (gbl s')"
    using f1 progress_trans [OF f1(3)] by auto
qed

lemma returns_spec2 [returns_intros]:
  assumes f: "spec2 I f" and g: "\<And>a b. returns I Q (g a b) R"
  shows "returns I Q (\<lambda>s. let (a, b, s) = f s in g a b s) R"
  using returns_spec [OF f [unfolded spec2_def], of Q "\<lambda>x. g (fst x) (snd x)" R] g by (simp add: Let_def split_beta)

text \<open>A change of the global variables that keeps the recorded failure.\<close>

lemma returns_gbl:
  assumes u: "\<And>g. phy_debug_mode_flags (u g) = phy_debug_mode_flags g \<and> failure (u g) = failure g \<and> (Q g \<longrightarrow> Q' (u g))"
    and f: "returns I Q' f R"
  shows "returns I Q (\<lambda>s. let s = s\<lparr>gbl := u (gbl s)\<rparr> in f s) R"
  unfolding returns_def
proof (intro allI impI)
  fix s :: "'a seq" assume s: "I (hw s)" "Q (gbl s)"
  have "error_stage (u (gbl s)) = error_stage (gbl s)" using u [of "gbl s"] by (simp add: failure_def)
  then have "progress s (s\<lparr>gbl := u (gbl s)\<rparr>)" using u [of "gbl s"] by (simp add: progress_def)
  moreover obtain a s' where "f (s\<lparr>gbl := u (gbl s)\<rparr>) = Some (a, s')" "I (hw s')" "progress (s\<lparr>gbl := u (gbl s)\<rparr>) s'" "R a (gbl s')"
    using returnsE [OF f, of "s\<lparr>gbl := u (gbl s)\<rparr>"] s u [of "gbl s"] by auto
  ultimately show "\<exists>a s'. (let s = s\<lparr>gbl := u (gbl s)\<rparr> in f s) = Some (a, s') \<and> I (hw s') \<and> progress s s' \<and> R a (gbl s')"
    using progress_trans by fastforce
qed

text \<open>A function that changes the hardware only, but may not return; its result is known to what follows.\<close>

lemma returns_then:
  assumes f: "\<And>s. I (hw s) \<Longrightarrow> \<exists>a h. f s = Some (a, s\<lparr>hw := h\<rparr>) \<and> I h \<and> K a" and g: "\<And>a. K a \<Longrightarrow> returns I Q (g a) R"
  shows "returns I Q (\<lambda>s. do { (a, s) \<leftarrow> f s; g a s }) R"
  unfolding returns_def
proof (intro allI impI)
  fix s :: "'a seq" assume "I (hw s)" "Q (gbl s)"
  then obtain a h where a: "f s = Some (a, s\<lparr>hw := h\<rparr>)" "I h" "K a" using f by blast
  then show "\<exists>a s'. do { (a, s) \<leftarrow> f s; g a s } = Some (a, s') \<and> I (hw s') \<and> progress s s' \<and> R a (gbl s')"
    using returnsE [OF g [OF a(3)], of "s\<lparr>hw := h\<rparr>"] \<open>Q (gbl s)\<close> by fastforce
qed

lemma returns_if [returns_intros]:
  "(b \<Longrightarrow> returns I Q f R) \<Longrightarrow> (\<not> b \<Longrightarrow> returns I Q g R) \<Longrightarrow> returns I Q (\<lambda>s. if b then f s else g s) R"
  by (cases b) simp_all

lemma returns_cond:
  "returns I Q f R \<Longrightarrow> returns I Q g R \<Longrightarrow> returns I Q (\<lambda>s. if b s then f s else g s) R"
  unfolding returns_def by auto

lemma returns_option:
  "(x = None \<Longrightarrow> returns I Q f R) \<Longrightarrow> (\<And>i. x = Some i \<Longrightarrow> returns I Q (g i) R) \<Longrightarrow>
    returns I Q (\<lambda>s. case x of None \<Rightarrow> f s | Some i \<Rightarrow> g i s) R"
  by (cases x) simp_all

text \<open>The end of a stage, which records its failure.\<close>

lemma returns_stage:
  assumes "stage \<in> failing_stages" "\<And>g. Q g \<Longrightarrow> R True g" "\<And>g. error_stage g \<noteq> CAL_STAGE_NIL \<Longrightarrow> R False g"
  shows "returns I Q (\<lambda>s. Some (if ok then (True, s) else (False, set_failing_group_stage grp stage substage s))) R"
  using returns_Some [of Q R True, OF assms(2)] returns_fail [of stage R False, OF assms(1,3)] by (cases ok) simp_all

lemma returns_let [returns_intros]: "returns I Q (g x) R \<Longrightarrow> returns I Q (\<lambda>s. let y = x in g y s) R"
  by simp

section \<open>Rules for results\<close>

lemma returns_pair: "(\<And>a b. x = (a, b) \<Longrightarrow> returns I Q (g a b) R) \<Longrightarrow> returns I Q ((\<lambda>(a, b). g a b) x) R"
  by (cases x) simp

lemma returns_outcome:
  "(x = Return_0 \<Longrightarrow> returns I Q f R) \<Longrightarrow> (\<And>a. x = Continue a \<Longrightarrow> returns I Q (g a) R) \<Longrightarrow>
    returns I Q (\<lambda>s. case x of Return_0 \<Rightarrow> f s | Continue a \<Rightarrow> g a s) R"
  by (cases x) simp_all

lemma returns_arg: "(\<And>x. returns I Q (f x) R) \<Longrightarrow> returns I Q (\<lambda>s. f (k s) s) R"
  unfolding returns_def by blast

text \<open>What is recorded stays recorded.\<close>

definition recorded :: "bool \<Rightarrow> gbl_t \<Rightarrow> bool" where
  "recorded failed g \<longleftrightarrow> (failed \<longrightarrow> error_stage g \<noteq> CAL_STAGE_NIL)"

lemma recorded_simps [simp]: "recorded False g"
  by (simp add: recorded_def)

lemma returns_keep:
  assumes "returns I (\<lambda>g. True) f R"
  shows "returns I (recorded b) f (\<lambda>a g. R a g \<and> recorded b g)"
  unfolding returns_def
proof (intro allI impI)
  fix s :: "'a seq" assume s: "I (hw s)" "recorded b (gbl s)"
  then obtain a s' where a: "f s = Some (a, s')" "I (hw s')" "progress s s'" "R a (gbl s')" using returnsE [OF assms] by blast
  then have "recorded b (gbl s')" using s(2) by (auto simp: recorded_def progress_def failure_def split: if_splits)
  then show "\<exists>a s'. f s = Some (a, s') \<and> I (hw s') \<and> progress s s' \<and> R a (gbl s') \<and> recorded b (gbl s')" using a by blast
qed

text \<open>A function that always returns.\<close>

lemma returns_total:
  assumes f: "returns I Q (\<lambda>s. Some (f s)) S" and g: "\<And>a. returns I (S a) (g a) R"
  shows "returns I Q (\<lambda>s. let (a, s) = f s in g a s) R"
  using returns_bind [OF f g] by (simp add: Let_def)

lemma returns_when:
  "(\<And>s. b s \<Longrightarrow> returns I Q f R) \<Longrightarrow> returns I Q g R \<Longrightarrow> returns I Q (\<lambda>s. if b s then f s else g s) R"
  unfolding returns_def by auto

end
