(* ===== verification/Seq_Deskew.thy ===== *)
theory Seq_Deskew
  imports Seq_Returns
begin

text \<open>
  The deskew of reads and writes returns, sets only delays that their chains have, and records a
  failure.
\<close>

text \<open>The state in a search for edges.\<close>

definition searching :: "('h \<Rightarrow> bool) \<Rightarrow> 'h seq \<Rightarrow> edges \<Rightarrow> u32 \<times> edges \<times> 'h seq \<Rightarrow> bool" where
  "searching I s es = (\<lambda>(sticky, es', t). (\<exists>h. t = s\<lparr>hw := h\<rparr> \<and> I h) \<and> length es' = length es)"

text \<open>The ends of a window of DM: delays of DM count as negative, and 32 is none.\<close>

definition dm_small :: "u32 \<Rightarrow> bool" where
  "dm_small x \<longleftrightarrow> (\<exists>k. -31 \<le> k \<and> k \<le> 32 \<and> x = word_of_int k)"

definition dm_window_ok :: "dm_window \<Rightarrow> bool" where
  "dm_window_ok w \<longleftrightarrow> dm_small (bgn_curr w) \<and> dm_small (end_curr w) \<and> dm_small (bgn_best w) \<and> dm_small (end_best w)"

lemma dm_small_delay:
  assumes "n < 32"
  shows "dm_small (of_nat n)" "dm_small (- of_nat n)"
  using assms unfolding dm_small_def
  by (auto intro: exI [of _ "int n"] exI [of _ "- int n"])

lemma dm_small_illegal [simp]: "dm_small out_illegal"
  unfolding dm_small_def max_defs by (auto intro: exI [of _ 32])

lemma dm_window_steps:
  assumes "dm_window_ok w"
  shows "dm_small x \<Longrightarrow> dm_window_ok (dm_pass x w)" "dm_window_ok (dm_fail w)"
  using assms by (auto simp: dm_window_ok_def dm_pass_def dm_fail_def Let_def)

lemma dm_middle:
  assumes "dm_window_ok w"
  defines "mid \<equiv> signed_div (- 1 * bgn_best w - end_best w) 2"
  shows "(if sint mid < 0 then 0 else mid) \<le> 31"
proof -
  obtain j k where jk: "-31 \<le> j" "j \<le> 32" "-31 \<le> k" "k \<le> 32" "bgn_best w = word_of_int j" "end_best w = word_of_int k"
    using assms(1) by (auto simp: dm_window_ok_def dm_small_def)
  have "- 1 * bgn_best w - end_best w = word_of_int (- j - k)" using jk by simp
  then have "mid = word_of_int ((- j - k) sdiv 2)"
    using jk sint_of_small [of "- j - k"] by (simp add: mid_def signed_div_def)
  moreover have "-32 \<le> (- j - k) sdiv 2" "(- j - k) sdiv 2 \<le> 31"
    using jk by (simp_all add: signed_divide_int_def sgn_if) linarith+
  ultimately show ?thesis using sint_of_small [of "(- j - k) sdiv 2"] by (auto intro!: word_in_range)
qed

context delay_contract
begin

section \<open>Limits\<close>

lemma read_setting:
  assumes "setting_max (base + off) = Some 31" "I h"
  shows "\<exists>h'. IORD_32DIRECT P base off (s\<lparr>hw := h\<rparr>) = (fst (bus_read P (base + off) h), s\<lparr>hw := h'\<rparr>) \<and> I h' \<and>
    fst (bus_read P (base + off) h') = fst (bus_read P (base + off) h) \<and> fst (bus_read P (base + off) h) \<le> 31"
proof -
  let ?r = "bus_read P (base + off) h"
  have "I (snd ?r)" "fst ?r \<le> 31" "fst (bus_read P (base + off) (snd ?r)) = fst ?r"
    using regs assms unfolding delay_registers_def in_range_def by auto
  moreover have "IORD_32DIRECT P base off (s\<lparr>hw := h\<rparr>) = (fst ?r, s\<lparr>hw := snd ?r\<rparr>)"
    by (simp add: IORD_32DIRECT_def bus_read_def split: prod.split)
  ultimately show ?thesis by blast
qed

lemma limit_shift_keeps:
  assumes "setting_max (base + off) = Some 31" "I h" "\<And>s. rd p s = IORD_32DIRECT P base off s"
  shows "\<exists>sh h'. limit_shift rd p p 31 shift (s\<lparr>hw := h\<rparr>) = (sh, s\<lparr>hw := h'\<rparr>) \<and> I h' \<and> fst (bus_read P (base + off) h') + sh \<le> 31"
proof -
  let ?x = "fst (bus_read P (base + off) h)"
  obtain h1 where h1: "IORD_32DIRECT P base off (s\<lparr>hw := h\<rparr>) = (?x, s\<lparr>hw := h1\<rparr>)" "I h1" "fst (bus_read P (base + off) h1) = ?x" "?x \<le> 31"
    using read_setting [OF assms(1,2)] by blast
  obtain h2 where h2: "IORD_32DIRECT P base off (s\<lparr>hw := h1\<rparr>) = (?x, s\<lparr>hw := h2\<rparr>)" "I h2" "fst (bus_read P (base + off) h2) = ?x"
    using read_setting [OF assms(1) h1(2)] h1(3) by auto
  obtain h3 where h3: "IORD_32DIRECT P base off (s\<lparr>hw := h2\<rparr>) = (?x, s\<lparr>hw := h3\<rparr>)" "I h3" "fst (bus_read P (base + off) h3) = ?x"
    using read_setting [OF assms(1) h2(2)] h2(3) by auto
  show ?thesis
    using h1 h2 h3 limited_shift [OF h1(4), of shift] unfolding limit_shift_def assms(3)
    by (auto split: if_splits)
qed

text \<open>A pin with its limited shift.\<close>

lemma spec_centred_pin:
  assumes "setting_max (base + off) = Some 31" "\<And>s. rd p s = IORD_32DIRECT P base off s"
    and "\<And>d s. set_delay p d s = IOWR_32DIRECT P base off d s"
  shows "spec I (\<lambda>s. let (sh, s) = limit_shift rd p p 31 shift s; (x, s) = rd p s; s = set_delay p (x + sh) s; s = scc_mgr_load_dq P p s in
    (sh, s)) (\<lambda>sh. True)"
  unfolding spec_def
proof (intro allI impI)
  fix s :: "'h seq" assume "I (hw s)"
  obtain sh h1 where h1: "limit_shift rd p p 31 shift s = (sh, s\<lparr>hw := h1\<rparr>)" "I h1" "fst (bus_read P (base + off) h1) + sh \<le> 31"
    using limit_shift_keeps [where rd = rd and p = p and s = s and shift = shift, OF assms(1) \<open>I (hw s)\<close> assms(2)] by auto
  obtain h2 where h2: "rd p (s\<lparr>hw := h1\<rparr>) = (fst (bus_read P (base + off) h1), s\<lparr>hw := h2\<rparr>)" "I h2"
    using read_setting [OF assms(1) h1(2)] unfolding assms(2) by blast
  have "safe I (IOWR_32DIRECT P base off (fst (bus_read P (base + off) h1) + sh))"
    using assms(1) h1(3) by (intro safe_intros in_range_max)
  then obtain h3 where h3: "set_delay p (fst (bus_read P (base + off) h1) + sh) (s\<lparr>hw := h2\<rparr>) = s\<lparr>hw := h3\<rparr>" "I h3"
    using h2(2) unfolding assms(3) by (rule safe_at)
  obtain h4 where "scc_mgr_load_dq P p (s\<lparr>hw := h3\<rparr>) = s\<lparr>hw := h4\<rparr>" "I h4" using safe_load(3) h3(2) by (rule safe_at)
  then show "\<exists>a h. (let (sh, s) = limit_shift rd p p 31 shift s; (x, s) = rd p s; s = set_delay p (x + sh) s; s = scc_mgr_load_dq P p s in
      (sh, s)) = (a, s\<lparr>hw := h\<rparr>) \<and> I h \<and> True"
    using h1(1) h2(1) h3(1) by auto
qed

lemma spec2_centre_read_pins: "spec2 I (centre_read_pins P wg 0 es k orig m)"
proof -
  let ?set = "\<lambda>p. scc_mgr_set_dq_in_delay P wg p"
  let ?pin = "\<lambda>i shift s. let (sh, s) = limit_shift (READ_SCC_DQ_IN_DELAY P) (of_nat i) (of_nat i) 31 shift s;
    (x, s) = READ_SCC_DQ_IN_DELAY P (of_nat i) s; s = ?set (of_nat i) (x + sh) s; s = scc_mgr_load_dq P (of_nat i) s in (sh, s)"
  have pin: "spec I (?pin i shift) (\<lambda>sh. True)" if "i < 8" for i shift
    using that by (intro spec_centred_pin [of SCC_MGR_IO_IN_DELAY "push_bit 2 (of_nat i)"])
      (simp_all add: READ_SCC_DQ_IN_DELAY_def scc_mgr_set_dq_in_delay_def WRITE_SCC_DQ_IN_DELAY_def)
  have "spec2 I (\<lambda>s. let (sh, s) = ?pin i shift s in (u sh, v sh, s))" if "i < 8" for i shift and u v :: "u32 \<Rightarrow> u32"
    by (intro spec2_lets pin that spec2_return)
  then show ?thesis
    unfolding centre_read_pins_def
    by (intro spec2_fold) (simp add: Let_def split_beta size_defs max_defs)
qed

lemma spec2_centre_write_pins: "spec2 I (centre_write_pins P wg es k orig m)"
proof -
  let ?set = "\<lambda>p. scc_mgr_set_dq_out1_delay P wg p"
  let ?pin = "\<lambda>i shift s. let (sh, s) = limit_shift (READ_SCC_DQ_OUT1_DELAY P) (of_nat i) (of_nat i) 31 shift s;
    (x, s) = READ_SCC_DQ_OUT1_DELAY P (of_nat i) s; s = ?set (of_nat i) (x + sh) s; s = scc_mgr_load_dq P (of_nat i) s in (sh, s)"
  have pin: "spec I (?pin i shift) (\<lambda>sh. True)" if "i < 8" for i shift
    using that by (intro spec_centred_pin [of SCC_MGR_IO_OUT1_DELAY "push_bit 2 (of_nat i)"])
      (simp_all add: READ_SCC_DQ_OUT1_DELAY_def scc_mgr_set_dq_out1_delay_def WRITE_SCC_DQ_OUT1_DELAY_def)
  have "spec2 I (\<lambda>s. let (sh, s) = ?pin i shift s in (u sh, v sh, s))" if "i < 8" for i shift and u v :: "u32 \<Rightarrow> u32"
    by (intro spec2_lets pin that spec2_return)
  then show ?thesis
    unfolding centre_write_pins_def
    by (intro spec2_fold) (simp add: Let_def split_beta size_defs max_defs)
qed

section \<open>Reads\<close>

lemma spec2_centre_test [safe_intros]:
  assumes "wg < 4" "rg < 4"
  shows "spec2 I (centre_test P r wg rg b)"
proof (cases b)
  case True
  have "spec2 I (\<lambda>s. let (ok, bit_chk, s) = rw_mgr_mem_calibrate_read_test P r rg PASS_ONE_BIT False False s in (\<not> ok, bit_chk, s))"
    using assms by (intro spec2_bind safe_intros spec2_return)
  then show ?thesis using True unfolding spec2_def centre_test_def by simp
next
  case False
  have "spec2 I (\<lambda>s. let (ok, bit_chk, s) = rw_mgr_mem_calibrate_write_test P r wg False PASS_ONE_BIT False s;
      bit_chk = drop_bit n bit_chk in (bit_chk = 0, bit_chk, s))" for n
    unfolding Let_def [of "drop_bit _ _"] using assms by (intro spec2_bind safe_intros spec2_return)
  then show ?thesis using False unfolding spec2_def centre_test_def by simp
qed

lemma spec_cond_state: "spec I f R \<Longrightarrow> spec I g R \<Longrightarrow> spec I (\<lambda>s. if b s then f s else g s) R"
  unfolding spec_def by auto

lemma length_step_edges [simp]: "length (step_edges f chk es) = length es"
  by (simp add: step_edges_def)

lemma spec_read_left_edges:
  assumes "wg < 4" "rg < 4" "set ds \<subseteq> {..31}"
  shows "spec I (read_left_edges P r wg rg 0 b ds sticky es) (\<lambda>es'. length es' = length es)"
  using assms(3)
proof (induction ds arbitrary: sticky es)
  case Nil
  then show ?case using spec_return [of "\<lambda>es'. length es' = length es" es I] by (simp add: spec_def)
next
  case (Cons d ds)
  have IH: "spec I (read_left_edges P r wg rg 0 b ds sticky (step_edges f chk es)) (\<lambda>es'. length es' = length es)" for sticky f chk
    using Cons.IH [of sticky "step_edges f chk es"] Cons.prems by simp
  have "spec I (\<lambda>s. read_left_edges P r wg rg 0 b (d # ds) sticky es s) (\<lambda>es'. length es' = length es)"
    unfolding read_left_edges.simps Let_def [of "sticky OR _"]
    using assms(1,2) Cons.prems
    by (intro safe_intros in_range_intros spec_cond_state spec_return IH refl) auto
  then show ?case by simp
qed

lemma read_right_edges_returns:
  assumes "wg < 4" "rg < 4" "start \<le> 31" "I (hw s)"
  shows "\<exists>es' h. read_right_edges P r wg rg b start sticky es s = Some (es', s\<lparr>hw := h\<rparr>) \<and> I h \<and> length es' = length es"
proof -
  let ?c = "\<lambda>(d, stop, sticky, es', t). \<not> stop \<and> d \<le> IO_DQS_IN_DELAY_MAX - start"
  let ?body = "\<lambda>(d, stop, sticky, es, s).
           let s = scc_mgr_set_dqs_bus_in_delay P rg (d + start) s;
               s = scc_mgr_load_dqs P rg s;
               s = IOWR_32DIRECT P SCC_MGR_UPD 0 0 s;
               (stop, bit_chk, s) = centre_test P r wg rg b s;
               sticky = sticky OR bit_chk in
           if stop \<and> sticky = read_correct_mask (param s) then (d, True, sticky, es, s)
           else (d + 1, False, sticky, step_edges (right_step in_illegal d) bit_chk es, s)"
  have step: "\<exists>y'. searching I s es y' \<and> (?body (d, False, y) = (d, True, y') \<or> ?body (d, False, y) = (d + 1, False, y'))"
    if d: "d + start \<le> 31" and y: "searching I s es y" for d y
  proof -
    obtain sticky es' h where y: "y = (sticky, es', s\<lparr>hw := h\<rparr>)" "I h" "length es' = length es"
      using y by (auto simp: searching_def)
    have "spec I (\<lambda>s. let s = scc_mgr_set_dqs_bus_in_delay P rg (d + start) s; s = scc_mgr_load_dqs P rg s;
        s = IOWR_32DIRECT P SCC_MGR_UPD 0 0 s; (stop, bit_chk, s) = centre_test P r wg rg b s in ((stop, bit_chk), s)) (\<lambda>x. True)"
      using assms(1,2) d by (intro safe_intros in_range_intros spec_return TrueI) simp_all
    then obtain res h' where "(let s = scc_mgr_set_dqs_bus_in_delay P rg (d + start) (s\<lparr>hw := h\<rparr>); s = scc_mgr_load_dqs P rg s;
        s = IOWR_32DIRECT P SCC_MGR_UPD 0 0 s; (stop, bit_chk, s) = centre_test P r wg rg b s in ((stop, bit_chk), s)) = (res, s\<lparr>hw := h'\<rparr>)" "I h'"
      using y(2) by (rule spec_at)
    then show ?thesis using y by (auto simp: Let_def searching_def split: prod.splits)
  qed
  have "searching I s es (sticky, es, s)" using assms(4) by (auto simp: searching_def intro: exI [of _ "hw s"])
  from delay_loop [of start "searching I s es" ?body ?c, OF assms(3) step _ this]
  show ?thesis unfolding read_right_edges_def by (fastforce simp: searching_def max_defs)
qed

lemma spec_read_dqs_in: "g < 4 \<Longrightarrow> spec I (READ_SCC_DQS_IN_DELAY P g) (\<lambda>d. d \<le> 31)"
  unfolding READ_SCC_DQS_IN_DELAY_def by (rule spec_IORD_setting) simp

text \<open>The figure of merit does not change what is recorded of a failure.\<close>

lemma returns_update_fom:
  assumes "returns I (\<lambda>g. True) f R"
  shows "returns I (\<lambda>g. True) (\<lambda>s. let s = (if b then s\<lparr>gbl := (gbl s)\<lparr>fom_in := fom_in (gbl s) + x\<rparr>\<rparr> else s) in f s) R"
    "returns I (\<lambda>g. True) (\<lambda>s. let s = s\<lparr>gbl := (gbl s)\<lparr>fom_out := fom_out (gbl s) + x\<rparr>\<rparr> in f s) R"
  using returns_gbl [of "\<lambda>g. g\<lparr>fom_in := fom_in g + x\<rparr>" "\<lambda>g. True", OF _ assms]
    returns_gbl [of "\<lambda>g. g\<lparr>fom_out := fom_out g + x\<rparr>" "\<lambda>g. True", OF _ assms] assms
  by (cases b; simp add: failure_def Let_def)+

lemma returns_vfifo_center:
  assumes "wg < 4" "rg < 4"
  shows "returns I (\<lambda>g. True) (rw_mgr_mem_calibrate_vfifo_center P r wg rg 0 use_read_test update_fom) (\<lambda>ok g. True)"
proof -
  have stage: "(if use_read_test then CAL_STAGE_VFIFO else CAL_STAGE_VFIFO_AFTER_WRITES) \<in> failing_stages"
    by (simp add: failing_stages_def)
  have dqs: "start - (start - limit_dqs x) \<le> 31" for start x
    using limit_dqs_in_range [of x] by simp
  have result: "returns I (\<lambda>g. True) (\<lambda>s. case x of
      Some i \<Rightarrow>
        let s = scc_mgr_set_dqs_bus_in_delay P rg start s; s = scc_mgr_load_dqs P rg s; s = IOWR_32DIRECT P SCC_MGR_UPD 0 0 s in
        Some (False, set_failing_group_stage (rg * of_nat RW_MGR_MEM_DQ_PER_READ_DQS + of_nat i)
          (if use_read_test then CAL_STAGE_VFIFO else CAL_STAGE_VFIFO_AFTER_WRITES) CAL_SUBSTAGE_VFIFO_CENTER s)
    | None \<Rightarrow>
        let (mid_min, min_index) = min_mid es;
            orig_mid_min = half_mid mid_min;
            new_dqs = limit_dqs (start - orig_mid_min);
            mid_min = start - new_dqs;
            new_dqs = start - mid_min;
            (dq_margin, dqs_margin, s) = centre_read_pins P wg 0 es min_index orig_mid_min mid_min s;
            s = scc_mgr_set_dqs_bus_in_delay P rg new_dqs s;
            s = scc_mgr_load_dqs P rg s;
            s = (if update_fom
                 then s\<lparr>gbl := (gbl s)\<lparr>fom_in := fom_in (gbl s) + signed_div (dq_margin + dqs_margin)
                   (int (RW_MGR_MEM_IF_READ_DQS_WIDTH div RW_MGR_MEM_IF_WRITE_DQS_WIDTH))\<rparr>\<rparr> else s);
            s = IOWR_32DIRECT P SCC_MGR_UPD 0 0 s in
        Some (sint dq_margin \<ge> 0 \<and> sint dqs_margin \<ge> 0, s)) (\<lambda>ok g. True)"
    if start: "start \<le> 31" for x start es
  proof (cases x)
    case None
    obtain m k where "min_mid es = (m, k)" by force
    then show ?thesis
      unfolding None option.case Let_def [of "min_mid _"] Let_def [of "half_mid _"] Let_def [of "limit_dqs _"] Let_def [of "_ - _"]
      by (simp only: prod.case) (intro returns_spec2 [OF spec2_centre_read_pins] returns_after [OF safe_set_group(2) [OF assms(2) dqs]]
        returns_after [OF safe_load(1)] returns_update_fom(1) returns_after [OF safe_IOWR] in_range_intros returns_Some TrueI)
  next
    case (Some i)
    show ?thesis
      unfolding Some option.case
      by (intro returns_after [OF safe_set_group(2) [OF assms(2) start]] returns_after [OF safe_load(1)] returns_after [OF safe_IOWR]
        in_range_intros returns_fail [OF stage] TrueI)
  qed
  show ?thesis
    unfolding rw_mgr_mem_calibrate_vfifo_center_def
    by (rule returns_spec [OF spec_read_dqs_in [OF assms(2)]], rule returns_spec [OF spec_read_left_edges [OF assms]],
        force simp: max_defs, rule returns_after [OF safe_apply_group(1)], simp, rule returns_let, rule returns_let,
        rule returns_then [OF read_right_edges_returns [OF assms]], assumption, assumption, rule result)
qed

section \<open>Writes\<close>

lemma spec_write_left_edges:
  assumes "wg < 4" "set ds \<subseteq> {..31}"
  shows "spec I (write_left_edges P r wg t ds sticky es) (\<lambda>es'. length es' = length es)"
  using assms(2)
proof (induction ds arbitrary: sticky es)
  case Nil
  then show ?case using spec_return [of "\<lambda>es'. length es' = length es" es I] by (simp add: spec_def)
next
  case (Cons d ds)
  have IH: "spec I (write_left_edges P r wg t ds sticky (step_edges f chk es)) (\<lambda>es'. length es' = length es)" for sticky f chk
    using Cons.IH [of sticky "step_edges f chk es"] Cons.prems by simp
  have "spec I (\<lambda>s. write_left_edges P r wg t (d # ds) sticky es s) (\<lambda>es'. length es' = length es)"
    unfolding write_left_edges.simps Let_def [of "sticky OR _"]
    using assms(1) Cons.prems
    by (intro safe_intros in_range_intros spec_cond_state spec_return IH refl) auto
  then show ?case by simp
qed

lemma signed_limit:
  assumes "start \<le> (31 :: u32)" "d \<le> 32"
  shows "sint d \<le> sint (of_nat IO_IO_OUT1_DELAY_MAX - start) \<longleftrightarrow> d \<le> 31 - start"
proof -
  have "31 - start \<le> 31" using assms(1) by (simp add: word_le_nat_alt unat_sub)
  then have "31 - start \<le> 32" by (rule order_trans) simp
  then show ?thesis using assms(2) by (simp add: sint_small max_defs word_le_def)
qed

lemma spec_dqs_write:
  assumes "wg < 4" "d \<le> 31"
  shows "spec I (\<lambda>s. let s = scc_mgr_apply_group_dqs_io_and_oct_out1 P wg d s; s = IOWR_32DIRECT P SCC_MGR_UPD 0 0 s;
      (ok, bit_chk, s) = rw_mgr_mem_calibrate_write_test P r wg dm c False s;
      s = (if \<not> ok then recover_mem_device_after_ck_dqs_violation s else s) in ((ok, bit_chk), s)) (\<lambda>x. True)"
proof -
  have recover: "spec I (\<lambda>s. let s = (if \<not> ok then recover_mem_device_after_ck_dqs_violation s else s) in ((ok, bit_chk), s)) (\<lambda>x. True)"
    for ok and bit_chk :: u32
    by (cases ok) (simp_all add: recover_mem_device_after_ck_dqs_violation_def spec_return)
  show ?thesis using assms by (intro safe_intros in_range_intros recover)
qed

lemma write_right_edges_returns:
  assumes "wg < 4" "start \<le> 31" "I (hw s)"
  shows "\<exists>es' h. write_right_edges P r wg start sticky es s = Some (es', s\<lparr>hw := h\<rparr>) \<and> I h \<and> length es' = length es"
proof -
  let ?c = "\<lambda>(d, stop, sticky, es', t). \<not> stop \<and> sint d \<le> sint (of_nat IO_IO_OUT1_DELAY_MAX - start)"
  let ?body = "\<lambda>(d, stop, sticky, es, s).
           let s = scc_mgr_apply_group_dqs_io_and_oct_out1 P wg (d + start) s;
               s = IOWR_32DIRECT P SCC_MGR_UPD 0 0 s;
               (ok, bit_chk, s) = rw_mgr_mem_calibrate_write_test P r wg False PASS_ONE_BIT False s;
               s = (if \<not> ok then recover_mem_device_after_ck_dqs_violation s else s);
               sticky = sticky OR bit_chk in
           if \<not> ok \<and> sticky = write_correct_mask (param s)
           then (d, True, sticky, if d = 0 then map mark_marginal es else es, s)
           else (d + 1, False, sticky, step_edges (right_step out_illegal d) bit_chk es, s)"
  have step: "\<exists>y'. searching I s es y' \<and> (?body (d, False, y) = (d, True, y') \<or> ?body (d, False, y) = (d + 1, False, y'))"
    if d: "d + start \<le> 31" and y: "searching I s es y" for d y
  proof -
    obtain sticky es' h where y: "y = (sticky, es', s\<lparr>hw := h\<rparr>)" "I h" "length es' = length es"
      using y by (auto simp: searching_def)
    obtain res h' where "(let s = scc_mgr_apply_group_dqs_io_and_oct_out1 P wg (d + start) (s\<lparr>hw := h\<rparr>); s = IOWR_32DIRECT P SCC_MGR_UPD 0 0 s;
        (ok, bit_chk, s) = rw_mgr_mem_calibrate_write_test P r wg False PASS_ONE_BIT False s;
        s = (if \<not> ok then recover_mem_device_after_ck_dqs_violation s else s) in ((ok, bit_chk), s)) = (res, s\<lparr>hw := h'\<rparr>)" "I h'"
      using spec_dqs_write [OF assms(1) d] y(2) by (rule spec_at)
    then show ?thesis using y by (auto simp: Let_def searching_def split: prod.splits)
  qed
  have "searching I s es (sticky, es, s)" using assms(3) by (auto simp: searching_def intro: exI [of _ "hw s"])
  from delay_loop [of start "searching I s es" ?body ?c, OF assms(2) step _ this]
  show ?thesis unfolding write_right_edges_def by (fastforce simp: searching_def signed_limit [OF assms(2)])
qed

lemma spec_dm_test [safe_intros]: "wg < 4 \<Longrightarrow> spec I (dm_test P r wg) (\<lambda>ok. True)"
  unfolding dm_test_def by (intro safe_intros spec_return TrueI)

lemma spec_dm_by_dm:
  assumes "wg < 4"
  shows "spec I (dm_by_dm P r wg) dm_window_ok"
  unfolding dm_by_dm_def
proof (rule spec_fold)
  fix d w assume d: "d \<in> set (rev [0..<Suc IO_IO_OUT1_DELAY_MAX])" and w: "dm_window_ok w"
  then have d: "d < 32" by (simp add: max_defs)
  then show "spec I (\<lambda>s. (\<lambda>(w, s). let s = scc_mgr_apply_group_dm_out1_delay P wg (of_nat d) s; s = IOWR_32DIRECT P SCC_MGR_UPD 0 0 s;
      (ok, s) = dm_test P r wg s in (if ok then dm_pass (- of_nat d) w else dm_fail w, s)) (w, s)) dm_window_ok"
    unfolding prod.case using assms
    by (intro safe_intros in_range_intros spec_return) (auto intro!: dm_window_steps w dm_small_delay)
qed (simp add: no_window_def dm_window_ok_def)

lemma dm_by_dqs_returns:
  assumes "wg < 4" "start \<le> 31" "I (hw s)" "dm_window_ok w"
  shows "\<exists>w' h. dm_by_dqs P r wg start w s = Some (w', s\<lparr>hw := h\<rparr>) \<and> I h \<and> dm_window_ok w'"
proof -
  let ?K = "\<lambda>(w, t). (\<exists>h. t = s\<lparr>hw := h\<rparr> \<and> I h) \<and> dm_window_ok w"
  let ?c = "\<lambda>(d, stop, w, s). \<not> stop \<and> sint d \<le> sint (of_nat IO_IO_OUT1_DELAY_MAX - start)"
  let ?body = "\<lambda>(d, stop, w, s).
           let s = scc_mgr_apply_group_dqs_io_and_oct_out1 P wg (d + start) s;
               s = IOWR_32DIRECT P SCC_MGR_UPD 0 0 s;
               (ok, s) = dm_test P r wg s in
           if ok then (d + 1, False, dm_pass d w, s)
           else
             let s = recover_mem_device_after_ck_dqs_violation s in
             if sint (win_best w - 1) > sint (of_nat IO_IO_OUT1_DELAY_MAX - start - d) then (d, True, dm_fail w, s)
             else (d + 1, False, dm_fail w, s)"
  have step: "\<exists>y'. ?K y' \<and> (?body (d, False, y) = (d, True, y') \<or> ?body (d, False, y) = (d + 1, False, y'))"
    if d: "d + start \<le> 31" "d \<le> 31" and y: "?K y" for d y
  proof -
    obtain w h where y: "y = (w, s\<lparr>hw := h\<rparr>)" "I h" "dm_window_ok w" using y by auto
    have "unat d < 32" using d(2) by (simp add: word_le_nat_alt)
    then have "dm_small d" using dm_small_delay(1) [of "unat d"] by simp
    note steps = dm_window_steps(1) [OF y(3) this] dm_window_steps(2) [OF y(3)]
    have "spec I (\<lambda>s. let s = scc_mgr_apply_group_dqs_io_and_oct_out1 P wg (d + start) s; s = IOWR_32DIRECT P SCC_MGR_UPD 0 0 s in
        dm_test P r wg s) (\<lambda>ok. True)"
      using assms(1) d(1) by (intro safe_intros in_range_intros)
    then obtain ok h' where "(let s = scc_mgr_apply_group_dqs_io_and_oct_out1 P wg (d + start) (s\<lparr>hw := h\<rparr>);
        s = IOWR_32DIRECT P SCC_MGR_UPD 0 0 s in dm_test P r wg s) = (ok, s\<lparr>hw := h'\<rparr>)" "I h'"
      using y(2) by (rule spec_at)
    then show ?thesis using y steps
      by (auto simp: Let_def recover_mem_device_after_ck_dqs_violation_def split: prod.splits)
  qed
  have "?K (w, s)" using assms(3,4) by (auto intro: exI [of _ "hw s"])
  from delay_loop [of start ?K ?body ?c, OF assms(2) step _ this]
  show ?thesis unfolding dm_by_dqs_def by (fastforce simp: signed_limit [OF assms(2)])
qed

lemma returns_centre_dm:
  assumes "wg < 4" "start \<le> 31"
  shows "returns I (\<lambda>g. True) (centre_dm P r wg start) (\<lambda>m g. True)"
  unfolding centre_dm_def
proof (rule returns_spec [OF spec_dm_by_dm [OF assms(1)]], rule returns_after [OF safe_apply_group(3)], simp, rule returns_let,
    rule returns_then [OF dm_by_dqs_returns [OF assms]])
  fix w assume "dm_window_ok w"
  then show "dm_window_ok (if end_curr w \<noteq> 0 then dm_fail w else w)" by (simp add: dm_window_steps)
next
  fix w assume w: "dm_window_ok w"
  show "returns I (\<lambda>g. True) (\<lambda>s. let left = - 1 * bgn_best w; right = end_best w;
      s = scc_mgr_apply_group_dqs_io_and_oct_out1 P wg start s; mid = signed_div (left - right) 2; mid = if sint mid < 0 then 0 else mid;
      dm_margin = if win_best w = 0 then - 1 else left - mid; s = scc_mgr_apply_group_dm_out1_delay P wg mid s;
      s = IOWR_32DIRECT P SCC_MGR_UPD 0 0 s in Some (dm_margin, s)) (\<lambda>m g. True)"
    by (rule returns_let, rule returns_let, rule returns_after [OF safe_apply_group(4) [OF assms]], rule returns_let, rule returns_let,
        rule returns_let, rule returns_after [OF safe_apply_group(3) [OF dm_middle [OF w]]], rule returns_after [OF safe_IOWR])
      (intro in_range_intros returns_Some TrueI)+
qed

lemma returns_writes_center:
  assumes "wg < 4"
  shows "returns I (\<lambda>g. True) (rw_mgr_mem_calibrate_writes_center P r wg t) (\<lambda>ok g. True)"
proof -
  have start: "spec I (READ_SCC_DQS_IO_OUT1_DELAY P) (\<lambda>d. d \<le> 31)"
    unfolding READ_SCC_DQS_IO_OUT1_DELAY_def using max_pins(1) [of 8] by (intro spec_IORD_setting) (simp add: size_defs)
  have centred: "returns I (\<lambda>g. True) (\<lambda>s. let (mid_min, min_index) = min_mid es; orig_mid_min = half_mid mid_min; new_dqs = start;
      (dq_margin, dqs_margin, s) = centre_write_pins P wg es min_index orig_mid_min 0 s;
      s = scc_mgr_apply_group_dqs_io_and_oct_out1 P wg new_dqs s; s = IOWR_32DIRECT P SCC_MGR_UPD 0 0 s in
      do { (dm_margin, s) \<leftarrow> centre_dm P r wg new_dqs s;
        let s = s\<lparr>gbl := (gbl s)\<lparr>fom_out := fom_out (gbl s) + (dq_margin + dqs_margin)\<rparr>\<rparr>;
        let s = IOWR_32DIRECT P SCC_MGR_UPD 0 0 s;
        Some (sint dq_margin \<ge> 0 \<and> sint dqs_margin \<ge> 0 \<and> sint dm_margin \<ge> 0, s) }) (\<lambda>ok g. True)"
    if start: "start \<le> 31" for start es
  proof -
    obtain m k where "min_mid es = (m, k)" by force
    then show ?thesis
      unfolding Let_def [of "min_mid _"] Let_def [of "half_mid _"] Let_def [of start]
      by (simp only: prod.case) (intro returns_spec2 [OF spec2_centre_write_pins] returns_after [OF safe_apply_group(4) [OF assms start]]
        returns_after [OF safe_IOWR] in_range_intros returns_bind [OF returns_centre_dm [OF assms start]] returns_update_fom(2)
        returns_Some TrueI)
  qed
  have failed: "CAL_STAGE_WRITES \<in> failing_stages" by (simp add: failing_stages_def)
  show ?thesis
    unfolding rw_mgr_mem_calibrate_writes_center_def
    by (rule returns_spec [OF start], rule returns_spec [OF spec_write_left_edges [OF assms]],
        force simp: max_defs, rule returns_after [OF safe_apply_group(2)], simp, rule returns_let, rule returns_let,
        rule returns_then [OF write_right_edges_returns [OF assms]], assumption, assumption)
      (intro returns_option centred returns_fail [OF failed] TrueI)
qed

lemma returns_writes:
  assumes "wg < 4"
  shows "returns I (\<lambda>g. True) (rw_mgr_mem_calibrate_writes P r wg t) (\<lambda>ok. recorded (\<not> ok))"
proof -
  have failed: "CAL_STAGE_WRITES \<in> failing_stages" by (simp add: failing_stages_def)
  show ?thesis
    unfolding rw_mgr_mem_calibrate_writes_def
    by (intro returns_intros safe_intros, rule returns_bind [OF returns_writes_center [OF assms]])
      (rule returns_stage [OF failed]; simp add: recorded_def)
qed

end

end
