(* ===== verification/Seq_Level.thy ===== *)
theory Seq_Level
  imports Seq_Deskew
begin

text \<open>
  Write levelling returns, and chooses the middle of the window that it finds, unless the window
  closes at once.
\<close>

section \<open>The middle\<close>



lemma lower_phase_0 [simp]: "lower_phase 0 tmp = (0, tmp)" "lower_phase (Suc 0) tmp = (0, tmp - 312)"
  by (simp_all add: lower_phase.simps IO_DQDQS_OUT_PHASE_MAX_def IO_DELAY_PER_OPA_TAP_def)


section \<open>The search\<close>

lemma wlevel_phases [simp]: "[0..<Suc wlevel_phase_max] = [0]" "[Suc 0..<Suc wlevel_phase_max] = []" "wlevel_phase_max = 0"
  by (simp_all add: wlevel_phase_max_def IO_DQDQS_OUT_PHASE_MAX_def)

context delay_contract
begin

lemma safe_all_out_delay [safe_intros]:
  "g < 4 \<Longrightarrow> d \<le> 31 \<Longrightarrow> safe I (scc_mgr_apply_group_all_out_delay_all_ranks P g t d)"
  unfolding scc_mgr_apply_group_all_out_delay_all_ranks_def scc_mgr_apply_group_all_out_delay_def
  by (intro safe_intros in_range_intros)

lemma spec_wlevel_test [safe_intros]: "g < 4 \<Longrightarrow> spec I (wlevel_test P g) (\<lambda>ok. True)"
  unfolding wlevel_test_def rw_mgr_mem_calibrate_write_test_all_ranks_def by (intro safe_intros spec_return TrueI)

text \<open>The state of the first search: the delay so far is counted in taps, and a phase that works is phase 0.\<close>

lemma wlevel_begin_returns:
  assumes "g < 4" "dtaps \<le> 31" "I (hw s)"
  shows "\<exists>x h. wlevel_begin P g t dtaps s = Some (x, s\<lparr>hw := h\<rparr>) \<and> I h \<and>
    (case x of (d, p, work_bgn) \<Rightarrow> p = 0 \<longrightarrow> unat d \<le> 31 \<and> unat work_bgn = 25 * unat d)"
proof -
  let ?Q = "\<lambda>(d :: u32, found, tmp :: u32, p :: nat, work_bgn :: u32, u). (\<exists>h. u = s\<lparr>hw := h\<rparr> \<and> I h) \<and> unat d \<le> 32 \<and>
    unat tmp = 25 * unat d \<and> (if found then unat d \<le> 31 \<and> work_bgn = tmp else p = 0 \<longrightarrow> d = 0)"
  let ?f = "\<lambda>(d :: u32, found, tmp :: u32, p :: nat, work_bgn :: u32, u :: 'h seq). 33 - unat d + (if found then 0 else 1)"
  let ?c = "\<lambda>(d, found, tmp, p, work_bgn, u). \<not> found \<and> d \<le> dtaps"
  let ?body = "\<lambda>(d, found_begin, tmp_delay, p, work_bgn, s).
           let s = scc_mgr_apply_group_all_out_delay_all_ranks P g t d s;
               ((found, p, work_bgn), s) = begin_phase P g [0..<Suc wlevel_phase_max] 0 tmp_delay s in
           if found then (d, True, tmp_delay, p, work_bgn, s)
           else (d + 1, False, tmp_delay + IO_DELAY_PER_DCHAIN_TAP, p, work_bgn, s)"
  have step: "?Q (?body x) \<and> ?f (?body x) < ?f x" if Q: "?Q x" and c: "?c x" for x
  proof -
    obtain d tmp p work_bgn h where x: "x = (d, False, tmp, p, work_bgn, s\<lparr>hw := h\<rparr>)" "I h" "unat tmp = 25 * unat d" "d \<le> dtaps"
      using Q c by auto
    have d: "d \<le> 31" using x(4) assms(2) by (rule order_trans)
    then have unat: "unat d \<le> 31" "unat (d + 1) = Suc (unat d)" "unat (tmp + 25) = 25 * unat (d + 1)"
      using x(3) by (simp_all add: word_le_nat_alt unat_word_ariths)
    have "spec I (\<lambda>s. let s = scc_mgr_apply_group_all_out_delay_all_ranks P g t d s; s = scc_mgr_set_dqdqs_output_phase_all_ranks P g 0 s in
        wlevel_test P g s) (\<lambda>ok. True)"
      by (intro safe_intros assms(1) d)
    then obtain ok h' where "(let s = scc_mgr_apply_group_all_out_delay_all_ranks P g t d (s\<lparr>hw := h\<rparr>);
        s = scc_mgr_set_dqdqs_output_phase_all_ranks P g 0 s in wlevel_test P g s) = (ok, s\<lparr>hw := h'\<rparr>)" "I h'"
      using x(2) by (rule spec_at)
    then have "?body x = (if ok then (d, True, tmp, 0, tmp, s\<lparr>hw := h'\<rparr>) else (d + 1, False, tmp + 25, 1, tmp + 312, s\<lparr>hw := h'\<rparr>))" "I h'"
      unfolding x(1) by (simp_all add: Let_def IO_DELAY_PER_OPA_TAP_def IO_DELAY_PER_DCHAIN_TAP_def)
    then show ?thesis using unat x(1,3) by auto
  qed
  have "?Q (0, False, 0, 0, 0, s)" using assms(3) by (auto intro: exI [of _ "hw s"])
  from while_option_total [of ?Q ?c ?body ?f, OF step this]
  obtain y where y: "while_option ?c ?body (0, False, 0, 0, 0, s) = Some y" "?Q y" by blast
  have "\<not> ?c y" using while_option_stop [OF y(1)] .
  moreover obtain d found tmp p work_bgn u where "y = (d, found, tmp, p, work_bgn, u)" by (cases y) auto
  ultimately show ?thesis using y unfolding wlevel_begin_def by (auto split: if_splits)
qed

lemma set_failing_stage: "stage \<noteq> CAL_STAGE_NIL \<Longrightarrow> error_stage (gbl (set_failing_group_stage grp stage substage u)) \<noteq> CAL_STAGE_NIL"
  by (auto simp: set_failing_group_stage_def)

text \<open>
  Write levelling returns when the number of delay taps of a phase that it reads is at most 31, and a
  failure is recorded.
\<close>

lemma wlevel_returns:
  assumes "g < 4" "I (hw s)"
    and dtaps: "IORD_32DIRECT P REG_FILE_DTAPS_PER_PTAP 0
      (reg_file_set_sub_stage P CAL_SUBSTAGE_WORKING_DELAY (reg_file_set_stage P CAL_STAGE_WLEVEL s)) = (dtaps, s1)" "dtaps \<le> 31"
  shows "\<exists>ok s'. rw_mgr_mem_calibrate_wlevel P g t s = Some (ok, s') \<and> (\<not> ok \<longrightarrow> error_stage (gbl s') \<noteq> CAL_STAGE_NIL)"
proof -
  have stage: "CAL_STAGE_WLEVEL \<noteq> CAL_STAGE_NIL" by (simp add: CAL_STAGE_WLEVEL_def CAL_STAGE_NIL_def)
  obtain h1 where h1: "reg_file_set_stage P CAL_STAGE_WLEVEL s = s\<lparr>hw := h1\<rparr>" "I h1" using safe_reg_file(2) assms(2) by (rule safeE)
  obtain h2 where h2: "reg_file_set_sub_stage P CAL_SUBSTAGE_WORKING_DELAY (s\<lparr>hw := h1\<rparr>) = s\<lparr>hw := h2\<rparr>" "I h2"
    using safe_reg_file(3) h1(2) by (rule safe_at)
  obtain v h3 where h3: "IORD_32DIRECT P REG_FILE_DTAPS_PER_PTAP 0 (s\<lparr>hw := h2\<rparr>) = (v, s\<lparr>hw := h3\<rparr>)" "I h3"
    using spec_IORD_any h2(2) by (rule spec_at)
  then have s1: "v = dtaps" using dtaps h1(1) h2(1) by simp
  obtain h4 where h4: "reg_file_set_group P g (s\<lparr>hw := h3\<rparr>) = s\<lparr>hw := h4\<rparr>" "I h4" using safe_reg_file(1) h3(2) by (rule safe_at)
  obtain d p work_bgn u where found: "wlevel_begin P g t dtaps (s\<lparr>hw := h4\<rparr>) = Some ((d, p, work_bgn), u)"
    using wlevel_begin_returns [OF assms(1) dtaps(2), of "s\<lparr>hw := h4\<rparr>" t] h4(2) by auto
  show ?thesis
    unfolding rw_mgr_mem_calibrate_wlevel_def
    by (auto simp: Let_def h1(1) h2(1) h3(1) s1 h4(1) scc_mgr_spread_out2_delay_all_ranks_def found set_failing_stage [OF stage]
        split: prod.splits if_splits)
qed

end

section \<open>Properties\<close>



end
