(* ===== verification/Seq_Align.thy ===== *)
theory Seq_Align
  imports Seq_Returns
begin

text \<open>
  The steps of the deskew that work on numbers: the limit of a shift, and the choice of the bit that the
  others are aligned with.
\<close>

lemma sint_add_small:
  fixes x y :: u32
  assumes "- (2 ^ 30) \<le> sint x" "sint x < 2 ^ 30" "- (2 ^ 30) \<le> sint y" "sint y < 2 ^ 30"
  shows "sint (x + y) = sint x + sint y"
proof -
  have "sint (x + y) = signed_take_bit 31 (sint x + sint y)" using sint_word_ariths(1) [of x y] by simp
  also have "\<dots> = sint x + sint y" using assms by (intro signed_take_bit_int_eq_self) simp_all
  finally show ?thesis .
qed

text \<open>
  The shift of a pin is limited so that its delay ends up at the sum of the delay and the shift,
  clamped to the delays from 0 to 31 that the pin has.
\<close>

lemma limit_shift_clamps:
  assumes "\<And>t. read_delay p t = (x, t)" "x \<le> 31" "\<bar>sint shift_dq\<bar> < 2 ^ 30"
  shows "limit_shift read_delay p p 31 shift_dq s = (word_of_int (max 0 (min 31 (sint x + sint shift_dq)) - sint x), s)"
proof -
  have "x \<le> 32" using assms(2) by (rule order_trans) simp
  then have x: "0 \<le> sint x" "sint x \<le> 31" using assms(2) by (simp_all add: sint_small word_le_def)
  have sum: "sint (shift_dq + x) = sint shift_dq + sint x" using assms(3) x by (intro sint_add_small) auto
  have "max 0 (min 31 (sint x + sint shift_dq)) - sint x =
      (if sint shift_dq + sint x > 31 then 31 - sint x else if sint shift_dq + sint x < 0 then - sint x else sint shift_dq)"
    using x by auto
  then show ?thesis by (auto simp: limit_shift_def assms(1) sum)
qed

lemma min_mid_fold:
  assumes "fold (\<lambda>i (m, k). if sint (mid_of (es ! i)) < sint m then (mid_of (es ! i), i) else (m, k)) [1..<Suc n] (mid_of (es ! 0), 0) = (m, k)"
  shows "k \<le> n \<and> m = mid_of (es ! k) \<and> (\<forall>i \<le> n. sint m \<le> sint (mid_of (es ! i))) \<and> (\<forall>i < k. sint m < sint (mid_of (es ! i)))"
  using assms
proof (induction n arbitrary: m k)
  case 0
  then show ?case by simp
next
  case (Suc n)
  let ?f = "\<lambda>i (m, k). if sint (mid_of (es ! i)) < sint m then (mid_of (es ! i), i) else (m, k)"
  obtain m' k' where prev: "fold ?f [1..<Suc n] (mid_of (es ! 0), 0) = (m', k')" by force
  have "(m, k) = ?f (Suc n) (m', k')" using Suc.prems prev by simp
  moreover have "sint m' \<le> sint (mid_of (es ! i))" if "i < Suc n" for i using Suc.IH [OF prev] that by auto
  ultimately show ?case using Suc.IH [OF prev] by (auto simp: le_Suc_eq split: if_splits intro: less_le_trans less_imp_le [OF less_le_trans])
qed

text \<open>
  The reference bit of the deskew is the one whose middle lies furthest to the left, the first one
  if there are several.
\<close>

lemma min_mid_least:
  assumes "es \<noteq> []"
  shows "case min_mid es of (mid_min, min_index) \<Rightarrow> min_index < length es \<and> mid_min = mid_of (es ! min_index) \<and>
    (\<forall>e \<in> set es. sint mid_min \<le> sint (mid_of e)) \<and> (\<forall>i < min_index. sint mid_min < sint (mid_of (es ! i)))"
proof -
  obtain m k where mk: "min_mid es = (m, k)" by force
  obtain n where n: "length es = Suc n" using assms by (cases es) auto
  have "k \<le> n \<and> m = mid_of (es ! k) \<and> (\<forall>i \<le> n. sint m \<le> sint (mid_of (es ! i))) \<and> (\<forall>i < k. sint m < sint (mid_of (es ! i)))"
    by (rule min_mid_fold) (use mk n in \<open>simp add: min_mid_def\<close>)
  then show ?thesis unfolding mk prod.case using n by (auto simp: all_set_conv_all_nth less_Suc_eq_le)
qed

end
