(* ===== verification/Seq_Runs.thy ===== *)
theory Seq_Runs
  imports Seq_Deskew
begin

text \<open>
  The stages of calibration and the entry points of the firmware return, keep the settings in range,
  and record a failure when they fail.
\<close>

context delay_contract
begin

section \<open>Reads\<close>

lemma shadow_ranks_single: "shadow_ranks = [(0, 0)]"
  by code_simp

lemma returns_centre_ranks:
  assumes "wg < 4" "rg < 4" "orig \<le> 31"
  shows "returns I (\<lambda>g. True) (centre_ranks P wg rg 0 orig rs ok sub) (\<lambda>x g. True)"
proof (induction rs arbitrary: ok sub)
  case Nil
  then show ?case using returns_Some [of "\<lambda>g. True" "\<lambda>x g. True" "(ok, sub)" I] by (simp add: returns_def)
next
  case (Cons x rs)
  obtain r sr where x: "x = (r, sr)" by force
  have "returns I (\<lambda>g. True) (\<lambda>s. centre_ranks P wg rg 0 orig ((r, sr) # rs) ok sub s) (\<lambda>x g. True)"
    unfolding centre_ranks.simps
    by (intro returns_cond returns_after [OF safe_nothing(1)] returns_after [OF safe_set_group(1) [OF assms(2,3)]]
        returns_after [OF safe_load(1)] returns_after [OF safe_IOWR] in_range_intros
        returns_bind [OF returns_vfifo_center [OF assms(1,2)]] returns_if Cons.IH)
  then show ?case unfolding x by simp
qed

lemma returns_try_dqs_in:
  assumes "wg < 4" "rg < 4" "orig \<le> 31" "set ds \<subseteq> {..31}"
  shows "returns I (\<lambda>g. True) (try_dqs_in P wg rg 0 orig ds sub) (\<lambda>x g. True)"
  using assms(4)
proof (induction ds arbitrary: sub)
  case Nil
  then show ?case using returns_Some [of "\<lambda>g. True" "\<lambda>x g. True" "(False, sub)" I] by (simp add: returns_def)
next
  case (Cons d ds)
  have set_all: "safe I (for_each shadow_ranks (\<lambda>(r, sr) s. if skip_shadow_regs (param s) ! sr then s else perform [
      select_shadow_regs_for_update (of_nat r) rg 1, WRITE_SCC_DQS_IN_DELAY P rg (of_nat d), scc_mgr_load_dqs P rg,
      IOWR_32DIRECT P SCC_MGR_UPD 0 0] s))"
    using assms(2) Cons.prems
    by (intro safe_for_each) (auto split: prod.split intro!: safe_cond safe_id safe_intros in_range_intros)
  have "returns I (\<lambda>g. True) (\<lambda>s. try_dqs_in P wg rg 0 orig (d # ds) sub s) (\<lambda>x g. True)"
    unfolding try_dqs_in.simps
    by (intro returns_after [OF set_all], rule returns_spec [OF spec_sweep [OF assms(2)]],
        rule returns_bind [where S = "\<lambda>x g. True"])
      (use Cons in \<open>auto intro!: returns_if returns_centre_ranks assms(1-3) returns_Some returns_pair\<close>)
  then show ?case by simp
qed

lemma returns_try_phases:
  assumes "wg < 4" "rg < 4" "set ps \<subseteq> {0}"
  shows "returns I (\<lambda>g. True) (try_phases P wg rg 0 d ps sub) (\<lambda>x g. True)"
  using assms(3)
proof (induction ps arbitrary: sub)
  case Nil
  then show ?case using returns_Some [of "\<lambda>g. True" "\<lambda>x g. True" "(False, sub)" I] by (simp add: returns_def)
next
  case (Cons p ps)
  then have p: "p = 0" by simp
  have phase: "safe I (\<lambda>s. if DDRX then scc_mgr_set_dqdqs_output_phase_all_ranks P rg (of_nat p) s else s)"
    "safe I (\<lambda>s. if d \<noteq> 0 \<or> p \<noteq> 0 then recover_mem_device_after_ck_dqs_violation s else s)"
    unfolding p using assms(2) by (auto intro!: safe_cond safe_intros)
  have guaranteed: "spec I (\<lambda>s. if phy_debug_mode_flags (gbl s) AND PHY_DEBUG_DISABLE_GUARANTEED_READ = 0
      then let (ok, bit_chk, s) = rw_mgr_mem_calibrate_read_test_patterns_all_ranks P rg s in (ok, s) else (True, s)) (\<lambda>ok. True)"
    by (intro spec_cond_state safe_intros assms(2) spec_return TrueI)
  have dtaps: "set [unat orig..<Suc (unat IO_DQS_IN_DELAY_MAX)] \<subseteq> {..31}" for orig :: u32
    by (auto simp: max_defs)
  have "returns I (\<lambda>g. True) (\<lambda>s. try_phases P wg rg 0 d (p # ps) sub s) (\<lambda>x g. True)"
    unfolding try_phases.simps
    by (intro returns_after [OF phase(1)] returns_after [OF phase(2)] returns_after [OF safe_memory(4)], rule returns_spec [OF guaranteed],
        intro returns_if returns_Some TrueI, rule returns_spec [OF spec_read_dqs_in [OF assms(2)]],
        rule returns_bind [OF returns_try_dqs_in [OF assms(1,2) _ dtaps]])
      (use Cons in \<open>auto intro!: returns_if returns_Some returns_pair\<close>)
  then show ?case by simp
qed

lemma returns_try_out_delays:
  assumes "wg < 4" "rg < 4" "set ds \<subseteq> {..31}"
  shows "returns I (\<lambda>g. True) (try_out_delays P wg rg 0 t ds d_end sub) (\<lambda>x g. True)"
  using assms(3)
proof (induction ds arbitrary: d_end sub)
  case Nil
  then show ?case using returns_Some [of "\<lambda>g. True" "\<lambda>x g. True" "(False, d_end, sub)" I] by (simp add: returns_def)
next
  case (Cons d ds)
  have add: "safe I (\<lambda>s. if DDRX \<and> d > 0 then scc_mgr_apply_group_all_out_delay_add_all_ranks P wg t (of_nat d) s else s)"
    using assms(1) Cons.prems by (auto intro!: safe_cond safe_intros)
  have phases: "set [0..<Suc IO_DQDQS_OUT_PHASE_MAX] \<subseteq> {0}" by (simp add: max_defs)
  have "returns I (\<lambda>g. True) (\<lambda>s. try_out_delays P wg rg 0 t (d # ds) d_end sub s) (\<lambda>x g. True)"
    unfolding try_out_delays.simps
    by (intro returns_after [OF add], rule returns_bind [OF returns_try_phases [OF assms(1,2) phases]])
      (use Cons in \<open>auto intro!: returns_if returns_Some returns_pair\<close>)
  then show ?case by simp
qed

lemma returns_vfifo:
  assumes "g < 4"
  shows "returns I (\<lambda>g. True) (rw_mgr_mem_calibrate_vfifo P g 0) (\<lambda>ok. recorded (\<not> ok))"
proof -
  have delays: "set (filter even [0..<Suc (unat (count_dqs_en_taps 0 0 - 1))]) \<subseteq> {..31}"
    by (auto simp: dqs_en_taps)
  have failed: "CAL_STAGE_VFIFO \<in> failing_stages" by (simp add: failing_stages_def)
  have zero: "returns I (\<lambda>g. True) (\<lambda>s. Some (True, if DDRX \<and> d > 2 then scc_mgr_zero_group P g t True s else s)) (\<lambda>ok. recorded (\<not> ok))"
    for d :: nat and t
    using returns_after [OF safe_cond [where b = "\<lambda>s. DDRX \<and> d > 2", OF safe_zero_group [OF assms, of t True] safe_id], of "\<lambda>g. True" "\<lambda>s. Some (True, s)"]
      returns_Some [of "\<lambda>g. True" "\<lambda>ok. recorded (\<not> ok)" True I]
    by (simp add: Let_def)
  have "returns I (\<lambda>g. True) (\<lambda>s. Some (if \<not> ok then (False, set_failing_group_stage g CAL_STAGE_VFIFO sub s)
      else (True, if DDRX \<and> d > 2 then scc_mgr_zero_group P g t True s else s))) (\<lambda>ok. recorded (\<not> ok))" for ok sub and d :: nat and t
    using zero [of d t] returns_fail [OF failed, of "\<lambda>ok. recorded (\<not> ok)" False I "\<lambda>g. True" g sub] by (cases ok) (simp_all add: recorded_def)
  then show ?thesis
    unfolding rw_mgr_mem_calibrate_vfifo_def
    by (simp only: DDRX_def if_True prod.case Let_def [of "(_, _)"])
      (intro returns_after safe_intros returns_let returns_bind [OF returns_try_out_delays [OF assms assms delays]] returns_pair)
qed

lemma returns_end_ranks:
  assumes "wg < 4" "rg < 4"
  shows "returns I (\<lambda>g. True) (end_ranks P wg rg 0 rs ok) (\<lambda>x g. True)"
proof (induction rs arbitrary: ok)
  case Nil
  then show ?case using returns_Some [of "\<lambda>g. True" "\<lambda>x g. True" ok I] by (simp add: returns_def)
next
  case (Cons x rs)
  obtain r sr where x: "x = (r, sr)" by force
  have "returns I (\<lambda>g. True) (\<lambda>s. end_ranks P wg rg 0 ((r, sr) # rs) ok s) (\<lambda>x g. True)"
    unfolding end_ranks.simps
    by (intro returns_cond returns_after [OF safe_nothing(1)] returns_bind [OF returns_vfifo_center [OF assms]] Cons.IH)
  then show ?case unfolding x by simp
qed

lemma returns_vfifo_end:
  assumes "g < 4"
  shows "returns I (\<lambda>g. True) (rw_mgr_mem_calibrate_vfifo_end P g 0) (\<lambda>ok. recorded (\<not> ok))"
proof -
  have failed: "CAL_STAGE_VFIFO_AFTER_WRITES \<in> failing_stages" by (simp add: failing_stages_def)
  have "returns I (\<lambda>g. True) (\<lambda>s. Some (if \<not> ok then (False, set_failing_group_stage g CAL_STAGE_VFIFO_AFTER_WRITES sub s) else (True, s)))
      (\<lambda>ok. recorded (\<not> ok))" for ok sub
    using returns_stage [OF failed, of "\<lambda>g. True" "\<lambda>ok. recorded (\<not> ok)" I ok g sub] by (cases ok) (simp_all add: recorded_def)
  then show ?thesis
    unfolding rw_mgr_mem_calibrate_vfifo_end_def
    by (simp only: DDRX_def if_True Let_def [of g])
      (intro returns_after safe_intros returns_bind [OF returns_end_ranks [OF assms assms]])
qed

section \<open>Groups\<close>

lemma returns_read_stage:
  assumes "\<And>g t. (g, t) \<in> set gs \<Longrightarrow> returns I (\<lambda>g. True) (f g t) (\<lambda>ok. recorded (\<not> ok))"
  shows "returns I (\<lambda>g. True) (read_stage f gs) recorded"
  using assms
proof (induction gs)
  case Nil
  then show ?case using returns_Some [of "\<lambda>g. True" recorded False I] by (simp add: returns_def)
next
  case (Cons x gs)
  obtain g t where x: "x = (g, t)" by force
  have IH: "returns I Q (read_stage f gs) recorded" for Q
    using returns_weaken [OF Cons.IH] Cons.prems by simp
  have "returns I (\<lambda>g. True) (\<lambda>s. read_stage f ((g, t) # gs) s) recorded"
    unfolding read_stage.simps
    by (rule returns_bind [OF Cons.prems [of g t]]) (auto simp: x intro!: returns_if IH returns_Some)
  then show ?case unfolding x by simp
qed

lemma read_group_tests_single: "g < 4 \<Longrightarrow> read_group_tests g = [(g, 0)]"
  by (simp add: read_group_tests_def read_groups_single)

lemma returns_write_stage:
  assumes "wg < 4"
  shows "returns I (recorded failed) (write_stage P wg t rs failed) (\<lambda>out. recorded (out \<noteq> Continue False))"
proof (induction rs arbitrary: failed)
  case Nil
  have "returns I (recorded failed) (\<lambda>s. Some (Continue failed, s)) (\<lambda>out. recorded (out \<noteq> Continue False))"
    by (rule returns_Some) simp
  then show ?case by (simp add: returns_def)
next
  case (Cons x rs)
  obtain r sr where x: "x = (r, sr)" by force
  have IH: "returns I (\<lambda>g. recorded (\<not> ok) g \<and> recorded failed g) (write_stage P wg t rs (failed \<or> \<not> ok))
      (\<lambda>out. recorded (out \<noteq> Continue False))" for ok
    by (rule returns_weaken [OF Cons.IH [of "failed \<or> \<not> ok"]]) (auto simp: recorded_def)
  have "returns I (recorded failed) (\<lambda>s. write_stage P wg t ((r, sr) # rs) failed s) (\<lambda>out. recorded (out \<noteq> Continue False))"
    unfolding write_stage.simps
    by (intro returns_cond Cons.IH returns_after [OF safe_nothing(1)],
        rule returns_bind [OF returns_keep [OF returns_writes [OF assms]]], rule returns_when, rule returns_Some) (auto intro: IH)
  then show ?case unfolding x by simp
qed

lemma returns_group:
  assumes "wg < 4"
  shows "returns I (\<lambda>g. True) (calibrate_group P wg t) (\<lambda>out. recorded (out \<noteq> Continue False))"
proof -
  have stages: "returns I (\<lambda>g. True) (read_stage (rw_mgr_mem_calibrate_vfifo P) (read_group_tests wg)) recorded"
    "returns I (\<lambda>g. True) (read_stage (rw_mgr_mem_calibrate_vfifo_end P) (read_group_tests wg)) recorded"
    by (rule returns_read_stage; simp add: read_group_tests_single [OF assms] returns_vfifo [OF assms] returns_vfifo_end [OF assms])+
  have skip: "returns I Q (\<lambda>s. if b then f s else Some (False, s)) recorded" if "returns I (\<lambda>g. True) f recorded" for b f Q
    by (intro returns_if returns_weaken [OF that] returns_Some) simp_all
  note vfifo = skip [OF stages(1)] skip [OF stages(2)]
  have level: "returns I Q (\<lambda>s. if (DDRX \<or> RLDRAMII) \<and> \<not> (ARRIAV \<or> CYCLONEV) \<and> STATIC_CALIB_STEPS AND CALIB_SKIP_WLEVEL = 0
      then rw_mgr_mem_calibrate_wlevel P wg t s else Some (True, s)) (\<lambda>ok. recorded (\<not> ok))" for Q
    using returns_Some [of Q "\<lambda>ok. recorded (\<not> ok)" True I] by (simp add: CYCLONEV_def)
  have last: "returns I (recorded failed) (\<lambda>s. Some (if failed \<and> stops s then (Return_0, s) else (Continue failed, s)))
      (\<lambda>out. recorded (out \<noteq> Continue False))" for failed
    by (auto simp: returns_def progress_refl)
  have first: "returns I (recorded True) (\<lambda>s. Some (if stops s then (Return_0, s) else (Continue True, s)))
      (\<lambda>out. recorded (out \<noteq> Continue False))"
    by (auto simp: returns_def progress_refl)
  show ?thesis
    unfolding calibrate_group_def
    by (intro returns_after [OF safe_IOWR] in_range_intros returns_after [OF safe_zero_group [OF assms]], simp,
        rule returns_bind [OF vfifo(1)], rule returns_if, simp add: first,
        rule returns_bind [OF level], rule returns_if, simp add: first,
        rule returns_bind, rule returns_weaken [OF returns_write_stage [OF assms]], simp, assumption,
        rule returns_outcome, rule returns_Some, simp, rule returns_if, rule returns_Some, simp,
        rule returns_bind [OF vfifo(2)], rule last)
qed

lemma returns_groups:
  assumes "set gs \<subseteq> {..<4}"
  shows "returns I (recorded (n \<noteq> 0)) (calibrate_groups P gs run n) (\<lambda>out. recorded (out \<noteq> Continue 0))"
  using assms
proof (induction gs arbitrary: run n)
  case Nil
  have "returns I (recorded (n \<noteq> 0)) (\<lambda>s. Some (Continue n, s)) (\<lambda>out. recorded (out \<noteq> Continue 0))"
    by (rule returns_Some) simp
  then show ?case by (simp add: returns_def)
next
  case (Cons g gs)
  have g: "(of_nat g :: u32) < 4" using Cons.prems by simp
  note IH = Cons.IH [OF subset_trans [OF set_subset_Cons Cons.prems]]
  have next_group: "returns I (\<lambda>g. recorded (out \<noteq> Continue False) g \<and> recorded (n \<noteq> 0) g)
      (\<lambda>s. case out of Return_0 \<Rightarrow> Some (Return_0, s) | Continue failed \<Rightarrow> calibrate_groups P gs run' (if failed then n + 1 else n) s)
      (\<lambda>out. recorded (out \<noteq> Continue 0))" for out run'
    by (intro returns_outcome returns_Some returns_weaken [OF IH]) (auto simp: recorded_def split: if_splits)
  have "returns I (recorded (n \<noteq> 0)) (\<lambda>s. calibrate_groups P (g # gs) run n s) (\<lambda>out. recorded (out \<noteq> Continue 0))"
    unfolding calibrate_groups.simps
    by (intro returns_let returns_if IH returns_bind [OF returns_keep [OF returns_group [OF g]]] next_group)
  then show ?case by simp
qed

section \<open>Read latency\<close>

lemma safe_write_read_lat [safe_intros]: "safe I (write_read_lat P)"
  using safe_IOWR [of PHY_MGR_PHY_RLAT 0] by (simp add: safe_def write_read_lat_def in_range_def)

lemma spec_lfifo_test: "spec I (lfifo_test P) (\<lambda>ok. True)"
proof -
  have "spec2 I (rw_mgr_mem_calibrate_read_test_all_ranks P 0 NUM_READ_TESTS PASS_ALL_BITS True 0)"
    unfolding rw_mgr_mem_calibrate_read_test_all_ranks_def using spec2_read_test_tries by simp
  from spec_after [OF safe_write_read_lat spec2_let [OF this spec_return [of "\<lambda>ok. True"]]]
  show ?thesis unfolding lfifo_test_def by simp
qed

text \<open>The search for the least read latency changes the hardware and the read latency.\<close>

lemma lfifo_loop_keeps:
  "I (hw s) \<Longrightarrow> \<exists>ok lat h. lfifo_loop P found s = (ok, set_read_lat lat (s\<lparr>hw := h\<rparr>)) \<and> I h"
proof (induction "unat (curr_read_lat (gbl s) - 1)" arbitrary: s found rule: less_induct)
  case less
  obtain ok h where test: "lfifo_test P s = (ok, s\<lparr>hw := h\<rparr>)" "I h" using specE [OF spec_lfifo_test less.prems] by blast
  let ?s = "set_read_lat (curr_read_lat (gbl s) - 1) (s\<lparr>hw := h\<rparr>)"
  have loop: "lfifo_loop P found s = (if \<not> ok then (found, s\<lparr>hw := h\<rparr>) else if curr_read_lat (gbl ?s) > 0 then lfifo_loop P True ?s else (True, ?s))"
    unfolding lfifo_loop.simps [of P found s] by (simp add: test Let_def)
  have same: "s\<lparr>hw := h\<rparr> = set_read_lat (curr_read_lat (gbl s)) (s\<lparr>hw := h\<rparr>)" by (simp add: set_read_lat_def)
  have "\<exists>ok lat h'. lfifo_loop P True ?s = (ok, set_read_lat lat (?s\<lparr>hw := h'\<rparr>)) \<and> I h'" if "curr_read_lat (gbl ?s) > 0"
    using that test(2) unat_dec [of 0 "curr_read_lat (gbl s) - 1"] by (intro less.hyps) (simp_all add: set_read_lat_def)
  moreover have "\<exists>lat h'. s\<lparr>hw := h\<rparr> = set_read_lat lat (s\<lparr>hw := h'\<rparr>) \<and> I h'" using same test(2) by blast
  ultimately show ?case using loop test(2) by (auto simp: set_read_lat_def split: if_splits)
qed

lemma returns_lfifo: "returns I (\<lambda>g. True) (\<lambda>s. Some (rw_mgr_mem_calibrate_lfifo P s)) (\<lambda>ok. recorded (\<not> ok))"
proof -
  have failed: "CAL_STAGE_LFIFO \<in> failing_stages" by (simp add: failing_stages_def)
  have loop: "returns I (\<lambda>g. True) (\<lambda>s. Some (lfifo_loop P found s)) (\<lambda>ok g. True)" for found
    unfolding returns_def using lfifo_loop_keeps [of _ found] by (fastforce simp: progress_def failure_def set_read_lat_def)
  have found: "returns I (\<lambda>g. True) (\<lambda>s. let s = s\<lparr>gbl := (gbl s)\<lparr>curr_read_lat := curr_read_lat (gbl s) + 2\<rparr>\<rparr>; s = write_read_lat P s in
      Some (True, s)) (\<lambda>ok. recorded (\<not> ok))"
    by (rule returns_gbl [where Q' = "\<lambda>g. True" and u = "\<lambda>g. g\<lparr>curr_read_lat := curr_read_lat g + 2\<rparr>"])
      (simp add: failure_def, rule returns_after [OF safe_write_read_lat], rule returns_Some, simp)
  let ?f = "\<lambda>s. let s = reg_file_set_stage P CAL_STAGE_LFIFO s; s = reg_file_set_sub_stage P CAL_SUBSTAGE_READ_LATENCY s;
      s = rw_mgr_mem_calibrate_read_load_patterns_all_ranks P s; (found_one, s) = lfifo_loop P False s;
      s = IOWR_32DIRECT P PHY_MGR_CMD_FIFO_RESET 0 0 s in
      if found_one then let s = s\<lparr>gbl := (gbl s)\<lparr>curr_read_lat := curr_read_lat (gbl s) + 2\<rparr>\<rparr>; s = write_read_lat P s in Some (True, s)
      else Some (False, set_failing_group_stage 0xff CAL_STAGE_LFIFO CAL_SUBSTAGE_READ_LATENCY s)"
  have "returns I (\<lambda>g. True) ?f (\<lambda>ok. recorded (\<not> ok))"
    by (intro returns_after safe_intros, rule returns_total [OF loop])
      (intro returns_after safe_intros in_range_intros returns_if found returns_fail [OF failed], simp add: recorded_def)
  moreover have "?f = (\<lambda>s. Some (rw_mgr_mem_calibrate_lfifo P s))"
    by (rule ext) (simp add: rw_mgr_mem_calibrate_lfifo_def Let_def split_beta set_read_lat_def)
  ultimately show ?thesis by simp
qed

section \<open>All groups\<close>

lemma returns_repeat: "returns I (\<lambda>g. True) (calibrate_repeat P n 0) (\<lambda>ok. recorded (\<not> ok))"
proof (induction n)
  case 0
  have "returns I (\<lambda>g. True) (\<lambda>s. Some (True, s)) (\<lambda>ok. recorded (\<not> ok))" by (rule returns_Some) simp
  then show ?case by (simp add: returns_def)
next
  case (Suc n)
  have groups: "set [0..<RW_MGR_MEM_IF_WRITE_DQS_WIDTH] \<subseteq> {..<4}" by (auto simp: size_defs)
  have gs: "returns I (\<lambda>g. True) (\<lambda>s. calibrate_groups P [0..<RW_MGR_MEM_IF_WRITE_DQS_WIDTH] (NOT (skip_groups (param s))) 0 s)
      (\<lambda>out. recorded (out \<noteq> Continue 0))"
    by (rule returns_arg, rule returns_weaken [OF returns_groups [OF groups, of 0]]) simp_all
  have lfifo: "returns I Q (\<lambda>s. Some (if b \<and> skip_groups (param s) = 0 then rw_mgr_mem_calibrate_lfifo P s else (True, s))) (\<lambda>ok. recorded (\<not> ok))"
    for b Q
    using returns_lfifo by (auto simp: returns_def progress_refl)
  have latency: "returns I (recorded (m \<noteq> 0)) (\<lambda>s. if m \<noteq> 0 then Some (False, s) else
      let (ok, s) = (if STATIC_CALIB_STEPS AND CALIB_SKIP_LFIFO = 0 \<and> skip_groups (param s) = 0 then rw_mgr_mem_calibrate_lfifo P s else (True, s)) in
      if ok then calibrate_repeat P n m s else Some (False, s)) (\<lambda>ok. recorded (\<not> ok))" for m
  proof (cases "m = 0")
    case True
    have ok: "returns I (recorded (\<not> ok)) (\<lambda>s. if ok then calibrate_repeat P n 0 s else Some (False, s)) (\<lambda>ok. recorded (\<not> ok))" for ok
      by (intro returns_if returns_Some returns_weaken [OF Suc]) simp_all
    show ?thesis unfolding True using returns_total [OF lfifo ok] by simp
  qed (simp add: returns_Some)
  have "returns I (\<lambda>g. True) (\<lambda>s. calibrate_repeat P (Suc n) 0 s) (\<lambda>ok. recorded (\<not> ok))"
    unfolding calibrate_repeat.simps
    by (intro returns_after [OF safe_zero_all], rule returns_bind [OF gs], intro returns_outcome returns_Some, simp)
      (rule returns_weaken [OF latency], simp_all)
  then show ?case by simp
qed

end

end
