(* ===== verification/Seq_Main.thy ===== *)
theory Seq_Main
  imports Seq_Runs
begin

text \<open>
  The entry points of the firmware, \<open>run_mem_calibrate\<close> and \<open>sdram_calibration\<close>: on every platform that
  keeps to the contract on the delay registers they return, keep it, and report the result.
\<close>

section \<open>Setup\<close>

lemma returns_step:
  assumes "returns I Q (\<lambda>s. Some ((), f s)) S" "returns I (S ()) g R"
  shows "returns I Q (\<lambda>s. let s = f s in g s) R"
  using returns_bind [OF assms(1), of "\<lambda>_. g" R] assms(2) by simp

lemma no_setting_setup [simp]:
  "setting_max REG_FILE_DEBUG_DATA_ADDR = None" "setting_max REG_FILE_DEBUG1 = None" "setting_max REG_FILE_DEBUG2 = None"
  by code_simp+

lemma rom_addresses:
  "list_all (\<lambda>i. setting_max (RW_MGR_INST_ROM_WRITE + push_bit 2 (of_nat i)) = None) [0..<inst_rom_init_size]"
  "list_all (\<lambda>i. setting_max (RW_MGR_AC_ROM_WRITE + push_bit 2 (of_nat i)) = None) [0..<ac_rom_init_size]"
  "list_all (\<lambda>i. setting_max (SCC_MGR_HHP_RFILE + push_bit 2 (of_nat i)) = None) [0..<16]"
  by code_simp+

definition reset_errors :: "'h seq \<Rightarrow> 'h seq" where
  "reset_errors s = s\<lparr>gbl := (gbl s)\<lparr>error_substage := CAL_SUBSTAGE_NIL, error_stage := CAL_STAGE_NIL, error_group := 0xff,
     fom_in := 0, fom_out := 0\<rparr>\<rparr>"

context delay_contract
begin

lemma safe_setup:
  assumes "setting_max (BASE_MMR + PHYCTRL_0_OFFSET C) = None" "setting_max (BASE_MMR + PHYCTRL_1_OFFSET C) = None"
    "setting_max (BASE_MMR + PHYCTRL_2_OFFSET C) = None"
  shows "safe I (initialize_reg_file P)" "safe I (initialize_hps_phy P C)" "safe I (scc_mgr_initialize P)"
    "safe I (initialize_tracking P)" "safe I (hc_initialize_rom_data P)"
  unfolding initialize_reg_file_def initialize_hps_phy_def scc_mgr_initialize_def initialize_tracking_def hc_initialize_rom_data_def Let_def
  by (intro safe_intros in_range_intros; use assms rom_addresses in \<open>simp add: list_all_iff\<close>)+

lemma safe_bypass [safe_intros]: "safe I (scc_set_bypass_mode P g m)"
proof -
  have "setting_max (SCC_MGR_HHP_GLOBALS + x) = None" if "x = SCC_MGR_HHP_EXTRAS_OFFSET" for x
    unfolding that by code_simp
  then show ?thesis
    unfolding scc_set_bypass_mode_def scc_mgr_set_hhp_extras_def WRITE_SCC_HHP_EXTRAS_def
    by (intro safe_intros in_range_intros) simp_all
qed

lemma returns_mem_config: "returns I (\<lambda>g. True) (\<lambda>s. Some ((), mem_config P s)) (\<lambda>x g. True)"
proof -
  let ?f = "\<lambda>s. let (wl, s) = IORD_32DIRECT P MEM_T_WL_ADD 0 s; (add, s) = IORD_32DIRECT P DATA_MGR_MEM_T_ADD 0 s;
      (rlat, s) = IORD_32DIRECT P MEM_T_RL_ADD 0 s;
      s = s\<lparr>gbl := (gbl s)\<lparr>rw_wl_nop_cycles := nop_cycles_of (wl + add + 1)\<rparr>\<rparr>;
      s = s\<lparr>gbl := (gbl s)\<lparr>curr_read_lat := (if snd (burst_latencies (wl + add + 1) rlat) > max_latency then max_latency
        else snd (burst_latencies (wl + add + 1) rlat))\<rparr>\<rparr>;
      s = write_read_lat P s;
      s = s\<lparr>gbl := (gbl s)\<lparr>curr_write_lat := fst (burst_latencies (wl + add + 1) rlat)\<rparr>\<rparr>;
      s = IOWR_32DIRECT P PHY_MGR_AFI_WLAT 0 (fst (burst_latencies (wl + add + 1) rlat) - 2) s; s = mem_precharge_and_activate P s in
      Some ((), s)"
  have lat: "returns I (\<lambda>g. True) (\<lambda>s. let s = s\<lparr>gbl := (gbl s)\<lparr>rw_wl_nop_cycles := n\<rparr>\<rparr> in f s) R"
    "returns I (\<lambda>g. True) (\<lambda>s. let s = s\<lparr>gbl := (gbl s)\<lparr>curr_read_lat := n'\<rparr>\<rparr> in f s) R"
    "returns I (\<lambda>g. True) (\<lambda>s. let s = s\<lparr>gbl := (gbl s)\<lparr>curr_write_lat := n'\<rparr>\<rparr> in f s) R"
    if "returns I (\<lambda>g. True) f R" for n n' and f :: "'h seq \<Rightarrow> (unit \<times> 'h seq) option" and R
    by (rule returns_gbl [of _ "\<lambda>g. True", OF _ that], simp add: failure_def)+
  have "returns I (\<lambda>g. True) ?f (\<lambda>x g. True)"
    by (intro returns_spec [OF spec_IORD_any] lat returns_after safe_intros in_range_intros returns_Some TrueI) simp
  moreover have "?f = (\<lambda>s. Some ((), mem_config P s))"
    by (rule ext) (simp add: mem_config_def Let_def split_beta set_read_lat_def)
  ultimately show ?thesis by simp
qed

lemma mem_calibrate_returns:
  assumes "I (hw s)" "dyn_calib_steps s AND CALIB_SKIP_ALL \<noteq> CALIB_SKIP_ALL"
  shows "\<exists>ok s'. mem_calibrate P s = Some (ok, s') \<and> I (hw s') \<and> progress (reset_errors s) s' \<and> recorded (\<not> ok) (gbl s')"
proof -
  have upd: "returns I (recorded (\<not> ok)) (\<lambda>s. Some (if ok then (True, IOWR_32DIRECT P SCC_MGR_UPD 0 0 s) else (False, s)))
      (\<lambda>ok. recorded (\<not> ok))" for ok
    using returns_after [OF safe_IOWR [of SCC_MGR_UPD 0 0], of "recorded False" "\<lambda>s. Some (True, s)" "\<lambda>ok. recorded (\<not> ok)"]
      returns_Some [of "recorded True" "\<lambda>ok. recorded (\<not> ok)" False I] returns_Some [of "recorded False" "\<lambda>ok. recorded (\<not> ok)" True I]
    by (cases ok) (simp_all add: in_range_0)
  let ?bypass = "for_each [0..<RW_MGR_MEM_IF_READ_DQS_WIDTH] (\<lambda>i. perform [IOWR_32DIRECT P SCC_MGR_GROUP_COUNTER 0 (of_nat i),
            scc_set_bypass_mode P (of_nat i) (if HARD_PHY then 0x1 else 0x0)])"
  have bypass: "safe I ?bypass" by (intro safe_intros in_range_intros) simp
  have "I (hw (reset_errors s))" using assms(1) by (simp add: reset_errors_def)
  then obtain s1 where s1: "mem_config P (reset_errors s) = s1" "I (hw s1)" "progress (reset_errors s) s1"
    using returnsE [OF returns_mem_config, of "reset_errors s"] by auto
  obtain h where h: "?bypass s1 = s1\<lparr>hw := h\<rparr>" "I h" using safeE [OF bypass s1(2)] by blast
  have steps: "dyn_calib_steps (s1\<lparr>hw := h\<rparr>) = dyn_calib_steps s" using s1(3) by (simp add: progress_def reset_errors_def)
  obtain ok s' where s': "do { (ok, s) \<leftarrow> calibrate_repeat P NUM_CALIB_REPEAT 0 (s1\<lparr>hw := h\<rparr>);
      Some (if ok then (True, IOWR_32DIRECT P SCC_MGR_UPD 0 0 s) else (False, s)) } = Some (ok, s')"
    "I (hw s')" "progress (s1\<lparr>hw := h\<rparr>) s'" "recorded (\<not> ok) (gbl s')"
    using returnsE [OF returns_bind [OF returns_repeat upd], of "s1\<lparr>hw := h\<rparr>"] h(2) by auto
  moreover have "progress (reset_errors s) s'" using progress_trans [OF s1(3)] s'(3) by simp
  moreover have "mem_calibrate P s = Some (ok, s')"
    unfolding mem_calibrate_def reset_errors_def [symmetric] Let_def s1(1) h(1) using s'(1) steps assms(2) by simp
  ultimately show ?thesis by blast
qed

section \<open>Entry points\<close>

lemma initialize_keeps:
  assumes "I (hw s)"
  shows "\<exists>p h. initialize P s = s\<lparr>param := p, hw := h\<rparr> \<and> I h"
proof -
  let ?w = "perform [IOWR_32DIRECT P PHY_MGR_MUX_SEL 0 0x3, IOWR_32DIRECT P PHY_MGR_RESET_MEM_STBL 0 0,
    IOWR_32DIRECT P PHY_MGR_CAL_STATUS 0 0, IOWR_32DIRECT P PHY_MGR_CAL_DEBUG_INFO 0 0]"
  have "safe I ?w" by (intro safe_intros in_range_intros) simp
  then obtain h where h: "?w s = s\<lparr>hw := h\<rparr>" "I h" using assms by (rule safeE)
  have same: "\<exists>p. t = t\<lparr>param := p\<rparr>" for t :: "'h seq" by (rule exI [of _ "param t"]) simp
  have "\<exists>p. initialize P s = (?w s)\<lparr>param := p\<rparr>"
    unfolding initialize_def perform_simps by (simp add: same del: seq.update_convs) blast
  then obtain p where "initialize P s = s\<lparr>hw := h, param := p\<rparr>" unfolding h(1) by blast
  then have "initialize P s = s\<lparr>param := p, hw := h\<rparr>" by simp
  then show ?thesis using h(2) by blast
qed

lemma run_mem_calibrate_returns:
  assumes "I (hw s)" "dyn_calib_steps s AND CALIB_SKIP_ALL \<noteq> CALIB_SKIP_ALL"
  shows "\<exists>pass s0. run_mem_calibrate P s = Some (pass, report_result P pass s0) \<and> I (hw s0) \<and>
    (\<not> pass \<longrightarrow> error_stage (gbl s0) \<in> failing_stages)"
proof -
  let ?pre = "\<lambda>s. let s = IOWR_32DIRECT P PHY_MGR_CAL_STATUS 0 PHY_MGR_CAL_RESET s; (ctrlcfg, s) = IORD_32DIRECT P CTRL_CONFIG_REG 0 s;
    s = IOWR_32DIRECT P CTRL_CONFIG_REG 0 (ctrlcfg AND 0xFFBFFFFF) s in (ctrlcfg, s)"
  let ?post = "\<lambda>cfg s. let s = mem_precharge_and_activate P s; s = IOWR_32DIRECT P PHY_MGR_CMD_FIFO_RESET 0 0 s;
    s = (if phy_debug_mode_flags (gbl s) AND PHY_DEBUG_IN_DEBUG_MODE = 0
      then IOWR_32DIRECT P PHY_MGR_MUX_SEL 0 0x2 (rw_mgr_mem_handoff P s) else s) in ((), IOWR_32DIRECT P CTRL_CONFIG_REG 0 cfg s)"
  have pre: "spec I ?pre (\<lambda>c. True)" by (intro safe_intros in_range_intros spec_return TrueI) simp_all
  have handoff: "safe I (\<lambda>s. if phy_debug_mode_flags (gbl s) AND PHY_DEBUG_IN_DEBUG_MODE = 0
      then IOWR_32DIRECT P PHY_MGR_MUX_SEL 0 0x2 (rw_mgr_mem_handoff P s) else s)"
    by (intro safe_cond safe_id safe_comp [OF safe_memory(2) safe_IOWR] in_range_intros) simp
  have last: "spec I (\<lambda>s. ((), IOWR_32DIRECT P CTRL_CONFIG_REG 0 cfg s)) (\<lambda>x. True)" for cfg
    by (rule spec_after [OF safe_IOWR spec_return [of "\<lambda>x. True"]]) (simp_all add: in_range_def)
  have post: "spec I (?post cfg) (\<lambda>x. True)" for cfg
    by (intro spec_lets(2) handoff last safe_intros in_range_intros)
  obtain cfg h1 where h1: "?pre s = (cfg, s\<lparr>hw := h1\<rparr>)" "I h1" using specE [OF pre assms(1)] by blast
  obtain t where rd: "IORD_32DIRECT P CTRL_CONFIG_REG 0 (IOWR_32DIRECT P PHY_MGR_CAL_STATUS 0 PHY_MGR_CAL_RESET s) = (cfg, t)"
      "IOWR_32DIRECT P CTRL_CONFIG_REG 0 (cfg AND 0xFFBFFFFF) t = s\<lparr>hw := h1\<rparr>"
    using h1(1) by (auto simp: Let_def split: prod.splits)
  obtain p h2 where h2: "initialize P (s\<lparr>hw := h1\<rparr>) = s\<lparr>param := p, hw := h2\<rparr>" "I h2"
    using initialize_keeps [of "s\<lparr>hw := h1\<rparr>"] h1(2) by auto
  obtain h3 where h3: "rw_mgr_mem_initialize P (s\<lparr>param := p, hw := h2\<rparr>) = s\<lparr>param := p, hw := h3\<rparr>" "I h3"
    using safe_memory(1) h2(2) by (rule safe_at)
  let ?s = "s\<lparr>param := p, hw := h3\<rparr>"
  obtain ok s1 where s1: "mem_calibrate P ?s = Some (ok, s1)" "I (hw s1)" "progress (reset_errors ?s) s1" "recorded (\<not> ok) (gbl s1)"
    using mem_calibrate_returns [of ?s] h3(2) assms(2) by auto
  obtain u h4 where h4: "?post cfg s1 = (u, s1\<lparr>hw := h4\<rparr>)" "I h4" using post s1(2) by (rule specE)
  have "run_mem_calibrate P s = Some (ok, report_result P ok (snd (?post cfg s1)))"
    unfolding run_mem_calibrate_def rd(1) Let_def using rd(2) h2(1) h3(1) s1(1) by simp
  moreover have "error_stage (gbl s1) \<in> failing_stages" if "\<not> ok"
    using that s1(3,4) by (auto simp: recorded_def progress_def reset_errors_def)
  ultimately show ?thesis using h4 by auto
qed

lemma report_result_keeps: "I (hw s) \<Longrightarrow> I (hw (report_result P pass s))"
proof -
  assume s: "I (hw s)"
  have upd: "I (hw (IOWR_32DIRECT P a 0 d s))" if "I (hw s)" "setting_max a = None" for a d s
  proof -
    have "safe I (IOWR_32DIRECT P a 0 d)" using that(2) by (intro safe_intros in_range_intros) simp
    then show ?thesis using that(1) by (rule safeE) simp
  qed
  show ?thesis using s unfolding report_result_def by (auto simp: Let_def perform_simps intro!: upd)
qed

lemma sdram_calibration_returns:
  assumes "I (hw s)" "setting_max (BASE_MMR + PHYCTRL_0_OFFSET C) = None" "setting_max (BASE_MMR + PHYCTRL_1_OFFSET C) = None"
    "setting_max (BASE_MMR + PHYCTRL_2_OFFSET C) = None"
  shows "\<exists>pass s0. sdram_calibration P C s = Some (pass, report_result P pass s0) \<and> I (hw s0) \<and>
    (\<not> pass \<longrightarrow> error_stage (gbl s0) \<in> failing_stages)"
proof -
  note begins = safe_setup [OF assms(2-4)]
  let ?a = "perform [initialize_reg_file P, initialize_hps_phy P C, scc_mgr_initialize P, initialize_tracking P]"
  let ?b = "perform [hc_initialize_rom_data P, reg_file_set_stage P CAL_STAGE_NIL, reg_file_set_group P 0]"
  have safe: "safe I ?a" "safe I ?b" by (intro safe_intros begins)+
  let ?s = "s\<lparr>gbl := (gbl s)\<lparr>phy_debug_mode_flags := 0 OR PHY_DEBUG_ENABLE_CAL_RPT\<rparr>\<rparr>"
  obtain h where h: "?a ?s = ?s\<lparr>hw := h\<rparr>" "I h" using safeE [OF safe(1), of ?s] assms(1) by auto
  let ?t = "?s\<lparr>hw := h, param := (param s)\<lparr>skip_ranks := replicate RW_MGR_MEM_NUMBER_OF_RANKS False,
            skip_shadow_regs := replicate NUM_SHADOW_REGS False, skip_groups := 0\<rparr>\<rparr>"
  obtain h' where h': "?b ?t = ?t\<lparr>hw := h'\<rparr>" "I h'" using safeE [OF safe(2), of ?t] h(2) by auto
  let ?u = "?t\<lparr>hw := h', dyn_calib_steps := STATIC_CALIB_STEPS,
    skip_delay_mask := (if STATIC_CALIB_STEPS AND CALIB_SKIP_DELAY_LOOPS = 0 then 0xff else 0x0)\<rparr>"
  have "STATIC_CALIB_STEPS AND CALIB_SKIP_ALL \<noteq> CALIB_SKIP_ALL" by code_simp
  then have "\<exists>pass s0. run_mem_calibrate P ?u = Some (pass, report_result P pass s0) \<and> I (hw s0) \<and>
      (\<not> pass \<longrightarrow> error_stage (gbl s0) \<in> failing_stages)"
    using h'(2) by (intro run_mem_calibrate_returns) simp_all
  moreover have "sdram_calibration P C s = run_mem_calibrate P ?u"
    unfolding sdram_calibration_def using h(1) h'(1) by (simp add: Let_def perform_simps)
  ultimately show ?thesis by simp
qed

end

section \<open>The contract on a concrete platform\<close>

text \<open>The registers of the platform \<open>reg_plat\<close> that hold settings are in range.\<close>

definition regs_in_range :: "(u32 \<Rightarrow> u32) \<Rightarrow> bool" where
  "regs_in_range h \<longleftrightarrow> (\<forall>a. in_range a (h (AVL_TO_APB reg_plat a)))"

lemma selects_manager:
  fixes c m x :: u32
  assumes "bit c n" "bit m n"
  shows "(c OR x) AND m \<noteq> 0"
proof
  assume "(c OR x) AND m = 0"
  then have "bit ((c OR x) AND m) n = bit (0 :: u32) n" by simp
  then show False using assms by (simp add: bit_and_iff bit_or_iff)
qed

lemma scc_register:
  "AVL_TO_APB reg_plat a AND 0x7000 = 0 \<longleftrightarrow> a AND MGR_SELECT_MASK = BASE_SCC_MGR"
  "a AND MGR_SELECT_MASK = BASE_SCC_MGR \<Longrightarrow> AVL_TO_APB reg_plat a = a AND 0xfff"
proof -
  have zero: "(a AND 0xfff) AND 0x7000 = 0" by (simp add: and.assoc)
  show "AVL_TO_APB reg_plat a AND 0x7000 = 0 \<longleftrightarrow> a AND MGR_SELECT_MASK = BASE_SCC_MGR"
    using selects_manager [of "0x1000" 12 "0x7000"] selects_manager [of "0x2000" 13 "0x7000"] selects_manager [of "0x4000" 14 "0x7000"]
      selects_manager [of "0x4800" 14 "0x7000"] selects_manager [of "0x5000" 14 "0x7000"] zero
    by (simp add: AVL_TO_APB_def reg_plat_def base_defs or.assoc)
  show "a AND MGR_SELECT_MASK = BASE_SCC_MGR \<Longrightarrow> AVL_TO_APB reg_plat a = a AND 0xfff"
    by (simp add: AVL_TO_APB_def reg_plat_def base_defs)
qed

lemma same_register:
  assumes "AVL_TO_APB reg_plat a = AVL_TO_APB reg_plat b"
  shows "setting_max a = setting_max b"
proof (cases "a AND MGR_SELECT_MASK = BASE_SCC_MGR")
  case True
  then have "b AND MGR_SELECT_MASK = BASE_SCC_MGR" using scc_register(1) [of a] scc_register(1) [of b] assms by simp
  then show ?thesis using True scc_register(2) [of a] scc_register(2) [of b] assms by (simp add: setting_max_def)
next
  case False
  then have "b AND MGR_SELECT_MASK \<noteq> BASE_SCC_MGR" using scc_register(1) [of a] scc_register(1) [of b] assms by simp
  then show ?thesis using False by (simp add: setting_max_def Let_def)
qed

lemma reg_plat_registers: "delay_registers reg_plat regs_in_range"
proof -
  have read: "bus_read reg_plat a h = (h (AVL_TO_APB reg_plat a), h)" for a h by (simp add: bus_read_def reg_plat_def)
  have store: "bus_write reg_plat a d h = h(AVL_TO_APB reg_plat a := d)" for a d h by (simp add: bus_write_def reg_plat_def)
  have "regs_in_range (h(AVL_TO_APB reg_plat a := d))" if "regs_in_range h" "in_range a d" for a d h
    unfolding regs_in_range_def
  proof
    fix b
    show "in_range b ((h(AVL_TO_APB reg_plat a := d)) (AVL_TO_APB reg_plat b))"
      using that same_register [of b a] by (cases "AVL_TO_APB reg_plat b = AVL_TO_APB reg_plat a") (simp_all add: regs_in_range_def in_range_def)
  qed
  then show ?thesis unfolding delay_registers_def read store by (simp add: regs_in_range_def)
qed

interpretation rp: delay_contract reg_plat regs_in_range
  by unfold_locales (rule reg_plat_registers)

section \<open>Properties\<close>

text \<open>
  The PHY control registers are not delay settings. Their offsets are macros of a header that is not
  in the repository.
\<close>

definition phyctrl_offsets_ok :: "phyctrl \<Rightarrow> bool" where
  "phyctrl_offsets_ok C \<longleftrightarrow>
     list_all (\<lambda>off. setting_max (BASE_MMR + off) = None) [PHYCTRL_0_OFFSET C, PHYCTRL_1_OFFSET C, PHYCTRL_2_OFFSET C]"

definition some_phyctrl :: phyctrl where
  "some_phyctrl = \<lparr>PHYCTRL_0_ACDELAYEN_SET = (\<lambda>x. x), PHYCTRL_0_DQDELAYEN_SET = push_bit 2, PHYCTRL_0_DQSDELAYEN_SET = push_bit 4,
     PHYCTRL_0_DQSLOGICDELAYEN_SET = push_bit 6, PHYCTRL_0_RESETDELAYEN_SET = push_bit 8, PHYCTRL_0_LPDDRDIS_SET = push_bit 9,
     PHYCTRL_0_ADDLATSEL_SET = push_bit 10, PHYCTRL_0_SAMPLECOUNT_19_0_SET = push_bit 12, PHYCTRL_1_SAMPLECOUNT_31_20_SET = (\<lambda>x. x),
     PHYCTRL_1_LONGIDLESAMPLECOUNT_19_0_SET = push_bit 12, PHYCTRL_2_LONGIDLESAMPLECOUNT_31_20_SET = (\<lambda>x. x),
     PHYCTRL_0_OFFSET = 0x150, PHYCTRL_1_OFFSET = 0x154, PHYCTRL_2_OFFSET = 0x158,
     PHYCTRL_0_SAMPLECOUNT_19_0_WIDTH = 20, PHYCTRL_1_LONGIDLESAMPLECOUNT_19_0_WIDTH = 20\<rparr>"

lemma some_phyctrl_ok: "phyctrl_offsets_ok some_phyctrl"
  by code_simp

lemma regs_in_range_0: "regs_in_range (\<lambda>a. 0)"
  by (simp add: regs_in_range_def in_range_0)

text \<open>
  C4: The calibration of the memory interface ends, whatever the tests of the memory read back, and
  it writes no delay and no phase that its register bank does not have: a platform that keeps an
  invariant as long as every setting written is in range has the invariant after the calibration.
\<close>

theorem calibration_ends_in_range:
  assumes "delay_registers P I" "phyctrl_offsets_ok C" "I (hw s)"
  shows "\<exists>pass s'. sdram_calibration P C s = Some (pass, s') \<and> I (hw s')"
proof -
  have contract: "delay_contract P I" using assms(1) by (rule delay_contract.intro)
  obtain pass s0 where "sdram_calibration P C s = Some (pass, report_result P pass s0)" "I (hw s0)"
    using delay_contract.sdram_calibration_returns [OF contract, of s C] assms(2,3) by (auto simp: phyctrl_offsets_ok_def)
  then show ?thesis using delay_contract.report_result_keeps [OF contract] by blast
qed

theorem calibration_ends_in_range_witness:
  "\<exists>pass s'. sdram_calibration reg_plat some_phyctrl (some_seq 16 (\<lambda>a. 0)) = Some (pass, s') \<and> regs_in_range (hw s')"
  by (rule calibration_ends_in_range [OF reg_plat_registers some_phyctrl_ok]) (simp add: regs_in_range_0)

text \<open>The registers that tell the result of the calibration.\<close>

definition result_registers :: "'h plat \<Rightarrow> u32 list" where
  "result_registers P = map (AVL_TO_APB P) [PHY_MGR_CAL_STATUS, PHY_MGR_CAL_DEBUG_INFO, REG_FILE_FOM, REG_FILE_FAILING_STAGE]"

lemma low_byte:
  fixes y z :: u32
  assumes "x \<in> failing_stages"
  shows "(x OR push_bit 8 y OR push_bit 16 z) AND 0xff = x"
proof -
  have byte: "v AND 0xff = take_bit 8 v" for v :: u32 by (simp add: take_bit_eq_mask mask_eq_exp_minus_1)
  have "take_bit 8 x = x" using assms by (auto simp: failing_stages_def stage_defs)
  then show ?thesis unfolding byte by (simp add: take_bit_or take_bit_push_bit)
qed

lemma result_of_report:
  assumes "stores P get (set (result_registers P))" "distinct (result_registers P)"
    and "\<not> pass \<longrightarrow> error_stage (gbl s) \<in> failing_stages"
  defines "s' \<equiv> report_result P pass s"
  shows "get (hw s') (AVL_TO_APB P PHY_MGR_CAL_STATUS) = (if pass then PHY_MGR_CAL_SUCCESS else PHY_MGR_CAL_FAIL)"
    "get (hw s') (AVL_TO_APB P PHY_MGR_CAL_DEBUG_INFO) = get (hw s') (AVL_TO_APB P (if pass then REG_FILE_FOM else REG_FILE_FAILING_STAGE))"
    "pass \<Longrightarrow> get (hw s') (AVL_TO_APB P REG_FILE_FOM) = fom_in (gbl s') OR push_bit 8 (fom_out (gbl s')) \<and>
      fom_in (gbl s') \<le> 0xff \<and> fom_out (gbl s') \<le> 0xff"
    "\<not> pass \<Longrightarrow> get (hw s') (AVL_TO_APB P REG_FILE_FAILING_STAGE) AND 0xff \<in> failing_stages"
proof -
  have stored: "get (hw (IOWR_32DIRECT P b 0 d t)) a = (if AVL_TO_APB P b = a then d else get (hw t) a)"
    if "a \<in> set (result_registers P)" for a b d t
    using assms(1) that by (simp add: IOWR_32DIRECT_def stores_def)
  note stored = stored [unfolded result_registers_def list.map list.set insert_iff empty_iff]
  have neq: "AVL_TO_APB P PHY_MGR_CAL_STATUS \<noteq> AVL_TO_APB P PHY_MGR_CAL_DEBUG_INFO" "AVL_TO_APB P PHY_MGR_CAL_STATUS \<noteq> AVL_TO_APB P REG_FILE_FOM"
    "AVL_TO_APB P PHY_MGR_CAL_STATUS \<noteq> AVL_TO_APB P REG_FILE_FAILING_STAGE" "AVL_TO_APB P PHY_MGR_CAL_DEBUG_INFO \<noteq> AVL_TO_APB P REG_FILE_FOM"
    "AVL_TO_APB P PHY_MGR_CAL_DEBUG_INFO \<noteq> AVL_TO_APB P REG_FILE_FAILING_STAGE"
    "AVL_TO_APB P REG_FILE_FOM \<noteq> AVL_TO_APB P REG_FILE_FAILING_STAGE"
    using assms(2) by (simp_all add: result_registers_def)
  have gbl: "gbl (IOWR_32DIRECT P b 0 d t) = gbl t" for b d t by (simp add: IOWR_32DIRECT_def)
  note facts = stored neq neq [symmetric] gbl
  show "get (hw s') (AVL_TO_APB P PHY_MGR_CAL_STATUS) = (if pass then PHY_MGR_CAL_SUCCESS else PHY_MGR_CAL_FAIL)"
    "get (hw s') (AVL_TO_APB P PHY_MGR_CAL_DEBUG_INFO) = get (hw s') (AVL_TO_APB P (if pass then REG_FILE_FOM else REG_FILE_FAILING_STAGE))"
    by (simp_all add: s'_def report_result_def Let_def perform_simps facts)
  show "pass \<Longrightarrow> get (hw s') (AVL_TO_APB P REG_FILE_FOM) = fom_in (gbl s') OR push_bit 8 (fom_out (gbl s')) \<and>
      fom_in (gbl s') \<le> 0xff \<and> fom_out (gbl s') \<le> 0xff"
    by (simp add: s'_def report_result_def Let_def perform_simps facts not_less)
  show "\<not> pass \<Longrightarrow> get (hw s') (AVL_TO_APB P REG_FILE_FAILING_STAGE) AND 0xff \<in> failing_stages"
    using assms(3) by (simp add: s'_def report_result_def Let_def perform_simps facts low_byte)
qed

text \<open>
  C5: The calibration reports its result. The status register tells success or failure, and the
  debug register repeats the details: after a success the two figures of merit, each limited to a
  byte, and after a failure the stage that failed, which is one of the stages that calibrate.
\<close>

theorem calibration_reports:
  assumes "delay_registers P I" "phyctrl_offsets_ok C" "I (hw s)"
    and "stores P get (set (result_registers P))" "distinct (result_registers P)"
  shows "\<exists>pass s'. sdram_calibration P C s = Some (pass, s') \<and>
    get (hw s') (AVL_TO_APB P PHY_MGR_CAL_STATUS) = (if pass then PHY_MGR_CAL_SUCCESS else PHY_MGR_CAL_FAIL) \<and>
    get (hw s') (AVL_TO_APB P PHY_MGR_CAL_DEBUG_INFO) = get (hw s') (AVL_TO_APB P (if pass then REG_FILE_FOM else REG_FILE_FAILING_STAGE)) \<and>
    (pass \<longrightarrow> get (hw s') (AVL_TO_APB P REG_FILE_FOM) = fom_in (gbl s') OR push_bit 8 (fom_out (gbl s')) \<and>
      fom_in (gbl s') \<le> 0xff \<and> fom_out (gbl s') \<le> 0xff) \<and>
    (\<not> pass \<longrightarrow> get (hw s') (AVL_TO_APB P REG_FILE_FAILING_STAGE) AND 0xff \<in> failing_stages)"
proof -
  have contract: "delay_contract P I" using assms(1) by (rule delay_contract.intro)
  obtain pass s0 where s0: "sdram_calibration P C s = Some (pass, report_result P pass s0)"
      "\<not> pass \<longrightarrow> error_stage (gbl s0) \<in> failing_stages"
    using delay_contract.sdram_calibration_returns [OF contract, of s C] assms(2,3) by (auto simp: phyctrl_offsets_ok_def)
  note result = result_of_report [OF assms(4,5) s0(2)]
  show ?thesis using s0(1) result by (intro exI [of _ pass] exI [of _ "report_result P pass s0"] conjI impI) simp_all
qed

theorem calibration_reports_witness:
  "\<exists>pass s'. sdram_calibration reg_plat some_phyctrl (some_seq 16 (\<lambda>a. 0)) = Some (pass, s') \<and>
    hw s' (AVL_TO_APB reg_plat PHY_MGR_CAL_STATUS) = (if pass then PHY_MGR_CAL_SUCCESS else PHY_MGR_CAL_FAIL) \<and>
    (pass \<or> hw s' (AVL_TO_APB reg_plat REG_FILE_FAILING_STAGE) AND 0xff \<in> failing_stages)"
proof -
  have "distinct (result_registers reg_plat)" by code_simp
  moreover have "stores reg_plat (\<lambda>h. h) A" for A by (simp add: stores_def reg_plat_def)
  ultimately show ?thesis
    using calibration_reports [OF reg_plat_registers some_phyctrl_ok, of "some_seq 16 (\<lambda>a. 0)" "\<lambda>h. h"] regs_in_range_0 by auto
qed

end
