(* ===== verification/Seq_Eye.thy ===== *)
theory Seq_Eye
  imports Seq_Align Seq_Main
begin

text \<open>
  The read deskew on a memory with eyes: each DQ pin of a group can be read exactly while the difference
  between its delay and the delay of DQS is in a window. On such a memory
  \<open>rw_mgr_mem_calibrate_vfifo_center\<close> finds the windows and sets every pin to the middle of its own.
\<close>

section \<open>The memory\<close>

definition dq_reg :: "nat \<Rightarrow> u32" where
  "dq_reg i = SCC_MGR_IO_IN_DELAY + push_bit 2 (of_nat i)"

definition dqs_reg :: "u32 \<Rightarrow> u32" where
  "dqs_reg g = SCC_MGR_DQS_IN_DELAY + push_bit 2 g"

definition read_regs :: "u32 \<Rightarrow> u32 set" where
  "read_regs g = insert (dqs_reg g) (dq_reg ` {..<8})"

text \<open>
  \<open>get h a\<close> is the setting at the address \<open>a\<close>. A platform holds the settings of \<open>S\<close> when only a write
  to its address changes a setting, and a setting reads back.
\<close>

definition holds_settings :: "'h plat \<Rightarrow> ('h \<Rightarrow> u32 \<Rightarrow> u32) \<Rightarrow> u32 set \<Rightarrow> bool" where
  "holds_settings P get S \<longleftrightarrow>
     (\<forall>a \<in> S. \<forall>b d h. b \<in> S \<or> setting_max b = None \<longrightarrow> get (bus_write P b d h) a = (if b = a then d else get h a)) \<and>
     (\<forall>a \<in> S. \<forall>h. fst (bus_read P a h) = get h a) \<and>
     (\<forall>a \<in> S. \<forall>b h. get (snd (bus_read P b h)) a = get h a)"

definition dq_offset :: "('h \<Rightarrow> u32 \<Rightarrow> u32) \<Rightarrow> u32 \<Rightarrow> 'h \<Rightarrow> nat \<Rightarrow> int" where
  "dq_offset get g h i = uint (get h (dq_reg i)) - uint (get h (dqs_reg g))"

text \<open>The result register has a 1 for each bit that was read wrong.\<close>

definition reads_in_windows :: "'h plat \<Rightarrow> ('h \<Rightarrow> u32 \<Rightarrow> u32) \<Rightarrow> u32 \<Rightarrow> (nat \<Rightarrow> int) \<Rightarrow> (nat \<Rightarrow> int) \<Rightarrow> bool" where
  "reads_in_windows P get g lo hi \<longleftrightarrow>
     (\<forall>h. \<forall>i < 8. bit (fst (bus_read P BASE_RW_MGR h)) i \<longleftrightarrow> \<not> (lo i \<le> dq_offset get g h i \<and> dq_offset get g h i \<le> hi i))"

text \<open>The parameters that \<open>initialize\<close> sets for one rank and eight bits.\<close>

definition reads_one_rank :: "param_t \<Rightarrow> bool" where
  "reads_one_rank p \<longleftrightarrow> read_correct_mask p = 0xff \<and> read_correct_mask_vg p = 0xff \<and> \<not> skip_ranks p ! 0"

text \<open>The delays of the pins and of DQS.\<close>

definition delays_at :: "('h \<Rightarrow> u32 \<Rightarrow> u32) \<Rightarrow> u32 \<Rightarrow> (nat \<Rightarrow> u32) \<Rightarrow> u32 \<Rightarrow> 'h \<Rightarrow> bool" where
  "delays_at get g x y h \<longleftrightarrow> (\<forall>i < 8. get h (dq_reg i) = x i) \<and> get h (dqs_reg g) = y"

lemma max_dq_reg [simp]: "i < 8 \<Longrightarrow> setting_max (dq_reg i) = Some 31" "g < 4 \<Longrightarrow> setting_max (dqs_reg g) = Some 31"
  by (simp_all add: dq_reg_def dqs_reg_def)

lemma dq_regs_distinct: "distinct (map dq_reg [0..<8])"
  by code_simp

lemma dqs_regs_distinct: "list_all (\<lambda>g. list_all (\<lambda>i. dqs_reg g \<noteq> dq_reg i) [0..<8]) [0, 1, 2, 3]"
  by code_simp

lemma dq_reg_eq [simp]: "i < 8 \<Longrightarrow> j < 8 \<Longrightarrow> dq_reg i = dq_reg j \<longleftrightarrow> i = j"
  using nth_eq_iff_index_eq [OF dq_regs_distinct, of i j] by simp

lemma dqs_reg_neq [simp]:
  assumes "g < 4" "i < 8"
  shows "dqs_reg g \<noteq> dq_reg i" "dq_reg i \<noteq> dqs_reg g"
proof -
  have "i \<in> set [0..<8]" using assms(2) by simp
  then show "dqs_reg g \<noteq> dq_reg i" using dqs_regs_distinct group_cases [OF assms(1)] unfolding list_all_iff by blast
  then show "dq_reg i \<noteq> dqs_reg g" by (rule not_sym)
qed

lemma byte_bits: "bit (0xff :: u32) i \<longleftrightarrow> i < 8"
  using bit_mask_iff [of 8 i, where 'a = "32 word"] by (auto simp: mask_eq_exp_minus_1)

section \<open>The middle of a window\<close>

lemma sdiv_2:
  fixes z :: int
  shows "0 \<le> z \<Longrightarrow> z sdiv 2 = z div 2" "z \<le> 0 \<Longrightarrow> z sdiv 2 = - (- z div 2)"
  by (auto simp: signed_divide_int_def sgn_if)

lemma balance:
  fixes l r lk rk y :: int
  assumes l: "0 \<le> l" "l \<le> 31" "0 \<le> r" "r \<le> 31 - y" and y: "0 \<le> y" "y \<le> 31"
    and k: "0 \<le> lk" "lk \<le> 31" "0 \<le> rk" "rk \<le> 31 - y" "lk - rk \<le> l - r"
  defines "m \<equiv> lk - rk"
  defines "h \<equiv> (if 0 < m then m + 1 else m) sdiv 2"
  defines "t \<equiv> y - max 0 (min 31 (y - h))"
  defines "s \<equiv> (l - r - m) sdiv 2 + (h - t)"
  shows "0 \<le> s" "s \<le> 31" "0 \<le> l - s - t" "0 \<le> r + s + t" "\<bar>(l - s - t) - (r + s + t)\<bar> \<le> 1" "\<bar>t\<bar> \<le> 31"
proof -
  have h: "h = (if 0 < m then (m + 1) div 2 else - (- m div 2))" unfolding h_def by (simp add: sdiv_2)
  have "(l - r - m) sdiv 2 = (l - r - m) div 2" using k by (intro sdiv_2) (simp add: m_def)
  then have s: "s = (l - r - m) div 2 + (h - t)" by (simp add: s_def)
  have t: "t = (if y < h then y else h)" using y k h by (auto simp: t_def m_def)
  show "0 \<le> s" using k unfolding s t m_def by auto
  show "s \<le> 31" using k l y unfolding s t h m_def by auto
  show "0 \<le> l - s - t" using k l y unfolding s h m_def by auto
  show "0 \<le> r + s + t" using k l y unfolding s h m_def by auto
  show "\<bar>(l - s - t) - (r + s + t)\<bar> \<le> 1" using k l y unfolding s h m_def by auto
  show "\<bar>t\<bar> \<le> 31" using k y unfolding t h m_def by auto
qed

lemma sint_of_int: "\<bar>z\<bar> \<le> 1000 \<Longrightarrow> sint (word_of_int z :: u32) = z"
  by (simp add: signed_of_int signed_take_bit_int_eq_self)

lemma uint_of_int: "0 \<le> z \<Longrightarrow> z \<le> 31 \<Longrightarrow> uint (word_of_int z :: u32) = z"
  by (simp add: unsigned_of_int take_bit_int_eq_self)

lemma half_mid_int: "\<bar>z\<bar> \<le> 500 \<Longrightarrow> half_mid (word_of_int z) = word_of_int ((if 0 < z then z + 1 else z) sdiv 2)"
  using sint_of_int [of z] sint_of_int [of "z + 1"] by (simp add: half_mid_def signed_div_def)

lemma limit_dqs_int: "\<bar>z\<bar> \<le> 1000 \<Longrightarrow> limit_dqs (word_of_int z) = word_of_int (max 0 (min 31 z))"
  using sint_of_int [of z] by (auto simp: limit_dqs_def max_defs)

lemma signed_div_int: "\<bar>z\<bar> \<le> 1000 \<Longrightarrow> signed_div (word_of_int z) n = word_of_int (z sdiv n)"
  by (simp add: signed_div_def sint_of_int)

section \<open>One test\<close>

context test_contract
begin

text \<open>A test of one rank and one virtual group keeps the bits that the result register allows.\<close>

lemma test_one_rank:
  assumes "safe I prep" "safe I (run 0)" "I (hw s)" "\<not> skip_ranks (param s) ! r"
  shows "\<exists>h0 h. test_ranks P [r] 1 k m prep run chk s = (chk AND (m AND NOT (fst (bus_read P BASE_RW_MGR h0))), s\<lparr>hw := h\<rparr>) \<and>
    I h0 \<and> I h"
proof -
  obtain h1 where h1: "set_rank_and_odt_mask P r RW_MGR_ODT_MODE_READ_WRITE s = s\<lparr>hw := h1\<rparr>" "I h1"
    using safe_set_rank assms(3) by (rule safeE)
  obtain h2 where h2: "prep (s\<lparr>hw := h1\<rparr>) = s\<lparr>hw := h2\<rparr>" "I h2" using assms(1) h1(2) by (rule safe_at)
  obtain h3 where h3: "run 0 (s\<lparr>hw := h2\<rparr>) = s\<lparr>hw := h3\<rparr>" "I h3" using assms(2) h2(2) by (rule safe_at)
  have "IORD_32DIRECT P BASE_RW_MGR 0 (s\<lparr>hw := h3\<rparr>) = (fst (bus_read P BASE_RW_MGR h3), s\<lparr>hw := snd (bus_read P BASE_RW_MGR h3)\<rparr>)"
    by (simp add: IORD_32DIRECT_def bus_read_def split: prod.split)
  then have "test_ranks P [r] 1 k m prep run chk s =
      (chk AND (m AND NOT (fst (bus_read P BASE_RW_MGR h3))), s\<lparr>hw := snd (bus_read P BASE_RW_MGR h3)\<rparr>)"
    using h1(1) h2(1) h3(1) assms(4) by (simp add: test_ranks_def Let_def)
  then show ?thesis using h3(2) reads [OF h3(2)] by blast
qed

lemma read_test_one_rank:
  assumes "g < 4" "I (hw s)" "reads_one_rank (param s)"
  shows "\<exists>h0 h. rw_mgr_mem_calibrate_read_test P 0 g PASS_ONE_BIT False False s =
      (let chk = 0xff AND NOT (fst (bus_read P BASE_RW_MGR h0)) in (chk \<noteq> 0, chk, s\<lparr>hw := h\<rparr>)) \<and> I h0 \<and> I h"
proof -
  let ?prep = "perform [
              IOWR_32DIRECT P RW_MGR_LOAD_CNTR_1 0 0x10,
              IOWR_32DIRECT P RW_MGR_LOAD_JUMP_ADD_1 0 RW_MGR_READ_B2B_WAIT1,
              IOWR_32DIRECT P RW_MGR_LOAD_CNTR_2 0 0x10,
              IOWR_32DIRECT P RW_MGR_LOAD_JUMP_ADD_2 0 RW_MGR_READ_B2B_WAIT2,
              IOWR_32DIRECT P RW_MGR_LOAD_CNTR_0 0 0x32,
              IOWR_32DIRECT P RW_MGR_LOAD_JUMP_ADD_0 0 RW_MGR_READ_B2B,
              IOWR_32DIRECT P RW_MGR_LOAD_CNTR_3 0 0x0,
              IOWR_32DIRECT P RW_MGR_LOAD_JUMP_ADD_3 0 RW_MGR_READ_B2B]"
  let ?run = "\<lambda>vg. perform [
              IOWR_32DIRECT P PHY_MGR_CMD_FIFO_RESET 0 0,
              IOWR_32DIRECT P RW_MGR_RESET_READ_DATAPATH 0 0,
              IOWR_32DIRECT P RW_MGR_RUN_SINGLE_GROUP
                (push_bit 2 (g * of_nat RW_MGR_MEM_VIRTUAL_GROUPS_PER_READ_DQS + of_nat vg)) RW_MGR_READ_B2B]"
  have quick: "\<not> (STATIC_CALIB_STEPS AND CALIB_SKIP_DELAY_SWEEPS \<noteq> 0 \<and> ENABLE_SUPER_QUICK_CALIBRATION \<or> BFM_MODE)" by code_simp
  have run: "safe I ?prep" "safe I (?run 0)"
    using assms(1) by (intro safe_intros safe_other; simp add: size_defs)+
  obtain h0 h where test: "test_ranks P [0] 1 8 0xff ?prep ?run 0xff s =
      (0xff AND (0xff AND NOT (fst (bus_read P BASE_RW_MGR h0))), s\<lparr>hw := h\<rparr>)" "I h0" "I h"
    using test_one_rank [of ?prep ?run s 0 8 "0xff" "0xff", OF run assms(2)] assms(3) by (auto simp: reads_one_rank_def)
  have "safe I (IOWR_32DIRECT P RW_MGR_RUN_SINGLE_GROUP (push_bit 2 g) RW_MGR_CLEAR_DQS_ENABLE)"
    using assms(1) by (intro safe_other) simp
  then obtain h1 where h1: "IOWR_32DIRECT P RW_MGR_RUN_SINGLE_GROUP (push_bit 2 g) RW_MGR_CLEAR_DQS_ENABLE (s\<lparr>hw := h\<rparr>) = s\<lparr>hw := h1\<rparr>" "I h1"
    using test(3) by (rule safe_at)
  obtain h2 where h2: "set_rank_and_odt_mask P 0 RW_MGR_ODT_MODE_OFF (s\<lparr>hw := h1\<rparr>) = s\<lparr>hw := h2\<rparr>" "I h2"
    using safe_set_rank h1(2) by (rule safe_at)
  have "0xff AND (0xff AND x) = (0xff AND x :: u32)" for x by (simp add: and.assoc [symmetric])
  then show ?thesis
    using test h1 h2 assms(3) quick
    by (auto simp: rw_mgr_mem_calibrate_read_test_def reads_one_rank_def rank_range_def size_defs PASS_ONE_BIT_def Let_def)
qed

end

section \<open>Setting and reading delays\<close>

definition passes :: "(nat \<Rightarrow> int) \<Rightarrow> (nat \<Rightarrow> int) \<Rightarrow> (nat \<Rightarrow> u32) \<Rightarrow> u32 \<Rightarrow> nat \<Rightarrow> bool" where
  "passes lo hi x y i \<longleftrightarrow> lo i \<le> uint (x i) - uint y \<and> uint (x i) - uint y \<le> hi i"

locale read_eye =
  fixes P :: "'h plat" and get :: "'h \<Rightarrow> u32 \<Rightarrow> u32" and g :: u32 and lo hi :: "nat \<Rightarrow> int"
  assumes holds: "holds_settings P get (read_regs g)"
    and windows: "reads_in_windows P get g lo hi"
    and group: "g < 4"
begin

abbreviation at :: "(nat \<Rightarrow> u32) \<Rightarrow> u32 \<Rightarrow> 'h \<Rightarrow> bool" where
  "at \<equiv> delays_at get g"

lemma write_delay:
  assumes "a \<in> read_regs g" "b \<in> read_regs g \<or> setting_max b = None"
  shows "get (bus_write P b d h) a = (if b = a then d else get h a)"
  using holds assms unfolding holds_settings_def by blast

lemma read_delay:
  assumes "a \<in> read_regs g"
  shows "fst (bus_read P a h) = get h a" "get (snd (bus_read P b h)) a = get h a"
  using holds assms unfolding holds_settings_def by blast+

lemma in_read_regs [simp]: "i < 8 \<Longrightarrow> dq_reg i \<in> read_regs g" "dqs_reg g \<in> read_regs g"
  by (simp_all add: read_regs_def)

lemma at_contract: "test_contract P (at x y)"
proof
  fix h a d assume at: "at x y h" and a: "setting_max a = None"
  have "a \<noteq> dqs_reg g" "i < 8 \<Longrightarrow> a \<noteq> dq_reg i" for i using a group by auto
  then show "at x y (bus_write P a d h)" using at a by (auto simp: delays_at_def write_delay)
next
  fix h a assume "at x y h"
  then show "at x y (snd (bus_read P a h))" by (simp add: delays_at_def read_delay)
qed

lemmas loads = test_contract.safe_load [OF at_contract]

lemma upd: "safe (at x y) (IOWR_32DIRECT P SCC_MGR_UPD 0 0)"
  by (rule test_contract.safe_other [OF at_contract]) simp

lemma set_pin:
  assumes "i < 8" "at x y (hw s)"
  shows "\<exists>h. scc_mgr_set_dq_in_delay P wg (of_nat i) d s = s\<lparr>hw := h\<rparr> \<and> at (x(i := d)) y h"
proof -
  have "at (x(i := d)) y (bus_write P (dq_reg i) d (hw s))"
    using assms group by (auto simp: delays_at_def write_delay)
  then show ?thesis
    by (auto simp: scc_mgr_set_dq_in_delay_def WRITE_SCC_DQ_IN_DELAY_def IOWR_32DIRECT_def bus_write_def dq_reg_def)
qed

lemma set_dqs:
  assumes "at x y (hw s)"
  shows "\<exists>h. scc_mgr_set_dqs_bus_in_delay P g d s = s\<lparr>hw := h\<rparr> \<and> at x d h"
proof -
  have "at x d (bus_write P (dqs_reg g) d (hw s))"
    using assms group by (auto simp: delays_at_def write_delay)
  then show ?thesis
    by (auto simp: scc_mgr_set_dqs_bus_in_delay_def WRITE_SCC_DQS_IN_DELAY_def IOWR_32DIRECT_def bus_write_def dqs_reg_def)
qed

lemma read_setting_at:
  assumes "at x y (hw s)" "a = base + off" "a \<in> read_regs g"
  shows "\<exists>h. IORD_32DIRECT P base off s = (get (hw s) a, s\<lparr>hw := h\<rparr>) \<and> at x y h"
proof -
  have "at x y (snd (bus_read P a (hw s)))" using assms(1) by (simp add: delays_at_def read_delay)
  moreover have "IORD_32DIRECT P base off s = (fst (bus_read P a (hw s)), s\<lparr>hw := snd (bus_read P a (hw s))\<rparr>)"
    using assms(2) by (simp add: IORD_32DIRECT_def bus_read_def split: prod.split)
  ultimately show ?thesis using read_delay(1) [OF assms(3)] by auto
qed

lemma read_pin:
  assumes "i < 8" "at x y (hw s)"
  shows "\<exists>h. READ_SCC_DQ_IN_DELAY P (of_nat i) s = (x i, s\<lparr>hw := h\<rparr>) \<and> at x y h"
proof -
  have "get (hw s) (dq_reg i) = x i" using assms by (simp add: delays_at_def)
  then show ?thesis
    using read_setting_at [OF assms(2) dq_reg_def in_read_regs(1) [OF assms(1)]] by (simp add: READ_SCC_DQ_IN_DELAY_def)
qed

lemma read_dqs:
  assumes "at x y (hw s)"
  shows "\<exists>h. READ_SCC_DQS_IN_DELAY P g s = (y, s\<lparr>hw := h\<rparr>) \<and> at x y h"
proof -
  have "get (hw s) (dqs_reg g) = y" using assms by (simp add: delays_at_def)
  then show ?thesis
    using read_setting_at [OF assms dqs_reg_def in_read_regs(2)] by (simp add: READ_SCC_DQS_IN_DELAY_def)
qed

lemma set_pins:
  assumes "at x y (hw s)"
  shows "\<exists>h. scc_mgr_apply_group_dq_in_delay P wg 0 d s = s\<lparr>hw := h\<rparr> \<and> at (\<lambda>i. d) y h"
proof -
  let ?f = "\<lambda>i. perform [scc_mgr_set_dq_in_delay P wg (of_nat i) d, scc_mgr_load_dq P (of_nat i)]"
  have "\<exists>h. for_each [0..<n] ?f s = s\<lparr>hw := h\<rparr> \<and> at (\<lambda>i. if i < n then d else x i) y h" if "n \<le> 8" for n
    using that
  proof (induction n)
    case 0
    then show ?case using assms by (auto simp: for_each_simps intro: exI [of _ "hw s"])
  next
    case (Suc n)
    then obtain h where h: "for_each [0..<n] ?f s = s\<lparr>hw := h\<rparr>" "at (\<lambda>i. if i < n then d else x i) y h" by auto
    obtain h1 where h1: "scc_mgr_set_dq_in_delay P wg (of_nat n) d (s\<lparr>hw := h\<rparr>) = s\<lparr>hw := h1\<rparr>"
        "at ((\<lambda>i. if i < n then d else x i)(n := d)) y h1"
      using set_pin [of n "\<lambda>i. if i < n then d else x i" y "s\<lparr>hw := h\<rparr>" wg d] Suc.prems h(2) by auto
    obtain h2 where h2: "scc_mgr_load_dq P (of_nat n) (s\<lparr>hw := h1\<rparr>) = s\<lparr>hw := h2\<rparr>" "at ((\<lambda>i. if i < n then d else x i)(n := d)) y h2"
      using loads(3) h1(2) by (rule safe_at)
    have "(\<lambda>i. if i < n then d else x i)(n := d) = (\<lambda>i. if i < Suc n then d else x i)" by (auto simp: fun_eq_iff less_Suc_eq)
    moreover have "for_each [0..<Suc n] ?f s = ?f n (for_each [0..<n] ?f s)" by (simp add: for_each_def)
    then have "for_each [0..<Suc n] ?f s = s\<lparr>hw := h2\<rparr>" unfolding h(1) by (simp add: perform_simps h1(1) h2(1))
    ultimately show ?case using h2(2) by auto
  qed
  from this [of 8] obtain h where "for_each [0..<8] ?f s = s\<lparr>hw := h\<rparr>" "at (\<lambda>i. if i < 8 then d else x i) y h" by auto
  then show ?thesis
    by (auto simp: scc_mgr_apply_group_dq_in_delay_def size_defs Let_def delays_at_def)
qed

lemma test_bits:
  assumes "at x y (hw s)" "reads_one_rank (param s)"
  shows "\<exists>chk h. centre_test P 0 wg g True s = (chk = 0, chk, s\<lparr>hw := h\<rparr>) \<and> at x y h \<and> (\<forall>i. bit chk i \<longleftrightarrow> i < 8 \<and> passes lo hi x y i)"
proof -
  obtain h0 h where test: "rw_mgr_mem_calibrate_read_test P 0 g PASS_ONE_BIT False False s =
      (let chk = 0xff AND NOT (fst (bus_read P BASE_RW_MGR h0)) in (chk \<noteq> 0, chk, s\<lparr>hw := h\<rparr>))" "at x y h0" "at x y h"
    using test_contract.read_test_one_rank [OF at_contract group assms] by blast
  have offset: "dq_offset get g h0 i = uint (x i) - uint y" if "i < 8" for i
    using test(2) that by (simp add: dq_offset_def delays_at_def)
  have "bit (0xff AND NOT (fst (bus_read P BASE_RW_MGR h0))) i \<longleftrightarrow> i < 8 \<and> passes lo hi x y i" for i
    unfolding bit_and_iff byte_bits using windows offset [of i] by (auto simp: bit_not_iff reads_in_windows_def passes_def)
  then show ?thesis using test(1,3) by (auto simp: centre_test_def Let_def)
qed

section \<open>Left edges\<close>

text \<open>
  The start: DQS has the delay \<open>y\<close> and every bit can be read with DQ delays of 0. Then \<open>reach i\<close> and
  \<open>reach_back i\<close> are how far the pin can be delayed, and how far DQS can be.
\<close>

definition inside :: "u32 \<Rightarrow> bool" where
  "inside y \<longleftrightarrow> y \<le> 31 \<and> (\<forall>i < 8. lo i \<le> - uint y \<and> - uint y \<le> hi i)"

definition reach :: "u32 \<Rightarrow> nat \<Rightarrow> nat" where
  "reach y i = nat (hi i + uint y)"

definition reach_back :: "u32 \<Rightarrow> nat \<Rightarrow> nat" where
  "reach_back y i = nat (- lo i - uint y)"

lemma passes_left:
  assumes "inside y" "i < 8" "k < 32"
  shows "passes lo hi (\<lambda>i. of_nat k) y i \<longleftrightarrow> k \<le> reach y i"
proof -
  have "uint (of_nat k :: u32) = int k" using assms(3) by (simp add: unsigned_of_nat take_bit_nat_eq_self)
  then show ?thesis using assms(1,2) by (auto simp: passes_def inside_def reach_def)
qed

definition left_edges :: "u32 \<Rightarrow> nat \<Rightarrow> edges" where
  "left_edges y k = map (\<lambda>i. (if k = 0 then 32 else of_nat (min (k - 1) (reach y i)), 32)) [0..<8]"

lemma edge_legal: "n < 32 \<Longrightarrow> (of_nat n :: u32) \<noteq> 32"
  by (simp add: word_unat_eq_iff unsigned_of_nat take_bit_nat_eq_self)

lemma left_edges_step:
  assumes "inside y" "k < 32" "\<And>i. bit chk i \<longleftrightarrow> i < 8 \<and> passes lo hi (\<lambda>i. of_nat k) y i"
  shows "step_edges (left_step 32 (of_nat k)) chk (left_edges y k) = left_edges y (Suc k)"
proof -
  have "left_step 32 (of_nat k) (bit chk i) (left_edges y k ! i) = left_edges y (Suc k) ! i" if i: "i < 8" for i
  proof (cases "k \<le> reach y i")
    case True
    then have "bit chk i" using assms i passes_left [OF assms(1) i assms(2)] by simp
    then show ?thesis using True i by (simp add: left_step_def left_edges_def min_absorb1)
  next
    case False
    then have "\<not> bit chk i" "0 < k" using assms i passes_left [OF assms(1) i assms(2)] by auto
    then show ?thesis using False i edge_legal [of "reach y i"] assms(2) by (simp add: left_step_def left_edges_def min_absorb2)
  qed
  then show ?thesis by (intro nth_equalityI) (simp_all add: step_edges_def left_edges_def)
qed

text \<open>The bits that have passed so far: all of them after the first test.\<close>

lemma sticky_left:
  fixes chk :: u32
  assumes "inside y" "k < 32" "\<And>i. bit chk i \<longleftrightarrow> i < 8 \<and> passes lo hi (\<lambda>i. of_nat k) y i"
  shows "(if k = 0 then 0 else 0xff) OR chk = 0xff"
proof (rule bit_word_eqI)
  fix i
  show "bit ((if k = 0 then 0 else 0xff) OR chk) i \<longleftrightarrow> bit (0xff :: u32) i"
    unfolding bit_or_iff byte_bits using assms(3) [of i] passes_left [OF assms(1) _ assms(2), of i] byte_bits [of i] by auto
qed

lemma left_edges_found:
  assumes "inside y" "k \<le> 32" "at x y (hw s)" "reads_one_rank (param s)"
  shows "\<exists>x' h. read_left_edges P 0 wg g 0 True [k..<32] (if k = 0 then 0 else 0xff) (left_edges y k) s = (left_edges y 32, s\<lparr>hw := h\<rparr>) \<and> at x' y h"
  using assms(2-4)
proof (induction "32 - k" arbitrary: k x s)
  case 0
  then have "k = 32" by simp
  then show ?case using "0.prems"(2) by (intro exI [of _ x] exI [of _ "hw s"]) simp
next
  case (Suc n)
  then have k: "k < 32" "[k..<32] = k # [Suc k..<32]" by (simp_all add: upt_conv_Cons)
  obtain h1 where h1: "scc_mgr_apply_group_dq_in_delay P wg 0 (of_nat k) s = s\<lparr>hw := h1\<rparr>" "at (\<lambda>i. of_nat k) y h1"
    using set_pins [OF Suc.prems(2)] by blast
  obtain h2 where h2: "IOWR_32DIRECT P SCC_MGR_UPD 0 0 (s\<lparr>hw := h1\<rparr>) = s\<lparr>hw := h2\<rparr>" "at (\<lambda>i. of_nat k) y h2"
    using upd h1(2) by (rule safe_at)
  obtain chk h3 where h3: "centre_test P 0 wg g True (s\<lparr>hw := h2\<rparr>) = (chk = 0, chk, s\<lparr>hw := h3\<rparr>)" "at (\<lambda>i. of_nat k) y h3"
      "\<And>i. bit chk i \<longleftrightarrow> i < 8 \<and> passes lo hi (\<lambda>i. of_nat k) y i"
    using test_bits [of "\<lambda>i. of_nat k" y "s\<lparr>hw := h2\<rparr>" wg] h2(2) Suc.prems(3) by auto
  note sticky = sticky_left [OF assms(1) k(1) h3(3)] and step = left_edges_step [OF assms(1) k(1) h3(3)]
  have masks: "read_correct_mask (param s) = 0xff" using Suc.prems(3) by (simp add: reads_one_rank_def)
  have run: "read_left_edges P 0 wg g 0 True [k..<32] (if k = 0 then 0 else 0xff) (left_edges y k) s =
      (if chk = 0 then (left_edges y k, s\<lparr>hw := h3\<rparr>)
       else read_left_edges P 0 wg g 0 True [Suc k..<32] 0xff (left_edges y (Suc k)) (s\<lparr>hw := h3\<rparr>))"
    unfolding k(2) read_left_edges.simps by (simp add: Let_def h1(1) h2(1) h3(1) sticky masks step max_defs)
  show ?case
  proof (cases "chk = 0")
    case True
    have "reach y i < k" if "i < 8" for i
      using h3(3) [of i] passes_left [OF assms(1) that k(1)] that True by simp
    then have "left_edges y k = left_edges y 32" using k(1) by (fastforce simp: left_edges_def)
    then show ?thesis using run True h3(2) by auto
  next
    case False
    have "\<exists>x' h. read_left_edges P 0 wg g 0 True [Suc k..<32] (if Suc k = 0 then 0 else 0xff) (left_edges y (Suc k)) (s\<lparr>hw := h3\<rparr>) =
        (left_edges y 32, (s\<lparr>hw := h3\<rparr>)\<lparr>hw := h\<rparr>) \<and> at x' y h"
      using Suc.hyps(2) k(1) h3(2) Suc.prems(3) by (intro Suc.hyps(1)) simp_all
    then show ?thesis using run False by simp
  qed
qed

section \<open>Right edges\<close>

definition right_edges :: "u32 \<Rightarrow> nat \<Rightarrow> edges" where
  "right_edges y k = map (\<lambda>i. (of_nat (min 31 (reach y i)), if k = 0 then 32 else of_nat (min (k - 1) (reach_back y i)))) [0..<8]"

lemma edges_turn: "map (drop_right 32) (left_edges y 32) = right_edges y 0"
  using edge_legal by (simp add: left_edges_def right_edges_def drop_right_def)

lemma edge_mask_0: "(\<And>e. e \<in> set es \<Longrightarrow> \<not> f e) \<Longrightarrow> edge_mask f es = 0"
proof -
  assume "\<And>e. e \<in> set es \<Longrightarrow> \<not> f e"
  then have "fold (\<lambda>e m. push_bit 1 m OR (if f e then 1 else 0)) es' 0 = (0 :: u32)" if "set es' \<subseteq> set es" for es'
    using that by (induction es') auto
  then show ?thesis by (simp add: edge_mask_def)
qed

lemma passes_right:
  assumes "inside y" "i < 8" "unat d + unat y \<le> 31"
  shows "passes lo hi (\<lambda>i. 0) (d + y) i \<longleftrightarrow> unat d \<le> reach_back y i"
proof -
  have "unat (d + y) = unat d + unat y" using assms(3) by (simp add: unat_word_ariths)
  then have "uint (d + y) = int (unat d) + uint y" unfolding uint_nat by simp
  moreover have "unat d \<le> nat z \<longleftrightarrow> uint d \<le> z" if "0 \<le> z" for z
  proof -
    have "unat d \<le> nat z \<longleftrightarrow> int (unat d) \<le> z" using that by arith
    then show ?thesis by simp
  qed
  moreover have "lo i \<le> - uint y" "- uint y \<le> hi i" using assms(1,2) by (simp_all add: inside_def)
  ultimately show ?thesis by (auto simp: passes_def reach_back_def intro: order_trans [of _ "- uint y"])
qed

lemma right_edges_step:
  assumes "inside y" "unat d + unat y \<le> 31" "\<And>i. bit chk i \<longleftrightarrow> i < 8 \<and> passes lo hi (\<lambda>i. 0) (d + y) i"
  shows "step_edges (right_step 32 d) chk (right_edges y (unat d)) = right_edges y (Suc (unat d))"
proof -
  have "right_step 32 d (bit chk i) (right_edges y (unat d) ! i) = right_edges y (Suc (unat d)) ! i" if i: "i < 8" for i
  proof (cases "unat d \<le> reach_back y i")
    case True
    then have "bit chk i" using assms i passes_right [OF assms(1) i assms(2)] by simp
    then show ?thesis using True i by (simp add: right_step_def right_edges_def min_absorb1)
  next
    case False
    then have "\<not> bit chk i" using assms(3) i passes_right [OF assms(1) i assms(2)] by simp
    moreover have "d \<noteq> 0" using False by (cases "d = 0") simp_all
    ultimately show ?thesis using False i edge_legal [of "reach_back y i"] assms(2) by (simp add: right_step_def right_edges_def min_absorb2)
  qed
  then show ?thesis by (intro nth_equalityI) (simp_all add: step_edges_def right_edges_def)
qed

lemma sticky_right:
  fixes chk :: u32
  assumes "inside y" "unat d + unat y \<le> 31" "\<And>i. bit chk i \<longleftrightarrow> i < 8 \<and> passes lo hi (\<lambda>i. 0) (d + y) i"
  shows "(if d = 0 then 0 else 0xff) OR chk = 0xff"
proof (rule bit_word_eqI)
  fix i
  show "bit ((if d = 0 then 0 else 0xff) OR chk) i \<longleftrightarrow> bit (0xff :: u32) i"
    unfolding bit_or_iff byte_bits using assms(3) [of i] passes_right [OF assms(1) _ assms(2), of i] byte_bits [of i] by auto
qed

text \<open>One iteration of the search, and its invariant: \<open>d\<close> tests have passed for some bit.\<close>

definition right_body :: "u32 \<Rightarrow> u32 \<Rightarrow> u32 \<times> bool \<times> u32 \<times> edges \<times> 'h seq \<Rightarrow> u32 \<times> bool \<times> u32 \<times> edges \<times> 'h seq" where
  "right_body wg y = (\<lambda>(d, stop, sticky, es, s).
           let s = scc_mgr_set_dqs_bus_in_delay P g (d + y) s;
               s = scc_mgr_load_dqs P g s;
               s = IOWR_32DIRECT P SCC_MGR_UPD 0 0 s;
               (stop, bit_chk, s) = centre_test P 0 wg g True s;
               sticky = sticky OR bit_chk in
           if stop \<and> sticky = read_correct_mask (param s) then (d, True, sticky, es, s)
           else (d + 1, False, sticky, step_edges (right_step in_illegal d) bit_chk es, s))"

definition right_inv :: "u32 \<Rightarrow> 'h seq \<Rightarrow> u32 \<times> bool \<times> u32 \<times> edges \<times> 'h seq \<Rightarrow> bool" where
  "right_inv y s = (\<lambda>(d, stop, sticky, es, t). (\<exists>y' h. t = s\<lparr>hw := h\<rparr> \<and> at (\<lambda>i. 0) y' h) \<and> unat d + unat y \<le> 32 \<and>
    es = right_edges y (unat d) \<and> sticky = (if d = 0 then 0 else 0xff) \<and>
    (stop \<longrightarrow> unat d + unat y \<le> 31 \<and> (\<forall>i < 8. reach_back y i < unat d)))"

lemma right_body_run:
  assumes y: "inside y" and d: "unat d + unat y \<le> 31" and z: "at (\<lambda>i. 0) y' h" and s: "reads_one_rank (param s)"
  shows "\<exists>stop h'. right_body wg y (d, False, if d = 0 then 0 else 0xff, right_edges y (unat d), s\<lparr>hw := h\<rparr>) =
      (if stop then (d, True, 0xff, right_edges y (unat d), s\<lparr>hw := h'\<rparr>)
       else (d + 1, False, 0xff, right_edges y (Suc (unat d)), s\<lparr>hw := h'\<rparr>)) \<and>
    at (\<lambda>i. 0) (d + y) h' \<and> (stop \<longrightarrow> (\<forall>i < 8. reach_back y i < unat d))"
proof -
  obtain h1 where h1: "scc_mgr_set_dqs_bus_in_delay P g (d + y) (s\<lparr>hw := h\<rparr>) = s\<lparr>hw := h1\<rparr>" "at (\<lambda>i. 0) (d + y) h1"
    using set_dqs [of "\<lambda>i. 0" y' "s\<lparr>hw := h\<rparr>" "d + y"] z by auto
  obtain h2 where h2: "scc_mgr_load_dqs P g (s\<lparr>hw := h1\<rparr>) = s\<lparr>hw := h2\<rparr>" "at (\<lambda>i. 0) (d + y) h2" using loads(1) h1(2) by (rule safe_at)
  obtain h3 where h3: "IOWR_32DIRECT P SCC_MGR_UPD 0 0 (s\<lparr>hw := h2\<rparr>) = s\<lparr>hw := h3\<rparr>" "at (\<lambda>i. 0) (d + y) h3" using upd h2(2) by (rule safe_at)
  obtain chk h4 where h4: "centre_test P 0 wg g True (s\<lparr>hw := h3\<rparr>) = (chk = 0, chk, s\<lparr>hw := h4\<rparr>)" "at (\<lambda>i. 0) (d + y) h4"
      "\<And>i. bit chk i \<longleftrightarrow> i < 8 \<and> passes lo hi (\<lambda>i. 0) (d + y) i"
    using test_bits [of "\<lambda>i. 0" "d + y" "s\<lparr>hw := h3\<rparr>" wg] h3(2) s by auto
  have masks: "read_correct_mask (param s) = 0xff" using s by (simp add: reads_one_rank_def)
  define st :: u32 where "st = (if d = 0 then 0 else 0xff)"
  have "right_body wg y (d, False, st, right_edges y (unat d), s\<lparr>hw := h\<rparr>) =
      (if chk = 0 then (d, True, 0xff, right_edges y (unat d), s\<lparr>hw := h4\<rparr>)
       else (d + 1, False, 0xff, right_edges y (Suc (unat d)), s\<lparr>hw := h4\<rparr>))"
    using right_edges_step [OF y d h4(3)] sticky_right [OF y d h4(3), folded st_def]
    by (auto simp: right_body_def Let_def h1(1) h2(1) h3(1) h4(1) masks max_defs)
  moreover have "\<forall>i < 8. reach_back y i < unat d" if "chk = 0"
    using h4(3) passes_right [OF y _ d] that by (auto simp: not_le [symmetric])
  ultimately show ?thesis using h4(2) unfolding st_def by (intro exI [of _ "chk = 0"] exI [of _ h4]) simp
qed

abbreviation right_measure :: "u32 \<times> bool \<times> u32 \<times> edges \<times> 'h seq \<Rightarrow> nat" where
  "right_measure \<equiv> \<lambda>(d, stop, sticky, es, t). 33 - unat d + (if stop then 0 else 1)"

lemma right_more: "inside y \<Longrightarrow> d \<le> 31 - y \<longleftrightarrow> unat d + unat y \<le> 31"
  using unat_sub [of y 31] by (auto simp: inside_def word_le_nat_alt)

lemma right_inv_step:
  assumes y: "inside y" and s: "reads_one_rank (param s)" and Q: "right_inv y s z"
    and c: "case z of (d, stop, sticky, es, t) \<Rightarrow> \<not> stop \<and> d \<le> IO_DQS_IN_DELAY_MAX - y"
  shows "right_inv y s (right_body wg y z) \<and> right_measure (right_body wg y z) < right_measure z"
proof -
  obtain d y' h where z: "z = (d, False, if d = 0 then 0 else 0xff, right_edges y (unat d), s\<lparr>hw := h\<rparr>)" "at (\<lambda>i. 0) y' h"
      and d: "unat d + unat y \<le> 31"
    using Q c right_more [OF y] by (auto simp: right_inv_def max_defs)
  have Suc: "unat (d + 1) = Suc (unat d)" "d + 1 \<noteq> 0" using d by (auto simp: unat_word_ariths word_unat_eq_iff)
  obtain stop h' where run: "right_body wg y z = (if stop then (d, True, 0xff, right_edges y (unat d), s\<lparr>hw := h'\<rparr>)
       else (d + 1, False, 0xff, right_edges y (Suc (unat d)), s\<lparr>hw := h'\<rparr>))"
      "at (\<lambda>i. 0) (d + y) h'" "stop \<longrightarrow> (\<forall>i < 8. reach_back y i < unat d)"
    using right_body_run [OF y d z(2) s, of wg] unfolding z(1) by blast
  have "d \<noteq> 0" if stop
  proof -
    have "reach_back y 0 < unat d" using run(3) that by simp
    then show ?thesis by auto
  qed
  then show ?thesis unfolding run(1) using run(2,3) d Suc z(1) by (auto simp: right_inv_def split: if_splits)
qed

lemma right_edges_found:
  assumes y: "inside y" and s: "at (\<lambda>i. 0) y (hw s)" "reads_one_rank (param s)"
  shows "\<exists>y' h. read_right_edges P 0 wg g True y 0 (right_edges y 0) s =
    Some (map (\<lambda>i. (of_nat (min 31 (reach y i)), of_nat (min (31 - unat y) (reach_back y i)))) [0..<8], s\<lparr>hw := h\<rparr>) \<and> at (\<lambda>i. 0) y' h"
proof -
  have start: "unat y \<le> 31" using y by (simp add: inside_def word_le_nat_alt)
  let ?c = "\<lambda>(d, stop, sticky, es', t). \<not> stop \<and> d \<le> IO_DQS_IN_DELAY_MAX - y"
  have "\<exists>y' h. s = s\<lparr>hw := h\<rparr> \<and> at (\<lambda>i. 0) y' h" by (intro exI [of _ y] exI [of _ "hw s"]) (use s(1) in simp)
  then have "right_inv y s (0, False, 0, right_edges y 0, s)" using start by (simp add: right_inv_def)
  from while_option_total [of "right_inv y s" ?c "right_body wg y" right_measure, OF right_inv_step [OF y s(2)] this]
  obtain z where z: "while_option ?c (right_body wg y) (0, False, 0, right_edges y 0, s) = Some z" "right_inv y s z" by blast
  obtain d stop sticky es t where zz: "z = (d, stop, sticky, es, t)" by (cases z) auto
  have "\<not> ?c z" using while_option_stop [OF z(1)] .
  then have "stop \<or> unat d + unat y = 32" using z(2) right_more [OF y, of d] unfolding zz by (auto simp: right_inv_def max_defs)
  moreover have "stop \<Longrightarrow> unat d + unat y \<le> 31 \<and> reach_back y 0 < unat d \<and> (\<forall>i < 8. reach_back y i < unat d)"
    using z(2) unfolding zz by (simp add: right_inv_def)
  ultimately have d: "unat d \<noteq> 0" "i < 8 \<Longrightarrow> unat d - 1 = 31 - unat y \<or> reach_back y i \<le> unat d - 1 \<and> reach_back y i \<le> 31 - unat y" for i
    using start by fastforce+
  then have "unat d \<noteq> 0" "\<forall>i < 8. min (unat d - 1) (reach_back y i) = min (31 - unat y) (reach_back y i)"
    by (metis min_absorb2)+
  moreover have "es = right_edges y (unat d)" using z(2) unfolding zz by (simp add: right_inv_def)
  ultimately have "es = map (\<lambda>i. (of_nat (min 31 (reach y i)), of_nat (min (31 - unat y) (reach_back y i)))) [0..<8]"
    by (simp add: right_edges_def)
  then show ?thesis using z unfolding read_right_edges_def right_body_def [symmetric] zz by (auto simp: right_inv_def)
qed

section \<open>Moving the pins\<close>

lemma shift_pin:
  assumes "i < 8" "at x y (hw s)" "x i = 0" "0 \<le> z" "z \<le> 31"
  shows "\<exists>h. limit_shift (READ_SCC_DQ_IN_DELAY P) (of_nat i) (of_nat i) 31 (word_of_int z) s = (word_of_int z, s\<lparr>hw := h\<rparr>) \<and> at x y h"
proof -
  obtain h1 where h1: "READ_SCC_DQ_IN_DELAY P (of_nat i) s = (0, s\<lparr>hw := h1\<rparr>)" "at x y h1"
    using read_pin [OF assms(1,2)] assms(3) by auto
  obtain h2 where h2: "READ_SCC_DQ_IN_DELAY P (of_nat i) (s\<lparr>hw := h1\<rparr>) = (0, s\<lparr>hw := h2\<rparr>)" "at x y h2"
    using read_pin [OF assms(1), of x y "s\<lparr>hw := h1\<rparr>"] h1(2) assms(3) by auto
  have "sint (word_of_int z :: u32) = z" using assms(4,5) by (intro sint_of_int) simp
  then have "limit_shift (READ_SCC_DQ_IN_DELAY P) (of_nat i) (of_nat i) 31 (word_of_int z) s = (word_of_int z, s\<lparr>hw := h2\<rparr>)"
    using h1(1) h2(1) assms(4,5) by (simp add: limit_shift_def)
  then show ?thesis using h2(2) by blast
qed

text \<open>The body of the loop over the pins.\<close>

definition move_pin :: "u32 \<Rightarrow> edges \<Rightarrow> nat \<Rightarrow> u32 \<Rightarrow> u32 \<Rightarrow> nat \<Rightarrow> u32 \<times> u32 \<times> 'h seq \<Rightarrow> u32 \<times> u32 \<times> 'h seq" where
  "move_pin wg es k h t i = (\<lambda>(dq_margin, dqs_margin, s).
       let p = 0 + of_nat i;
           shift_dq = signed_div (mid_of (es ! i) - mid_of (es ! k)) 2 + (h - t);
           (shift_dq, s) = limit_shift (READ_SCC_DQ_IN_DELAY P) p (of_nat i) (of_nat IO_IO_IN_DELAY_MAX) shift_dq s;
           (x, s) = READ_SCC_DQ_IN_DELAY P p s;
           s = scc_mgr_set_dq_in_delay P wg p (x + shift_dq) s;
           s = scc_mgr_load_dq P p s in
       (signed_min (fst (es ! i) - shift_dq + (- t)) dq_margin,
        signed_min (snd (es ! i) + shift_dq - (- t)) dqs_margin, s))"

lemma pin_moved:
  assumes n: "n < 8" and s: "at x y (hw s)" "x n = 0" and z: "0 \<le> z" "z \<le> 31" and es: "es ! n = (word_of_int l, word_of_int r)"
    and sh: "signed_div (mid_of (es ! n) - mid_of (es ! k)) 2 + (word_of_int h - word_of_int t) = word_of_int z"
  shows "\<exists>h'. move_pin wg es k (word_of_int h) (word_of_int t) n (m1, m2, s) =
      (signed_min (word_of_int (l - z - t)) m1, signed_min (word_of_int (r + z + t)) m2, s\<lparr>hw := h'\<rparr>) \<and>
    at (x(n := word_of_int z)) y h'"
proof -
  obtain h1 where h1: "limit_shift (READ_SCC_DQ_IN_DELAY P) (of_nat n) (of_nat n) 31 (word_of_int z) s = (word_of_int z, s\<lparr>hw := h1\<rparr>)" "at x y h1"
    using shift_pin [OF n s z] by blast
  obtain h2 where h2: "READ_SCC_DQ_IN_DELAY P (of_nat n) (s\<lparr>hw := h1\<rparr>) = (0, s\<lparr>hw := h2\<rparr>)" "at x y h2"
    using read_pin [OF n, of x y "s\<lparr>hw := h1\<rparr>"] h1(2) s(2) by auto
  obtain h3 where h3: "scc_mgr_set_dq_in_delay P wg (of_nat n) (word_of_int z) (s\<lparr>hw := h2\<rparr>) = s\<lparr>hw := h3\<rparr>" "at (x(n := word_of_int z)) y h3"
    using set_pin [OF n, of x y "s\<lparr>hw := h2\<rparr>" wg "word_of_int z"] h2(2) by auto
  obtain h4 where h4: "scc_mgr_load_dq P (of_nat n) (s\<lparr>hw := h3\<rparr>) = s\<lparr>hw := h4\<rparr>" "at (x(n := word_of_int z)) y h4"
    using loads(3) h3(2) by (rule safe_at)
  then show ?thesis using sh h1(1) h2(1) h3(1) by (auto simp: move_pin_def Let_def max_defs es)
qed

lemma pins_set:
  assumes s: "at (\<lambda>i. 0) y (hw s)"
    and es: "\<And>i. i < 8 \<Longrightarrow> es ! i = (word_of_int (l i), word_of_int (r i))" "k < 8"
    and range: "\<And>i. i < 8 \<Longrightarrow> \<bar>l i\<bar> \<le> 31 \<and> \<bar>r i\<bar> \<le> 31"
    and shift: "\<And>i. i < 8 \<Longrightarrow> (l i - r i - (l k - r k)) sdiv 2 + (h - t) = z i"
    and z: "\<And>i. i < 8 \<Longrightarrow> 0 \<le> z i \<and> z i \<le> 31 \<and> 0 \<le> l i - z i - t \<and> 0 \<le> r i + z i + t" and t: "\<bar>t\<bar> \<le> 31"
  shows "\<exists>m1 m2 h'. centre_read_pins P wg 0 es k (word_of_int h) (word_of_int t) s = (m1, m2, s\<lparr>hw := h'\<rparr>) \<and>
    at (\<lambda>i. word_of_int (z i)) y h' \<and> 0 \<le> sint m1 \<and> 0 \<le> sint m2"
proof -
  let ?f = "move_pin wg es k (word_of_int h) (word_of_int t)"
  have "\<exists>m1 m2 h'. fold ?f [0..<n] (32, 32, s) = (m1, m2, s\<lparr>hw := h'\<rparr>) \<and>
      at (\<lambda>i. if i < n then word_of_int (z i) else 0) y h' \<and> 0 \<le> sint m1 \<and> 0 \<le> sint m2" if "n \<le> 8" for n
    using that
  proof (induction n)
    case 0
    then show ?case using s by (intro exI [of _ 32] exI [of _ "hw s"]) simp
  next
    case (Suc n)
    let ?x = "\<lambda>i. if i < n then word_of_int (z i) else 0 :: u32"
    have n: "n < 8" using Suc.prems by simp
    obtain m1 m2 h0 where h0: "fold ?f [0..<n] (32, 32, s) = (m1, m2, s\<lparr>hw := h0\<rparr>)" "at ?x y h0" "0 \<le> sint m1" "0 \<le> sint m2"
      using Suc by auto
    have "signed_div (word_of_int (l n - r n - (l k - r k))) 2 = (word_of_int ((l n - r n - (l k - r k)) sdiv 2) :: u32)"
      using range [OF n] range [OF es(2)] by (intro signed_div_int) arith
    then have "signed_div (mid_of (es ! n) - mid_of (es ! k)) 2 + (word_of_int h - word_of_int t) = word_of_int (z n)"
      by (simp add: mid_of_def es n shift [OF n, symmetric])
    then obtain h' where run: "?f n (m1, m2, s\<lparr>hw := h0\<rparr>) =
        (signed_min (word_of_int (l n - z n - t)) m1, signed_min (word_of_int (r n + z n + t)) m2, s\<lparr>hw := h'\<rparr>)" "at (?x(n := word_of_int (z n))) y h'"
      using pin_moved [of n ?x y "s\<lparr>hw := h0\<rparr>" "z n" es "l n" "r n" k h t wg m1 m2] n h0(2) z [OF n] es(1) [OF n] by auto
    have "sint (word_of_int (l n - z n - t) :: u32) = l n - z n - t" "sint (word_of_int (r n + z n + t) :: u32) = r n + z n + t"
      using range [OF n] z [OF n] t by (intro sint_of_int; arith)+
    then have "0 \<le> sint (signed_min (word_of_int (l n - z n - t)) m1)" "0 \<le> sint (signed_min (word_of_int (r n + z n + t)) m2)"
      using h0(3,4) z [OF n] by (simp_all add: signed_min_def)
    moreover have "?x(n := word_of_int (z n)) = (\<lambda>i. if i < Suc n then word_of_int (z i) else 0)" by (auto simp: fun_eq_iff less_Suc_eq)
    ultimately show ?case using run h0(1) by auto
  qed
  from this [of 8] obtain m1 m2 h' where "fold ?f [0..<8] (32, 32, s) = (m1, m2, s\<lparr>hw := h'\<rparr>)"
      "at (\<lambda>i. if i < 8 then word_of_int (z i) else 0) y h'" "0 \<le> sint m1" "0 \<le> sint m2" by auto
  then show ?thesis
    unfolding centre_read_pins_def move_pin_def [symmetric] by (auto simp: size_defs max_defs delays_at_def)
qed

section \<open>The whole deskew\<close>

text \<open>The distances to the edges that the search can reach.\<close>

definition dist_left :: "u32 \<Rightarrow> nat \<Rightarrow> int" where
  "dist_left y i = min (hi i) (31 - uint y) + uint y"

definition dist_right :: "u32 \<Rightarrow> nat \<Rightarrow> int" where
  "dist_right y i = - uint y - max (lo i) (- 31)"

definition found :: "u32 \<Rightarrow> edges" where
  "found y = map (\<lambda>i. (word_of_int (dist_left y i), word_of_int (dist_right y i))) [0..<8]"

lemma uint_start: "inside y \<Longrightarrow> 0 \<le> uint y \<and> uint y \<le> 31 \<and> int (unat y) = uint y \<and> unat y \<le> 31"
proof -
  assume "inside y"
  then have "y \<le> 31" by (simp add: inside_def)
  then have "uint y \<le> 31" "unat y \<le> 31" using word_le_def [of y 31] word_le_nat_alt [of y 31] by simp_all
  then show ?thesis by simp
qed

lemma dist_bounds:
  assumes "inside y" "i < 8"
  shows "0 \<le> dist_left y i" "dist_left y i \<le> 31" "0 \<le> dist_right y i" "dist_right y i \<le> 31 - uint y"
  using assms uint_start [OF assms(1)] by (auto simp: inside_def dist_left_def dist_right_def)

lemma found_edges:
  assumes "inside y"
  shows "map (\<lambda>i. (of_nat (min 31 (reach y i)), of_nat (min (31 - unat y) (reach_back y i)))) [0..<8] = found y"
proof -
  have "int (31 - unat y) = 31 - uint y" using uint_start [OF assms] by (simp add: of_nat_diff)
  then have "int (min 31 (reach y i)) = dist_left y i" "int (min (31 - unat y) (reach_back y i)) = dist_right y i" if "i < 8" for i
    using assms that uint_start [OF assms] by (auto simp: of_nat_min inside_def reach_def reach_back_def dist_left_def dist_right_def)
  then have "of_nat (min 31 (reach y i)) = (word_of_int (dist_left y i) :: u32)"
      "of_nat (min (31 - unat y) (reach_back y i)) = (word_of_int (dist_right y i) :: u32)" if "i < 8" for i
    using that by (metis of_int_of_nat_eq)+
  then show ?thesis by (simp add: found_def)
qed

lemma edges_search:
  assumes "inside y" "at x y (hw s)" "reads_one_rank (param s)"
  shows "\<exists>h y' h'. (let (es, s) = read_left_edges P 0 wg g 0 True [0..<32] 0 (replicate 8 (32, 32)) s in
      (map (drop_right 32) es, scc_mgr_apply_group_dq_in_delay P wg 0 0 s)) = (right_edges y 0, s\<lparr>hw := h\<rparr>) \<and>
    read_right_edges P 0 wg g True y 0 (right_edges y 0) (s\<lparr>hw := h\<rparr>) = Some (found y, s\<lparr>hw := h'\<rparr>) \<and> at (\<lambda>i. 0) y' h'"
proof -
  have "left_edges y 0 = replicate 8 (32, 32)" by (simp add: left_edges_def list_eq_iff_nth_eq)
  then obtain x' h0 where h0: "read_left_edges P 0 wg g 0 True [0..<32] 0 (replicate 8 (32, 32)) s = (left_edges y 32, s\<lparr>hw := h0\<rparr>)" "at x' y h0"
    using left_edges_found [OF assms(1) _ assms(2,3), of 0 wg] by auto
  obtain h where h: "scc_mgr_apply_group_dq_in_delay P wg 0 0 (s\<lparr>hw := h0\<rparr>) = s\<lparr>hw := h\<rparr>" "at (\<lambda>i. 0) y h"
    using set_pins [of x' y "s\<lparr>hw := h0\<rparr>" wg 0] h0(2) by auto
  obtain y' h' where "read_right_edges P 0 wg g True y 0 (right_edges y 0) (s\<lparr>hw := h\<rparr>) = Some (found y, s\<lparr>hw := h'\<rparr>)" "at (\<lambda>i. 0) y' h'"
    using right_edges_found [OF assms(1), of "s\<lparr>hw := h\<rparr>" wg] h(2) assms(3) unfolding found_edges [OF assms(1)] by auto
  then show ?thesis using h0(1) h(1) edges_turn by auto
qed

lemma found_legal:
  assumes "inside y"
  shows "find (\<lambda>i. fst (found y ! i) = 32 \<or> snd (found y ! i) = 32) [0..<8] = None"
proof -
  have legal: "(word_of_int z :: u32) \<noteq> 32" if "0 \<le> z" "z \<le> 31" for z
    using sint_of_int [of z] that by auto
  have "fst (found y ! i) \<noteq> 32 \<and> snd (found y ! i) \<noteq> 32" if "i < 8" for i
    using legal [of "dist_left y i"] legal [of "dist_right y i"] dist_bounds [OF assms that] uint_start [OF assms] that by (simp add: found_def)
  then show ?thesis unfolding find_None_iff by auto
qed

lemma found_reference:
  assumes "inside y"
  shows "\<exists>k < 8. min_mid (found y) = (word_of_int (dist_left y k - dist_right y k), k) \<and>
    (\<forall>i < 8. dist_left y k - dist_right y k \<le> dist_left y i - dist_right y i)"
proof -
  obtain m k where mk: "min_mid (found y) = (m, k)" by force
  have len: "length (found y) = 8" "found y \<noteq> []" by (simp_all add: found_def)
  then have "k < 8 \<and> m = mid_of (found y ! k) \<and> (\<forall>i < 8. sint m \<le> sint (mid_of (found y ! i)))"
    using min_mid_least [OF len(2)] mk by (auto simp: all_set_conv_all_nth)
  moreover have "mid_of (found y ! i) = word_of_int (dist_left y i - dist_right y i)" if "i < 8" for i
    using that by (simp add: mid_of_def found_def)
  moreover have "sint (word_of_int (dist_left y i - dist_right y i) :: u32) = dist_left y i - dist_right y i" if "i < 8" for i
    using dist_bounds [OF assms that] uint_start [OF assms] by (intro sint_of_int) arith
  ultimately have "k < 8" "m = word_of_int (dist_left y k - dist_right y k)" "sint m = dist_left y k - dist_right y k"
      "\<forall>i < 8. sint m \<le> dist_left y i - dist_right y i"
    by (metis, metis, metis, metis)
  then show ?thesis using mk by auto
qed

text \<open>The new delays: \<open>z i\<close> for the pin \<open>i\<close>, and \<open>y - t\<close> for DQS.\<close>

lemma new_delays:
  assumes y: "inside y"
  obtains k m h t z where "k < 8" "min_mid (found y) = (m, k)" "half_mid m = word_of_int h"
    "y - limit_dqs (y - word_of_int h) = word_of_int t" "0 \<le> uint y - t" "uint y - t \<le> 31" "\<bar>t\<bar> \<le> 31"
    "\<And>i. i < 8 \<Longrightarrow> (dist_left y i - dist_right y i - (dist_left y k - dist_right y k)) sdiv 2 + (h - t) = z i"
    "\<And>i. i < 8 \<Longrightarrow> 0 \<le> z i \<and> z i \<le> 31 \<and> 0 \<le> dist_left y i - z i - t \<and> 0 \<le> dist_right y i + z i + t"
    "\<And>i. i < 8 \<Longrightarrow> \<bar>(dist_left y i - z i - t) - (dist_right y i + z i + t)\<bar> \<le> 1"
proof -
  obtain k where k: "k < 8" "min_mid (found y) = (word_of_int (dist_left y k - dist_right y k), k)"
      "\<And>i. i < 8 \<Longrightarrow> dist_left y k - dist_right y k \<le> dist_left y i - dist_right y i"
    using found_reference [OF y] by blast
  define m h t z where "m = dist_left y k - dist_right y k" and "h = (if 0 < m then m + 1 else m) sdiv 2"
    and "t = uint y - max 0 (min 31 (uint y - h))" and "z = (\<lambda>i. (dist_left y i - dist_right y i - m) sdiv 2 + (h - t))"
  note b = dist_bounds [OF y] and u = uint_start [OF y]
  have bal: "0 \<le> z i" "z i \<le> 31" "0 \<le> dist_left y i - z i - t" "0 \<le> dist_right y i + z i + t"
      "\<bar>(dist_left y i - z i - t) - (dist_right y i + z i + t)\<bar> \<le> 1" "\<bar>t\<bar> \<le> 31" if "i < 8" for i
    unfolding m_def h_def t_def z_def using b [OF that] b [OF k(1)] k(3) [OF that] u by (intro balance; simp)+
  have "\<bar>m\<bar> \<le> 500" using b [OF k(1)] u by (simp add: m_def, arith)
  then have half: "half_mid (word_of_int m) = word_of_int h" unfolding h_def by (rule half_mid_int)
  have "\<bar>h\<bar> \<le> 31" using b [OF k(1)] u by (simp add: h_def m_def sdiv_2, arith)
  then have "limit_dqs (word_of_int (uint y - h)) = word_of_int (max 0 (min 31 (uint y - h)))"
    using u by (intro limit_dqs_int) arith
  then have lim: "y - limit_dqs (y - word_of_int h) = word_of_int t" by (simp add: t_def)
  have "0 \<le> uint y - t" "uint y - t \<le> 31" by (simp_all add: t_def)
  then show thesis using k(1,2) half lim bal(6) [OF k(1)] bal(1-5) by (intro that [of k "word_of_int m" h t z]) (simp_all add: m_def z_def)
qed

lemma offset_at:
  assumes "at (\<lambda>i. word_of_int (z i)) (y - word_of_int t) h" "i < 8" "0 \<le> z i" "z i \<le> 31" "0 \<le> uint y - t" "uint y - t \<le> 31"
  shows "dq_offset get g h i = z i + t - uint y"
  using assms uint_of_int [OF assms(5,6)] by (simp add: dq_offset_def delays_at_def uint_of_int)

text \<open>The bits end up in the middle of the part of the window that the search reaches.\<close>

lemma centres:
  assumes y: "inside y" and s: "at x y (hw s)" "reads_one_rank (param s)"
  shows "\<exists>s'. rw_mgr_mem_calibrate_vfifo_center P 0 wg g 0 True update_fom s = Some (True, s') \<and>
    (\<forall>i < 8. 0 \<le> min (hi i) (31 - uint y) - dq_offset get g (hw s') i \<and> 0 \<le> dq_offset get g (hw s') i - max (lo i) (- 31) \<and>
      \<bar>(min (hi i) (31 - uint y) - dq_offset get g (hw s') i) - (dq_offset get g (hw s') i - max (lo i) (- 31))\<bar> \<le> 1)"
proof -
  obtain h0 where h0: "READ_SCC_DQS_IN_DELAY P g s = (y, s\<lparr>hw := h0\<rparr>)" "at x y h0" using read_dqs [OF s(1)] by blast
  obtain h1 y' h2 where search: "(let (es, s) = read_left_edges P 0 wg g 0 True [0..<32] 0 (replicate 8 (32, 32)) (s\<lparr>hw := h0\<rparr>) in
      (map (drop_right 32) es, scc_mgr_apply_group_dq_in_delay P wg 0 0 s)) = (right_edges y 0, s\<lparr>hw := h1\<rparr>)"
    "read_right_edges P 0 wg g True y 0 (right_edges y 0) (s\<lparr>hw := h1\<rparr>) = Some (found y, s\<lparr>hw := h2\<rparr>)" "at (\<lambda>i. 0) y' h2"
    using edges_search [OF y, of x "s\<lparr>hw := h0\<rparr>" wg] h0(2) s(2) by auto
  obtain k m h t z where new: "k < 8" "min_mid (found y) = (m, k)" "half_mid m = word_of_int h"
    "y - limit_dqs (y - word_of_int h) = word_of_int t" "0 \<le> uint y - t" "uint y - t \<le> 31" "\<bar>t\<bar> \<le> 31"
    "\<And>i. i < 8 \<Longrightarrow> (dist_left y i - dist_right y i - (dist_left y k - dist_right y k)) sdiv 2 + (h - t) = z i"
    "\<And>i. i < 8 \<Longrightarrow> 0 \<le> z i \<and> z i \<le> 31 \<and> 0 \<le> dist_left y i - z i - t \<and> 0 \<le> dist_right y i + z i + t"
    "\<And>i. i < 8 \<Longrightarrow> \<bar>(dist_left y i - z i - t) - (dist_right y i + z i + t)\<bar> \<le> 1"
    using new_delays [OF y] by metis
  have small: "\<bar>dist_left y i\<bar> \<le> 31 \<and> \<bar>dist_right y i\<bar> \<le> 31" if "i < 8" for i
    using dist_bounds [OF y that] uint_start [OF y] by arith
  have "\<exists>m1 m2 h'. centre_read_pins P wg 0 (found y) k (word_of_int h) (word_of_int t) (s\<lparr>hw := h2\<rparr>) = (m1, m2, (s\<lparr>hw := h2\<rparr>)\<lparr>hw := h'\<rparr>) \<and>
      at (\<lambda>i. word_of_int (z i)) y' h' \<and> 0 \<le> sint m1 \<and> 0 \<le> sint m2"
    by (rule pins_set [where l = "dist_left y" and r = "dist_right y"])
      (use search(3) new(1,7-9) small in \<open>simp_all add: found_def\<close>)
  then obtain m1 m2 h3 where pins: "centre_read_pins P wg 0 (found y) k (word_of_int h) (word_of_int t) (s\<lparr>hw := h2\<rparr>) = (m1, m2, s\<lparr>hw := h3\<rparr>)"
      "at (\<lambda>i. word_of_int (z i)) y' h3" "0 \<le> sint m1" "0 \<le> sint m2"
    by auto
  let ?z = "\<lambda>i. word_of_int (z i) :: u32"
  obtain h4 where h4: "scc_mgr_set_dqs_bus_in_delay P g (y - word_of_int t) (s\<lparr>hw := h3\<rparr>) = s\<lparr>hw := h4\<rparr>" "at ?z (y - word_of_int t) h4"
    using set_dqs [of ?z y' "s\<lparr>hw := h3\<rparr>" "y - word_of_int t"] pins(2) by auto
  obtain h5 where h5: "scc_mgr_load_dqs P g (s\<lparr>hw := h4\<rparr>) = s\<lparr>hw := h5\<rparr>" "at ?z (y - word_of_int t) h5"
    using loads(1) h4(2) by (rule safe_at)
  define s1 where "s1 = (if update_fom then s\<lparr>hw := h5, gbl := (gbl s)\<lparr>fom_in := fom_in (gbl s) + signed_div (m1 + m2) 1\<rparr>\<rparr> else s\<lparr>hw := h5\<rparr>)"
  have at1: "at ?z (y - word_of_int t) (hw s1)" using h5(2) by (simp add: s1_def)
  obtain h6 where h6: "IOWR_32DIRECT P SCC_MGR_UPD 0 0 s1 = s1\<lparr>hw := h6\<rparr>" "at ?z (y - word_of_int t) h6"
    using upd at1 by (rule safeE)
  have no_sticky: "edge_mask (\<lambda>(left, right). left \<noteq> 32 \<and> right \<noteq> 32) (right_edges y 0) = 0"
    by (rule edge_mask_0) (auto simp: right_edges_def)
  have lim: "limit_dqs (y - word_of_int h) = y - word_of_int t" by (simp add: new(4) [symmetric])
  have run: "rw_mgr_mem_calibrate_vfifo_center P 0 wg g 0 True update_fom s = Some (True, s1\<lparr>hw := h6\<rparr>)"
    using search(1) no_sticky found_legal [OF y] new(3) pins(3,4) h6(1)
    by (cases update_fom) (simp_all add: lim rw_mgr_mem_calibrate_vfifo_center_def h0(1) size_defs max_defs Let_def split_beta search(2) new(2) pins(1) h4(1) h5(1) s1_def)
  have off: "dq_offset get g h6 i = z i + t - uint y" if "i < 8" for i
    using offset_at [OF h6(2) that] new(5,6) new(9) [OF that] by simp
  have "0 \<le> min (hi i) (31 - uint y) - dq_offset get g h6 i \<and> 0 \<le> dq_offset get g h6 i - max (lo i) (- 31) \<and>
      \<bar>(min (hi i) (31 - uint y) - dq_offset get g h6 i) - (dq_offset get g h6 i - max (lo i) (- 31))\<bar> \<le> 1" if "i < 8" for i
    unfolding off [OF that] using new(9,10) [OF that] unfolding dist_left_def dist_right_def by linarith
  then have "\<forall>i < 8. 0 \<le> min (hi i) (31 - uint y) - dq_offset get g (hw (s1\<lparr>hw := h6\<rparr>)) i \<and>
      0 \<le> dq_offset get g (hw (s1\<lparr>hw := h6\<rparr>)) i - max (lo i) (- 31) \<and>
      \<bar>(min (hi i) (31 - uint y) - dq_offset get g (hw (s1\<lparr>hw := h6\<rparr>)) i) - (dq_offset get g (hw (s1\<lparr>hw := h6\<rparr>)) i - max (lo i) (- 31))\<bar> \<le> 1"
    by simp
  with run show ?thesis by blast
qed

end

section \<open>A memory with eyes\<close>

text \<open>
  The platform of the registers of \<open>reg_plat\<close>, except that the result of a read test, at the APB
  address \<open>0x2000\<close>, is computed from the delays: the window of pin \<open>i\<close> of group 1 is from \<open>lo i\<close> to \<open>hi i\<close>.
\<close>

definition eye_result :: "(nat \<Rightarrow> int) \<Rightarrow> (nat \<Rightarrow> int) \<Rightarrow> (u32 \<Rightarrow> u32) \<Rightarrow> u32" where
  "eye_result lo hi h = horner_sum of_bool 2 (map (\<lambda>i.
     let off = dq_offset (\<lambda>h a. h (AVL_TO_APB reg_plat a)) 1 h i in \<not> (lo i \<le> off \<and> off \<le> hi i)) [0..<8])"

definition eye_plat :: "(nat \<Rightarrow> int) \<Rightarrow> (nat \<Rightarrow> int) \<Rightarrow> (u32 \<Rightarrow> u32) plat" where
  "eye_plat lo hi = reg_plat\<lparr>read_register := (\<lambda>base a h. (if a = 0x2000 then eye_result lo hi h else h a, h))\<rparr>"

lemma eye_bus:
  "AVL_TO_APB (eye_plat lo hi) a = AVL_TO_APB reg_plat a"
  "bus_write (eye_plat lo hi) a d h = h(AVL_TO_APB reg_plat a := d)"
  "bus_read (eye_plat lo hi) a h = (if AVL_TO_APB reg_plat a = 0x2000 then eye_result lo hi h else h (AVL_TO_APB reg_plat a), h)"
proof -
  show apb: "AVL_TO_APB (eye_plat lo hi) a = AVL_TO_APB reg_plat a" by (simp add: AVL_TO_APB_def eye_plat_def reg_plat_def)
  show "bus_write (eye_plat lo hi) a d h = h(AVL_TO_APB reg_plat a := d)"
    by (simp add: bus_write_def apb) (simp add: eye_plat_def reg_plat_def)
  show "bus_read (eye_plat lo hi) a h = (if AVL_TO_APB reg_plat a = 0x2000 then eye_result lo hi h else h (AVL_TO_APB reg_plat a), h)"
    by (simp add: bus_read_def apb) (simp add: eye_plat_def reg_plat_def)
qed

lemma read_regs_apb: "distinct (map (AVL_TO_APB reg_plat) (BASE_RW_MGR # dqs_reg 1 # map dq_reg [0..<8]))" "AVL_TO_APB reg_plat BASE_RW_MGR = 0x2000"
  by code_simp+

lemma read_regs_inj:
  assumes "a \<in> read_regs 1"
  shows "AVL_TO_APB reg_plat a \<noteq> 0x2000"
    "b \<in> read_regs 1 \<or> setting_max b = None \<Longrightarrow> AVL_TO_APB reg_plat b = AVL_TO_APB reg_plat a \<longleftrightarrow> b = a"
proof -
  have S: "read_regs 1 = set (dqs_reg 1 # map dq_reg [0..<8])" by (auto simp: read_regs_def)
  have inj: "inj_on (AVL_TO_APB reg_plat) (read_regs 1)" "AVL_TO_APB reg_plat BASE_RW_MGR \<notin> AVL_TO_APB reg_plat ` read_regs 1"
    using read_regs_apb(1) unfolding S by (simp_all only: list.map distinct.simps distinct_map set_map list.set list.simps(9) inj_on_insert) auto
  show "AVL_TO_APB reg_plat a \<noteq> 0x2000" using inj(2) assms read_regs_apb(2) by force
  have max: "setting_max a = Some 31" using assms by (auto simp: read_regs_def)
  assume "b \<in> read_regs 1 \<or> setting_max b = None"
  then show "AVL_TO_APB reg_plat b = AVL_TO_APB reg_plat a \<longleftrightarrow> b = a"
    using inj_onD [OF inj(1)] assms max same_register [of b a] by auto
qed

lemma eye_holds: "holds_settings (eye_plat lo hi) (\<lambda>h a. h (AVL_TO_APB reg_plat a)) (read_regs 1)"
  unfolding holds_settings_def eye_bus using read_regs_inj by (auto simp: eq_commute)

lemma eye_windows: "reads_in_windows (eye_plat lo hi) (\<lambda>h a. h (AVL_TO_APB reg_plat a)) 1 lo hi"
  unfolding reads_in_windows_def eye_bus read_regs_apb(2)
  by (auto simp: eye_result_def bit_horner_sum_bit_iff Let_def)

interpretation eye: read_eye "eye_plat lo hi" "\<lambda>h a. h (AVL_TO_APB reg_plat a)" 1 lo hi for lo hi
  by unfold_locales (simp_all add: eye_holds eye_windows)

section \<open>Property\<close>

text \<open>
  C6: On a memory whose DQ pins have read windows, the read deskew succeeds and puts every pin of the
  group into its window, at a point whose distances to the two edges, of the part of the window that the delays
  can reach, differ by at most one tap.
\<close>

theorem read_deskew_centres:
  assumes "holds_settings P get (read_regs g)" "reads_in_windows P get g lo hi" "g < 4" "reads_one_rank (param s)"
    and "start = get (hw s) (dqs_reg g)" "start \<le> 31" "\<And>i. i < 8 \<Longrightarrow> lo i \<le> - uint start \<and> - uint start \<le> hi i"
  shows "\<exists>s'. rw_mgr_mem_calibrate_vfifo_center P 0 g g 0 True update_fom s = Some (True, s') \<and>
    (\<forall>i < 8. let off = dq_offset get g (hw s') i; left = min (hi i) (31 - uint start); right = max (lo i) (- 31) in
       right \<le> off \<and> off \<le> left \<and> \<bar>(left - off) - (off - right)\<bar> \<le> 1)"
proof -
  have eye: "read_eye P get g lo hi" by unfold_locales (rule assms)+
  have "read_eye.inside lo hi start" using assms(6,7) by (simp add: read_eye.inside_def [OF eye])
  moreover have "delays_at get g (\<lambda>i. get (hw s) (dq_reg i)) start (hw s)" using assms(5) by (simp add: delays_at_def)
  ultimately obtain s' where "rw_mgr_mem_calibrate_vfifo_center P 0 g g 0 True update_fom s = Some (True, s')"
    "\<forall>i < 8. 0 \<le> min (hi i) (31 - uint start) - dq_offset get g (hw s') i \<and> 0 \<le> dq_offset get g (hw s') i - max (lo i) (- 31) \<and>
      \<bar>(min (hi i) (31 - uint start) - dq_offset get g (hw s') i) - (dq_offset get g (hw s') i - max (lo i) (- 31))\<bar> \<le> 1"
    using read_eye.centres [OF eye _ _ assms(4), of start "\<lambda>i. get (hw s) (dq_reg i)" g update_fom] by blast
  then show ?thesis by (intro exI [of _ s']) (simp add: Let_def)
qed

text \<open>Pin \<open>i\<close> can be read at offsets from \<open>i - 20\<close> to \<open>i\<close>. DQS starts at 9.\<close>

theorem read_deskew_centres_witness:
  "\<exists>s'. rw_mgr_mem_calibrate_vfifo_center (eye_plat (\<lambda>i. int i - 20) int) 0 1 1 0 True True (some_seq 16 (\<lambda>a. 9)) = Some (True, s') \<and>
     \<bar>(0 - dq_offset (\<lambda>h a. h (AVL_TO_APB reg_plat a)) 1 (hw s') 0) - (dq_offset (\<lambda>h a. h (AVL_TO_APB reg_plat a)) 1 (hw s') 0 + 20)\<bar> \<le> 1 \<and>
     \<bar>(7 - dq_offset (\<lambda>h a. h (AVL_TO_APB reg_plat a)) 1 (hw s') 7) - (dq_offset (\<lambda>h a. h (AVL_TO_APB reg_plat a)) 1 (hw s') 7 + 13)\<bar> \<le> 1"
proof -
  have "reads_one_rank (param (some_seq 16 (\<lambda>a. 9 :: u32)))" by (simp add: reads_one_rank_def some_seq_def some_param_def)
  then obtain s' where s': "rw_mgr_mem_calibrate_vfifo_center (eye_plat (\<lambda>i. int i - 20) int) 0 1 1 0 True True (some_seq 16 (\<lambda>a. 9)) = Some (True, s')"
      "\<forall>i < 8. let off = dq_offset (\<lambda>h a. h (AVL_TO_APB reg_plat a)) 1 (hw s') i; left = min (int i) (31 - uint (9 :: u32)); right = max (int i - 20) (- 31) in
         right \<le> off \<and> off \<le> left \<and> \<bar>(left - off) - (off - right)\<bar> \<le> 1"
    using read_deskew_centres [OF eye_holds eye_windows, of "some_seq 16 (\<lambda>a. 9)" 9 "\<lambda>i. int i - 20" int True] by auto
  then show ?thesis using s'(2) [rule_format, of 0] s'(2) [rule_format, of 7] by (auto simp: Let_def)
qed

end
