(* ===== verification/Tcl_Report.thy ===== *)
theory Tcl_Report
  imports Seq_Calibrate
begin

text \<open>
  The report for the debug toolkit, \<open>tclrpt.pre.h\<close> and \<open>tclrpt.pre.c\<close>, in the configuration of the
  repository with \<open>ENABLE_TCL_DEBUG\<close> turned on. The functions work on the structure \<open>my_debug_data\<close>; all of
  its fields are 32 bits wide. A field name that several structures have carries a suffix: \<open>_s\<close> for
  the summary, \<open>_c\<close> for the calibration report, \<open>_m\<close> for the margin report, \<open>_e\<close> for the toolkit data,
  \<open>_g\<close> for the status of a group. Left out are the functions that \<open>HPS_HW\<close> and \<open>BFM_MODE\<close> leave out: the
  command loop and the dump of the report to a file.
\<close>

section \<open>Sizes and codes\<close>

definition RW_MGR_NUM_TRUE_DM_PER_WRITE_GROUP :: nat where
  "RW_MGR_NUM_TRUE_DM_PER_WRITE_GROUP = RW_MGR_TRUE_MEM_DATA_MASK_WIDTH div RW_MGR_MEM_IF_WRITE_DQS_WIDTH"
definition NUM_RANK_MASK_WORDS :: nat where
  "NUM_RANK_MASK_WORDS = (if RW_MGR_MEM_NUMBER_OF_RANKS mod 32 = 0 then RW_MGR_MEM_NUMBER_OF_RANKS div 32 else RW_MGR_MEM_NUMBER_OF_RANKS div 32 + 1)"
definition NUM_GROUP_MASK_WORDS :: nat where
  "NUM_GROUP_MASK_WORDS = (if RW_MGR_MEM_IF_READ_DQS_WIDTH mod 32 = 0 then RW_MGR_MEM_IF_READ_DQS_WIDTH div 32 else RW_MGR_MEM_IF_READ_DQS_WIDTH div 32 + 1)"
definition COMMAND_PARAM_WORDS :: nat where "COMMAND_PARAM_WORDS = 4"
definition TCLDBG_CMD_WAIT_CMD :: u32 where "TCLDBG_CMD_WAIT_CMD = 1000"
definition TCLDBG_CMD_NOP :: u32 where "TCLDBG_CMD_NOP = 0"
definition TCLDBG_TX_STATUS_CMD_READY :: u32 where "TCLDBG_TX_STATUS_CMD_READY = 0"
definition TCLDBG_TX_STATUS_CMD_EXE :: u32 where "TCLDBG_TX_STATUS_CMD_EXE = 1"
definition TCLDBG_TX_STATUS_ILLEGAL_CMD :: u32 where "TCLDBG_TX_STATUS_ILLEGAL_CMD = 2"
definition TCLDBG_TX_STATUS_RESPONSE_READY :: u32 where "TCLDBG_TX_STATUS_RESPONSE_READY = 3"
definition DEBUG_REPORT_STATUS_REPORT_GEN_ENABLED :: u32 where "DEBUG_REPORT_STATUS_REPORT_GEN_ENABLED = 0x00000002"
definition PHY_DEBUG_ENABLE_MARGIN_RPT :: u32 where "PHY_DEBUG_ENABLE_MARGIN_RPT = 0x00000004"
definition RW_MGR_MEM_ADDRESS_WIDTH :: u32 where "RW_MGR_MEM_ADDRESS_WIDTH = 15"
definition RW_MGR_MEM_BANK_WIDTH :: u32 where "RW_MGR_MEM_BANK_WIDTH = 3"
definition RW_MGR_MEM_CONTROL_WIDTH :: u32 where "RW_MGR_MEM_CONTROL_WIDTH = 1"
definition RW_MGR_MEM_CLK_EN_WIDTH :: u32 where "RW_MGR_MEM_CLK_EN_WIDTH = 1"
definition RW_MGR_MR0_BL :: u32 where "RW_MGR_MR0_BL = 1"
definition RW_MGR_MR0_CAS_LATENCY :: u32 where "RW_MGR_MR0_CAS_LATENCY = 7"

lemmas report_size_defs = size_defs RW_MGR_NUM_TRUE_DM_PER_WRITE_GROUP_def NUM_RANK_MASK_WORDS_def NUM_GROUP_MASK_WORDS_def COMMAND_PARAM_WORDS_def

section \<open>The structures\<close>

record debug_cal_observed_dq_margins_t =
  left_edge :: u32
  right_edge :: u32

record debug_cal_observed_dqs_in_margins_t =
  dq_margin_in :: u32
  dqs_margin_in :: u32
  dqsen_margin :: u32

record debug_cal_observed_dqsen_margins_t =
  vfifo_begin :: u32
  phase_begin :: u32
  delay_begin :: u32
  work_begin :: u32
  vfifo_end :: u32
  phase_end :: u32
  delay_end :: u32
  work_end :: u32

record debug_cal_observed_dqs_out_margins_t =
  dq_margin_out :: u32
  dqs_margin_out :: u32
  dm_margin :: u32
  dqdqs_start :: u32
  dqdqs_end :: u32

record debug_cal_dq_settings_t =
  dq_in_delay :: u32
  dq_out_delay1 :: u32
  dq_out_delay2 :: u32

record debug_cal_dqs_in_settings_t =
  dqs_bus_in_delay :: u32
  dqs_en_phase :: u32
  dqs_en_delay :: u32

record debug_cal_dqs_out_settings_t =
  dqdqs_out_phase :: u32
  dqs_out_delay1 :: u32
  dqs_out_delay2 :: u32
  oct_out_delay1 :: u32
  oct_out_delay2 :: u32
  dqs_io_in_delay :: u32

record debug_cal_dm_settings_t =
  dm_in_delay :: u32
  dm_out_delay1 :: u32
  dm_out_delay2 :: u32

record debug_cal_status_per_group_t =
  error_stage_g :: u32
  error_sub_stage_g :: u32
  fom_in_g :: u32
  fom_out_g :: u32

text \<open>The summary report, in three parts.\<close>

record debug_summary_head_t =
  data_size_s :: u32
  report_flags_s :: u32
  sequencer_signature :: u32
  protocol :: u32
  error_stage_s :: u32
  error_sub_stage_s :: u32
  error_group_s :: u32
  fom_in_s :: u32
  fom_out_s :: u32
  mem_address_width :: u32
  mem_bank_width :: u32
  mem_control_width :: u32
  mem_cs_width :: u32
  mem_cke_width :: u32
  mem_odt_width :: u32

record debug_summary_sizes_t = debug_summary_head_t +
  mem_data_width_s :: u32
  mem_dm_width_s :: u32
  mem_read_dqs_width_s :: u32
  mem_write_dqs_width_s :: u32
  mem_dq_per_read_dqs :: u32
  mem_num_ranks :: u32
  num_shadow_regs_s :: u32
  mem_mmr_burst_len :: u32
  mem_mmr_cas :: u32
  mem_num_dm_per_write_group_s :: u32
  rate :: u32
  cal_write_latency :: u32
  cal_read_latency :: u32
  dll_length :: u32

record debug_summary_report_t = debug_summary_sizes_t +
  rank_mask_size :: u32
  active_ranks :: u32
  rank_mask :: "u32 list"
  group_mask_size :: u32
  active_groups :: u32
  group_mask :: "u32 list"
  groups_attempted_calibration :: "u32 list"
  computed_dtap_per_ptap :: u32
  io_delay_per_opa_tap :: u32
  margin_dq_in_left_delay_chain_len :: u32
  margin_dq_in_right_delay_chain_len :: u32
  margin_dq_out_left_delay_chain_len :: u32
  margin_dq_out_right_delay_chain_len :: u32

text \<open>Rows are the shadow register sets.\<close>

record debug_cal_report_t =
  data_size_c :: u32
  report_flags_c :: u32
  mem_data_width_c :: u32
  mem_dm_width_c :: u32
  mem_num_dm_per_write_group_c :: u32
  mem_read_dqs_width_c :: u32
  mem_write_dqs_width_c :: u32
  num_shadow_regs_c :: u32
  cal_status_per_group :: "debug_cal_status_per_group_t list list"
  cal_dq_in_margins :: "debug_cal_observed_dq_margins_t list list"
  cal_dq_out_margins :: "debug_cal_observed_dq_margins_t list list"
  cal_dm_margins :: "debug_cal_observed_dq_margins_t list list list"
  cal_dqsen_margins :: "debug_cal_observed_dqsen_margins_t list list"
  cal_dqs_in_margins :: "debug_cal_observed_dqs_in_margins_t list list"
  cal_dqs_out_margins :: "debug_cal_observed_dqs_out_margins_t list list"
  cal_dq_settings :: "debug_cal_dq_settings_t list list"
  cal_dqs_in_settings :: "debug_cal_dqs_in_settings_t list list"
  cal_dqs_out_settings :: "debug_cal_dqs_out_settings_t list list"
  cal_dm_settings :: "debug_cal_dm_settings_t list list list"

record debug_margin_min_max_margins_t =
  min_working_setting :: u32
  max_working_setting :: u32

record debug_margin_report_t =
  data_size_m :: u32
  report_flags_m :: u32
  mem_data_width_m :: u32
  mem_write_dqs_width_m :: u32
  num_shadow_regs_m :: u32
  margin_dm_margins :: "debug_margin_min_max_margins_t list list list"
  margin_dq_in_margins :: "debug_margin_min_max_margins_t list list"
  margin_dq_out_margins :: "debug_margin_min_max_margins_t list list"

record emif_toolkit_debug_data_t =
  data_size_e :: u32
  dqs_write_width_ptr :: u32
  group_mask_ptr :: u32
  num_ranks_ptr :: u32
  rank_mask_ptr :: u32
  active_groups_ptr :: u32
  active_ranks_ptr :: u32
  group_mask_size_ptr :: u32
  rank_mask_size_ptr :: u32

record debug_data_t =
  data_size :: u32
  status :: u32
  requested_command :: u32
  command_status :: u32
  command_parameters :: "u32 list"
  summary_report_ptr :: u32
  cal_report_ptr :: u32
  margin_report_ptr :: u32
  printf_output_ptr :: u32
  emif_toolkit_debug_data_ptr :: u32
  summary_report :: debug_summary_report_t
  cal_report :: debug_cal_report_t
  margin_report :: debug_margin_report_t
  emif_toolkit_debug_data :: emif_toolkit_debug_data_t

end
