(* ===== verification/Tcl_Init.thy ===== *)
theory Tcl_Init
  imports Tcl_Report
begin

text \<open>
  The functions of \<open>tclrpt.pre.c\<close>. A loop over one array of a report is a fold of updates of that array.
  \<open>base\<close> is the address of \<open>my_debug_data\<close>, which the pointers of the report are relative to.
\<close>

section \<open>Protocol and rate\<close>

definition DDR3 :: bool where "DDR3 = True"
definition DDR2 :: bool where "DDR2 = False"
definition QDRII :: bool where "QDRII = False"
definition RLDRAM3 :: bool where "RLDRAM3 = False"
definition LPDDR2 :: bool where "LPDDR2 = False"
definition QUARTER_RATE :: bool where "QUARTER_RATE = False"
definition HALF_RATE :: bool where "HALF_RATE = False"

definition tclrpt_get_protocol :: u32 where
  "tclrpt_get_protocol =
     (let e = 0;
          e = (if DDR3 then 1 else e);
          e = (if DDR2 then 2 else e);
          e = (if QDRII then 3 else e);
          e = (if RLDRAMII then 4 else e);
          e = (if RLDRAM3 then 5 else e);
          e = (if LPDDR2 then 6 else e) in e)"

definition tclrpt_get_rate :: u32 where
  "tclrpt_get_rate = (if QUARTER_RATE then 4 else if HALF_RATE then 2 else 1)"

section \<open>Masks of groups and ranks\<close>

definition update_rank_mask :: "param_t \<Rightarrow> u32 \<times> debug_summary_report_t \<Rightarrow> u32 \<times> debug_summary_report_t" where
  "update_rank_mask p =
     fold (\<lambda>w. fold (\<lambda>rank (n, r).
         if skip_ranks p ! rank
         then (n - 1, r\<lparr>rank_mask := (rank_mask r)[w := rank_mask r ! w OR push_bit (rank - 32 * w) 1]\<rparr>)
         else (n, r))
       [w * 32..<RW_MGR_MEM_NUMBER_OF_RANKS]) [0..<NUM_RANK_MASK_WORDS]"

definition tclrpt_update_rank_group_mask :: "param_t \<Rightarrow> debug_summary_report_t \<Rightarrow> param_t \<times> debug_summary_report_t" where
  "tclrpt_update_rank_group_mask p r =
     (let r = r\<lparr>group_mask := (group_mask r)[0 := skip_groups p]\<rparr>;
          n = fold (\<lambda>i n. if skip_groups p AND push_bit i 1 \<noteq> 0 then n - 1 else n) [0..<32] (of_nat RW_MGR_MEM_IF_WRITE_DQS_WIDTH);
          r = r\<lparr>active_groups := n\<rparr>;
          (n, r) = update_rank_mask p (of_nat RW_MGR_MEM_NUMBER_OF_RANKS, r);
          p = fold (\<lambda>sr p. p\<lparr>skip_shadow_regs := (skip_shadow_regs p)[sr :=
                list_all (\<lambda>i. skip_ranks p ! (sr * NUM_RANKS_PER_SHADOW_REG + i)) [0..<NUM_RANKS_PER_SHADOW_REG]]\<rparr>)
              [0..<NUM_SHADOW_REGS] p in
      (p, r\<lparr>active_ranks := n\<rparr>))"

definition tclrpt_initialize_rank_group_mask :: "debug_summary_report_t \<Rightarrow> debug_summary_report_t" where
  "tclrpt_initialize_rank_group_mask r =
     (let r = r\<lparr>rank_mask_size := of_nat NUM_RANK_MASK_WORDS, active_ranks := mem_num_ranks r,
                group_mask_size := of_nat NUM_GROUP_MASK_WORDS, active_groups := mem_write_dqs_width_s r\<rparr>;
          r = r\<lparr>group_mask := fold (\<lambda>w m. m[w := 0]) [0..<NUM_GROUP_MASK_WORDS] (group_mask r)\<rparr> in
      r\<lparr>rank_mask := fold (\<lambda>w m. m[w := 0]) [0..<NUM_RANK_MASK_WORDS] (rank_mask r)\<rparr>)"

definition tclrpt_clear_calibrated_groups_index :: "debug_summary_report_t \<Rightarrow> debug_summary_report_t" where
  "tclrpt_clear_calibrated_groups_index r =
     r\<lparr>groups_attempted_calibration := fold (\<lambda>w m. m[w := 0]) [0..<NUM_GROUP_MASK_WORDS] (groups_attempted_calibration r)\<rparr>"

text \<open>\<open>None\<close> is an access behind the end of the array.\<close>

definition tclrpt_set_group_as_calibration_attempted :: "u32 \<Rightarrow> debug_summary_report_t \<Rightarrow> debug_summary_report_t option" where
  "tclrpt_set_group_as_calibration_attempted write_group r =
     (let group_mask_word = write_group div 32;
          group_mask_bit = write_group - group_mask_word * 32;
          w = unat group_mask_word in
      if w < NUM_GROUP_MASK_WORDS
      then Some (r\<lparr>groups_attempted_calibration := (groups_attempted_calibration r)[w :=
        groups_attempted_calibration r ! w OR push_bit (unat group_mask_bit) 1]\<rparr>)
      else None)"

section \<open>Blank reports\<close>

text \<open>The loop \<open>for (i = 0; i < n; i++)\<close> that changes the elements of an array.\<close>

definition each_of :: "nat \<Rightarrow> ('a \<Rightarrow> 'a) \<Rightarrow> 'a list \<Rightarrow> 'a list" where
  "each_of n f xs = fold (\<lambda>i xs. xs[i := f (xs ! i)]) [0..<n] xs"

abbreviation each_group :: "('a \<Rightarrow> 'a) \<Rightarrow> 'a list list \<Rightarrow> 'a list list" where
  "each_group f \<equiv> each_of NUM_SHADOW_REGS (each_of RW_MGR_MEM_IF_WRITE_DQS_WIDTH f)"

abbreviation each_read_group :: "('a \<Rightarrow> 'a) \<Rightarrow> 'a list list \<Rightarrow> 'a list list" where
  "each_read_group f \<equiv> each_of NUM_SHADOW_REGS (each_of RW_MGR_MEM_IF_READ_DQS_WIDTH f)"

abbreviation each_dq :: "('a \<Rightarrow> 'a) \<Rightarrow> 'a list list \<Rightarrow> 'a list list" where
  "each_dq f \<equiv> each_of NUM_SHADOW_REGS (each_of RW_MGR_MEM_DATA_WIDTH f)"

abbreviation each_dm :: "('a \<Rightarrow> 'a) \<Rightarrow> 'a list list list \<Rightarrow> 'a list list list" where
  "each_dm f \<equiv> each_group (each_of RW_MGR_NUM_TRUE_DM_PER_WRITE_GROUP f)"

definition clear_edges :: "debug_cal_observed_dq_margins_t \<Rightarrow> debug_cal_observed_dq_margins_t" where
  "clear_edges m = m\<lparr>left_edge := 0, right_edge := 0\<rparr>"

definition tclrpt_initialize_calib_settings :: "debug_cal_report_t \<Rightarrow> debug_cal_report_t" where
  "tclrpt_initialize_calib_settings r = r\<lparr>
     cal_dqs_in_margins := each_read_group (\<lambda>m. m\<lparr>dq_margin_in := 0, dqs_margin_in := 0, dqsen_margin := 0\<rparr>) (cal_dqs_in_margins r),
     cal_dqsen_margins := each_read_group (\<lambda>m. m\<lparr>vfifo_begin := 0, phase_begin := 0, delay_begin := 0, work_begin := 0,
       vfifo_end := 0, phase_end := 0, delay_end := 0, work_end := 0\<rparr>) (cal_dqsen_margins r),
     cal_dqs_out_margins := each_group (\<lambda>m. m\<lparr>dq_margin_out := 0, dm_margin := 0, dqdqs_start := 0, dqdqs_end := 0,
       dqs_margin_out := 0\<rparr>) (cal_dqs_out_margins r),
     cal_dq_in_margins := each_dq clear_edges (cal_dq_in_margins r),
     cal_dq_out_margins := each_dq clear_edges (cal_dq_out_margins r),
     cal_dm_margins := each_dm clear_edges (cal_dm_margins r),
     cal_dqs_in_settings := each_read_group (\<lambda>m. m\<lparr>dqs_en_delay := 0, dqs_en_phase := 0, dqs_bus_in_delay := 0\<rparr>) (cal_dqs_in_settings r),
     cal_dqs_out_settings := each_group (\<lambda>m. m\<lparr>dqdqs_out_phase := 0, dqs_out_delay1 := 0, dqs_out_delay2 := 0, oct_out_delay1 := 0,
       oct_out_delay2 := 0, dqs_io_in_delay := 0\<rparr>) (cal_dqs_out_settings r),
     cal_dq_settings := each_dq (\<lambda>m. m\<lparr>dq_in_delay := 0, dq_out_delay1 := 0, dq_out_delay2 := 0\<rparr>) (cal_dq_settings r),
     cal_dm_settings := each_dm (\<lambda>m. m\<lparr>dm_in_delay := 0, dm_out_delay1 := 0, dm_out_delay2 := 0\<rparr>) (cal_dm_settings r)\<rparr>"

definition clear_min_max :: "debug_margin_min_max_margins_t \<Rightarrow> debug_margin_min_max_margins_t" where
  "clear_min_max m = m\<lparr>max_working_setting := 0, min_working_setting := 0\<rparr>"

definition tclrpt_initialize_margins :: "debug_margin_report_t \<Rightarrow> debug_margin_report_t" where
  "tclrpt_initialize_margins r = r\<lparr>
     mem_data_width_m := of_nat RW_MGR_MEM_DATA_WIDTH,
     mem_write_dqs_width_m := of_nat RW_MGR_MEM_IF_WRITE_DQS_WIDTH,
     num_shadow_regs_m := of_nat NUM_SHADOW_REGS,
     margin_dm_margins := each_dm clear_min_max (margin_dm_margins r),
     margin_dq_in_margins := each_dq clear_min_max (margin_dq_in_margins r),
     margin_dq_out_margins := each_dq clear_min_max (margin_dq_out_margins r)\<rparr>"

text \<open>The sub-stage of the error is not set.\<close>

definition tclrpt_initialize_calib_results ::
  "debug_summary_report_t \<Rightarrow> debug_cal_report_t \<Rightarrow> debug_summary_report_t \<times> debug_cal_report_t" where
  "tclrpt_initialize_calib_results r c =
     (r\<lparr>error_stage_s := CAL_STAGE_CAL_SKIPPED, error_group_s := 0xff, fom_in_s := 0, fom_out_s := 0\<rparr>,
      c\<lparr>cal_status_per_group := each_group (\<lambda>g. g\<lparr>fom_in_g := 0, fom_out_g := 0, error_stage_g := CAL_STAGE_CAL_SKIPPED\<rparr>)
        (cal_status_per_group c)\<rparr>)"

definition tclrpt_initialize_calib_latency :: "debug_summary_report_t \<Rightarrow> debug_summary_report_t" where
  "tclrpt_initialize_calib_latency r = r\<lparr>cal_write_latency := 0, cal_read_latency := 0\<rparr>"

section \<open>Layout\<close>

text \<open>Sizes in bytes, and the offsets of the parts of \<open>debug_data_t\<close> and of fields of the summary.\<close>

definition sizeof_summary :: u32 where
  "sizeof_summary = 4 * of_nat (39 + NUM_RANK_MASK_WORDS + 2 * NUM_GROUP_MASK_WORDS)"

definition sizeof_cal :: u32 where
  "sizeof_cal = 4 * of_nat (8 + NUM_SHADOW_REGS * (
     (4 + 5 + 6) * RW_MGR_MEM_IF_WRITE_DQS_WIDTH + (2 + 2 + 3) * RW_MGR_MEM_DATA_WIDTH +
     (2 + 3) * (RW_MGR_MEM_IF_WRITE_DQS_WIDTH * RW_MGR_NUM_TRUE_DM_PER_WRITE_GROUP) +
     (8 + 3 + 3) * RW_MGR_MEM_IF_READ_DQS_WIDTH))"

definition sizeof_margin :: u32 where
  "sizeof_margin = 4 * of_nat (5 + NUM_SHADOW_REGS * (
     2 * (RW_MGR_MEM_IF_WRITE_DQS_WIDTH * RW_MGR_NUM_TRUE_DM_PER_WRITE_GROUP) + (2 + 2) * RW_MGR_MEM_DATA_WIDTH))"

definition sizeof_emif :: u32 where "sizeof_emif = 4 * 9"

definition summary_offset :: u32 where "summary_offset = 4 * of_nat (9 + COMMAND_PARAM_WORDS)"
definition cal_offset :: u32 where "cal_offset = summary_offset + sizeof_summary"
definition margin_offset :: u32 where "margin_offset = cal_offset + sizeof_cal"
definition emif_offset :: u32 where "emif_offset = margin_offset + sizeof_margin"
definition sizeof_debug_data :: u32 where "sizeof_debug_data = emif_offset + sizeof_emif"

definition tclrpt_initialize_emif_toolkit_debug_data :: "u32 \<Rightarrow> emif_toolkit_debug_data_t \<Rightarrow> emif_toolkit_debug_data_t" where
  "tclrpt_initialize_emif_toolkit_debug_data base e =
     (let r = base + summary_offset in e\<lparr>
       dqs_write_width_ptr := r + 4 * 18,
       group_mask_ptr := r + 4 * of_nat (33 + NUM_RANK_MASK_WORDS),
       num_ranks_ptr := r + 4 * 20,
       rank_mask_ptr := r + 4 * 31,
       active_groups_ptr := r + 4 * of_nat (32 + NUM_RANK_MASK_WORDS),
       active_ranks_ptr := r + 4 * 30,
       group_mask_size_ptr := r + 4 * of_nat (31 + NUM_RANK_MASK_WORDS),
       rank_mask_size_ptr := r + 4 * 29\<rparr>)"

section \<open>Initialisation\<close>

definition static_data :: "debug_summary_report_t \<Rightarrow> debug_summary_report_t" where
  "static_data r =
     (let r = r\<lparr>protocol := tclrpt_get_protocol, mem_address_width := RW_MGR_MEM_ADDRESS_WIDTH, mem_bank_width := RW_MGR_MEM_BANK_WIDTH,
            mem_control_width := RW_MGR_MEM_CONTROL_WIDTH, mem_cs_width := of_nat RW_MGR_MEM_CHIP_SELECT_WIDTH,
            mem_cke_width := RW_MGR_MEM_CLK_EN_WIDTH, mem_odt_width := of_nat RW_MGR_MEM_ODT_WIDTH\<rparr>;
          r = r\<lparr>mem_data_width_s := of_nat RW_MGR_MEM_DATA_WIDTH, mem_dm_width_s := of_nat RW_MGR_TRUE_MEM_DATA_MASK_WIDTH,
            mem_read_dqs_width_s := of_nat RW_MGR_MEM_IF_READ_DQS_WIDTH, mem_write_dqs_width_s := of_nat RW_MGR_MEM_IF_WRITE_DQS_WIDTH,
            mem_dq_per_read_dqs := of_nat RW_MGR_MEM_DQ_PER_READ_DQS, mem_num_ranks := of_nat RW_MGR_MEM_NUMBER_OF_RANKS,
            mem_mmr_burst_len := RW_MGR_MR0_BL, mem_mmr_cas := RW_MGR_MR0_CAS_LATENCY,
            mem_num_dm_per_write_group_s := of_nat RW_MGR_NUM_TRUE_DM_PER_WRITE_GROUP, rate := tclrpt_get_rate,
            dll_length := of_nat IO_DLL_CHAIN_LENGTH, num_shadow_regs_s := of_nat NUM_SHADOW_REGS\<rparr> in
      r\<lparr>computed_dtap_per_ptap := 0, io_delay_per_opa_tap := IO_DELAY_PER_OPA_TAP,
        margin_dq_in_left_delay_chain_len := of_nat IO_IO_IN_DELAY_MAX + 1, margin_dq_in_right_delay_chain_len := IO_DQS_IN_DELAY_MAX + 1,
        margin_dq_out_left_delay_chain_len := of_nat IO_IO_OUT1_DELAY_MAX + 1,
        margin_dq_out_right_delay_chain_len := of_nat IO_IO_OUT1_DELAY_MAX + 1\<rparr>)"

definition static_cal_data :: "debug_cal_report_t \<Rightarrow> debug_cal_report_t" where
  "static_cal_data c = c\<lparr>mem_data_width_c := of_nat RW_MGR_MEM_DATA_WIDTH, mem_dm_width_c := of_nat RW_MGR_TRUE_MEM_DATA_MASK_WIDTH,
     mem_num_dm_per_write_group_c := of_nat RW_MGR_NUM_TRUE_DM_PER_WRITE_GROUP, mem_read_dqs_width_c := of_nat RW_MGR_MEM_IF_READ_DQS_WIDTH,
     mem_write_dqs_width_c := of_nat RW_MGR_MEM_IF_WRITE_DQS_WIDTH, num_shadow_regs_c := of_nat NUM_SHADOW_REGS\<rparr>"

definition tclrpt_initialize_data :: "u32 \<Rightarrow> gbl_t \<Rightarrow> param_t \<Rightarrow> debug_data_t \<Rightarrow> param_t \<times> debug_data_t" where
  "tclrpt_initialize_data base g p d =
     (let r = (summary_report d)\<lparr>report_flags_s := 0\<rparr>;
          c = (cal_report d)\<lparr>report_flags_c := 0\<rparr>;
          m = (margin_report d)\<lparr>report_flags_m := 0\<rparr>;
          r = r\<lparr>report_flags_s := report_flags_s r OR DEBUG_REPORT_STATUS_REPORT_GEN_ENABLED\<rparr>;
          c = (if phy_debug_mode_flags g AND PHY_DEBUG_ENABLE_CAL_RPT \<noteq> 0
               then c\<lparr>report_flags_c := report_flags_c c OR DEBUG_REPORT_STATUS_REPORT_GEN_ENABLED\<rparr> else c);
          m = (if phy_debug_mode_flags g AND PHY_DEBUG_ENABLE_MARGIN_RPT \<noteq> 0
               then m\<lparr>report_flags_m := report_flags_m m OR DEBUG_REPORT_STATUS_REPORT_GEN_ENABLED\<rparr> else m);
          r = static_data r;
          c = static_cal_data c;
          r = tclrpt_initialize_calib_latency r;
          r = tclrpt_initialize_rank_group_mask r;
          (r, c) = tclrpt_initialize_calib_results r c;
          (p, r) = tclrpt_update_rank_group_mask p r;
          r = tclrpt_clear_calibrated_groups_index r;
          c = tclrpt_initialize_calib_settings c;
          m = tclrpt_initialize_margins m;
          e = tclrpt_initialize_emif_toolkit_debug_data base (emif_toolkit_debug_data d) in
      (p, d\<lparr>summary_report := r, cal_report := c, margin_report := m, emif_toolkit_debug_data := e\<rparr>))"

text \<open>With a null pointer all pointers to the report become null and the structure is left alone: \<open>None\<close>.\<close>

definition tclrpt_initialize :: "u32 \<Rightarrow> debug_data_t \<Rightarrow> debug_data_t option" where
  "tclrpt_initialize debug_data_ptr d =
     (if debug_data_ptr = 0 then None
      else Some (d\<lparr>status := 0,
        summary_report_ptr := debug_data_ptr + summary_offset,
        cal_report_ptr := debug_data_ptr + cal_offset,
        margin_report_ptr := debug_data_ptr + margin_offset,
        emif_toolkit_debug_data_ptr := debug_data_ptr + emif_offset,
        data_size := sizeof_debug_data,
        summary_report := (summary_report d)\<lparr>data_size_s := sizeof_summary, report_flags_s := 0\<rparr>,
        cal_report := (cal_report d)\<lparr>data_size_c := sizeof_cal, report_flags_c := 0\<rparr>,
        margin_report := (margin_report d)\<lparr>data_size_m := sizeof_margin, report_flags_m := 0\<rparr>,
        emif_toolkit_debug_data := (emif_toolkit_debug_data d)\<lparr>data_size_e := sizeof_emif\<rparr>,
        command_status := TCLDBG_TX_STATUS_CMD_EXE,
        requested_command := TCLDBG_CMD_NOP,
        command_parameters := each_of COMMAND_PARAM_WORDS (\<lambda>x. 0) (command_parameters d),
        printf_output_ptr := 0\<rparr>))"

definition tclrpt_initialize_debug_status :: "debug_data_t \<Rightarrow> debug_data_t" where
  "tclrpt_initialize_debug_status d = d\<lparr>status := 0\<rparr>"

definition tclrpt_mark_interface_as_ready :: "debug_data_t \<Rightarrow> debug_data_t" where
  "tclrpt_mark_interface_as_ready d =
     (let d = d\<lparr>requested_command := TCLDBG_CMD_WAIT_CMD\<rparr> in d\<lparr>command_status := TCLDBG_TX_STATUS_CMD_READY\<rparr>)"

definition tclrpt_mark_interface_as_response_ready :: "debug_data_t \<Rightarrow> debug_data_t" where
  "tclrpt_mark_interface_as_response_ready d = d\<lparr>command_status := TCLDBG_TX_STATUS_RESPONSE_READY\<rparr>"

definition tclrpt_mark_interface_as_illegal_command :: "debug_data_t \<Rightarrow> debug_data_t" where
  "tclrpt_mark_interface_as_illegal_command d = d\<lparr>command_status := TCLDBG_TX_STATUS_ILLEGAL_CMD\<rparr>"

section \<open>The structure at the start\<close>

text \<open>\<open>my_debug_data\<close> is a static variable, so all of its words are 0 before \<open>tclrpt_initialize\<close>.\<close>

definition zero_summary :: debug_summary_report_t where
  "zero_summary = \<lparr>data_size_s = 0, report_flags_s = 0, sequencer_signature = 0, protocol = 0, error_stage_s = 0, error_sub_stage_s = 0,
     error_group_s = 0, fom_in_s = 0, fom_out_s = 0, mem_address_width = 0, mem_bank_width = 0, mem_control_width = 0, mem_cs_width = 0,
     mem_cke_width = 0, mem_odt_width = 0, mem_data_width_s = 0, mem_dm_width_s = 0, mem_read_dqs_width_s = 0, mem_write_dqs_width_s = 0,
     mem_dq_per_read_dqs = 0, mem_num_ranks = 0, num_shadow_regs_s = 0, mem_mmr_burst_len = 0, mem_mmr_cas = 0,
     mem_num_dm_per_write_group_s = 0, rate = 0, cal_write_latency = 0, cal_read_latency = 0, dll_length = 0, rank_mask_size = 0,
     active_ranks = 0, rank_mask = replicate NUM_RANK_MASK_WORDS 0, group_mask_size = 0, active_groups = 0,
     group_mask = replicate NUM_GROUP_MASK_WORDS 0, groups_attempted_calibration = replicate NUM_GROUP_MASK_WORDS 0,
     computed_dtap_per_ptap = 0, io_delay_per_opa_tap = 0, margin_dq_in_left_delay_chain_len = 0, margin_dq_in_right_delay_chain_len = 0,
     margin_dq_out_left_delay_chain_len = 0, margin_dq_out_right_delay_chain_len = 0\<rparr>"

abbreviation group_table :: "'a \<Rightarrow> 'a list list" where
  "group_table x \<equiv> replicate NUM_SHADOW_REGS (replicate RW_MGR_MEM_IF_WRITE_DQS_WIDTH x)"

abbreviation read_group_table :: "'a \<Rightarrow> 'a list list" where
  "read_group_table x \<equiv> replicate NUM_SHADOW_REGS (replicate RW_MGR_MEM_IF_READ_DQS_WIDTH x)"

abbreviation dq_table :: "'a \<Rightarrow> 'a list list" where
  "dq_table x \<equiv> replicate NUM_SHADOW_REGS (replicate RW_MGR_MEM_DATA_WIDTH x)"

abbreviation dm_table :: "'a \<Rightarrow> 'a list list list" where
  "dm_table x \<equiv> group_table (replicate RW_MGR_NUM_TRUE_DM_PER_WRITE_GROUP x)"

definition zero_cal :: debug_cal_report_t where
  "zero_cal = \<lparr>data_size_c = 0, report_flags_c = 0, mem_data_width_c = 0, mem_dm_width_c = 0, mem_num_dm_per_write_group_c = 0,
     mem_read_dqs_width_c = 0, mem_write_dqs_width_c = 0, num_shadow_regs_c = 0,
     cal_status_per_group = group_table \<lparr>error_stage_g = 0, error_sub_stage_g = 0, fom_in_g = 0, fom_out_g = 0\<rparr>,
     cal_dq_in_margins = dq_table \<lparr>left_edge = 0, right_edge = 0\<rparr>, cal_dq_out_margins = dq_table \<lparr>left_edge = 0, right_edge = 0\<rparr>,
     cal_dm_margins = dm_table \<lparr>left_edge = 0, right_edge = 0\<rparr>,
     cal_dqsen_margins = read_group_table \<lparr>vfifo_begin = 0, phase_begin = 0, delay_begin = 0, work_begin = 0, vfifo_end = 0, phase_end = 0,
       delay_end = 0, work_end = 0\<rparr>,
     cal_dqs_in_margins = read_group_table \<lparr>dq_margin_in = 0, dqs_margin_in = 0, dqsen_margin = 0\<rparr>,
     cal_dqs_out_margins = group_table \<lparr>dq_margin_out = 0, dqs_margin_out = 0, dm_margin = 0, dqdqs_start = 0, dqdqs_end = 0\<rparr>,
     cal_dq_settings = dq_table \<lparr>dq_in_delay = 0, dq_out_delay1 = 0, dq_out_delay2 = 0\<rparr>,
     cal_dqs_in_settings = read_group_table \<lparr>dqs_bus_in_delay = 0, dqs_en_phase = 0, dqs_en_delay = 0\<rparr>,
     cal_dqs_out_settings = group_table \<lparr>dqdqs_out_phase = 0, dqs_out_delay1 = 0, dqs_out_delay2 = 0, oct_out_delay1 = 0,
       oct_out_delay2 = 0, dqs_io_in_delay = 0\<rparr>,
     cal_dm_settings = dm_table \<lparr>dm_in_delay = 0, dm_out_delay1 = 0, dm_out_delay2 = 0\<rparr>\<rparr>"

definition my_debug_data :: debug_data_t where
  "my_debug_data = \<lparr>data_size = 0, status = 0, requested_command = 0, command_status = 0,
     command_parameters = replicate COMMAND_PARAM_WORDS 0, summary_report_ptr = 0, cal_report_ptr = 0, margin_report_ptr = 0,
     printf_output_ptr = 0, emif_toolkit_debug_data_ptr = 0, summary_report = zero_summary, cal_report = zero_cal,
     margin_report = \<lparr>data_size_m = 0, report_flags_m = 0, mem_data_width_m = 0, mem_write_dqs_width_m = 0, num_shadow_regs_m = 0,
       margin_dm_margins = dm_table \<lparr>min_working_setting = 0, max_working_setting = 0\<rparr>,
       margin_dq_in_margins = dq_table \<lparr>min_working_setting = 0, max_working_setting = 0\<rparr>,
       margin_dq_out_margins = dq_table \<lparr>min_working_setting = 0, max_working_setting = 0\<rparr>\<rparr>,
     emif_toolkit_debug_data = \<lparr>data_size_e = 0, dqs_write_width_ptr = 0, group_mask_ptr = 0, num_ranks_ptr = 0, rank_mask_ptr = 0,
       active_groups_ptr = 0, active_ranks_ptr = 0, group_mask_size_ptr = 0, rank_mask_size_ptr = 0\<rparr>\<rparr>"

end
