(* ===== verification/Tcl_Toolkit.thy ===== *)
theory Tcl_Toolkit
  imports Tcl_Init Seq_Platform
begin

text \<open>
  What the debug toolkit sees: it reads the words of the report from memory, at the addresses that the report
  holds. \<open>image\<close> lists the words of the structure in memory order.
\<close>

section \<open>The report in memory\<close>

definition summary_words :: "debug_summary_report_t \<Rightarrow> u32 list" where
  "summary_words r =
     [data_size_s r, report_flags_s r, sequencer_signature r, protocol r, error_stage_s r, error_sub_stage_s r, error_group_s r,
      fom_in_s r, fom_out_s r, mem_address_width r, mem_bank_width r, mem_control_width r, mem_cs_width r, mem_cke_width r,
      mem_odt_width r, mem_data_width_s r, mem_dm_width_s r, mem_read_dqs_width_s r, mem_write_dqs_width_s r,
      mem_dq_per_read_dqs r, mem_num_ranks r, num_shadow_regs_s r, mem_mmr_burst_len r, mem_mmr_cas r,
      mem_num_dm_per_write_group_s r, rate r, cal_write_latency r, cal_read_latency r, dll_length r,
      rank_mask_size r, active_ranks r] @ rank_mask r @
     [group_mask_size r, active_groups r] @ group_mask r @ groups_attempted_calibration r @
     [computed_dtap_per_ptap r, io_delay_per_opa_tap r, margin_dq_in_left_delay_chain_len r, margin_dq_in_right_delay_chain_len r,
      margin_dq_out_left_delay_chain_len r, margin_dq_out_right_delay_chain_len r]"

abbreviation array_words :: "('a \<Rightarrow> u32 list) \<Rightarrow> 'a list \<Rightarrow> u32 list" where
  "array_words f xs \<equiv> concat (map f xs)"

definition edge_words :: "debug_cal_observed_dq_margins_t \<Rightarrow> u32 list" where
  "edge_words m = [left_edge m, right_edge m]"

definition cal_words :: "debug_cal_report_t \<Rightarrow> u32 list" where
  "cal_words c =
     [data_size_c c, report_flags_c c, mem_data_width_c c, mem_dm_width_c c, mem_num_dm_per_write_group_c c, mem_read_dqs_width_c c,
      mem_write_dqs_width_c c, num_shadow_regs_c c] @
     array_words (array_words (\<lambda>g. [error_stage_g g, error_sub_stage_g g, fom_in_g g, fom_out_g g])) (cal_status_per_group c) @
     array_words (array_words edge_words) (cal_dq_in_margins c) @
     array_words (array_words edge_words) (cal_dq_out_margins c) @
     array_words (array_words (array_words edge_words)) (cal_dm_margins c) @
     array_words (array_words (\<lambda>m. [vfifo_begin m, phase_begin m, delay_begin m, work_begin m, vfifo_end m, phase_end m, delay_end m, work_end m]))
       (cal_dqsen_margins c) @
     array_words (array_words (\<lambda>m. [dq_margin_in m, dqs_margin_in m, dqsen_margin m])) (cal_dqs_in_margins c) @
     array_words (array_words (\<lambda>m. [dq_margin_out m, dqs_margin_out m, dm_margin m, dqdqs_start m, dqdqs_end m])) (cal_dqs_out_margins c) @
     array_words (array_words (\<lambda>m. [dq_in_delay m, dq_out_delay1 m, dq_out_delay2 m])) (cal_dq_settings c) @
     array_words (array_words (\<lambda>m. [dqs_bus_in_delay m, dqs_en_phase m, dqs_en_delay m])) (cal_dqs_in_settings c) @
     array_words (array_words (\<lambda>m. [dqdqs_out_phase m, dqs_out_delay1 m, dqs_out_delay2 m, oct_out_delay1 m, oct_out_delay2 m, dqs_io_in_delay m]))
       (cal_dqs_out_settings c) @
     array_words (array_words (array_words (\<lambda>m. [dm_in_delay m, dm_out_delay1 m, dm_out_delay2 m]))) (cal_dm_settings c)"

definition min_max_words :: "debug_margin_min_max_margins_t \<Rightarrow> u32 list" where
  "min_max_words m = [min_working_setting m, max_working_setting m]"

definition margin_words :: "debug_margin_report_t \<Rightarrow> u32 list" where
  "margin_words r =
     [data_size_m r, report_flags_m r, mem_data_width_m r, mem_write_dqs_width_m r, num_shadow_regs_m r] @
     array_words (array_words (array_words min_max_words)) (margin_dm_margins r) @
     array_words (array_words min_max_words) (margin_dq_in_margins r) @
     array_words (array_words min_max_words) (margin_dq_out_margins r)"

definition emif_words :: "emif_toolkit_debug_data_t \<Rightarrow> u32 list" where
  "emif_words e = [data_size_e e, dqs_write_width_ptr e, group_mask_ptr e, num_ranks_ptr e, rank_mask_ptr e, active_groups_ptr e,
     active_ranks_ptr e, group_mask_size_ptr e, rank_mask_size_ptr e]"

definition header_words :: "debug_data_t \<Rightarrow> u32 list" where
  "header_words d = [data_size d, status d, requested_command d, command_status d] @ command_parameters d @
     [summary_report_ptr d, cal_report_ptr d, margin_report_ptr d, printf_output_ptr d, emif_toolkit_debug_data_ptr d]"

definition image :: "debug_data_t \<Rightarrow> u32 list" where
  "image d = header_words d @ summary_words (summary_report d) @ cal_words (cal_report d) @ margin_words (margin_report d) @
     emif_words (emif_toolkit_debug_data d)"

text \<open>The words of \<open>n\<close> bytes at the address \<open>a\<close> of a report at \<open>base\<close>.\<close>

definition words_at :: "u32 \<Rightarrow> debug_data_t \<Rightarrow> u32 \<Rightarrow> u32 \<Rightarrow> u32 list" where
  "words_at base d a n = take (unat n div 4) (drop (unat (a - base) div 4) (image d))"

section \<open>Dimensions\<close>

definition rows :: "nat \<Rightarrow> ('a \<Rightarrow> bool) \<Rightarrow> 'a list \<Rightarrow> bool" where
  "rows n ok xs \<longleftrightarrow> length xs = n \<and> list_all ok xs"

definition cal_shape :: "debug_cal_report_t \<Rightarrow> bool" where
  "cal_shape c \<longleftrightarrow>
     rows NUM_SHADOW_REGS (rows RW_MGR_MEM_IF_WRITE_DQS_WIDTH (\<lambda>x. True)) (cal_status_per_group c) \<and>
     rows NUM_SHADOW_REGS (rows RW_MGR_MEM_DATA_WIDTH (\<lambda>x. True)) (cal_dq_in_margins c) \<and>
     rows NUM_SHADOW_REGS (rows RW_MGR_MEM_DATA_WIDTH (\<lambda>x. True)) (cal_dq_out_margins c) \<and>
     rows NUM_SHADOW_REGS (rows RW_MGR_MEM_IF_WRITE_DQS_WIDTH (rows RW_MGR_NUM_TRUE_DM_PER_WRITE_GROUP (\<lambda>x. True))) (cal_dm_margins c) \<and>
     rows NUM_SHADOW_REGS (rows RW_MGR_MEM_IF_READ_DQS_WIDTH (\<lambda>x. True)) (cal_dqsen_margins c) \<and>
     rows NUM_SHADOW_REGS (rows RW_MGR_MEM_IF_READ_DQS_WIDTH (\<lambda>x. True)) (cal_dqs_in_margins c) \<and>
     rows NUM_SHADOW_REGS (rows RW_MGR_MEM_IF_WRITE_DQS_WIDTH (\<lambda>x. True)) (cal_dqs_out_margins c) \<and>
     rows NUM_SHADOW_REGS (rows RW_MGR_MEM_DATA_WIDTH (\<lambda>x. True)) (cal_dq_settings c) \<and>
     rows NUM_SHADOW_REGS (rows RW_MGR_MEM_IF_READ_DQS_WIDTH (\<lambda>x. True)) (cal_dqs_in_settings c) \<and>
     rows NUM_SHADOW_REGS (rows RW_MGR_MEM_IF_WRITE_DQS_WIDTH (\<lambda>x. True)) (cal_dqs_out_settings c) \<and>
     rows NUM_SHADOW_REGS (rows RW_MGR_MEM_IF_WRITE_DQS_WIDTH (rows RW_MGR_NUM_TRUE_DM_PER_WRITE_GROUP (\<lambda>x. True))) (cal_dm_settings c)"

definition margin_shape :: "debug_margin_report_t \<Rightarrow> bool" where
  "margin_shape r \<longleftrightarrow>
     rows NUM_SHADOW_REGS (rows RW_MGR_MEM_IF_WRITE_DQS_WIDTH (rows RW_MGR_NUM_TRUE_DM_PER_WRITE_GROUP (\<lambda>x. True))) (margin_dm_margins r) \<and>
     rows NUM_SHADOW_REGS (rows RW_MGR_MEM_DATA_WIDTH (\<lambda>x. True)) (margin_dq_in_margins r) \<and>
     rows NUM_SHADOW_REGS (rows RW_MGR_MEM_DATA_WIDTH (\<lambda>x. True)) (margin_dq_out_margins r)"

definition report_shape :: "debug_data_t \<Rightarrow> bool" where
  "report_shape d \<longleftrightarrow> length (command_parameters d) = COMMAND_PARAM_WORDS \<and>
     length (rank_mask (summary_report d)) = NUM_RANK_MASK_WORDS \<and> length (group_mask (summary_report d)) = NUM_GROUP_MASK_WORDS \<and>
     length (groups_attempted_calibration (summary_report d)) = NUM_GROUP_MASK_WORDS \<and>
     cal_shape (cal_report d) \<and> margin_shape (margin_report d)"

lemma length_each_of [simp]: "length (each_of n f xs) = length xs"
proof -
  have "length (fold (\<lambda>i xs. xs[i := f (xs ! i)]) js xs) = length xs" for js by (induction js arbitrary: xs) simp_all
  then show ?thesis by (simp add: each_of_def)
qed

lemma each_of_map: "n \<le> length xs \<Longrightarrow> each_of n f xs = map f (take n xs) @ drop n xs"
proof (induction n)
  case (Suc n)
  then have "each_of (Suc n) f xs = (map f (take n xs) @ drop n xs)[n := f ((map f (take n xs) @ drop n xs) ! n)]"
    by (simp add: each_of_def)
  also have "\<dots> = map f (take n xs) @ f (xs ! n) # drop (Suc n) xs"
    using Suc.prems by (simp add: nth_append list_update_append Cons_nth_drop_Suc [symmetric])
  finally show ?case using Suc.prems by (simp add: take_Suc_conv_app_nth)
qed (simp add: each_of_def)

lemma rows_each_of: "rows n P xs \<Longrightarrow> each_of n f xs = map f xs"
  by (simp add: rows_def each_of_map)

lemma length_array_words:
  assumes "rows n P xs" "\<And>x. P x \<Longrightarrow> length (f x) = k"
  shows "length (array_words f xs) = n * k"
proof -
  have "list_all P xs" "n = length xs" using assms(1) by (simp_all add: rows_def)
  then show ?thesis using assms(2) by (induction xs arbitrary: n) auto
qed

section \<open>The layout\<close>

lemma length_summary: "length (summary_words r) = 39 + length (rank_mask r) + length (group_mask r) + length (groups_attempted_calibration r)"
  by (simp add: summary_words_def)

lemma length_words_2:
  "rows n (rows m (\<lambda>x. True)) xs \<Longrightarrow> (\<And>x. length (f x) = k) \<Longrightarrow> length (array_words (array_words f) xs) = n * (m * k)"
  by (rule length_array_words [where P = "rows m (\<lambda>x. True)"]) (auto intro: length_array_words)

lemma length_words_3:
  "rows n (rows m (rows l (\<lambda>x. True))) xs \<Longrightarrow> (\<And>x. length (f x) = k) \<Longrightarrow>
    length (array_words (array_words (array_words f)) xs) = n * (m * (l * k))"
  by (rule length_array_words [where P = "rows m (rows l (\<lambda>x. True))"]) (auto intro: length_words_2)

lemma length_cal: "cal_shape c \<Longrightarrow> length (cal_words c) = unat sizeof_cal div 4"
  unfolding cal_shape_def cal_words_def edge_words_def sizeof_cal_def
  by (elim conjE) (simp add: length_words_2 length_words_3 report_size_defs)

lemma length_margin: "margin_shape r \<Longrightarrow> length (margin_words r) = unat sizeof_margin div 4"
  unfolding margin_shape_def margin_words_def min_max_words_def sizeof_margin_def
  by (elim conjE) (simp add: length_words_2 length_words_3 report_size_defs)

lemma length_parts:
  assumes "report_shape d"
  shows "length (header_words d) = unat summary_offset div 4" "length (summary_words (summary_report d)) = unat sizeof_summary div 4"
    "length (cal_words (cal_report d)) = unat sizeof_cal div 4" "length (margin_words (margin_report d)) = unat sizeof_margin div 4"
    "length (emif_words e) = unat sizeof_emif div 4"
  using assms by (simp_all add: report_shape_def header_words_def length_summary length_cal length_margin emif_words_def
    summary_offset_def sizeof_summary_def sizeof_emif_def report_size_defs)

lemmas layout_defs = summary_offset_def cal_offset_def margin_offset_def emif_offset_def sizeof_debug_data_def
  sizeof_summary_def sizeof_cal_def sizeof_margin_def sizeof_emif_def

lemma parts_in_image:
  assumes "report_shape d"
  shows "words_at base d (base + summary_offset) sizeof_summary = summary_words (summary_report d)"
    "words_at base d (base + cal_offset) sizeof_cal = cal_words (cal_report d)"
    "words_at base d (base + margin_offset) sizeof_margin = margin_words (margin_report d)"
    "words_at base d (base + emif_offset) sizeof_emif = emif_words (emif_toolkit_debug_data d)"
    "4 * length (image d) = unat sizeof_debug_data"
  unfolding words_at_def image_def using length_parts [OF assms]
  by (simp_all add: layout_defs report_size_defs)

lemma initialize_shape: "report_shape d \<Longrightarrow> tclrpt_initialize base d = Some d' \<Longrightarrow> report_shape d'"
  by (auto simp: tclrpt_initialize_def report_shape_def cal_shape_def margin_shape_def split: if_splits)

section \<open>Masks\<close>

lemma skipped_groups:
  fixes n x :: u32
  shows "fold (\<lambda>i n. if x AND push_bit i 1 \<noteq> 0 then n - 1 else n) [0..<m] n = n - of_nat (card {i. i < m \<and> bit x i})"
proof (induction m)
  case (Suc m)
  have "{i. i < Suc m \<and> bit x i} = (if bit x m then insert m {i. i < m \<and> bit x i} else {i. i < m \<and> bit x i})"
    by (auto simp: less_Suc_eq)
  moreover have "x AND push_bit m 1 \<noteq> 0 \<longleftrightarrow> bit x m"
    by (metis (no_types) and_exp_eq_0_iff_not_bit push_bit_of_1)
  ultimately show ?case using Suc by simp
qed simp

lemma update_masks:
  assumes "length (skip_ranks p) = RW_MGR_MEM_NUMBER_OF_RANKS" "length (skip_shadow_regs p) = NUM_SHADOW_REGS"
    "length (rank_mask r) = NUM_RANK_MASK_WORDS" "length (group_mask r) = NUM_GROUP_MASK_WORDS"
  shows "tclrpt_update_rank_group_mask p r = (p\<lparr>skip_shadow_regs := [skip_ranks p ! 0]\<rparr>,
    r\<lparr>group_mask := [skip_groups p], active_groups := 4 - of_nat (card {i. i < 32 \<and> bit (skip_groups p) i}),
      rank_mask := [rank_mask r ! 0 OR (if skip_ranks p ! 0 then 1 else 0)], active_ranks := if skip_ranks p ! 0 then 0 else 1\<rparr>)"
proof -
  obtain x y z where "skip_shadow_regs p = [x]" "rank_mask r = [y]" "group_mask r = [z]"
    using assms by (auto simp: report_size_defs length_Suc_conv)
  then show ?thesis
    unfolding tclrpt_update_rank_group_mask_def skipped_groups update_rank_mask_def by (simp add: report_size_defs Let_def)
qed

definition param_shape :: "param_t \<Rightarrow> bool" where
  "param_shape p \<longleftrightarrow> length (skip_ranks p) = RW_MGR_MEM_NUMBER_OF_RANKS \<and> length (skip_shadow_regs p) = NUM_SHADOW_REGS"

text \<open>Groups above the last one are not skipped.\<close>

lemma active_groups_count:
  fixes x :: u32
  assumes "x < 16"
  shows "4 - of_nat (card {i. i < 32 \<and> bit x i}) = (of_nat (card {i. i < 4 \<and> \<not> bit x i}) :: u32)"
proof -
  have "\<not> bit x i" if "4 \<le> i" for i
  proof -
    have "unat x < 2 ^ 4" using assms by (simp add: word_less_nat_alt)
    then have "take_bit 4 (unat x) = unat x" by (rule take_bit_nat_eq_self)
    then show ?thesis using that bit_take_bit_iff [of 4 "unat x" i] by (auto simp: bit_unsigned_iff dest: bit_imp_le_length)
  qed
  then have "{i. i < 32 \<and> bit x i} = {..<4} - {i. i < 4 \<and> \<not> bit x i}" by (auto simp: not_le [symmetric])
  then have "card {i. i < 32 \<and> bit x i} = 4 - card {i. i < 4 \<and> \<not> bit x i}" by (simp add: card_Diff_subset subset_eq)
  moreover have "card {i. i < 4 \<and> \<not> bit x i} \<le> 4" using card_mono [of "{..<4 :: nat}" "{i. i < 4 \<and> \<not> bit x i}"] by (simp add: subset_eq)
  ultimately show ?thesis by (simp add: of_nat_diff)
qed

text \<open>The summary before the masks are updated.\<close>

definition initial_summary :: "debug_summary_report_t \<Rightarrow> debug_summary_report_t" where
  "initial_summary r = (tclrpt_initialize_rank_group_mask (tclrpt_initialize_calib_latency
     (static_data (r\<lparr>report_flags_s := 0 OR DEBUG_REPORT_STATUS_REPORT_GEN_ENABLED\<rparr>))))
     \<lparr>error_stage_s := CAL_STAGE_CAL_SKIPPED, error_group_s := 0xff, fom_in_s := 0, fom_out_s := 0\<rparr>"

lemma initial_summary:
  assumes "length (rank_mask r) = NUM_RANK_MASK_WORDS" "length (group_mask r) = NUM_GROUP_MASK_WORDS"
  shows "rank_mask (initial_summary r) = [0]" "group_mask (initial_summary r) = [0]"
    "mem_write_dqs_width_s (initial_summary r) = 4" "mem_num_ranks (initial_summary r) = 1"
    "group_mask_size (initial_summary r) = 1" "rank_mask_size (initial_summary r) = 1"
    "groups_attempted_calibration (initial_summary r) = groups_attempted_calibration r" "data_size_s (initial_summary r) = data_size_s r"
proof -
  obtain x y where "rank_mask r = [x]" "group_mask r = [y]" using assms by (auto simp: report_size_defs length_Suc_conv)
  then show "rank_mask (initial_summary r) = [0]" "group_mask (initial_summary r) = [0]"
    "mem_write_dqs_width_s (initial_summary r) = 4" "mem_num_ranks (initial_summary r) = 1"
    "group_mask_size (initial_summary r) = 1" "rank_mask_size (initial_summary r) = 1"
    "groups_attempted_calibration (initial_summary r) = groups_attempted_calibration r" "data_size_s (initial_summary r) = data_size_s r"
    by (simp_all add: initial_summary_def tclrpt_initialize_calib_results_def tclrpt_initialize_rank_group_mask_def
      tclrpt_initialize_calib_latency_def static_data_def Let_def report_size_defs)
qed

lemma initialize_data_summary:
  assumes "report_shape d" "param_shape p" "tclrpt_initialize_data base g p d = (p', d')"
  shows "p' = p\<lparr>skip_shadow_regs := [skip_ranks p ! 0]\<rparr> \<and> summary_report d' = (initial_summary (summary_report d))
      \<lparr>group_mask := [skip_groups p], active_groups := 4 - of_nat (card {i. i < 32 \<and> bit (skip_groups p) i}),
       rank_mask := [if skip_ranks p ! 0 then 1 else 0], active_ranks := if skip_ranks p ! 0 then 0 else 1,
       groups_attempted_calibration := [0]\<rparr>"
proof -
  let ?r = "initial_summary (summary_report d)"
  have len: "length (rank_mask (summary_report d)) = NUM_RANK_MASK_WORDS" "length (group_mask (summary_report d)) = NUM_GROUP_MASK_WORDS"
    "length (groups_attempted_calibration (summary_report d)) = NUM_GROUP_MASK_WORDS"
    using assms(1) by (simp_all add: report_shape_def)
  note init = initial_summary [OF len(1,2)]
  obtain z where z: "groups_attempted_calibration (summary_report d) = [z]" using len(3) by (auto simp: report_size_defs length_Suc_conv)
  have "length (rank_mask ?r) = NUM_RANK_MASK_WORDS" "length (group_mask ?r) = NUM_GROUP_MASK_WORDS"
    by (simp_all add: init report_size_defs)
  then have upd: "tclrpt_update_rank_group_mask p ?r = (p\<lparr>skip_shadow_regs := [skip_ranks p ! 0]\<rparr>,
      ?r\<lparr>group_mask := [skip_groups p], active_groups := 4 - of_nat (card {i. i < 32 \<and> bit (skip_groups p) i}),
        rank_mask := [if skip_ranks p ! 0 then 1 else 0], active_ranks := if skip_ranks p ! 0 then 0 else 1\<rparr>)"
    using update_masks [of p ?r] assms(2) by (simp add: param_shape_def init)
  have "p' = fst (tclrpt_update_rank_group_mask p ?r) \<and>
      summary_report d' = tclrpt_clear_calibrated_groups_index (snd (tclrpt_update_rank_group_mask p ?r))"
    using assms(3) by (auto simp: tclrpt_initialize_data_def initial_summary_def tclrpt_initialize_calib_results_def Let_def split: prod.splits)
  then show ?thesis unfolding upd by (simp add: tclrpt_clear_calibrated_groups_index_def init(7) z report_size_defs)
qed

lemma initialize_data_tables:
  assumes "tclrpt_initialize_data base g p d = (p', d')"
  shows "\<exists>f r. cal_report d' = tclrpt_initialize_calib_settings (snd (tclrpt_initialize_calib_results r (static_cal_data ((cal_report d)\<lparr>report_flags_c := f\<rparr>))))"
    "\<exists>f. margin_report d' = tclrpt_initialize_margins ((margin_report d)\<lparr>report_flags_m := f\<rparr>)"
    "emif_toolkit_debug_data d' = tclrpt_initialize_emif_toolkit_debug_data base (emif_toolkit_debug_data d)"
    "command_parameters d' = command_parameters d"
proof -
  show "emif_toolkit_debug_data d' = tclrpt_initialize_emif_toolkit_debug_data base (emif_toolkit_debug_data d)"
    "command_parameters d' = command_parameters d"
    using assms by (auto simp: tclrpt_initialize_data_def Let_def split: prod.splits)
  have "cal_report d' = tclrpt_initialize_calib_settings (snd (tclrpt_initialize_calib_results (initial_summary (summary_report d)) (static_cal_data
      ((cal_report d)\<lparr>report_flags_c := if phy_debug_mode_flags g AND PHY_DEBUG_ENABLE_CAL_RPT \<noteq> 0 then DEBUG_REPORT_STATUS_REPORT_GEN_ENABLED else 0\<rparr>))))"
    using assms by (auto simp: tclrpt_initialize_data_def tclrpt_initialize_calib_results_def Let_def split: prod.splits)
  then show "\<exists>f r. cal_report d' = tclrpt_initialize_calib_settings (snd (tclrpt_initialize_calib_results r (static_cal_data ((cal_report d)\<lparr>report_flags_c := f\<rparr>))))"
    by blast
  have "margin_report d' = tclrpt_initialize_margins
      ((margin_report d)\<lparr>report_flags_m := if phy_debug_mode_flags g AND PHY_DEBUG_ENABLE_MARGIN_RPT \<noteq> 0 then DEBUG_REPORT_STATUS_REPORT_GEN_ENABLED else 0\<rparr>)"
    using assms by (auto simp: tclrpt_initialize_data_def Let_def split: prod.splits)
  then show "\<exists>f. margin_report d' = tclrpt_initialize_margins ((margin_report d)\<lparr>report_flags_m := f\<rparr>)" by blast
qed

lemma group_attempted:
  assumes "groups_attempted_calibration r = [w]"
  shows "tclrpt_set_group_as_calibration_attempted g r =
    (if g < 32 then Some (r\<lparr>groups_attempted_calibration := [w OR push_bit (unat g) 1]\<rparr>) else None)"
proof -
  have "unat (g div 32) < 1 \<longleftrightarrow> g < 32" by (simp add: unat_div word_less_nat_alt div_eq_0_iff)
  then have w: "unat (g div 32) < NUM_GROUP_MASK_WORDS \<longleftrightarrow> g < 32" by (simp add: report_size_defs)
  show ?thesis
  proof (cases "g < 32")
    case True
    then have "g div 32 = 0" using \<open>unat (g div 32) < 1 \<longleftrightarrow> g < 32\<close> by (simp add: unat_eq_0)
    then show ?thesis using assms True w by (simp add: tclrpt_set_group_as_calibration_attempted_def Let_def)
  next
    case False
    then show ?thesis using w by (simp add: tclrpt_set_group_as_calibration_attempted_def Let_def)
  qed
qed

text \<open>Marking groups one after the other records exactly these groups.\<close>

lemma groups_attempted:
  assumes "list_all (\<lambda>g. g < 32) gs" "groups_attempted_calibration r = [0]"
  shows "\<exists>r' w. foldl (\<lambda>r g. r \<bind> tclrpt_set_group_as_calibration_attempted g) (Some r) gs = Some r' \<and>
    groups_attempted_calibration r' = [w] \<and> (\<forall>i < 32. bit w i \<longleftrightarrow> of_nat i \<in> set gs)"
  using assms(1)
proof (induction gs rule: rev_induct)
  case Nil
  then show ?case using assms(2) by simp
next
  case (snoc g gs)
  then obtain r' w where IH: "foldl (\<lambda>r g. r \<bind> tclrpt_set_group_as_calibration_attempted g) (Some r) gs = Some r'"
      "groups_attempted_calibration r' = [w]" "\<forall>i < 32. bit w i \<longleftrightarrow> of_nat i \<in> set gs"
    by auto
  have g: "g < 32" "unat g < 32" using snoc.prems by (simp_all add: word_less_nat_alt)
  have same: "unat g = i \<longleftrightarrow> of_nat i = g" if "i < 32" for i
    using that g(2) by (auto simp: unat_of_nat take_bit_nat_eq_self unsigned_of_nat)
  have "bit (push_bit (unat g) 1 :: u32) i \<longleftrightarrow> of_nat i = g" if "i < 32" for i
    unfolding same [OF that, symmetric] using that by (auto simp: bit_exp_iff)
  then have "\<forall>i < 32. bit (w OR push_bit (unat g) 1) i \<longleftrightarrow> of_nat i \<in> set (gs @ [g])"
    unfolding bit_or_iff using IH(3) by auto
  then show ?case using IH(1) group_attempted [OF IH(2), of g] g(1) by simp
qed

section \<open>Blank tables\<close>

lemma each_of_2: "rows n (rows m (\<lambda>x. True)) xs \<Longrightarrow> each_of n (each_of m f) xs = map (map f) xs"
  by (simp add: rows_each_of) (auto simp: rows_def list_all_iff each_of_map)

lemma each_of_3: "rows n (rows m (rows l (\<lambda>x. True))) xs \<Longrightarrow> each_of n (each_of m (each_of l f)) xs = map (map (map f)) xs"
  by (simp add: rows_each_of) (auto simp: rows_def list_all_iff each_of_map)

lemma rows_2: "rows n (rows m (\<lambda>x. True)) xs \<Longrightarrow> rows n (rows m (\<lambda>x. True)) (map (map f) xs)"
  by (auto simp: rows_def list_all_iff)

lemma rows_3: "rows n (rows m (rows l (\<lambda>x. True))) xs \<Longrightarrow> rows n (rows m (rows l (\<lambda>x. True))) (map (map (map f)) xs)"
  by (auto simp: rows_def list_all_iff)

lemmas table_simps = each_of_2 each_of_3 rows_2 rows_3

lemma zero_words_2: "(\<And>x. list_all ((=) 0) (f (z x))) \<Longrightarrow> list_all ((=) 0) (array_words (array_words f) (map (map z) xs))"
  by (auto simp: list_all_iff)

lemma zero_words_3: "(\<And>x. list_all ((=) 0) (f (z x))) \<Longrightarrow> list_all ((=) 0) (array_words (array_words (array_words f)) (map (map (map z)) xs))"
  by (auto simp: list_all_iff)

lemma results_shape:
  assumes "cal_shape c"
  shows "cal_shape (snd (tclrpt_initialize_calib_results r (static_cal_data c)))"
proof -
  have "rows NUM_SHADOW_REGS (rows RW_MGR_MEM_IF_WRITE_DQS_WIDTH (\<lambda>x. True)) (each_group f (cal_status_per_group c))" for f
    using assms by (simp add: cal_shape_def table_simps)
  then show ?thesis using assms unfolding cal_shape_def by (simp add: static_cal_data_def tclrpt_initialize_calib_results_def)
qed

lemma settings_tables:
  assumes "cal_shape c"
  shows "cal_shape (tclrpt_initialize_calib_settings c)" "list_all ((=) 0) (drop 24 (cal_words (tclrpt_initialize_calib_settings c)))"
    "data_size_c (tclrpt_initialize_calib_settings c) = data_size_c c"
proof -
  have shape: "rows NUM_SHADOW_REGS (rows RW_MGR_MEM_IF_WRITE_DQS_WIDTH (\<lambda>x. True)) (cal_status_per_group c)"
    using assms by (simp add: cal_shape_def)
  show "cal_shape (tclrpt_initialize_calib_settings c)"
    using assms unfolding cal_shape_def
    by (elim conjE) (simp add: tclrpt_initialize_calib_settings_def table_simps)
  have "length (array_words (array_words (\<lambda>g. [error_stage_g g, error_sub_stage_g g, fom_in_g g, fom_out_g g])) (cal_status_per_group c)) = 16"
    using shape by (simp add: length_words_2 report_size_defs)
  then show "list_all ((=) 0) (drop 24 (cal_words (tclrpt_initialize_calib_settings c)))"
    using assms unfolding cal_shape_def
    by (elim conjE) (simp add: cal_words_def tclrpt_initialize_calib_settings_def table_simps zero_words_2 zero_words_3 edge_words_def clear_edges_def del: map_map)
  show "data_size_c (tclrpt_initialize_calib_settings c) = data_size_c c" by (simp add: tclrpt_initialize_calib_settings_def)
qed

lemma margin_tables:
  assumes "margin_shape r"
  shows "margin_shape (tclrpt_initialize_margins r)" "list_all ((=) 0) (drop 5 (margin_words (tclrpt_initialize_margins r)))"
    "data_size_m (tclrpt_initialize_margins r) = data_size_m r"
proof -
  show "margin_shape (tclrpt_initialize_margins r)"
    using assms unfolding margin_shape_def by (elim conjE) (simp add: tclrpt_initialize_margins_def table_simps)
  show "list_all ((=) 0) (drop 5 (margin_words (tclrpt_initialize_margins r)))"
    using assms unfolding margin_shape_def
    by (elim conjE) (simp add: margin_words_def tclrpt_initialize_margins_def table_simps zero_words_2 zero_words_3 min_max_words_def clear_min_max_def del: map_map)
  show "data_size_m (tclrpt_initialize_margins r) = data_size_m r" by (simp add: tclrpt_initialize_margins_def)
qed

section \<open>Initialised reports\<close>

lemma my_debug_data_shape: "report_shape my_debug_data"
  by (simp add: report_shape_def my_debug_data_def zero_summary_def zero_cal_def cal_shape_def margin_shape_def rows_def list_all_iff report_size_defs)

lemma initialize_data_shape:
  assumes "report_shape d" "param_shape p" "tclrpt_initialize_data base g p d = (p', d')"
  shows "report_shape d'" "list_all ((=) 0) (drop 24 (cal_words (cal_report d')))" "list_all ((=) 0) (drop 5 (margin_words (margin_report d')))"
    "data_size_c (cal_report d') = data_size_c (cal_report d)" "data_size_m (margin_report d') = data_size_m (margin_report d)"
proof -
  obtain f r where c: "cal_report d' = tclrpt_initialize_calib_settings (snd (tclrpt_initialize_calib_results r (static_cal_data ((cal_report d)\<lparr>report_flags_c := f\<rparr>))))"
    using initialize_data_tables(1) [OF assms(3)] by blast
  obtain f' where m: "margin_report d' = tclrpt_initialize_margins ((margin_report d)\<lparr>report_flags_m := f'\<rparr>)"
    using initialize_data_tables(2) [OF assms(3)] by blast
  have "cal_shape ((cal_report d)\<lparr>report_flags_c := f\<rparr>)" "margin_shape ((margin_report d)\<lparr>report_flags_m := f'\<rparr>)"
    using assms(1) by (simp_all add: report_shape_def cal_shape_def margin_shape_def)
  note tables = settings_tables [OF results_shape [OF this(1)], of r, folded c] margin_tables [OF this(2), folded m]
  have "groups_attempted_calibration (summary_report d') = [0]" "rank_mask (summary_report d') = [if skip_ranks p ! 0 then 1 else 0]"
      "group_mask (summary_report d') = [skip_groups p]"
    using initialize_data_summary [OF assms] by simp_all
  then show "report_shape d'"
    using assms(1) tables initialize_data_tables(4) [OF assms(3)] by (simp add: report_shape_def report_size_defs)
  show "list_all ((=) 0) (drop 24 (cal_words (cal_report d')))" "list_all ((=) 0) (drop 5 (margin_words (margin_report d')))"
    using tables by simp_all
  show "data_size_c (cal_report d') = data_size_c (cal_report d)" "data_size_m (margin_report d') = data_size_m (margin_report d)"
    using tables(3,6) by (simp_all add: static_cal_data_def tclrpt_initialize_calib_results_def)
qed

lemma initialize_data_pointers:
  assumes "tclrpt_initialize_data base g p d = (p', d')"
  shows "summary_report_ptr d' = summary_report_ptr d" "cal_report_ptr d' = cal_report_ptr d" "margin_report_ptr d' = margin_report_ptr d"
    "emif_toolkit_debug_data_ptr d' = emif_toolkit_debug_data_ptr d" "data_size d' = data_size d"
    "data_size_e (emif_toolkit_debug_data d') = data_size_e (emif_toolkit_debug_data d)"
  using assms
  by (auto simp: tclrpt_initialize_data_def tclrpt_initialize_emif_toolkit_debug_data_def Let_def split: prod.splits)

lemma initialize_pointers:
  assumes "tclrpt_initialize base d = Some d'"
  shows "summary_report_ptr d' = base + summary_offset" "cal_report_ptr d' = base + cal_offset" "margin_report_ptr d' = base + margin_offset"
    "emif_toolkit_debug_data_ptr d' = base + emif_offset" "data_size d' = sizeof_debug_data" "data_size_s (summary_report d') = sizeof_summary"
    "data_size_c (cal_report d') = sizeof_cal" "data_size_m (margin_report d') = sizeof_margin" "data_size_e (emif_toolkit_debug_data d') = sizeof_emif"
  using assms by (auto simp: tclrpt_initialize_def split: if_splits)

text \<open>
  After the initialisation the report describes its own place in memory: its size is that of the
  structure in bytes, each pointer and size in it leads to the words of the report of that name, and the
  tables hold only zeros.
\<close>

lemma report_describes_itself:
  assumes "report_shape d" "param_shape p" "tclrpt_initialize base d = Some d1" "tclrpt_initialize_data base g p d1 = (p', d2)"
  shows "unat (data_size d2) = 4 * length (image d2) \<and>
    words_at base d2 (summary_report_ptr d2) (data_size_s (summary_report d2)) = summary_words (summary_report d2) \<and>
    words_at base d2 (cal_report_ptr d2) (data_size_c (cal_report d2)) = cal_words (cal_report d2) \<and>
    words_at base d2 (margin_report_ptr d2) (data_size_m (margin_report d2)) = margin_words (margin_report d2) \<and>
    words_at base d2 (emif_toolkit_debug_data_ptr d2) (data_size_e (emif_toolkit_debug_data d2)) = emif_words (emif_toolkit_debug_data d2) \<and>
    list_all ((=) 0) (drop 24 (cal_words (cal_report d2))) \<and> list_all ((=) 0) (drop 5 (margin_words (margin_report d2)))"
proof -
  have d1: "report_shape d1" using assms(1,3) by (rule initialize_shape)
  note data = initialize_data_shape [OF d1 assms(2,4)] and parts = parts_in_image [OF data(1)]
  have "data_size_s (summary_report d2) = data_size_s (summary_report d1)"
    using initialize_data_summary [OF d1 assms(2,4)] d1 by (simp add: initial_summary report_shape_def)
  then show ?thesis using data parts by (simp add: initialize_data_pointers [OF assms(4)] initialize_pointers [OF assms(3)])
qed

lemma summary_word:
  assumes "report_shape d" "k < 42"
  shows "words_at base d (base + summary_offset + 4 * of_nat k) 4 = [summary_words (summary_report d) ! k]"
proof -
  have "unat (summary_offset + 4 * of_nat k) div 4 = length (header_words d) + k"
    using length_parts(1) [OF assms(1)] assms(2)
    by (simp add: summary_offset_def report_size_defs unat_word_ariths unat_of_nat)
  moreover have "length (summary_words (summary_report d)) = 42"
    using length_parts(2) [OF assms(1)] by (simp add: sizeof_summary_def report_size_defs)
  ultimately show ?thesis using assms(2)
    by (simp add: words_at_def image_def add.assoc take_Suc_conv_app_nth hd_drop_conv_nth take_Suc nth_append)
qed

text \<open>
  C38: The words that the toolkit reads through the pointers of the initialised report are the sizes of the memory, the
  mask and number of the groups in use, and the mask and number of the ranks in use.
\<close>

theorem toolkit_reads_masks:
  assumes "report_shape d" "param_shape p" "skip_groups p < 16"
    and "tclrpt_initialize_data base g p d = (p', d')" "e = emif_toolkit_debug_data d'"
  shows "words_at base d' (dqs_write_width_ptr e) 4 = [4] \<and> words_at base d' (num_ranks_ptr e) 4 = [1] \<and>
    words_at base d' (group_mask_size_ptr e) 4 = [1] \<and> words_at base d' (rank_mask_size_ptr e) 4 = [1] \<and>
    words_at base d' (group_mask_ptr e) 4 = [skip_groups p] \<and>
    words_at base d' (active_groups_ptr e) 4 = [of_nat (card {i. i < 4 \<and> \<not> bit (skip_groups p) i})] \<and>
    words_at base d' (rank_mask_ptr e) 4 = [if skip_ranks p ! 0 then 1 else 0] \<and>
    words_at base d' (active_ranks_ptr e) 4 = [if skip_ranks p ! 0 then 0 else 1]"
proof -
  note shape = initialize_data_shape(1) [OF assms(1,2,4)]
  have e: "e = tclrpt_initialize_emif_toolkit_debug_data base (emif_toolkit_debug_data d)"
    using initialize_data_tables(3) [OF assms(4)] assms(5) by simp
  have r: "summary_report d' = (initial_summary (summary_report d))
      \<lparr>group_mask := [skip_groups p], active_groups := of_nat (card {i. i < 4 \<and> \<not> bit (skip_groups p) i}),
       rank_mask := [if skip_ranks p ! 0 then 1 else 0], active_ranks := if skip_ranks p ! 0 then 0 else 1,
       groups_attempted_calibration := [0]\<rparr>"
    using initialize_data_summary [OF assms(1,2,4)] active_groups_count [OF assms(3)] by simp
  have word: "words_at base d' (base + (summary_offset + 4 * of_nat k)) 4 = [summary_words (summary_report d') ! k]" if "k < 42" for k
    using summary_word [OF shape that] by (simp add: add.assoc)
  have init: "mem_write_dqs_width_s (initial_summary (summary_report d)) = 4" "mem_num_ranks (initial_summary (summary_report d)) = 1"
    "group_mask_size (initial_summary (summary_report d)) = 1" "rank_mask_size (initial_summary (summary_report d)) = 1"
    using assms(1) by (simp_all add: initial_summary report_shape_def)
  have words: "summary_words (summary_report d') ! 18 = 4" "summary_words (summary_report d') ! 20 = 1"
    "summary_words (summary_report d') ! 29 = 1" "summary_words (summary_report d') ! 30 = (if skip_ranks p ! 0 then 0 else 1)"
    "summary_words (summary_report d') ! 31 = (if skip_ranks p ! 0 then 1 else 0)" "summary_words (summary_report d') ! 32 = 1"
    "summary_words (summary_report d') ! 33 = of_nat (card {i. i < 4 \<and> \<not> bit (skip_groups p) i})"
    "summary_words (summary_report d') ! 34 = skip_groups p"
    unfolding r by (simp_all add: summary_words_def init)
  show ?thesis
    using word [of 18] word [of 20] word [of 29] word [of 30] word [of 31] word [of 32] word [of 33] word [of 34] words
    by (simp add: e tclrpt_initialize_emif_toolkit_debug_data_def Let_def add.assoc report_size_defs)
qed

text \<open>Groups 0 and 2 are skipped.\<close>

theorem toolkit_reads_masks_witness:
  "case tclrpt_initialize_data 0x10000 (some_gbl 16) (some_param\<lparr>skip_groups := 5\<rparr>) my_debug_data of (p', d) \<Rightarrow>
     words_at 0x10000 d (group_mask_ptr (emif_toolkit_debug_data d)) 4 = [5] \<and>
     words_at 0x10000 d (active_groups_ptr (emif_toolkit_debug_data d)) 4 = [2]"
proof -
  let ?p = "some_param\<lparr>skip_groups := 5\<rparr>"
  obtain p' d where d: "tclrpt_initialize_data 0x10000 (some_gbl 16) ?p my_debug_data = (p', d)" by force
  have "{i. i < 4 \<and> \<not> bit (5 :: u32) i} = set (filter (\<lambda>i. \<not> bit (5 :: u32) i) [0..<4])" by auto
  also have "filter (\<lambda>i. \<not> bit (5 :: u32) i) [0..<4] = [1, 3]" by code_simp
  finally have "{i. i < 4 \<and> \<not> bit (5 :: u32) i} = {1, 3}" by simp
  moreover have "param_shape ?p" by (simp add: param_shape_def some_param_def report_size_defs)
  ultimately show ?thesis
    unfolding d prod.case using toolkit_reads_masks [OF my_debug_data_shape _ _ d refl] by simp
qed

end
