(* ===== verification/Tcl_Loop.thy ===== *)
theory Tcl_Loop
  imports Tcl_Toolkit
begin

text \<open>
  The command loop \<open>tclrpt_loop\<close>, which a build without \<open>HPS_HW\<close> has. The toolkit writes a command and its
  parameters into the report; the loop polls for it, obeys, and writes its answer into \<open>command_status\<close>.
  \<open>run_mem_calibrate\<close> and \<open>user_init_cal_req\<close> of such a build are the arguments \<open>calibrate\<close> and \<open>init_req\<close>. The
  commands of \<open>ENABLE_DELAY_CHAIN_WRITE\<close>, which is 0, are left out.
\<close>

section \<open>Commands\<close>

definition TCLDBG_CMD_RESPONSE_ACK :: u32 where "TCLDBG_CMD_RESPONSE_ACK = 1"
definition TCLDBG_RUN_MEM_CALIBRATE :: u32 where "TCLDBG_RUN_MEM_CALIBRATE = 5"
definition TCLDBG_RUN_EYE_DIAGRAM_PATTERN :: u32 where "TCLDBG_RUN_EYE_DIAGRAM_PATTERN = 6"
definition TCLDBG_MARK_ALL_DQS_GROUPS_AS_VALID :: u32 where "TCLDBG_MARK_ALL_DQS_GROUPS_AS_VALID = 14"
definition TCLDBG_MARK_GROUP_AS_SKIP :: u32 where "TCLDBG_MARK_GROUP_AS_SKIP = 15"
definition TCLDBG_MARK_ALL_RANKS_AS_VALID :: u32 where "TCLDBG_MARK_ALL_RANKS_AS_VALID = 17"
definition TCLDBG_MARK_RANK_AS_SKIP :: u32 where "TCLDBG_MARK_RANK_AS_SKIP = 18"
definition TCLDBG_ENABLE_MARGIN_REPORT :: u32 where "TCLDBG_ENABLE_MARGIN_REPORT = 21"
definition TCLDBG_ENABLE_SWEEP_ALL_GROUPS :: u32 where "TCLDBG_ENABLE_SWEEP_ALL_GROUPS = 22"
definition TCLDBG_DISABLE_GUARANTEED_READ :: u32 where "TCLDBG_DISABLE_GUARANTEED_READ = 23"
definition TCLDBG_SET_NON_DESTRUCTIVE_CALIBRATION :: u32 where "TCLDBG_SET_NON_DESTRUCTIVE_CALIBRATION = 24"
definition TCLDBG_SET_UPDATE_PARAMETERS :: u32 where "TCLDBG_SET_UPDATE_PARAMETERS = 41"
definition TCLDBG_RUN_NON_DES_MEM_CALIBRATE :: u32 where "TCLDBG_RUN_NON_DES_MEM_CALIBRATE = 42"
definition PHY_DEBUG_ENABLE_NON_DESTRUCTIVE_CALIBRATION :: u32 where "PHY_DEBUG_ENABLE_NON_DESTRUCTIVE_CALIBRATION = 0x00000020"

lemmas command_defs = TCLDBG_CMD_WAIT_CMD_def TCLDBG_CMD_NOP_def TCLDBG_CMD_RESPONSE_ACK_def TCLDBG_RUN_MEM_CALIBRATE_def
  TCLDBG_RUN_EYE_DIAGRAM_PATTERN_def TCLDBG_MARK_ALL_DQS_GROUPS_AS_VALID_def TCLDBG_MARK_GROUP_AS_SKIP_def
  TCLDBG_MARK_ALL_RANKS_AS_VALID_def TCLDBG_MARK_RANK_AS_SKIP_def TCLDBG_ENABLE_MARGIN_REPORT_def
  TCLDBG_ENABLE_SWEEP_ALL_GROUPS_def TCLDBG_DISABLE_GUARANTEED_READ_def TCLDBG_SET_NON_DESTRUCTIVE_CALIBRATION_def
  TCLDBG_SET_UPDATE_PARAMETERS_def TCLDBG_RUN_NON_DES_MEM_CALIBRATE_def
lemmas mark_defs = tclrpt_mark_interface_as_ready_def tclrpt_mark_interface_as_response_ready_def tclrpt_mark_interface_as_illegal_command_def

record 'h tcl =
  dbg :: debug_data_t
  fw :: "'h seq"

definition set_param :: "(param_t \<Rightarrow> param_t) \<Rightarrow> 'h tcl \<Rightarrow> 'h tcl" where
  "set_param f t = t\<lparr>fw := (fw t)\<lparr>param := f (param (fw t))\<rparr>\<rparr>"

definition set_debug_flags :: "(u32 \<Rightarrow> u32) \<Rightarrow> 'h tcl \<Rightarrow> 'h tcl" where
  "set_debug_flags f t = t\<lparr>fw := (fw t)\<lparr>gbl := (gbl (fw t))\<lparr>phy_debug_mode_flags := f (phy_debug_mode_flags (gbl (fw t)))\<rparr>\<rparr>\<rparr>"

definition refresh_masks :: "'h tcl \<Rightarrow> 'h tcl" where
  "refresh_masks t =
     (let (p, r) = tclrpt_update_rank_group_mask (param (fw t)) (summary_report (dbg t)) in
      t\<lparr>dbg := (dbg t)\<lparr>summary_report := r\<rparr>, fw := (fw t)\<lparr>param := p\<rparr>\<rparr>)"

definition answer :: "'h tcl \<Rightarrow> 'h tcl" where
  "answer t = t\<lparr>dbg := tclrpt_mark_interface_as_response_ready (dbg t)\<rparr>"

definition refuse :: "'h tcl \<Rightarrow> 'h tcl" where
  "refuse t = t\<lparr>dbg := tclrpt_mark_interface_as_illegal_command (dbg t)\<rparr>"

text \<open>The switch over the command. The flag is \<open>rdimm_control_word_updated\<close>.\<close>

definition tclrpt_command :: "('h tcl \<Rightarrow> 'h tcl option) \<Rightarrow> 'h tcl \<Rightarrow> (bool \<times> 'h tcl) option" where
  "tclrpt_command calibrate t =
     (let c = requested_command (dbg t);
          x = command_parameters (dbg t) ! 0 in
      if c = TCLDBG_SET_UPDATE_PARAMETERS then Some (True, answer t)
      else if c = TCLDBG_CMD_WAIT_CMD then Some (False, t)
      else if c = TCLDBG_CMD_NOP then Some (False, answer t)
      else if c = TCLDBG_RUN_MEM_CALIBRATE then map_option (\<lambda>t. (False, answer t)) (calibrate t)
      else if c = TCLDBG_RUN_NON_DES_MEM_CALIBRATE then map_option (\<lambda>t. (False, answer t)) (calibrate t)
      else if c = TCLDBG_RUN_EYE_DIAGRAM_PATTERN then Some (False, answer t)
      else if c = TCLDBG_MARK_ALL_DQS_GROUPS_AS_VALID then
        Some (False, answer (refresh_masks (set_param (\<lambda>p. p\<lparr>skip_groups := 0\<rparr>) t)))
      else if c = TCLDBG_MARK_GROUP_AS_SKIP then
        if x < of_nat RW_MGR_MEM_IF_WRITE_DQS_WIDTH
        then Some (False, answer (refresh_masks (set_param (\<lambda>p. p\<lparr>skip_groups := skip_groups p OR push_bit (unat x) 1\<rparr>) t)))
        else Some (False, refuse t)
      else if c = TCLDBG_MARK_ALL_RANKS_AS_VALID then
        Some (False, answer (refresh_masks (set_param (\<lambda>p. p\<lparr>skip_ranks := fold (\<lambda>i rs. rs[i := False]) [0..<RW_MGR_MEM_NUMBER_OF_RANKS] (skip_ranks p)\<rparr>) t)))
      else if c = TCLDBG_MARK_RANK_AS_SKIP then
        if x < of_nat RW_MGR_MEM_NUMBER_OF_RANKS
        then Some (False, answer (refresh_masks (set_param (\<lambda>p. p\<lparr>skip_ranks := (skip_ranks p)[unat x := True]\<rparr>) t)))
        else Some (False, refuse t)
      else if c = TCLDBG_ENABLE_MARGIN_REPORT then Some (False, answer (set_debug_flags (\<lambda>f. f OR PHY_DEBUG_ENABLE_MARGIN_RPT) t))
      else if c = TCLDBG_ENABLE_SWEEP_ALL_GROUPS then Some (False, answer (set_debug_flags (\<lambda>f. f OR PHY_DEBUG_SWEEP_ALL_GROUPS) t))
      else if c = TCLDBG_DISABLE_GUARANTEED_READ then Some (False, answer (set_debug_flags (\<lambda>f. f OR PHY_DEBUG_DISABLE_GUARANTEED_READ) t))
      else if c = TCLDBG_SET_NON_DESTRUCTIVE_CALIBRATION then
        Some (False, answer (set_debug_flags (\<lambda>f. if x \<noteq> 0 then f OR PHY_DEBUG_ENABLE_NON_DESTRUCTIVE_CALIBRATION
          else f AND NOT PHY_DEBUG_ENABLE_NON_DESTRUCTIVE_CALIBRATION) t))
      else Some (False, refuse t))"




section \<open>The masks follow the commands\<close>

text \<open>
  The report agrees with the parameters. A skipped rank is in the rank mask; a rank in the mask need not be
  skipped any more.
\<close>

definition masks_agree :: "param_t \<Rightarrow> debug_summary_report_t \<Rightarrow> bool" where
  "masks_agree p r \<longleftrightarrow> param_shape p \<and> skip_groups p < 16 \<and> group_mask r = [skip_groups p] \<and>
     active_groups r = of_nat (card {i. i < 4 \<and> \<not> bit (skip_groups p) i}) \<and>
     length (rank_mask r) = NUM_RANK_MASK_WORDS \<and> (skip_ranks p ! 0 \<longrightarrow> bit (rank_mask r ! 0) 0) \<and>
     active_ranks r = (if skip_ranks p ! 0 then 0 else 1) \<and> skip_shadow_regs p = [skip_ranks p ! 0]"



abbreviation in_step :: "'h tcl \<Rightarrow> bool" where
  "in_step t \<equiv> masks_agree (param (fw t)) (summary_report (dbg t))"









section \<open>Answers\<close>

definition legal_command :: "u32 \<Rightarrow> u32 \<Rightarrow> bool" where
  "legal_command c x \<longleftrightarrow> c \<in> {TCLDBG_SET_UPDATE_PARAMETERS, TCLDBG_CMD_NOP, TCLDBG_RUN_MEM_CALIBRATE, TCLDBG_RUN_NON_DES_MEM_CALIBRATE,
       TCLDBG_RUN_EYE_DIAGRAM_PATTERN, TCLDBG_MARK_ALL_DQS_GROUPS_AS_VALID, TCLDBG_MARK_ALL_RANKS_AS_VALID, TCLDBG_ENABLE_MARGIN_REPORT,
       TCLDBG_ENABLE_SWEEP_ALL_GROUPS, TCLDBG_DISABLE_GUARANTEED_READ, TCLDBG_SET_NON_DESTRUCTIVE_CALIBRATION} \<or>
     c = TCLDBG_MARK_GROUP_AS_SKIP \<and> x < of_nat RW_MGR_MEM_IF_WRITE_DQS_WIDTH \<or>
     c = TCLDBG_MARK_RANK_AS_SKIP \<and> x < of_nat RW_MGR_MEM_NUMBER_OF_RANKS"

text \<open>Every command but the wait command is answered, the illegal ones by a refusal that changes nothing else.\<close>

lemma commands_answered:
  assumes "requested_command (dbg t) \<noteq> TCLDBG_CMD_WAIT_CMD" "calibrate t \<noteq> None"
  shows "\<exists>u t'. tclrpt_command calibrate t = Some (u, t') \<and>
    (if legal_command (requested_command (dbg t)) (command_parameters (dbg t) ! 0)
     then command_status (dbg t') = TCLDBG_TX_STATUS_RESPONSE_READY
     else t' = t\<lparr>dbg := (dbg t)\<lparr>command_status := TCLDBG_TX_STATUS_ILLEGAL_CMD\<rparr>\<rparr>)"
  using assms unfolding tclrpt_command_def Let_def legal_command_def
  by (auto simp: command_defs answer_def refuse_def mark_defs)

text \<open>
  The rank mask is only ever added to: after all ranks are marked as valid, it still shows a rank that was
  skipped before.
\<close>

lemma rank_mask_stale:
  assumes "in_step t" "skip_ranks (param (fw t)) ! 0" "requested_command (dbg t) = TCLDBG_MARK_ALL_RANKS_AS_VALID"
  shows "\<exists>t'. tclrpt_command calibrate t = Some (False, t') \<and> \<not> skip_ranks (param (fw t')) ! 0 \<and>
    active_ranks (summary_report (dbg t')) = 1 \<and> bit (rank_mask (summary_report (dbg t')) ! 0) 0"
proof -
  let ?p = "(param (fw t))\<lparr>skip_ranks := [False]\<rparr>"
  let ?r = "summary_report (dbg t)"
  obtain x where x: "skip_ranks (param (fw t)) = [x]" using assms(1) by (auto simp: masks_agree_def param_shape_def size_defs length_Suc_conv)
  have "tclrpt_update_rank_group_mask ?p ?r = (?p\<lparr>skip_shadow_regs := [False]\<rparr>,
      ?r\<lparr>group_mask := [skip_groups ?p], active_groups := 4 - of_nat (card {i. i < 32 \<and> bit (skip_groups ?p) i}),
        rank_mask := [rank_mask ?r ! 0], active_ranks := 1\<rparr>)"
    using update_masks [of ?p ?r] assms(1) by (simp add: masks_agree_def param_shape_def report_size_defs)
  then show ?thesis using assms x
    by (simp add: tclrpt_command_def Let_def command_defs answer_def refresh_masks_def set_param_def mark_defs masks_agree_def size_defs)
qed

end
