(* ===== verification/Spec2Isabelle.thy ===== *)
theory Spec2Isabelle
  imports Sim_Runs No_Memory_Sim Harness_Runs Seq_Times Seq_Rom_Load Seq_Level Seq_Eye Tcl_Loop
begin

text \<open>
  A verification development for the virtualized HFT simulator: a limit-order exchange in two
  software simulators, the driver and test harness of its FPGA version, and the firmware that
  calibrates the SDRAM of the board.

  \<^bold>\<open>The program and its parts.\<close>
  \<open>src/sw_sim\<close> holds the simulators. \<open>heap.h\<close> has orders, binary heaps of them and the matching of
  one symbol; \<open>mmu.h\<close> adds a model of the memory of the accelerator (frames, a free bitmap, pages per
  symbol, an overflow page, cycle counts) and an exchange with a book per symbol; \<open>memory_sim.c\<close> and
  \<open>no_memory_sim.c\<close> are the programs. \<open>src/sw\<close> holds the Linux driver (\<open>HFT_drivers.c\<close>), which gives
  the dispatcher and trade log of the accelerator an \<open>ioctl\<close> interface, and the harness
  (\<open>HFT_harness.c\<close>), which feeds orders from one CSV file per lane and collects trades through it.
  \<open>src/hw/soc_system/synthesis/submodules/sequencer\<close> is the calibration firmware, which programs
  the scan chains and the read/write manager of the memory interface by register writes.

  \<^bold>\<open>Theories.\<close>
  \<^item> \<open>Prelude\<close>: machine types, lists and words. \<open>Binary_Heap\<close>: the array heap, generic in its order, as
    a locale. \<open>C_Strings\<close>: C strings, \<open>sscanf\<close> and \<open>printf\<close> conversions.
  \<^item> \<open>Order_Heap\<close> (\<open>heap.h\<close>: \<open>Order\<close>, \<open>Heap\<close>, \<open>push\<close>, \<open>pop\<close>, comparators, expiry); \<open>Matching\<close>
    (\<open>check_for_trade\<close>, refined by an exchange on sorted lists of orders).
  \<^item> \<open>Memory_Manager\<close>, \<open>Order_Book\<close>, \<open>Page_Table\<close>, \<open>Book_Trading\<close>, \<open>Exchange_Inv\<close> (\<open>mmu.h\<close>): frames and
    translation, insertion and matching per book, the invariant of the memory (no frame is shared,
    counts agree with the pages) and that every operation keeps it.
  \<^item> \<open>Memory_Sim\<close>, \<open>Sim_Runs\<close>, \<open>No_Memory_Sim\<close>: the programs, their modes, and whole runs of them.
  \<^item> \<open>Driver\<close> (\<open>HFT_drivers.h\<close>, \<open>HFT_drivers.c\<close>): packing, registers, \<open>hft_ioctl\<close> under its lock, probe
    and remove.
  \<^item> \<open>Harness\<close>, \<open>Harness_Main\<close> (\<open>HFT_harness.c\<close>): all functions, \<open>main\<close> included, over a record of system
    calls; \<open>Harness_Time\<close>: waits with a deadline return, from a locale of clocks that advance;
    \<open>Harness_Machine\<close>: the harness on top of the driver model, which interprets that locale;
    \<open>Harness_Runs\<close>: properties of whole runs.
  \<^item> \<open>Seq_Hw\<close> (configuration, register map, scan-chain macros, address translation, register access),
    \<open>Seq_Rom\<close> (the ROM images), \<open>Seq_Scc\<close> (\<open>scc_mgr_*\<close>), \<open>Seq_Rw\<close> (delay loops, initialisation,
    handoff), \<open>Seq_Test\<close> (read and write tests, latencies, setup), \<open>Seq_Lfifo\<close> (read-latency
    calibration), \<open>Seq_Dqs\<close> (the search for the DQS-enable window), \<open>Seq_Centre\<close> (per-bit deskew of
    reads and writes), \<open>Seq_Wlevel\<close> (write levelling), \<open>Seq_Calibrate\<close> (the stages,
    \<open>mem_calibrate\<close>, \<open>run_mem_calibrate\<close>, \<open>sdram_calibration\<close>); \<open>Seq_Platform\<close>: two concrete
    platforms; \<open>Seq_Delays\<close>, \<open>Seq_Times\<close>, \<open>Seq_Rom_Load\<close>, \<open>Seq_Align\<close>, \<open>Seq_Level\<close>: properties of
    single functions.
  \<^item> \<open>Seq_Settings\<close>: the contract between firmware and delay registers, and the rules for functions
    that keep to it; \<open>Seq_Keeps\<close>: two locales, \<open>test_contract\<close> for functions that write no setting
    and, on top of it, \<open>delay_contract\<close>, with the functions below the stages;
    \<open>Seq_Window\<close>: the DQS-enable search; \<open>Seq_Returns\<close>: a small Hoare logic of functions that return,
    keep the contract and keep the first recorded failure; \<open>Seq_Deskew\<close>, \<open>Seq_Runs\<close>: deskew and
    stages in it; \<open>Seq_Main\<close>: the entry points, and the interpretation of the locale; \<open>Seq_Eye\<close>: the
    read deskew on a memory whose pins have read windows, a locale interpreted on a concrete such memory.
  \<^item> \<open>Tcl_Report\<close> (\<open>tclrpt.pre.h\<close>), \<open>Tcl_Init\<close>, \<open>Tcl_Loop\<close> (\<open>tclrpt.pre.c\<close>): the report for the debug
    toolkit, its initialisation and its command loop, as if \<open>ENABLE_TCL_DEBUG\<close> were on; \<open>Tcl_Toolkit\<close>: the
    report as the words in memory that the toolkit reads.

  \<^bold>\<open>State and effects.\<close>
  The simulators pass a record with the store of orders, the books, the memory manager, the
  statistics and the output. A pointer to an order is a reference into the store. An operation that
  may run into undefined behaviour or never return yields an option; the exit status and the errno
  values are results. The driver passes a device state through a record of register reads and
  writes; the harness passes an environment through a record of system calls. The firmware passes
  its global variables and a hardware state \<open>'h\<close>, and its functions are lists of register writes
  wherever they read nothing.

  \<^bold>\<open>What is outside and how it enters.\<close>
  The clock, \<open>rand\<close>, \<open>fopen\<close> and the terminal of the simulators, kernel services and device registers
  of the driver, system calls of the harness, and \<open>write_register\<close>, \<open>read_register\<close> and the base
  addresses of \<open>sdram.h\<close> of the firmware are arguments of the definitions. Hypotheses on them are
  stated in the theorems: a clock that advances while the program sleeps, a device that accepts a
  pushed order, setting registers that store what is written to them. The calibration is run on any
  platform that has \<open>delay_registers\<close>: an invariant that reads and writes in range keep, and settings
  that read back in range and unchanged by reading. What the tests of the memory read is arbitrary
  there; the theorem on read windows states it by \<open>reads_in_windows\<close>.

  \<^bold>\<open>What is shown.\<close>
  Orders leave a heap in price and time order; a match conserves shares, leaves an uncrossed book and
  refines the abstract exchange; frames are never shared and never lost, through every insertion,
  match and cleanup; whole runs of both simulators keep these invariants, and a CSV file is read
  back as the orders it lists. The driver rejects what does
  not fit a word, never leaves its lock held, and undoes a failed probe; an order line of a CSV file
  arrives in the right lane of the device as the same order; waits with a deadline return in time
  and the log files hold all trades. The firmware starts calibration from known settings, changes
  delays one tap at a time, waits at least as long as it is asked to, finds the least read latency,
  and loads the ROM programs that its header declares. The whole calibration returns on every
  platform and for every outcome of its tests, never writes a delay or phase that its chain does not
  have, and reports success or the stage that failed; the DQS-enable setting is the middle of the
  window found, the deskew shifts every pin by a clamped amount towards the leftmost bit. On a memory
  that reads a pin right exactly while its delay relative to DQS is in a window, the read deskew
  finds the windows and puts every pin into the middle of its own, to within one tap. The pointers
  and sizes in the toolkit report lead to the fields they name, and its masks follow the parameters
  under any interleaving of commands with the loop. Theorems
  about defects: a stream leaked by every failed match, trades missed without the memory model,
  orders that never expire, a harness loop that never returns, an interrupt that has no effect, a
  read latency above the limit, an empty levelling window that is not seen, a rank mask that is
  never cleared.

  \<^bold>\<open>Bounds and fuel.\<close>
  Loops of the program are recursive functions with termination proofs, without fuel. Loops that may
  run for ever (the waits and the main loop of the harness, some loops of the simulators) are partial
  functions into option, and that they return is proved where it holds; loops of the firmware whose
  bound is read from a register are \<open>while_option\<close>, and they are proved to end. Integers have the
  widths of the source, with wrap-around. The polling of the driver has the 1000 tries of the source.

  \<^bold>\<open>Not modelled.\<close>
  The \<open>free_*\<close> functions, which only return memory; kernel log messages; the SystemVerilog of the
  accelerator; the debug prints and the code of other configurations of the firmware. Write
  levelling is modelled, but the firmware does not call it for this device. The configuration
  compiles the toolkit report out; the model has no writes to it inside the calibration, whose
  function is an argument of the command loop, and leaves out the commands that set single delays,
  the printf log and the XML dump of the simulation build.
\<close>

end
